(* ===== verification/Prelude.thy ===== *)
theory Prelude
  imports Main "HOL-Library.Word"
begin

text \<open>
  Shared vocabulary of the development: Rust's \<open>Result\<close> extended by the outcome of a panic, the
  combinators the driver uses on it, machine integers with the two overflow behaviours a Rust
  build can have, and the part of the standard library's string and number formatting that the
  driver relies on.  Strings are byte lists (\<open>char\<close> is one UTF-8 byte), as \<open>str\<close> is in Rust.
\<close>

named_theorems rust_simps \<open>unfolding of the result and machine-integer combinators\<close>
named_theorems text_simps \<open>lengths and digit facts of formatted numbers\<close>

section \<open>Results\<close>

text \<open>
  \<open>Ok\<close> and \<open>Err\<close> are Rust's; \<open>Panic\<close> is the outcome of a failed assertion, an \<open>unwrap\<close> of
  \<open>None\<close>, an out-of-range index or a checked arithmetic overflow.  Panics propagate through every
  combinator, as unwinding does.
\<close>

datatype ('a, 'e) result = Ok 'a | Err 'e | Panic

fun and_then :: "('a, 'e) result \<Rightarrow> ('a \<Rightarrow> ('b, 'e) result) \<Rightarrow> ('b, 'e) result" where
  "and_then (Ok x) f = f x"
| "and_then (Err e) f = Err e"
| "and_then Panic f = Panic"

fun map_ok :: "('a \<Rightarrow> 'b) \<Rightarrow> ('a, 'e) result \<Rightarrow> ('b, 'e) result" where
  "map_ok f (Ok x) = Ok (f x)"
| "map_ok f (Err e) = Err e"
| "map_ok f Panic = Panic"

fun map_err :: "('e \<Rightarrow> 'd) \<Rightarrow> ('a, 'e) result \<Rightarrow> ('a, 'd) result" where
  "map_err f (Ok x) = Ok x"
| "map_err f (Err e) = Err (f e)"
| "map_err f Panic = Panic"

fun ok_or :: "'a option \<Rightarrow> 'e \<Rightarrow> ('a, 'e) result" where
  "ok_or (Some x) e = Ok x"
| "ok_or None e = Err e"

fun unwrap :: "'a option \<Rightarrow> ('a, 'e) result" where
  "unwrap (Some x) = Ok x"
| "unwrap None = Panic"

text \<open>\<open>option.map(f).transpose()\<close>: a fallible conversion of an optional field.\<close>

fun map_transpose :: "('a \<Rightarrow> ('b, 'e) result) \<Rightarrow> 'a option \<Rightarrow> ('b option, 'e) result" where
  "map_transpose f None = Ok None"
| "map_transpose f (Some x) = map_ok Some (f x)"

text \<open>\<open>iter.map(f).try_collect()\<close>: left to right, stopping at the first failure.\<close>

fun try_map :: "('a \<Rightarrow> ('b, 'e) result) \<Rightarrow> 'a list \<Rightarrow> ('b list, 'e) result" where
  "try_map f [] = Ok []"
| "try_map f (x # xs) = and_then (f x) (\<lambda>y. map_ok (Cons y) (try_map f xs))"

abbreviation is_ok :: "('a, 'e) result \<Rightarrow> bool" where
  "is_ok r \<equiv> (case r of Ok _ \<Rightarrow> True | _ \<Rightarrow> False)"

lemma and_then_eq_Ok: "and_then r f = Ok y \<longleftrightarrow> (\<exists>x. r = Ok x \<and> f x = Ok y)"
  by (cases r) auto

lemma and_then_eq_Err: "and_then r f = Err e \<longleftrightarrow> r = Err e \<or> (\<exists>x. r = Ok x \<and> f x = Err e)"
  by (cases r) auto

lemma and_then_eq_Panic: "and_then r f = Panic \<longleftrightarrow> r = Panic \<or> (\<exists>x. r = Ok x \<and> f x = Panic)"
  by (cases r) auto

lemma map_ok_eq_Ok: "map_ok f r = Ok y \<longleftrightarrow> (\<exists>x. r = Ok x \<and> y = f x)"
  by (cases r) auto

lemma map_ok_eq_Err [simp]: "map_ok f r = Err e \<longleftrightarrow> r = Err e"
  by (cases r) auto

lemma map_ok_eq_Panic [simp]: "map_ok f r = Panic \<longleftrightarrow> r = Panic"
  by (cases r) auto

lemma map_err_eq_Ok [simp]: "map_err f r = Ok y \<longleftrightarrow> r = Ok y"
  by (cases r) auto

lemma map_err_eq_Panic [simp]: "map_err f r = Panic \<longleftrightarrow> r = Panic"
  by (cases r) auto

lemma ok_or_eq_Ok [simp]: "ok_or m e = Ok x \<longleftrightarrow> m = Some x"
  by (cases m) auto

lemma ok_or_not_Panic [simp]: "ok_or m e \<noteq> Panic"
  by (cases m) auto

lemmas result_eqs = and_then_eq_Ok and_then_eq_Err and_then_eq_Panic map_ok_eq_Ok

lemma and_then_cong [fundef_cong]:
  "r = s \<Longrightarrow> (\<And>x. s = Ok x \<Longrightarrow> f x = g x) \<Longrightarrow> and_then r f = and_then s g"
  by (cases s) auto

lemma map_transpose_cong [fundef_cong]:
  "m = n \<Longrightarrow> (\<And>x. n = Some x \<Longrightarrow> f x = g x) \<Longrightarrow> map_transpose f m = map_transpose g n"
  by (cases n) auto

lemma try_map_cong [fundef_cong]:
  "xs = ys \<Longrightarrow> (\<And>x. x \<in> set ys \<Longrightarrow> f x = g x) \<Longrightarrow> try_map f xs = try_map g ys"
  by (induction ys arbitrary: xs) auto

lemma try_map_Ok_map: "(\<And>x. x \<in> set xs \<Longrightarrow> f x = Ok (g x)) \<Longrightarrow> try_map f xs = Ok (map g xs)"
  by (induction xs) auto

lemma try_map_OkD: "try_map f xs = Ok ys \<Longrightarrow> list_all2 (\<lambda>x y. f x = Ok y) xs ys"
  by (induction xs arbitrary: ys) (auto simp: result_eqs)

lemma try_map_PanicD: "try_map f xs = Panic \<Longrightarrow> \<exists>x \<in> set xs. f x = Panic"
  by (induction xs) (auto simp: result_eqs)

lemma try_map_ErrD: "try_map f xs = Err e \<Longrightarrow> \<exists>x \<in> set xs. f x = Err e"
  by (induction xs) (auto simp: result_eqs)

lemma unwrap_eq: "unwrap m = Panic \<longleftrightarrow> m = None" "unwrap m = Ok x \<longleftrightarrow> m = Some x"
  by (cases m; simp)+

lemma try_map_mem: "try_map f xs = Ok ys \<Longrightarrow> y \<in> set ys \<Longrightarrow> \<exists>x \<in> set xs. f x = Ok y"
  by (induction xs arbitrary: ys) (auto simp: result_eqs)

lemma try_map_append:
  "try_map f (xs @ ys) = and_then (try_map f xs) (\<lambda>us. map_ok (\<lambda>vs. us @ vs) (try_map f ys))"
proof (induction xs)
  case Nil
  show ?case by (cases "try_map f ys") auto
next
  case (Cons x xs)
  then show ?case
    by (cases "f x"; cases "try_map f xs"; cases "try_map f ys") auto
qed

section \<open>Machine integers\<close>

type_synonym u8 = "8 word"
type_synonym u32 = "32 word"
type_synonym i32 = "32 word"
type_synonym u64 = "64 word"
type_synonym i64 = "64 word"

text \<open>
  Rust's \<open>+\<close>, \<open>-\<close> and \<open>*\<close> panic on overflow when the build has overflow checks (the
  development profile) and wrap when it has not (the release profile).  The first argument of each
  operation says which of the two the build has, so a theorem that leaves it free holds in both.
\<close>

definition checked :: "bool \<Rightarrow> bool \<Rightarrow> 'a \<Rightarrow> ('a, 'e) result" where
  "checked oc fits r = (if oc \<and> \<not> fits then Panic else Ok r)"

definition uadd :: "bool \<Rightarrow> 'n::len word \<Rightarrow> 'n word \<Rightarrow> ('n word, 'e) result" where
  "uadd oc a b = checked oc (unat a + unat b < 2 ^ LENGTH('n)) (a + b)"

definition usub :: "bool \<Rightarrow> 'n::len word \<Rightarrow> 'n word \<Rightarrow> ('n word, 'e) result" where
  "usub oc a b = checked oc (b \<le> a) (a - b)"

definition umul :: "bool \<Rightarrow> 'n::len word \<Rightarrow> 'n word \<Rightarrow> ('n word, 'e) result" where
  "umul oc a b = checked oc (unat a * unat b < 2 ^ LENGTH('n)) (a * b)"

definition upow :: "bool \<Rightarrow> 'n::len word \<Rightarrow> nat \<Rightarrow> ('n word, 'e) result" where
  "upow oc a k = checked oc (unat a ^ k < 2 ^ LENGTH('n)) (a ^ k)"

definition fits_signed :: "nat \<Rightarrow> int \<Rightarrow> bool" where
  "fits_signed n i \<longleftrightarrow> - (2 ^ (n - 1)) \<le> i \<and> i < 2 ^ (n - 1)"

definition sadd :: "bool \<Rightarrow> 'n::len word \<Rightarrow> 'n word \<Rightarrow> ('n word, 'e) result" where
  "sadd oc a b = checked oc (fits_signed LENGTH('n) (sint a + sint b)) (a + b)"

definition ssub :: "bool \<Rightarrow> 'n::len word \<Rightarrow> 'n word \<Rightarrow> ('n word, 'e) result" where
  "ssub oc a b = checked oc (fits_signed LENGTH('n) (sint a - sint b)) (a - b)"

lemma checked_fits [simp]: "fits \<Longrightarrow> checked oc fits r = Ok r"
  by (simp add: checked_def)

lemma checked_wraps [simp]: "checked False fits r = Ok r"
  by (simp add: checked_def)

lemma checked_panics [simp]: "\<not> fits \<Longrightarrow> checked True fits r = Panic"
  by (simp add: checked_def)

lemma checked_eq_Ok: "checked oc fits r = Ok s \<longleftrightarrow> s = r \<and> (oc \<longrightarrow> fits)"
  by (auto simp: checked_def)

lemma checked_eq_Panic: "checked oc fits r = Panic \<longleftrightarrow> oc \<and> \<not> fits"
  by (auto simp: checked_def)

lemma checked_not_Err [simp]: "checked oc fits r \<noteq> Err e"
  by (simp add: checked_def)

lemmas machine_defs [rust_simps] = uadd_def usub_def umul_def upow_def sadd_def ssub_def

lemma unat_add_fits:
  "unat (a :: 'n::len word) + unat b < 2 ^ LENGTH('n) \<Longrightarrow> unat (a + b) = unat a + unat b"
  by (simp add: unat_word_ariths)

lemma unat_mult_fits:
  "unat (a :: 'n::len word) * unat b < 2 ^ LENGTH('n) \<Longrightarrow> unat (a * b) = unat a * unat b"
  by (simp add: unat_word_ariths)

lemma unat_small_nat: "n < 2 ^ LENGTH('n) \<Longrightarrow> unat (of_nat n :: 'n::len word) = n"
  by (simp add: unsigned_of_nat take_bit_nat_eq_self)

lemma uint_small_nat: "n < 2 ^ LENGTH('n) \<Longrightarrow> uint (of_nat n :: 'n::len word) = int n"
  by (simp add: unsigned_of_nat take_bit_nat_eq_self)

lemma sint_small_nat: "n < 2 ^ (LENGTH('n) - 1) \<Longrightarrow> sint (of_nat n :: 'n::len word) = int n"
proof -
  assume n: "n < 2 ^ (LENGTH('n) - 1)"
  have "- (2 ^ (LENGTH('n) - 1)) \<le> int n" by (rule order.trans [of _ 0]) simp_all
  with n show ?thesis by (simp add: signed_of_nat signed_take_bit_int_eq_self)
qed

lemma sint_word_of_int_fits:
  "fits_signed LENGTH('n) i \<Longrightarrow> sint (word_of_int i :: 'n::len word) = i"
  by (simp add: fits_signed_def sint_sbintrunc' signed_take_bit_int_eq_self)

lemma sint_add_fits:
  assumes "fits_signed LENGTH('n) (sint (a :: 'n::len word) + sint b)"
  shows "sint (a + b) = sint a + sint b"
proof -
  have "sint (a + b) = signed_take_bit (LENGTH('n) - 1) (sint a + sint b)"
    by (simp add: sint_word_ariths)
  with assms show ?thesis
    by (simp add: fits_signed_def signed_take_bit_int_eq_self)
qed

lemma sint_sub_fits:
  assumes "fits_signed LENGTH('n) (sint (a :: 'n::len word) - sint b)"
  shows "sint (a - b) = sint a - sint b"
proof -
  have "sint (a - b) = signed_take_bit (LENGTH('n) - 1) (sint a - sint b)"
    by (simp add: sint_word_ariths)
  with assms show ?thesis
    by (simp add: fits_signed_def signed_take_bit_int_eq_self)
qed

section \<open>Text\<close>

definition is_ascii_digit :: "char \<Rightarrow> bool" where
  "is_ascii_digit c \<longleftrightarrow> 48 \<le> (of_char c :: nat) \<and> (of_char c :: nat) \<le> 57"

definition digit_of :: "char \<Rightarrow> nat" where
  "digit_of c = of_char c - 48"

definition digit_char :: "nat \<Rightarrow> char" where
  "digit_char d = char_of (48 + d)"

text \<open>\<open>Display\<close> of an unsigned and of a signed integer, and zero padding \<open>{:0w}\<close>.\<close>

fun show_nat :: "nat \<Rightarrow> string" where
  "show_nat n = (if n < 10 then [digit_char n] else show_nat (n div 10) @ [digit_char (n mod 10)])"

declare show_nat.simps [simp del]

definition show_int :: "int \<Rightarrow> string" where
  "show_int i = (if i < 0 then CHR ''-'' # show_nat (nat (- i)) else show_nat (nat i))"

definition pad0 :: "nat \<Rightarrow> string \<Rightarrow> string" where
  "pad0 w s = replicate (w - length s) CHR ''0'' @ s"

text \<open>
  \<open>str::parse\<close> for integers: an optional sign (a minus only for signed types), at least one
  digit, and an overflow check after every digit.  \<open>lo\<close> and \<open>hi\<close> are the type's bounds.
\<close>

datatype int_error_kind = IntEmpty | InvalidDigit | PosOverflow | NegOverflow

fun parse_pos :: "int \<Rightarrow> int \<Rightarrow> string \<Rightarrow> (int, int_error_kind) result" where
  "parse_pos hi acc [] = Ok acc"
| "parse_pos hi acc (c # cs) =
     (if \<not> is_ascii_digit c then Err InvalidDigit
      else if acc * 10 + int (digit_of c) > hi then Err PosOverflow
      else parse_pos hi (acc * 10 + int (digit_of c)) cs)"

fun parse_neg :: "int \<Rightarrow> int \<Rightarrow> string \<Rightarrow> (int, int_error_kind) result" where
  "parse_neg lo acc [] = Ok acc"
| "parse_neg lo acc (c # cs) =
     (if \<not> is_ascii_digit c then Err InvalidDigit
      else if acc * 10 - int (digit_of c) < lo then Err NegOverflow
      else parse_neg lo (acc * 10 - int (digit_of c)) cs)"

definition parse_int :: "int \<Rightarrow> int \<Rightarrow> string \<Rightarrow> (int, int_error_kind) result" where
  "parse_int lo hi s =
     (if s = [] then Err IntEmpty
      else if s = ''+'' \<or> s = ''-'' then Err InvalidDigit
      else if hd s = CHR ''+'' then parse_pos hi 0 (tl s)
      else if hd s = CHR ''-'' \<and> lo < 0 then parse_neg lo 0 (tl s)
      else parse_pos hi 0 s)"

definition parse_u64 :: "string \<Rightarrow> (u64, int_error_kind) result" where
  "parse_u64 s = map_ok word_of_int (parse_int 0 (2 ^ 64 - 1) s)"

definition parse_i64 :: "string \<Rightarrow> (i64, int_error_kind) result" where
  "parse_i64 s = map_ok word_of_int (parse_int (- (2 ^ 63)) (2 ^ 63 - 1) s)"

fun int_error_text :: "int_error_kind \<Rightarrow> string" where
  "int_error_text IntEmpty = ''cannot parse integer from empty string''"
| "int_error_text InvalidDigit = ''invalid digit found in string''"
| "int_error_text PosOverflow = ''number too large to fit in target type''"
| "int_error_text NegOverflow = ''number too small to fit in target type''"

definition digits_value :: "string \<Rightarrow> nat" where
  "digits_value s = foldl (\<lambda>acc c. acc * 10 + digit_of c) 0 s"

text \<open>Substring search and the string predicates the driver uses.\<close>

definition starts_with :: "string \<Rightarrow> string \<Rightarrow> bool" where
  "starts_with p s \<longleftrightarrow> take (length p) s = p"

definition ends_with :: "string \<Rightarrow> string \<Rightarrow> bool" where
  "ends_with p s \<longleftrightarrow> length p \<le> length s \<and> drop (length s - length p) s = p"

fun contains_str :: "string \<Rightarrow> string \<Rightarrow> bool" where
  "contains_str p [] = (p = [])"
| "contains_str p (c # cs) = (starts_with p (c # cs) \<or> contains_str p cs)"

function trim_end_matches :: "string \<Rightarrow> string \<Rightarrow> string" where
  "trim_end_matches p s =
     (if p \<noteq> [] \<and> ends_with p s then trim_end_matches p (take (length s - length p) s) else s)"
  by pat_completeness auto
termination
  by (relation "measure (\<lambda>(p, s). length s)")
    (auto simp: ends_with_def intro!: diff_less intro: order.strict_trans2)

declare trim_end_matches.simps [simp del]

fun split_once :: "char \<Rightarrow> string \<Rightarrow> (string \<times> string) option" where
  "split_once d [] = None"
| "split_once d (c # cs) =
     (if c = d then Some ([], cs)
      else map_option (\<lambda>(a, b). (c # a, b)) (split_once d cs))"

fun join :: "string \<Rightarrow> string list \<Rightarrow> string" where
  "join sep [] = []"
| "join sep [s] = s"
| "join sep (s # t # ts) = s @ sep @ join sep (t # ts)"

subsection \<open>Digits\<close>

lemma digit_char_is_digit [simp]: "d < 10 \<Longrightarrow> is_ascii_digit (digit_char d)"
  by (simp add: is_ascii_digit_def digit_char_def)

lemma digit_of_digit_char [simp]: "d < 10 \<Longrightarrow> digit_of (digit_char d) = d"
  by (simp add: digit_of_def digit_char_def)

lemma digit_of_less_10 [simp]: "is_ascii_digit c \<Longrightarrow> digit_of c < 10"
  unfolding is_ascii_digit_def digit_of_def by linarith

lemma zero_char_is_digit [simp]: "is_ascii_digit CHR ''0''"
  by (simp add: is_ascii_digit_def)

lemma digit_of_zero_char [simp]: "digit_of CHR ''0'' = 0"
  by (simp add: digit_of_def)

lemma show_nat_digits [text_simps]: "\<forall>c \<in> set (show_nat n). is_ascii_digit c"
proof (induction n rule: show_nat.induct)
  case (1 n)
  then show ?case by (subst show_nat.simps) auto
qed

lemma show_nat_not_Nil [simp]: "show_nat n \<noteq> []"
  by (subst show_nat.simps) simp

lemma show_nat_small: "n < 10 \<Longrightarrow> show_nat n = [digit_char n]"
  by (subst show_nat.simps) simp

lemma show_nat_large: "10 \<le> n \<Longrightarrow> show_nat n = show_nat (n div 10) @ [digit_char (n mod 10)]"
  by (subst show_nat.simps) simp

lemma digit_char_eval:
  "digit_char 0 = CHR ''0''" "digit_char (Suc 0) = CHR ''1''" "digit_char 2 = CHR ''2''"
  "digit_char 3 = CHR ''3''" "digit_char 4 = CHR ''4''" "digit_char 5 = CHR ''5''"
  "digit_char 6 = CHR ''6''" "digit_char 7 = CHR ''7''" "digit_char 8 = CHR ''8''"
  "digit_char 9 = CHR ''9''"
  by code_simp+

lemmas show_nat_eval = show_nat_small show_nat_large digit_char_eval

lemma digits_value_append:
  "digits_value (s @ t) = digits_value s * 10 ^ length t + digits_value t"
proof (induction t rule: rev_induct)
  case Nil
  show ?case by (simp add: digits_value_def)
next
  case (snoc c t)
  then show ?case by (simp add: digits_value_def algebra_simps)
qed

lemma digits_value_single [simp]: "digits_value [c] = digit_of c"
  by (simp add: digits_value_def)

lemma digits_value_Nil [simp]: "digits_value [] = 0"
  by (simp add: digits_value_def)

lemma digits_value_show_nat [simp]: "digits_value (show_nat n) = n"
proof (induction n rule: show_nat.induct)
  case (1 n)
  show ?case
  proof (cases "n < 10")
    case True
    then show ?thesis by (subst show_nat.simps) simp
  next
    case False
    with 1 show ?thesis
      by (subst show_nat.simps) (simp add: digits_value_append)
  qed
qed

lemma digits_value_zeros [simp]: "digits_value (replicate k CHR ''0'' @ s) = digits_value s"
proof -
  have "digits_value (replicate k CHR ''0'') = 0"
    by (induction k) (auto simp: digits_value_def)
  then show ?thesis by (simp add: digits_value_append)
qed

lemma digits_value_pad0 [simp]: "digits_value (pad0 w s) = digits_value s"
  by (simp add: pad0_def)

lemma digits_value_less: "\<forall>c \<in> set s. is_ascii_digit c \<Longrightarrow> digits_value s < 10 ^ length s"
proof (induction s rule: rev_induct)
  case Nil
  show ?case by simp
next
  case (snoc c s)
  then have "digits_value s < 10 ^ length s" and "digit_of c < 10" by auto
  then show ?case by (simp add: digits_value_append)
qed

lemma show_nat_length_le: "0 < w \<Longrightarrow> n < 10 ^ w \<Longrightarrow> length (show_nat n) \<le> w"
proof (induction n arbitrary: w rule: show_nat.induct)
  case (1 n)
  show ?case
  proof (cases "n < 10")
    case True
    with "1.prems" show ?thesis by (subst show_nat.simps) simp
  next
    case False
    then obtain v where w: "w = Suc v" and v: "0 < v"
      using "1.prems" by (cases w; cases "w - 1") auto
    with "1.prems" have "n div 10 < 10 ^ v" by (simp add: less_mult_imp_div_less mult.commute)
    with "1.IH" [OF False v] False show ?thesis
      by (subst show_nat.simps) (simp add: w)
  qed
qed

lemma pad0_length: "length s \<le> w \<Longrightarrow> length (pad0 w s) = w"
  by (simp add: pad0_def)

lemma pad0_digits: "\<forall>c \<in> set s. is_ascii_digit c \<Longrightarrow> \<forall>c \<in> set (pad0 w s). is_ascii_digit c"
  by (auto simp: pad0_def)

lemma parse_pos_digits:
  assumes "\<forall>c \<in> set s. is_ascii_digit c" "0 \<le> acc"
    and "acc * 10 ^ length s + int (digits_value s) \<le> hi"
  shows "parse_pos hi acc s = Ok (acc * 10 ^ length s + int (digits_value s))"
  using assms
proof (induction s arbitrary: acc)
  case Nil
  then show ?case by simp
next
  case (Cons c s)
  let ?acc = "acc * 10 + int (digit_of c)"
  have eq: "?acc * 10 ^ length s + int (digits_value s)
      = acc * 10 ^ length (c # s) + int (digits_value (c # s))"
    using digits_value_append [of "[c]" s] by (simp add: algebra_simps)
  have "?acc * 1 \<le> ?acc * 10 ^ length s"
    using Cons.prems(2) by (intro mult_left_mono) auto
  then have "?acc \<le> ?acc * 10 ^ length s + int (digits_value s)"
    by simp
  with eq Cons.prems(3) have "?acc \<le> hi" by (metis order.trans)
  moreover have "parse_pos hi ?acc s = Ok (?acc * 10 ^ length s + int (digits_value s))"
    using Cons.prems eq by (intro Cons.IH) auto
  ultimately show ?case
    using Cons.prems eq by simp
qed

lemma parse_int_digits:
  assumes "s \<noteq> []" "\<forall>c \<in> set s. is_ascii_digit c" "int (digits_value s) \<le> hi"
  shows "parse_int lo hi s = Ok (int (digits_value s))"
proof -
  have "is_ascii_digit (hd s)" using assms by (cases s) auto
  then have "hd s \<noteq> CHR ''+''" "hd s \<noteq> CHR ''-''" by (auto simp: is_ascii_digit_def)
  moreover from this have "s \<noteq> ''+''" "s \<noteq> ''-''" by auto
  ultimately show ?thesis
    using assms parse_pos_digits [of s 0 hi] by (simp add: parse_int_def)
qed

lemma parse_u64_digits:
  assumes "s \<noteq> []" "\<forall>c \<in> set s. is_ascii_digit c" "digits_value s < 2 ^ 64"
  shows "parse_u64 s = Ok (of_nat (digits_value s))"
  using parse_int_digits [OF assms(1,2), of "2 ^ 64 - 1" 0] assms(3)
  by (simp add: parse_u64_def)

lemma split_once_digits:
  "\<forall>c \<in> set s. c \<noteq> d \<Longrightarrow> split_once d (s @ d # t) = Some (s, t)"
  by (induction s) auto

end
