(* ===== verification/Common_Data.thy ===== *)
theory Common_Data
  imports Prelude
begin

text \<open>
  Plain data of \<open>rust/src/common\<close>: identifiers, addresses with their textual form, options, and
  the small enums and structs every other component carries around.  The \<open>http\<close> crate's \<open>Uri\<close>
  is represented by the parts the driver reads; parsing and assembling one is a parameter
  (\<open>http_lib\<close>).  A Rust \<open>HashMap\<close> is an association list with distinct keys, in the order in
  which that map happens to iterate.
\<close>

section \<open>Identifiers\<close>

datatype id = ID "u8 list"

type_synonym iid = id
type_synonym request_id = id

definition id_prefix :: string where
  "id_prefix = ''0x''"

definition bytes_cloned :: "id \<Rightarrow> u8 list" where
  "bytes_cloned i = (case i of ID bs \<Rightarrow> bs)"

definition hex_digit :: "nat \<Rightarrow> char" where
  "hex_digit d = (if d < 10 then char_of (48 + d) else char_of (87 + d))"

definition hex_byte :: "u8 \<Rightarrow> string" where
  "hex_byte b = [hex_digit (unat b div 16), hex_digit (unat b mod 16)]"

definition id_display :: "id \<Rightarrow> string" where
  "id_display i = id_prefix @ concat (map hex_byte (bytes_cloned i))"

definition id_debug :: "id \<Rightarrow> string" where
  "id_debug i = ''ID['' @ id_display i @ '']''"

lemma hex_digit_inj: "c < 16 \<Longrightarrow> d < 16 \<Longrightarrow> hex_digit c = hex_digit d \<Longrightarrow> c = d"
proof -
  assume cd: "c < 16" "d < 16" and "hex_digit c = hex_digit d"
  then have "(of_char (hex_digit c) :: nat) = of_char (hex_digit d)" by simp
  with cd show "c = d"
    by (simp add: hex_digit_def split: if_splits)
qed

lemma hex_byte_inj: "hex_byte a = hex_byte b \<Longrightarrow> a = b"
proof -
  assume "hex_byte a = hex_byte b"
  moreover have "unat a < 256" "unat b < 256"
    using unsigned_less [of a] unsigned_less [of b] by auto
  ultimately have "unat a div 16 = unat b div 16" "unat a mod 16 = unat b mod 16"
    by (auto simp: hex_byte_def intro!: hex_digit_inj)
  then have "unat a = unat b" by (metis div_mult_mod_eq)
  then show "a = b" by (simp add: word_unat_eq_iff)
qed

lemma hex_bytes_inj: "concat (map hex_byte as) = concat (map hex_byte bs) \<Longrightarrow> as = bs"
proof (induction as arbitrary: bs)
  case Nil
  then show ?case by (cases bs) (auto simp: hex_byte_def)
next
  case (Cons a as)
  then obtain b bs' where bs: "bs = b # bs'" by (cases bs) (auto simp: hex_byte_def)
  have "length (hex_byte a) = length (hex_byte b)" by (simp add: hex_byte_def)
  with Cons.prems bs
  have "hex_byte a = hex_byte b" "concat (map hex_byte as) = concat (map hex_byte bs')"
    by auto
  with Cons.IH bs hex_byte_inj show ?case by blast
qed

section \<open>Addresses\<close>

record uri =
  scheme :: "string option"
  authority :: "string option"
  path_and_query :: "string option"

text \<open>
  What the driver asks of the \<open>http\<close> crate: parsing (with the text of the parse error), the port of
  a URI, assembling a URI from parts, and its \<open>Debug\<close> text.
\<close>

record http_lib =
  parse_uri :: "string \<Rightarrow> (uri, string) result"
  port :: "uri \<Rightarrow> nat option"
  from_parts_uri :: "uri \<Rightarrow> uri option"
  uri_debug :: "uri \<Rightarrow> string"

datatype address = Address (into_uri: uri)

definition default_path :: string where
  "default_path = ''/''"

definition uri_scheme :: "address \<Rightarrow> string option" where
  "uri_scheme a = scheme (into_uri a)"

text \<open>\<open>authority().unwrap()\<close>: an address without an authority cannot be printed.\<close>

definition address_display :: "address \<Rightarrow> (string, 'e) result" where
  "address_display a = unwrap (authority (into_uri a))"

definition address_debug :: "http_lib \<Rightarrow> address \<Rightarrow> string" where
  "address_debug http a = uri_debug http (into_uri a)"

datatype addresses = Direct "address list" | Translated "(address \<times> address) list"

definition addresses_default :: addresses where
  "addresses_default = Direct []"

definition addresses_display :: "addresses \<Rightarrow> (string, 'e) result" where
  "addresses_display as =
     (case as of
        Direct xs \<Rightarrow>
          map_ok (\<lambda>ts. ''['' @ join '', '' ts @ '']'') (try_map address_display xs)
      | Translated ps \<Rightarrow>
          map_ok (\<lambda>ts. ''{'' @ join '', '' ts @ ''}'')
            (try_map (\<lambda>(pub, priv). and_then (address_display pub) (\<lambda>s.
               map_ok (\<lambda>t. s @ '': '' @ t) (address_display priv))) ps))"

section \<open>Options, infos and kinds of transactions\<close>

text \<open>\<open>std::time::Duration\<close>: whole seconds and a sub-second part below \<open>10\<^sup>9\<close> nanoseconds.\<close>

record std_duration =
  as_secs :: nat
  subsec_nanos :: nat

definition subsec_millis :: "std_duration \<Rightarrow> nat" where
  "subsec_millis d = subsec_nanos d div 1000000"

definition subsec_micros :: "std_duration \<Rightarrow> nat" where
  "subsec_micros d = subsec_nanos d div 1000"

definition as_millis :: "std_duration \<Rightarrow> nat" where
  "as_millis d = as_secs d * 1000 + subsec_millis d"

definition as_nanos :: "std_duration \<Rightarrow> nat" where
  "as_nanos d = as_secs d * 1000000000 + subsec_nanos d"

definition std_duration_ok :: "std_duration \<Rightarrow> bool" where
  "std_duration_ok d \<longleftrightarrow> subsec_nanos d < 1000000000"

datatype transaction_type = Read | Write | Schema

record transaction_options =
  transaction_timeout :: "std_duration option"
  schema_lock_acquire_timeout :: "std_duration option"

definition transaction_options_new :: transaction_options where
  "transaction_options_new =
     \<lparr>transaction_timeout = None, schema_lock_acquire_timeout = None\<rparr>"

definition set_transaction_timeout :: "transaction_options \<Rightarrow> std_duration \<Rightarrow> transaction_options" where
  "set_transaction_timeout o' timeout = o'\<lparr>transaction_timeout := Some timeout\<rparr>"

definition set_schema_lock_acquire_timeout ::
    "transaction_options \<Rightarrow> std_duration \<Rightarrow> transaction_options" where
  "set_schema_lock_acquire_timeout o' timeout = o'\<lparr>schema_lock_acquire_timeout := Some timeout\<rparr>"

record query_options =
  include_instance_types :: "bool option"
  prefetch_size :: "u64 option"
  include_query_structure :: "bool option"

definition query_options_new :: query_options where
  "query_options_new =
     \<lparr>include_instance_types = None, prefetch_size = None, include_query_structure = None\<rparr>"

definition set_include_instance_types :: "query_options \<Rightarrow> bool \<Rightarrow> query_options" where
  "set_include_instance_types o' b = o'\<lparr>include_instance_types := Some b\<rparr>"

definition set_prefetch_size :: "query_options \<Rightarrow> u64 \<Rightarrow> query_options" where
  "set_prefetch_size o' n = o'\<lparr>prefetch_size := Some n\<rparr>"

definition set_include_query_structure :: "query_options \<Rightarrow> bool \<Rightarrow> query_options" where
  "set_include_query_structure o' b = o'\<lparr>include_query_structure := Some b\<rparr>"

record database_info =
  database_info_name :: string

record user_info =
  user_info_name :: string
  user_info_password :: "string option"

end
