(* ===== verification/Errors.thy ===== *)
theory Errors
  imports Common_Data
begin

text \<open>
  \<open>rust/src/common/error.rs\<close>: the six families of driver errors that the macro
  \<open>error_messages!\<close> generates, the error sent by a server, the sum of all of them, and the
  classification of a gRPC status.  The macro is modelled once (numbers of digits, padding, formatted
  code, display); each family supplies its numbering, its variant names and its message texts.  The
  locale \<open>error_family\<close> states what the macro needs of a family, and is interpreted for all six.
\<close>

section \<open>The \<open>error_messages!\<close> macro\<close>

fun num_digits :: "nat \<Rightarrow> nat" where
  "num_digits x = (if x < 10 then 1 else 1 + num_digits (x div 10))"

declare num_digits.simps [simp del]

definition max_code :: "nat list \<Rightarrow> nat" where
  "max_code codes = foldl (\<lambda>m c. if c > m then c else m) 0 codes"

definition padding :: "nat list \<Rightarrow> nat \<Rightarrow> (string, 'x) result" where
  "padding codes c =
     (case num_digits (max_code codes) - num_digits c of
        0 \<Rightarrow> Ok ''''
      | Suc 0 \<Rightarrow> Ok ''0''
      | Suc (Suc 0) \<Rightarrow> Ok ''00''
      | Suc (Suc (Suc 0)) \<Rightarrow> Ok ''000''
      | _ \<Rightarrow> Panic)"

definition format_code :: "string \<Rightarrow> nat list \<Rightarrow> nat \<Rightarrow> (string, 'x) result" where
  "format_code prefix codes c =
     map_ok (\<lambda>p. ''['' @ prefix @ p @ show_nat c @ '']'') (padding codes c)"

definition family_display :: "string \<Rightarrow> string \<Rightarrow> nat list \<Rightarrow> nat \<Rightarrow> string \<Rightarrow> (string, 'x) result" where
  "family_display prefix kind codes c msg =
     map_ok (\<lambda>p. ''['' @ prefix @ p @ show_nat c @ ''] '' @ kind @ '': '' @ msg) (padding codes c)"

section \<open>The families\<close>

definition quoted :: "string \<Rightarrow> string" where
  "quoted s = [CHR 0x27] @ s @ [CHR 0x27]"

definition newline :: string where
  "newline = [CHR 0x0A]"

definition version_or_bug :: string where
  "version_or_bug = '' This is either a version compatibility issue or a bug.''"

subsection \<open>Analyze errors\<close>

datatype analyze_error =
    AnalyzeMissingResponseField string
  | UnknownEnumValue string i32

definition analyze_error_codes :: "nat list" where
  "analyze_error_codes = [1, 2]"

fun analyze_error_code :: "analyze_error \<Rightarrow> nat" where
  "analyze_error_code (AnalyzeMissingResponseField _) = 1"
| "analyze_error_code (UnknownEnumValue _ _) = 2"

fun analyze_error_name :: "analyze_error \<Rightarrow> string" where
  "analyze_error_name (AnalyzeMissingResponseField _) = ''AnalyzeError::MissingResponseField''"
| "analyze_error_name (UnknownEnumValue _ _) = ''AnalyzeError::UnknownEnumValue''"

fun analyze_error_message :: "analyze_error \<Rightarrow> string" where
  "analyze_error_message (AnalyzeMissingResponseField field) =
     ''Missing field in message received from server: '' @ quoted field @ ''.'' @ version_or_bug"
| "analyze_error_message (UnknownEnumValue enum_name v) =
     ''Value '' @ quoted (show_int (sint v)) @ '' is out of bounds for enum '' @ quoted enum_name
     @ ''.'' @ version_or_bug"

subsection \<open>Connection errors\<close>

datatype connection_error =
    RPCMethodUnavailable string
  | ServerConnectionFailed addresses addresses string
  | ServerConnectionFailedWithError string
  | ServerConnectionFailedNetworking string
  | ServerConnectionIsClosed
  | ServerConnectionIsClosedUnexpectedly
  | TransactionIsClosed
  | TransactionIsClosedWithErrors string
  | MissingResponseField string
  | UnknownRequestId request_id
  | UnexpectedResponse string
  | QueryStreamNoResponse
  | UnexpectedQueryType i32
  | ClusterServerNotPrimary "address option"
  | UnknownDirectServerRouting address addresses
  | TokenCredentialInvalid
  | EncryptionSettingsMismatch
  | SslCertificateNotValidated
  | BrokenPipe
  | ConnectionRefusedNetworking
  | MissingPort string
  | UnexpectedServerReplicationRole i32
  | ValueTimeZoneNameNotRecognised string
  | ValueTimeZoneOffsetNotRecognised i32
  | ValueStructNotImplemented
  | ListsNotImplemented
  | UnexpectedKind i32
  | UnexpectedConnectionClose
  | DatabaseImportChannelIsClosed
  | DatabaseImportStreamUnexpectedResponse
  | DatabaseExportChannelIsClosed
  | DatabaseExportStreamNoResponse
  | AbsentTlsConfigForTlsConnection
  | ServerIsNotInitialised
  | AnalyzeNoResponse
  | NoPrimaryServer
  | SchemeTlsSettingsMismatch string bool
  | RequestTimeout string

definition connection_error_codes :: "nat list" where
  "connection_error_codes = [1..<36] @ [37, 38, 39]"

primrec connection_error_code :: "connection_error \<Rightarrow> nat" where
  "connection_error_code (RPCMethodUnavailable x1) = 1"
| "connection_error_code (ServerConnectionFailed x1 x2 x3) = 2"
| "connection_error_code (ServerConnectionFailedWithError x1) = 3"
| "connection_error_code (ServerConnectionFailedNetworking x1) = 4"
| "connection_error_code ServerConnectionIsClosed = 5"
| "connection_error_code ServerConnectionIsClosedUnexpectedly = 6"
| "connection_error_code TransactionIsClosed = 7"
| "connection_error_code (TransactionIsClosedWithErrors x1) = 8"
| "connection_error_code (MissingResponseField x1) = 9"
| "connection_error_code (UnknownRequestId x1) = 10"
| "connection_error_code (UnexpectedResponse x1) = 11"
| "connection_error_code QueryStreamNoResponse = 12"
| "connection_error_code (UnexpectedQueryType x1) = 13"
| "connection_error_code (ClusterServerNotPrimary x1) = 14"
| "connection_error_code (UnknownDirectServerRouting x1 x2) = 15"
| "connection_error_code TokenCredentialInvalid = 16"
| "connection_error_code EncryptionSettingsMismatch = 17"
| "connection_error_code SslCertificateNotValidated = 18"
| "connection_error_code BrokenPipe = 19"
| "connection_error_code ConnectionRefusedNetworking = 20"
| "connection_error_code (MissingPort x1) = 21"
| "connection_error_code (UnexpectedServerReplicationRole x1) = 22"
| "connection_error_code (ValueTimeZoneNameNotRecognised x1) = 23"
| "connection_error_code (ValueTimeZoneOffsetNotRecognised x1) = 24"
| "connection_error_code ValueStructNotImplemented = 25"
| "connection_error_code ListsNotImplemented = 26"
| "connection_error_code (UnexpectedKind x1) = 27"
| "connection_error_code UnexpectedConnectionClose = 28"
| "connection_error_code DatabaseImportChannelIsClosed = 29"
| "connection_error_code DatabaseImportStreamUnexpectedResponse = 30"
| "connection_error_code DatabaseExportChannelIsClosed = 31"
| "connection_error_code DatabaseExportStreamNoResponse = 32"
| "connection_error_code AbsentTlsConfigForTlsConnection = 33"
| "connection_error_code ServerIsNotInitialised = 34"
| "connection_error_code AnalyzeNoResponse = 35"
| "connection_error_code NoPrimaryServer = 37"
| "connection_error_code (SchemeTlsSettingsMismatch x1 x2) = 38"
| "connection_error_code (RequestTimeout x1) = 39"

primrec connection_error_variant :: "connection_error \<Rightarrow> string" where
  "connection_error_variant (RPCMethodUnavailable x1) = ''RPCMethodUnavailable''"
| "connection_error_variant (ServerConnectionFailed x1 x2 x3) = ''ServerConnectionFailed''"
| "connection_error_variant (ServerConnectionFailedWithError x1) = ''ServerConnectionFailedWithError''"
| "connection_error_variant (ServerConnectionFailedNetworking x1) = ''ServerConnectionFailedNetworking''"
| "connection_error_variant ServerConnectionIsClosed = ''ServerConnectionIsClosed''"
| "connection_error_variant ServerConnectionIsClosedUnexpectedly =
     ''ServerConnectionIsClosedUnexpectedly''"
| "connection_error_variant TransactionIsClosed = ''TransactionIsClosed''"
| "connection_error_variant (TransactionIsClosedWithErrors x1) = ''TransactionIsClosedWithErrors''"
| "connection_error_variant (MissingResponseField x1) = ''MissingResponseField''"
| "connection_error_variant (UnknownRequestId x1) = ''UnknownRequestId''"
| "connection_error_variant (UnexpectedResponse x1) = ''UnexpectedResponse''"
| "connection_error_variant QueryStreamNoResponse = ''QueryStreamNoResponse''"
| "connection_error_variant (UnexpectedQueryType x1) = ''UnexpectedQueryType''"
| "connection_error_variant (ClusterServerNotPrimary x1) = ''ClusterServerNotPrimary''"
| "connection_error_variant (UnknownDirectServerRouting x1 x2) = ''UnknownDirectServerRouting''"
| "connection_error_variant TokenCredentialInvalid = ''TokenCredentialInvalid''"
| "connection_error_variant EncryptionSettingsMismatch = ''EncryptionSettingsMismatch''"
| "connection_error_variant SslCertificateNotValidated = ''SslCertificateNotValidated''"
| "connection_error_variant BrokenPipe = ''BrokenPipe''"
| "connection_error_variant ConnectionRefusedNetworking = ''ConnectionRefusedNetworking''"
| "connection_error_variant (MissingPort x1) = ''MissingPort''"
| "connection_error_variant (UnexpectedServerReplicationRole x1) = ''UnexpectedServerReplicationRole''"
| "connection_error_variant (ValueTimeZoneNameNotRecognised x1) = ''ValueTimeZoneNameNotRecognised''"
| "connection_error_variant (ValueTimeZoneOffsetNotRecognised x1) = ''ValueTimeZoneOffsetNotRecognised''"
| "connection_error_variant ValueStructNotImplemented = ''ValueStructNotImplemented''"
| "connection_error_variant ListsNotImplemented = ''ListsNotImplemented''"
| "connection_error_variant (UnexpectedKind x1) = ''UnexpectedKind''"
| "connection_error_variant UnexpectedConnectionClose = ''UnexpectedConnectionClose''"
| "connection_error_variant DatabaseImportChannelIsClosed = ''DatabaseImportChannelIsClosed''"
| "connection_error_variant DatabaseImportStreamUnexpectedResponse =
     ''DatabaseImportStreamUnexpectedResponse''"
| "connection_error_variant DatabaseExportChannelIsClosed = ''DatabaseExportChannelIsClosed''"
| "connection_error_variant DatabaseExportStreamNoResponse = ''DatabaseExportStreamNoResponse''"
| "connection_error_variant AbsentTlsConfigForTlsConnection = ''AbsentTlsConfigForTlsConnection''"
| "connection_error_variant ServerIsNotInitialised = ''ServerIsNotInitialised''"
| "connection_error_variant AnalyzeNoResponse = ''AnalyzeNoResponse''"
| "connection_error_variant NoPrimaryServer = ''NoPrimaryServer''"
| "connection_error_variant (SchemeTlsSettingsMismatch x1 x2) = ''SchemeTlsSettingsMismatch''"
| "connection_error_variant (RequestTimeout x1) = ''RequestTimeout''"

definition connection_error_name :: "connection_error \<Rightarrow> string" where
  "connection_error_name e = ''ConnectionError::'' @ connection_error_variant e"

fun option_address_debug :: "http_lib \<Rightarrow> address option \<Rightarrow> string" where
  "option_address_debug http None = ''None''"
| "option_address_debug http (Some a) = ''Some('' @ address_debug http a @ '')''"

primrec connection_error_message :: "http_lib \<Rightarrow> connection_error \<Rightarrow> (string, 'x) result" where
  "connection_error_message http (RPCMethodUnavailable message) =
     Ok (''The server does not support this method, please check the driver-server compatibility:''
       @ newline @ quoted message @ ''.'')"
| "connection_error_message http (ServerConnectionFailed configured accessed details) =
     and_then (addresses_display configured) (\<lambda>c. map_ok (\<lambda>a.
       ''Unable to connect to TypeDB server(s).'' @ newline
       @ ''Initially configured addresses: '' @ c @ ''.'' @ newline
       @ ''Tried accessing addresses: '' @ a @ ''. Details: '' @ details)
       (addresses_display accessed))"
| "connection_error_message http (ServerConnectionFailedWithError error) =
     Ok (''Unable to connect to TypeDB server(s), received errors: '' @ newline @ error)"
| "connection_error_message http (ServerConnectionFailedNetworking error) =
     Ok (''Unable to connect to TypeDB server(s), received network or protocol error: ''
       @ newline @ error)"
| "connection_error_message http ServerConnectionIsClosed =
     Ok ''The connection has been closed and no further operation is allowed.''"
| "connection_error_message http ServerConnectionIsClosedUnexpectedly =
     Ok ''The connection has been closed unexpectedly and no further operation is allowed.''"
| "connection_error_message http TransactionIsClosed =
     Ok ''The transaction is closed and no further operation is allowed.''"
| "connection_error_message http (TransactionIsClosedWithErrors errors) =
     Ok (''The transaction is closed because of the error(s):'' @ newline @ errors)"
| "connection_error_message http (MissingResponseField field) =
     Ok (''Missing field in message received from server: '' @ quoted field @ ''.'' @ version_or_bug)"
| "connection_error_message http (UnknownRequestId request_id) =
     Ok (''Received a response with unknown request id '' @ quoted (id_display request_id))"
| "connection_error_message http (UnexpectedResponse response) =
     Ok (''Received unexpected response from server: '' @ quoted response @ ''.'' @ version_or_bug)"
| "connection_error_message http QueryStreamNoResponse =
     Ok (''Didn'' @ [CHR 0x27] @ ''t receive any server responses for the query.'')"
| "connection_error_message http (UnexpectedQueryType query_type) =
     Ok (''Unexpected query type in message received from server: '' @ show_int (sint query_type)
       @ ''.'' @ version_or_bug)"
| "connection_error_message http (ClusterServerNotPrimary hint_address) =
     Ok (''The server is not primary (primary hint: '' @ option_address_debug http hint_address
       @ '').'')"
| "connection_error_message http (UnknownDirectServerRouting address known_addresses) =
     and_then (address_display address) (\<lambda>a. map_ok (\<lambda>k.
       ''Could not execute operation against '' @ quoted a @ '' since it'' @ [CHR 0x27]
       @ ''s not in the list of known servers: '' @ k @ ''.'')
       (addresses_display known_addresses))"
| "connection_error_message http TokenCredentialInvalid = Ok ''Invalid credential supplied.''"
| "connection_error_message http EncryptionSettingsMismatch =
     Ok ''Unable to connect to TypeDB: possible encryption settings mismatch.''"
| "connection_error_message http SslCertificateNotValidated =
     Ok (''SSL handshake with TypeDB failed: the server'' @ [CHR 0x27]
       @ ''s identity could not be verified. Possible CA mismatch.'')"
| "connection_error_message http BrokenPipe =
     Ok (''Stream closed because of a broken pipe. This could happen if you are attempting to ''
       @ ''connect to an unencrypted TypeDB server using a TLS-enabled credentials.'')"
| "connection_error_message http ConnectionRefusedNetworking =
     Ok (''Connection refused. Please check the server is running and the address is accessible. ''
       @ ''Encrypted TypeDB endpoints may also have misconfigured SSL certificates.'')"
| "connection_error_message http (MissingPort address) =
     Ok (''Invalid URL '' @ quoted address @ '': missing port.'')"
| "connection_error_message http (UnexpectedServerReplicationRole replication_role) =
     Ok (''Unexpected replication role in message received from server: ''
       @ show_int (sint replication_role) @ ''.'' @ version_or_bug)"
| "connection_error_message http (ValueTimeZoneNameNotRecognised time_zone) =
     Ok (''Time zone provided by the server has name '' @ quoted time_zone
       @ '', which is not an officially recognized timezone.'')"
| "connection_error_message http (ValueTimeZoneOffsetNotRecognised offset) =
     Ok (''Time zone provided by the server has numerical offset '' @ quoted (show_int (sint offset))
       @ '', which is not recognised as a valid value for offset in seconds.'')"
| "connection_error_message http ValueStructNotImplemented =
     Ok ''Struct valued responses are not yet supported by the driver.''"
| "connection_error_message http ListsNotImplemented =
     Ok ''Lists are not yet supported by the driver.''"
| "connection_error_message http (UnexpectedKind kind) =
     Ok (''Unexpected kind in message received from server: '' @ show_int (sint kind) @ ''.''
       @ version_or_bug)"
| "connection_error_message http UnexpectedConnectionClose = Ok ''Connection closed unexpectedly.''"
| "connection_error_message http DatabaseImportChannelIsClosed =
     Ok ''The database import channel is closed and no further operation is allowed.''"
| "connection_error_message http DatabaseImportStreamUnexpectedResponse =
     Ok (''The database import stream received an unexpected response in the process. ''
       @ ''It is either a version compatibility issue or a bug.'')"
| "connection_error_message http DatabaseExportChannelIsClosed =
     Ok ''The database export channel is closed and no further operation is allowed.''"
| "connection_error_message http DatabaseExportStreamNoResponse =
     Ok (''Didn'' @ [CHR 0x27]
       @ ''t receive any server responses for the database export command.'')"
| "connection_error_message http AbsentTlsConfigForTlsConnection =
     Ok (''Could not establish a TLS connection without a TLS config specified. ''
       @ ''Please verify your driver options.'')"
| "connection_error_message http ServerIsNotInitialised = Ok ''Server is not yet initialized.''"
| "connection_error_message http AnalyzeNoResponse =
     Ok (''Didn'' @ [CHR 0x27] @ ''t receive any server responses for the analyze request.'')"
| "connection_error_message http NoPrimaryServer = Ok ''Could not find a primary server.''"
| "connection_error_message http (SchemeTlsSettingsMismatch sch is_tls_enabled) =
     Ok (''Scheme '' @ sch @ '' is not compatible with tls setting `enabled: ''
       @ (if is_tls_enabled then ''true'' else ''false'') @ ''`'')"
| "connection_error_message http (RequestTimeout timeout) =
     Ok (''Request timed out after '' @ timeout @ ''. The server may be unresponsive.'')"

definition request_timeout :: "std_duration \<Rightarrow> connection_error" where
  "request_timeout timeout =
     (let (v, decimal, unit) =
        (if as_secs timeout > 0 then
           (let decimal = subsec_millis timeout
            in (as_secs timeout, if decimal > 0 then Some decimal else None, ''seconds''))
         else if subsec_millis timeout > 0 then
           (let decimal = subsec_micros timeout mod 1000
            in (subsec_millis timeout, if decimal > 0 then Some decimal else None, ''milliseconds''))
         else if subsec_micros timeout > 0 then
           (let decimal = subsec_nanos timeout mod 1000
            in (subsec_micros timeout, if decimal > 0 then Some decimal else None, ''microseconds''))
         else (subsec_nanos timeout, None, ''nanoseconds''))
      in RequestTimeout
           (case decimal of
              Some d \<Rightarrow> show_nat v @ ''.'' @ pad0 3 (show_nat d) @ '' '' @ unit
            | None \<Rightarrow> show_nat v @ '' '' @ unit))"

subsection \<open>Concept, migration, internal and query errors\<close>

datatype concept_error =
    UnavailableRowVariable string
  | UnavailableRowIndex nat
  | ErrorParsingDecimal string string

definition concept_error_codes :: "nat list" where
  "concept_error_codes = [1, 2, 3]"

fun concept_error_code :: "concept_error \<Rightarrow> nat" where
  "concept_error_code (UnavailableRowVariable _) = 1"
| "concept_error_code (UnavailableRowIndex _) = 2"
| "concept_error_code (ErrorParsingDecimal _ _) = 3"

fun concept_error_name :: "concept_error \<Rightarrow> string" where
  "concept_error_name (UnavailableRowVariable _) = ''ConceptError::UnavailableRowVariable''"
| "concept_error_name (UnavailableRowIndex _) = ''ConceptError::UnavailableRowIndex''"
| "concept_error_name (ErrorParsingDecimal _ _) = ''ConceptError::ErrorParsingDecimal''"

fun concept_error_message :: "concept_error \<Rightarrow> string" where
  "concept_error_message (UnavailableRowVariable v) =
     ''Cannot get concept from a concept row by variable '' @ quoted v @ ''.''"
| "concept_error_message (UnavailableRowIndex index) =
     ''Cannot get concept from a concept row by index '' @ quoted (show_nat index) @ ''.''"
| "concept_error_message (ErrorParsingDecimal unparsed reason) =
     ''Could not parse the value '' @ quoted unparsed @ '' as decimal: '' @ reason @ ''.''"

datatype migration_error =
    CannotOpenImportFile string string
  | CannotCreateExportFile string string
  | CannotExportToTheSameFile
  | CannotDecodeImportedConcept
  | CannotDecodeImportedConceptLength
  | CannotEncodeExportedConcept

definition migration_error_codes :: "nat list" where
  "migration_error_codes = [1, 2, 3, 4, 5, 6]"

fun migration_error_code :: "migration_error \<Rightarrow> nat" where
  "migration_error_code (CannotOpenImportFile _ _) = 1"
| "migration_error_code (CannotCreateExportFile _ _) = 2"
| "migration_error_code CannotExportToTheSameFile = 3"
| "migration_error_code CannotDecodeImportedConcept = 4"
| "migration_error_code CannotDecodeImportedConceptLength = 5"
| "migration_error_code CannotEncodeExportedConcept = 6"

fun migration_error_name :: "migration_error \<Rightarrow> string" where
  "migration_error_name (CannotOpenImportFile _ _) = ''MigrationError::CannotOpenImportFile''"
| "migration_error_name (CannotCreateExportFile _ _) = ''MigrationError::CannotCreateExportFile''"
| "migration_error_name CannotExportToTheSameFile = ''MigrationError::CannotExportToTheSameFile''"
| "migration_error_name CannotDecodeImportedConcept = ''MigrationError::CannotDecodeImportedConcept''"
| "migration_error_name CannotDecodeImportedConceptLength =
     ''MigrationError::CannotDecodeImportedConceptLength''"
| "migration_error_name CannotEncodeExportedConcept = ''MigrationError::CannotEncodeExportedConcept''"

definition export_operation_hint :: string where
  "export_operation_hint =
     '' Make sure to pass a correct database file produced by a TypeDB export operation.''"

fun migration_error_message :: "migration_error \<Rightarrow> string" where
  "migration_error_message (CannotOpenImportFile path reason) =
     ''Cannot open import file '' @ quoted path @ '': '' @ reason"
| "migration_error_message (CannotCreateExportFile path reason) =
     ''Cannot create export file '' @ quoted path @ '': '' @ reason"
| "migration_error_message CannotExportToTheSameFile =
     ''Cannot export both schema and data to the same file.''"
| "migration_error_message CannotDecodeImportedConcept =
     ''Cannot decode a concept from the provided import file.'' @ export_operation_hint"
| "migration_error_message CannotDecodeImportedConceptLength =
     ''Cannot decode a concept length from the provided import file.'' @ export_operation_hint"
| "migration_error_message CannotEncodeExportedConcept =
     ''Cannot encode a concept for export. It'' @ [CHR 0x27]
     @ ''s either a version compatibility error or a bug.''"

datatype internal_error =
    RecvError
  | SendError
  | UnexpectedRequestType string
  | UnexpectedResponseType string
  | UnimplementedFeature string

definition internal_error_codes :: "nat list" where
  "internal_error_codes = [1, 2, 3, 4, 5]"

fun internal_error_code :: "internal_error \<Rightarrow> nat" where
  "internal_error_code RecvError = 1"
| "internal_error_code SendError = 2"
| "internal_error_code (UnexpectedRequestType _) = 3"
| "internal_error_code (UnexpectedResponseType _) = 4"
| "internal_error_code (UnimplementedFeature _) = 5"

fun internal_error_name :: "internal_error \<Rightarrow> string" where
  "internal_error_name RecvError = ''InternalError::RecvError''"
| "internal_error_name SendError = ''InternalError::SendError''"
| "internal_error_name (UnexpectedRequestType _) = ''InternalError::UnexpectedRequestType''"
| "internal_error_name (UnexpectedResponseType _) = ''InternalError::UnexpectedResponseType''"
| "internal_error_name (UnimplementedFeature _) = ''InternalError::Unimplemented''"

fun internal_error_message :: "internal_error \<Rightarrow> string" where
  "internal_error_message RecvError = ''Channel is closed.''"
| "internal_error_message SendError =
     ''Unable to send response over callback channel (receiver dropped).''"
| "internal_error_message (UnexpectedRequestType request_type) =
     ''Unexpected request type for remote procedure call: '' @ request_type @ ''.'' @ version_or_bug"
| "internal_error_message (UnexpectedResponseType response_type) =
     ''Unexpected response type for remote procedure call: '' @ response_type @ ''.'' @ version_or_bug"
| "internal_error_message (UnimplementedFeature details) =
     ''Unimplemented feature: '' @ details @ ''.''"

datatype query_error =
    GivenRowIndexOutOfBounds nat nat
  | GivenRowUnknownVariable string
  | GivenRowsSizeMismatch nat nat
  | GivenRowsReceivedType string
  | InvalidTypeToGivenRow

definition query_error_codes :: "nat list" where
  "query_error_codes = [1, 2, 3, 4, 5]"

fun query_error_code :: "query_error \<Rightarrow> nat" where
  "query_error_code (GivenRowIndexOutOfBounds _ _) = 1"
| "query_error_code (GivenRowUnknownVariable _) = 2"
| "query_error_code (GivenRowsSizeMismatch _ _) = 3"
| "query_error_code (GivenRowsReceivedType _) = 4"
| "query_error_code InvalidTypeToGivenRow = 5"

fun query_error_name :: "query_error \<Rightarrow> string" where
  "query_error_name (GivenRowIndexOutOfBounds _ _) = ''QueryError::GivenRowIndexOutOfBounds''"
| "query_error_name (GivenRowUnknownVariable _) = ''QueryError::GivenRowUnknownVariable''"
| "query_error_name (GivenRowsSizeMismatch _ _) = ''QueryError::GivenRowsSizeMismatch''"
| "query_error_name (GivenRowsReceivedType _) = ''QueryError::GivenRowsReceivedType''"
| "query_error_name InvalidTypeToGivenRow = ''QueryError::InvalidTypeToGivenRow''"

fun query_error_message :: "query_error \<Rightarrow> string" where
  "query_error_message (GivenRowIndexOutOfBounds index width) =
     ''Attempted to set a row entry at index: '' @ show_nat index @ ''. Row width is ''
     @ show_nat width @ ''.''"
| "query_error_message (GivenRowUnknownVariable v) =
     ''Attempted to set a row entry for a variable '' @ v @ '' which was not in the header.''"
| "query_error_message (GivenRowsSizeMismatch actual expected) =
     ''Cannot push a row of width: '' @ show_nat actual @ '' . Expected width: '' @ show_nat expected"
| "query_error_message (GivenRowsReceivedType variable_or_index) =
     ''A type was passed as given row entry for '' @ quoted variable_or_index
     @ ''. Only instances and values are allowed.''"
| "query_error_message InvalidTypeToGivenRow =
     ''Types cannot be converted to GivenRowEntry. Only instances and values can.''"

section \<open>Server errors and the sum of all errors\<close>

record server_error =
  error_code :: string
  error_domain :: string
  server_error_text :: string
  stack_trace :: "string list"

definition server_error_new :: "string \<Rightarrow> string \<Rightarrow> string \<Rightarrow> string list \<Rightarrow> server_error" where
  "server_error_new code domain message trace =
     \<lparr>error_code = code, error_domain = domain, server_error_text = message, stack_trace = trace\<rparr>"

definition server_error_display :: "server_error \<Rightarrow> string" where
  "server_error_display e =
     (if stack_trace e = [] then
        ''['' @ error_code e @ ''] '' @ error_domain e @ ''. '' @ server_error_text e
      else newline @ join (newline @ ''Caused: '') (stack_trace e))"

datatype error =
    Analyze analyze_error
  | Connection connection_error
  | Concept concept_error
  | Migration migration_error
  | Internal internal_error
  | Query query_error
  | Server server_error
  | Other string
  | FFI string

fun error_code_text :: "error \<Rightarrow> (string, 'x) result" where
  "error_code_text (Analyze e) = format_code ''ANZ'' analyze_error_codes (analyze_error_code e)"
| "error_code_text (Connection e) =
     format_code ''CXN'' connection_error_codes (connection_error_code e)"
| "error_code_text (Concept e) = format_code ''CPT'' concept_error_codes (concept_error_code e)"
| "error_code_text (Migration e) =
     format_code ''MGT'' migration_error_codes (migration_error_code e)"
| "error_code_text (Internal e) = format_code ''INT'' internal_error_codes (internal_error_code e)"
| "error_code_text (Query e) = format_code ''QRY'' query_error_codes (query_error_code e)"
| "error_code_text (Server e) = Ok (error_code e)"
| "error_code_text (FFI _) = Ok []"
| "error_code_text (Other _) = Ok []"

fun error_message :: "http_lib \<Rightarrow> error \<Rightarrow> (string, 'x) result" where
  "error_message http (Analyze e) = Ok (analyze_error_message e)"
| "error_message http (Connection e) = connection_error_message http e"
| "error_message http (Concept e) = Ok (concept_error_message e)"
| "error_message http (Migration e) = Ok (migration_error_message e)"
| "error_message http (Internal e) = Ok (internal_error_message e)"
| "error_message http (Query e) = Ok (query_error_message e)"
| "error_message http (Server e) = Ok (server_error_display e)"
| "error_message http (FFI e) = Ok e"
| "error_message http (Other e) = Ok e"

fun error_display :: "http_lib \<Rightarrow> error \<Rightarrow> (string, 'x) result" where
  "error_display http (Analyze e) =
     family_display ''ANZ'' ''Analyze Error'' analyze_error_codes (analyze_error_code e)
       (analyze_error_message e)"
| "error_display http (Connection e) =
     and_then (connection_error_message http e)
       (family_display ''CXN'' ''Connection Error'' connection_error_codes (connection_error_code e))"
| "error_display http (Concept e) =
     family_display ''CPT'' ''Concept Error'' concept_error_codes (concept_error_code e)
       (concept_error_message e)"
| "error_display http (Migration e) =
     family_display ''MGT'' ''Migration Error'' migration_error_codes (migration_error_code e)
       (migration_error_message e)"
| "error_display http (Internal e) =
     family_display ''INT'' ''Internal Error'' internal_error_codes (internal_error_code e)
       (internal_error_message e)"
| "error_display http (Query e) =
     family_display ''QRY'' ''Internal Error'' query_error_codes (query_error_code e)
       (query_error_message e)"
| "error_display http (Server e) = Ok (server_error_display e)"
| "error_display http (FFI m) = Ok m"
| "error_display http (Other m) = Ok m"

text \<open>The variant name that \<open>Debug\<close> prints, for the generated families.\<close>

fun error_name :: "error \<Rightarrow> string option" where
  "error_name (Analyze e) = Some (analyze_error_name e)"
| "error_name (Connection e) = Some (connection_error_name e)"
| "error_name (Concept e) = Some (concept_error_name e)"
| "error_name (Migration e) = Some (migration_error_name e)"
| "error_name (Internal e) = Some (internal_error_name e)"
| "error_name (Query e) = Some (query_error_name e)"
| "error_name _ = None"

fun has_source :: "error \<Rightarrow> bool" where
  "has_source (Analyze _) = True"
| "has_source (Connection _) = True"
| "has_source (Concept _) = True"
| "has_source (Migration _) = True"
| "has_source (Internal _) = True"
| "has_source _ = False"

section \<open>Parsing an address\<close>

text \<open>
  \<open>Address::from_str\<close> (\<open>common/address/address.rs\<close>).  It stands here because the errors mention
  addresses and the classification of a status parses one.
\<close>

definition address_from_str :: "http_lib \<Rightarrow> string \<Rightarrow> (address, error) result" where
  "address_from_str http s =
     and_then (map_err Other (parse_uri http s)) (\<lambda>uri.
       if port http uri = None then Err (Connection (MissingPort s)) else Ok (Address uri))"

section \<open>Classification of a gRPC status\<close>

datatype grpc_code =
    CodeOk | Cancelled | Unknown | InvalidArgument | DeadlineExceeded | NotFound | AlreadyExists
  | PermissionDenied | ResourceExhausted | FailedPrecondition | Aborted | OutOfRange
  | Unimplemented | InternalCode | Unavailable | DataLoss | Unauthenticated

record error_info =
  info_reason :: string
  info_domain :: string
  info_metadata :: "(string \<times> string) list"

record error_details =
  bad_request :: "string option"
  details_error_info :: "error_info option"
  debug_info :: "string list option"

text \<open>
  A status as the driver sees it: its code and message, the texts of its chain of sources, and the
  decoded details, absent when \<open>check_error_details\<close> fails.  \<open>bad_request\<close> holds the \<open>Debug\<close>
  text of that detail.
\<close>

record status =
  status_code :: grpc_code
  status_message :: string
  status_sources :: "string list"
  status_details :: "error_details option"

definition try_extracting_connection_error_from_info ::
    "http_lib \<Rightarrow> error_info \<Rightarrow> connection_error option" where
  "try_extracting_connection_error_from_info http info =
     (if info_reason info \<in> {''AUT1'', ''AUT2'', ''AUT3''} then Some TokenCredentialInvalid
      else if info_reason info \<in> {''SRV14'', ''RFT1'', ''CSV7''} then Some ServerIsNotInitialised
      else if info_reason info = ''CSV8'' then Some (ClusterServerNotPrimary None)
      else if info_reason info = ''CSV9'' then
        Some (ClusterServerNotPrimary
          (case map_of (info_metadata info) ''redirect_address'' of
             None \<Rightarrow> None
           | Some a \<Rightarrow> (case address_from_str http a of Ok x \<Rightarrow> Some x | _ \<Rightarrow> None)))
      else None)"

definition is_rst_stream :: "string \<Rightarrow> bool" where
  "is_rst_stream m = contains_str ''Received Rst Stream'' m"

definition is_reading_body_from_connection_error :: "string \<Rightarrow> bool" where
  "is_reading_body_from_connection_error m = contains_str ''error reading a body from connection'' m"

definition is_tcp_connect_error :: "string \<Rightarrow> bool" where
  "is_tcp_connect_error m = contains_str ''tcp connect error'' m"

definition is_connection_error :: "string \<Rightarrow> bool" where
  "is_connection_error m = contains_str ''connection error'' m"

definition try_extracting_connection_error_message :: "string \<Rightarrow> connection_error option" where
  "try_extracting_connection_error_message m =
     (if is_rst_stream m \<or> is_tcp_connect_error m \<or> is_connection_error m
      then Some (ServerConnectionFailedNetworking m)
      else if is_reading_body_from_connection_error m then Some ServerConnectionIsClosedUnexpectedly
      else None)"

definition parse_unavailable :: "string \<Rightarrow> error" where
  "parse_unavailable m =
     (if m = ''broken pipe'' then Connection BrokenPipe
      else if contains_str ''received corrupt message'' m then Connection EncryptionSettingsMismatch
      else if contains_str ''UnknownIssuer'' m then Connection SslCertificateNotValidated
      else if contains_str ''Connection refused'' m then Connection ConnectionRefusedNetworking
      else Connection (ServerConnectionFailedNetworking m))"

definition concat_source_messages :: "status \<Rightarrow> string" where
  "concat_source_messages st =
     foldl (\<lambda>errors e. errors @ '': '' @ e) (status_message st) (status_sources st)"

definition error_from_status :: "http_lib \<Rightarrow> status \<Rightarrow> error" where
  "error_from_status http st =
     (case status_details st of
        Some details \<Rightarrow>
          (case bad_request details of
             Some b \<Rightarrow> Connection (ServerConnectionFailedWithError b)
           | None \<Rightarrow>
               (let m = concat_source_messages st in
                case try_extracting_connection_error_message m of
                  Some e \<Rightarrow> Connection e
                | None \<Rightarrow>
                    (case details_error_info details of
                       Some info \<Rightarrow>
                         (case try_extracting_connection_error_from_info http info of
                            Some e \<Rightarrow> Connection e
                          | None \<Rightarrow>
                              Server (server_error_new (info_reason info) (info_domain info)
                                (status_message st)
                                (case debug_info details of Some t \<Rightarrow> t | None \<Rightarrow> [])))
                     | None \<Rightarrow> Other m)))
      | None \<Rightarrow>
          (case status_code st of
             Unavailable \<Rightarrow> parse_unavailable (status_message st)
           | Unknown \<Rightarrow> Connection (ServerConnectionFailedNetworking (status_message st))
           | FailedPrecondition \<Rightarrow> Connection (ServerConnectionFailedNetworking (status_message st))
           | AlreadyExists \<Rightarrow> Connection (ServerConnectionFailedNetworking (status_message st))
           | Unimplemented \<Rightarrow> Connection (RPCMethodUnavailable (status_message st))
           | _ \<Rightarrow>
               (let m = concat_source_messages st in
                case try_extracting_connection_error_message m of
                  Some e \<Rightarrow> Connection e
                | None \<Rightarrow> Other m)))"

section \<open>Codes of driver errors\<close>

lemma num_digits_show_nat: "num_digits x = length (show_nat x)"
proof (induction x rule: num_digits.induct)
  case (1 x)
  then show ?case by (subst num_digits.simps, subst show_nat.simps) auto
qed

lemma max_code_ge: "c \<in> set codes \<Longrightarrow> c \<le> max_code codes"
proof -
  have "m \<le> foldl (\<lambda>m c. if c > m then c else m) m cs
      \<and> (c \<in> set cs \<longrightarrow> c \<le> foldl (\<lambda>m c. if c > m then c else m) m cs)" for m cs
  proof (induction cs arbitrary: m)
    case Nil
    show ?case by simp
  next
    case (Cons d cs)
    show ?case using Cons [of "if d > m then d else m"] by (auto split: if_splits)
  qed
  then show "c \<in> set codes \<Longrightarrow> c \<le> max_code codes" by (simp add: max_code_def)
qed

lemma num_digits_mono: "x \<le> y \<Longrightarrow> num_digits x \<le> num_digits y"
proof (induction y arbitrary: x rule: num_digits.induct)
  case (1 y)
  show ?case
  proof (cases "x < 10")
    case True
    then show ?thesis by (subst num_digits.simps, subst num_digits.simps) auto
  next
    case False
    with "1.prems" have "\<not> y < 10" "x div 10 \<le> y div 10" by (auto intro: div_le_mono)
    with "1.IH" [of "x div 10"] False show ?thesis
      by (subst num_digits.simps, subst (2) num_digits.simps) auto
  qed
qed

lemma padding_eq:
  assumes "c \<le> max_code codes" "max_code codes < 10000"
  shows "padding codes c = Ok (replicate (num_digits (max_code codes) - num_digits c) CHR ''0'')"
proof -
  have "1 \<le> num_digits c" by (subst num_digits.simps) simp
  moreover have "num_digits (max_code codes) \<le> 4"
    using show_nat_length_le [of 4 "max_code codes"] assms(2) by (simp add: num_digits_show_nat)
  ultimately have "num_digits (max_code codes) - num_digits c \<in> {0, 1, 2, 3}" by auto
  then show ?thesis by (auto simp: padding_def numeral_2_eq_2 numeral_3_eq_3)
qed

text \<open>
  What a family of errors has to satisfy for the macro's output to be usable: every variant's number
  is one of the family's, no number needs more than four digits, and a number stands for one variant.
\<close>

locale error_family =
  fixes prefix :: string
    and codes :: "nat list"
    and code_of :: "'e \<Rightarrow> nat"
    and name_of :: "'e \<Rightarrow> string"
  assumes code_listed: "code_of e \<in> set codes"
    and codes_small: "max_code codes < 10000"
    and code_names: "code_of e = code_of e' \<Longrightarrow> name_of e = name_of e'"
begin

lemma format_code_eq:
  "format_code prefix codes (code_of e) =
     Ok (''['' @ prefix @ pad0 (num_digits (max_code codes)) (show_nat (code_of e)) @ '']'')"
  unfolding format_code_def padding_eq [OF max_code_ge [OF code_listed] codes_small]
  by (simp add: pad0_def num_digits_show_nat)

lemma format_code_width:
  "format_code prefix codes (code_of e) = Ok t
   \<Longrightarrow> length t = length prefix + num_digits (max_code codes) + 2"
proof -
  assume "format_code prefix codes (code_of e) = Ok t"
  then have t: "t = ''['' @ prefix @ pad0 (num_digits (max_code codes)) (show_nat (code_of e)) @ '']''"
    by (simp add: format_code_eq)
  have "length (show_nat (code_of e)) \<le> num_digits (max_code codes)"
    using num_digits_mono [OF max_code_ge [OF code_listed]] by (simp add: num_digits_show_nat)
  with t show ?thesis by (simp add: pad0_length)
qed

lemma padded_code_names:
  assumes "pad0 (num_digits (max_code codes)) (show_nat (code_of e))
      = pad0 (num_digits (max_code codes)) (show_nat (code_of e'))"
  shows "name_of e = name_of e'"
proof (rule code_names)
  show "code_of e = code_of e'"
    using arg_cong [OF assms, of digits_value] by simp
qed

end

lemmas code_lists = analyze_error_codes_def connection_error_codes_def concept_error_codes_def
  migration_error_codes_def internal_error_codes_def query_error_codes_def

lemma connection_code_listed: "connection_error_code e \<in> set connection_error_codes"
  by (cases e) (simp_all add: connection_error_codes_def)

lemma connection_code_names:
  "connection_error_code e = connection_error_code e' \<Longrightarrow> connection_error_name e = connection_error_name e'"
  unfolding connection_error_name_def by (cases e; cases e'; simp)

interpretation analyze_errors: error_family "''ANZ''" analyze_error_codes analyze_error_code analyze_error_name
proof
  fix e e' :: analyze_error
  show "analyze_error_code e \<in> set analyze_error_codes" by (cases e) (simp_all add: code_lists)
  show "max_code analyze_error_codes < 10000" by (simp add: code_lists max_code_def)
  show "analyze_error_code e = analyze_error_code e' \<Longrightarrow> analyze_error_name e = analyze_error_name e'"
    by (cases e; cases e'; simp)
qed

interpretation connection_errors:
  error_family "''CXN''" connection_error_codes connection_error_code connection_error_name
proof
  fix e e' :: connection_error
  show "connection_error_code e \<in> set connection_error_codes" by (rule connection_code_listed)
  show "max_code connection_error_codes < 10000" by (simp add: code_lists max_code_def upt_rec)
  show "connection_error_code e = connection_error_code e'
      \<Longrightarrow> connection_error_name e = connection_error_name e'" by (rule connection_code_names)
qed

interpretation concept_errors: error_family "''CPT''" concept_error_codes concept_error_code concept_error_name
proof
  fix e e' :: concept_error
  show "concept_error_code e \<in> set concept_error_codes" by (cases e) (simp_all add: code_lists)
  show "max_code concept_error_codes < 10000" by (simp add: code_lists max_code_def)
  show "concept_error_code e = concept_error_code e' \<Longrightarrow> concept_error_name e = concept_error_name e'"
    by (cases e; cases e'; simp)
qed

interpretation migration_errors:
  error_family "''MGT''" migration_error_codes migration_error_code migration_error_name
proof
  fix e e' :: migration_error
  show "migration_error_code e \<in> set migration_error_codes" by (cases e) (simp_all add: code_lists)
  show "max_code migration_error_codes < 10000" by (simp add: code_lists max_code_def)
  show "migration_error_code e = migration_error_code e'
      \<Longrightarrow> migration_error_name e = migration_error_name e'"
    by (cases e; cases e'; simp)
qed

interpretation internal_errors:
  error_family "''INT''" internal_error_codes internal_error_code internal_error_name
proof
  fix e e' :: internal_error
  show "internal_error_code e \<in> set internal_error_codes" by (cases e) (simp_all add: code_lists)
  show "max_code internal_error_codes < 10000" by (simp add: code_lists max_code_def)
  show "internal_error_code e = internal_error_code e' \<Longrightarrow> internal_error_name e = internal_error_name e'"
    by (cases e; cases e'; simp)
qed

interpretation query_errors: error_family "''QRY''" query_error_codes query_error_code query_error_name
proof
  fix e e' :: query_error
  show "query_error_code e \<in> set query_error_codes" by (cases e) (simp_all add: code_lists)
  show "max_code query_error_codes < 10000" by (simp add: code_lists max_code_def)
  show "query_error_code e = query_error_code e' \<Longrightarrow> query_error_name e = query_error_name e'"
    by (cases e; cases e'; simp)
qed

lemmas family_code_eqs = analyze_errors.format_code_eq connection_errors.format_code_eq
  concept_errors.format_code_eq migration_errors.format_code_eq internal_errors.format_code_eq
  query_errors.format_code_eq

lemmas family_code_names = analyze_errors.padded_code_names connection_errors.padded_code_names
  concept_errors.padded_code_names migration_errors.padded_code_names
  internal_errors.padded_code_names query_errors.padded_code_names

lemma error_code_not_Panic: "\<exists>t. error_code_text e = Ok t"
  by (cases e) (simp_all add: family_code_eqs)

lemma error_code_names_variant:
  assumes "error_name e = Some n" "error_name e' = Some n'"
    and "error_code_text e = error_code_text e'"
  shows "n = n'"
  using assms
  by (cases e; cases e'; simp add: family_code_eqs)
    (auto dest: family_code_names)

lemma error_from_status_not_primary:
  "error_from_status http st = Connection (ClusterServerNotPrimary hint) \<longleftrightarrow>
     (\<exists>details info. status_details st = Some details \<and> bad_request details = None
        \<and> try_extracting_connection_error_message (concat_source_messages st) = None
        \<and> details_error_info details = Some info
        \<and> try_extracting_connection_error_from_info http info = Some (ClusterServerNotPrimary hint))"
proof -
  have [simp]: "try_extracting_connection_error_message m \<noteq> Some (ClusterServerNotPrimary h)"
    "parse_unavailable m \<noteq> Connection (ClusterServerNotPrimary h)" for m h
    by (simp_all add: try_extracting_connection_error_message_def parse_unavailable_def)
  show ?thesis
    by (auto simp: error_from_status_def Let_def split: option.splits grpc_code.splits)
qed

lemma address_from_str_port: "address_from_str http s = Ok a \<Longrightarrow> port http (into_uri a) \<noteq> None"
  by (auto simp: address_from_str_def result_eqs split: if_splits)

lemma redirect_hint:
  "try_extracting_connection_error_from_info http info = Some (ClusterServerNotPrimary (Some a)) \<longleftrightarrow>
     info_reason info = ''CSV9'' \<and>
     (\<exists>text. map_of (info_metadata info) ''redirect_address'' = Some text
        \<and> address_from_str http text = Ok a)"
  by (auto simp: try_extracting_connection_error_from_info_def split: option.splits result.splits)

text \<open>
  C29: the text of every error's code is computed without reaching the macro's \<open>unreachable!\<close>, and
  two generated errors with the same code text are the same variant, across all six families.
\<close>

theorem error_codes_identify_variants:
  assumes "error_name e = Some n" "error_name e' = Some n'"
  shows "(\<exists>t. error_code_text e = Ok t) \<and> (error_code_text e = error_code_text e' \<longrightarrow> n = n')"
  using error_code_not_Panic [of e] error_code_names_variant [OF assms] by blast

theorem error_codes_identify_variants_witness:
  "(error_code_text (Connection (MissingPort ''a'')) :: (string, error) result) = Ok ''[CXN21]''
   \<and> connection_error_name (MissingPort ''a'') = connection_error_name (MissingPort ''b'')"
proof -
  have t: "(error_code_text (Connection (MissingPort ''a'')) :: (string, error) result) = Ok ''[CXN21]''"
    "(error_code_text (Connection (MissingPort ''b'')) :: (string, error) result) = Ok ''[CXN21]''"
    by code_simp+
  with error_codes_identify_variants
    [of "Connection (MissingPort ''a'')" "connection_error_name (MissingPort ''a'')"
      "Connection (MissingPort ''b'')" "connection_error_name (MissingPort ''b'')"]
  show ?thesis by auto
qed

text \<open>
  C30: a gRPC status is read as ``not the primary server'' with a hint exactly when the server sent
  error details with no bad-request part, the status carries no transport failure, and the detail's
  reason is CSV9 with a redirect address that parses; the hinted address then has a port.
\<close>

theorem not_primary_hint_from_redirect:
  "error_from_status http st = Connection (ClusterServerNotPrimary (Some a)) \<longleftrightarrow>
     (\<exists>details info text. status_details st = Some details \<and> bad_request details = None
        \<and> try_extracting_connection_error_message (concat_source_messages st) = None
        \<and> details_error_info details = Some info \<and> info_reason info = ''CSV9''
        \<and> map_of (info_metadata info) ''redirect_address'' = Some text
        \<and> address_from_str http text = Ok a \<and> port http (into_uri a) \<noteq> None)"
  unfolding error_from_status_not_primary redirect_hint
  using address_from_str_port by blast

end
