(* ===== verification/Hash_Maps.thy ===== *)
theory Hash_Maps
  imports Prelude "HOL-Library.AList"
begin

text \<open>
  \<open>std::collections::HashMap\<close> as the driver uses it: an association list with distinct keys, whose
  order stands for the (unspecified) iteration order of the map.  The locale \<open>hash_map\<close> is the
  contract of the operations the driver calls; the association list interprets it, and the clients
  (address translation, server connections, transaction callbacks) rest on the lemmas proved here.
\<close>

definition hm_get :: "('k \<times> 'v) list \<Rightarrow> 'k \<Rightarrow> 'v option" where
  "hm_get m k = map_of m k"

definition hm_insert :: "'k \<Rightarrow> 'v \<Rightarrow> ('k \<times> 'v) list \<Rightarrow> ('k \<times> 'v) list" where
  "hm_insert k v m = AList.update k v m"

definition hm_remove :: "'k \<Rightarrow> ('k \<times> 'v) list \<Rightarrow> ('k \<times> 'v) list" where
  "hm_remove k m = AList.delete k m"

definition hm_retain :: "('k \<Rightarrow> 'v \<Rightarrow> bool) \<Rightarrow> ('k \<times> 'v) list \<Rightarrow> ('k \<times> 'v) list" where
  "hm_retain P m = filter (\<lambda>(k, v). P k v) m"

definition hm_ok :: "('k \<times> 'v) list \<Rightarrow> bool" where
  "hm_ok m \<longleftrightarrow> distinct (map fst m)"

definition hm_collect :: "('k \<times> 'v) list \<Rightarrow> ('k \<times> 'v) list" where
  "hm_collect ps = foldl (\<lambda>m (k, v). hm_insert k v m) [] ps"

locale hash_map =
  fixes get :: "'m \<Rightarrow> 'k \<Rightarrow> 'v option"
    and insert_kv :: "'k \<Rightarrow> 'v \<Rightarrow> 'm \<Rightarrow> 'm"
    and remove_k :: "'k \<Rightarrow> 'm \<Rightarrow> 'm"
    and retain_kv :: "('k \<Rightarrow> 'v \<Rightarrow> bool) \<Rightarrow> 'm \<Rightarrow> 'm"
    and ok :: "'m \<Rightarrow> bool"
    and empty_map :: 'm
  assumes get_empty: "get empty_map k = None"
    and get_insert: "get (insert_kv k v m) k' = (if k' = k then Some v else get m k')"
    and get_remove: "ok m \<Longrightarrow> get (remove_k k m) k' = (if k' = k then None else get m k')"
    and get_retain: "ok m \<Longrightarrow> get (retain_kv P m) k'
      = (case get m k' of Some v \<Rightarrow> if P k' v then Some v else None | None \<Rightarrow> None)"
    and ok_empty: "ok empty_map"
    and ok_insert: "ok m \<Longrightarrow> ok (insert_kv k v m)"
    and ok_remove: "ok m \<Longrightarrow> ok (remove_k k m)"
    and ok_retain: "ok m \<Longrightarrow> ok (retain_kv P m)"
begin

definition insert_all :: "('k \<times> 'v) list \<Rightarrow> 'm \<Rightarrow> 'm" where
  "insert_all ps m = foldl (\<lambda>m (k, v). insert_kv k v m) m ps"

text \<open>Collecting an iterator of pairs: later pairs override earlier ones.\<close>

lemma get_insert_all: "get (insert_all ps m) k = (case map_of (rev ps) k of None \<Rightarrow> get m k | Some v \<Rightarrow> Some v)"
proof (induction ps arbitrary: m)
  case Nil
  then show ?case by (simp add: insert_all_def)
next
  case (Cons p ps)
  obtain a b where p: "p = (a, b)" by (cases p)
  have "get (insert_all (p # ps) m) k = get (insert_all ps (insert_kv a b m)) k"
    by (simp add: insert_all_def p)
  then show ?case
    by (simp add: Cons.IH p get_insert map_add_Some_iff map_add_def split: option.splits)
qed

lemma ok_insert_all: "ok m \<Longrightarrow> ok (insert_all ps m)"
  by (induction ps arbitrary: m) (auto simp: insert_all_def ok_insert split: prod.splits)

text \<open>A removed or rejected key stays absent; a retained one keeps its value.\<close>

lemma remove_then_get: "ok m \<Longrightarrow> get (remove_k k m) k = None"
  by (simp add: get_remove)

lemma retain_keys: "ok m \<Longrightarrow> get (retain_kv P m) k = Some v \<Longrightarrow> get m k = Some v \<and> P k v"
  by (auto simp: get_retain split: option.splits if_splits)

end

lemma hm_get_retain: "hm_ok m \<Longrightarrow> hm_get (hm_retain P m) k
    = (case hm_get m k of Some v \<Rightarrow> if P k v then Some v else None | None \<Rightarrow> None)"
proof (induction m)
  case Nil
  then show ?case by (simp add: hm_get_def hm_retain_def)
next
  case (Cons p m)
  obtain a b where p: "p = (a, b)" by (cases p)
  have "a \<notin> fst ` set m" and ok: "hm_ok m" using Cons.prems by (auto simp: hm_ok_def p)
  then have "map_of m a = None" "map_of (hm_retain P m) a = None"
    by (auto simp: map_of_eq_None_iff hm_retain_def image_iff)
  with Cons.IH [OF ok] show ?case
    by (auto simp: hm_get_def hm_retain_def p split: option.splits)
qed

interpretation hm: hash_map hm_get hm_insert hm_remove hm_retain hm_ok "[]"
proof
  fix k k' :: 'k and v :: 'v and m :: "('k \<times> 'v) list" and P
  show "hm_get [] k = (None :: 'v option)" by (simp add: hm_get_def)
  show "hm_get (hm_insert k v m) k' = (if k' = k then Some v else hm_get m k')"
    by (simp add: hm_get_def hm_insert_def update_conv')
  show "hm_get (hm_remove k m) k' = (if k' = k then None else hm_get m k')"
    by (simp add: hm_get_def hm_remove_def delete_conv')
  show "hm_ok m \<Longrightarrow> hm_get (hm_retain P m) k'
      = (case hm_get m k' of Some v \<Rightarrow> if P k' v then Some v else None | None \<Rightarrow> None)"
    by (rule hm_get_retain)
  show "hm_ok ([] :: ('k \<times> 'v) list)" by (simp add: hm_ok_def)
  show "hm_ok m \<Longrightarrow> hm_ok (hm_insert k v m)" by (simp add: hm_ok_def hm_insert_def distinct_update)
  show "hm_ok m \<Longrightarrow> hm_ok (hm_remove k m)" by (simp add: hm_ok_def hm_remove_def distinct_delete)
  show "hm_ok m \<Longrightarrow> hm_ok (hm_retain P m)"
    by (auto simp: hm_ok_def hm_retain_def distinct_map_filter)
qed

lemma hm_collect_insert_all: "hm_collect ps = hm.insert_all ps []"
  by (simp add: hm_collect_def hm.insert_all_def)

lemma hm_ok_collect: "hm_ok (hm_collect ps)"
  by (simp add: hm_collect_insert_all hm.ok_insert_all hm.ok_empty)

lemma hm_get_collect: "hm_get (hm_collect ps) k = map_of (rev ps) k"
  by (simp add: hm_collect_insert_all hm.get_insert_all hm.get_empty split: option.splits)

lemma hm_get_mem: "hm_get m k = Some v \<Longrightarrow> (k, v) \<in> set m"
  by (simp add: hm_get_def map_of_SomeD)

lemma hm_mem_get: "hm_ok m \<Longrightarrow> (k, v) \<in> set m \<Longrightarrow> hm_get m k = Some v"
  by (simp add: hm_get_def hm_ok_def)

lemma hm_collect_subset: "set (hm_collect ps) \<subseteq> set ps"
proof
  fix x assume x: "x \<in> set (hm_collect ps)"
  obtain k v where kv: "x = (k, v)" by (cases x)
  then have "map_of (rev ps) k = Some v"
    using x hm_mem_get [OF hm_ok_collect, of k v ps] by (simp add: hm_get_collect)
  then show "x \<in> set ps" using map_of_SomeD [of "rev ps" k v] kv by simp
qed

lemma hm_insert_absent: "k \<notin> fst ` set m \<Longrightarrow> hm_insert k v m = m @ [(k, v)]"
  unfolding hm_insert_def by (induction m) auto

lemma hm_remove_filter: "hm_remove k m = filter (\<lambda>p. fst p \<noteq> k) m"
  by (auto simp: hm_remove_def AList.delete_eq intro!: filter_cong)

lemma hm_collect_ok: "hm_ok m \<Longrightarrow> hm_collect m = m"
proof (induction m rule: rev_induct)
  case Nil
  then show ?case by (simp add: hm_collect_def)
next
  case (snoc p m)
  obtain k v where p: "p = (k, v)" by (cases p)
  have "hm_ok m" "k \<notin> fst ` set m" using snoc.prems by (auto simp: hm_ok_def p)
  with snoc.IH show ?case by (simp add: hm_collect_def p hm_insert_absent)
qed

end
