(* ===== verification/Addresses.thy ===== *)
theory Addresses
  imports Errors Hash_Maps
begin

text \<open>
  \<open>rust/src/common/address\<close>: the collection of addresses a driver is configured with, either a
  list or a translation from public to private addresses, and the translation it induces.
  \<open>Address::from_str\<close>, the data types and their textual forms are in \<open>Common_Data\<close> and
  \<open>Errors\<close>.
\<close>

section \<open>Operations\<close>

definition with_scheme :: "http_lib \<Rightarrow> address \<Rightarrow> string \<Rightarrow> (address, 'e) result" where
  "with_scheme http a new_scheme =
     (let parts = (into_uri a)\<lparr>scheme := Some new_scheme\<rparr>;
          parts = (if path_and_query parts = None
                   then parts\<lparr>path_and_query := Some default_path\<rparr> else parts)
      in map_ok Address (unwrap (from_parts_uri http parts)))"

datatype address_translation = Mapping "(address \<times> address) list"

definition to_private :: "address_translation \<Rightarrow> address \<Rightarrow> address option" where
  "to_private t a = (case t of Mapping m \<Rightarrow> hm_get m a)"

definition to_public :: "address_translation \<Rightarrow> address \<Rightarrow> address option" where
  "to_public t a =
     (case t of Mapping m \<Rightarrow> map_option fst (List.find (\<lambda>(_, private). private = a) m))"

definition from_address :: "address \<Rightarrow> addresses" where
  "from_address a = Direct [a]"

definition try_from_address_str :: "http_lib \<Rightarrow> string \<Rightarrow> (addresses, error) result" where
  "try_from_address_str http s = map_ok from_address (address_from_str http s)"

definition from_addresses :: "address list \<Rightarrow> addresses" where
  "from_addresses as = Direct as"

definition try_from_addresses_str :: "http_lib \<Rightarrow> string list \<Rightarrow> (addresses, error) result" where
  "try_from_addresses_str http ss = map_ok from_addresses (try_map (address_from_str http) ss)"

definition from_translation :: "(address \<times> address) list \<Rightarrow> addresses" where
  "from_translation m = Translated m"

fun insert_translations ::
    "http_lib \<Rightarrow> (string \<times> string) list \<Rightarrow> (address \<times> address) list \<Rightarrow>
     ((address \<times> address) list, error) result" where
  "insert_translations http [] m = Ok m"
| "insert_translations http ((k, v) # ps) m =
     and_then (address_from_str http k) (\<lambda>a. and_then (address_from_str http v) (\<lambda>b.
       insert_translations http ps (hm_insert a b m)))"

definition try_from_translation_str :: "http_lib \<Rightarrow> (string \<times> string) list \<Rightarrow> (addresses, error) result" where
  "try_from_translation_str http m = map_ok from_translation (insert_translations http m [])"

definition addresses_len :: "addresses \<Rightarrow> nat" where
  "addresses_len as = (case as of Direct v \<Rightarrow> length v | Translated m \<Rightarrow> length m)"

definition addresses_contains :: "addresses \<Rightarrow> address \<Rightarrow> bool" where
  "addresses_contains as a =
     (case as of Direct v \<Rightarrow> a \<in> set v | Translated m \<Rightarrow> hm_get m a \<noteq> None)"

definition addresses_iter :: "addresses \<Rightarrow> address list" where
  "addresses_iter as = (case as of Direct v \<Rightarrow> v | Translated m \<Rightarrow> map fst m)"

definition to_address_translation :: "addresses \<Rightarrow> address_translation" where
  "to_address_translation as =
     (case as of
        Direct v \<Rightarrow> Mapping (hm_collect (map (\<lambda>a. (a, a)) v))
      | Translated m \<Rightarrow> Mapping m)"

definition exclude_addresses :: "addresses \<Rightarrow> addresses \<Rightarrow> addresses" where
  "exclude_addresses as excluded =
     (case as of
        Direct v \<Rightarrow> Direct (filter (addresses_contains excluded) v)
      | Translated m \<Rightarrow> Translated (hm_retain (\<lambda>a _. addresses_contains excluded a) m))"

section \<open>Well-formedness\<close>

definition addresses_ok :: "addresses \<Rightarrow> bool" where
  "addresses_ok as = (case as of Direct _ \<Rightarrow> True | Translated m \<Rightarrow> hm_ok m)"

definition translation_ok :: "address_translation \<Rightarrow> bool" where
  "translation_ok t = (case t of Mapping m \<Rightarrow> hm_ok m)"

lemma insert_translations_ok:
  "insert_translations http ps m = Ok m' \<Longrightarrow> hm_ok m \<Longrightarrow> hm_ok m'"
  by (induction http ps m rule: insert_translations.induct) (auto simp: result_eqs hm.ok_insert)

lemma try_from_translation_str_ok: "try_from_translation_str http m = Ok as \<Longrightarrow> addresses_ok as"
  by (auto simp: try_from_translation_str_def from_translation_def addresses_ok_def result_eqs
      dest: insert_translations_ok intro: hm.ok_empty)

lemma translation_ok_addresses: "addresses_ok as \<Longrightarrow> translation_ok (to_address_translation as)"
  by (simp add: translation_ok_def to_address_translation_def addresses_ok_def hm_ok_collect
      split: addresses.splits)

section \<open>Translation\<close>

lemma to_public_SomeD: "to_public (Mapping m) b = Some a \<Longrightarrow> (a, b) \<in> set m"
  by (auto simp: to_public_def find_Some_iff) (metis nth_mem)

lemma to_public_None: "to_public (Mapping m) b = None \<longleftrightarrow> b \<notin> snd ` set m"
  by (force simp: to_public_def find_None_iff)

text \<open>
  Going to the public side and back always returns to the same private address; the other way round
  needs the private addresses to be distinct, since the search returns the first match.
\<close>

lemma to_private_to_public:
  "translation_ok t \<Longrightarrow> to_public t b = Some a \<Longrightarrow> to_private t a = Some b"
  by (cases t) (auto simp: translation_ok_def to_private_def dest!: to_public_SomeD intro: hm_mem_get)

lemma to_public_to_private:
  assumes "translation_ok (Mapping m)" "distinct (map snd m)" "to_private (Mapping m) a = Some b"
  shows "to_public (Mapping m) b = Some a"
proof -
  have ab: "(a, b) \<in> set m" using assms(3) by (simp add: to_private_def hm_get_mem)
  then obtain a' where a': "to_public (Mapping m) b = Some a'"
    using to_public_None [of m b] by (cases "to_public (Mapping m) b") force+
  then have "(a', b) \<in> set m" by (rule to_public_SomeD)
  with ab assms(2) have "a' = a" by (force simp: distinct_map inj_on_def)
  with a' show ?thesis by simp
qed

lemma to_private_direct: "to_private (to_address_translation (Direct v)) a = (if a \<in> set v then Some a else None)"
proof -
  have "map_of (rev (map (\<lambda>a. (a, a)) v)) a = (if a \<in> set v then Some a else None)"
    by (induction v rule: rev_induct) auto
  then show ?thesis by (simp add: to_private_def to_address_translation_def hm_get_collect)
qed

text \<open>The translation knows exactly the configured public addresses.\<close>

lemma to_private_domain:
  "(to_private (to_address_translation as) a \<noteq> None) = addresses_contains as a"
proof (cases as)
  case (Direct v)
  then show ?thesis by (simp only: to_private_direct) (simp add: addresses_contains_def)
next
  case (Translated m)
  then show ?thesis by (simp add: to_private_def to_address_translation_def addresses_contains_def)
qed

lemma addresses_contains_iter: "addresses_ok as \<Longrightarrow> addresses_contains as a = (a \<in> set (addresses_iter as))"
  by (auto simp: addresses_contains_def addresses_iter_def hm_get_def map_of_eq_None_iff
      split: addresses.splits)

lemma exclude_addresses_contains:
  "addresses_ok as \<Longrightarrow> addresses_contains (exclude_addresses as excluded) a
     = (addresses_contains as a \<and> addresses_contains excluded a)"
  by (cases as)
    (auto simp: exclude_addresses_def addresses_contains_def [of "Direct _"]
      addresses_contains_def [of "Translated _"] addresses_ok_def hm_get_retain split: option.splits)

section \<open>Properties\<close>

text \<open>
  C33: the translation of a configured set of addresses is consistent.  Every private address that
  translates to a public one is what that public address translates to; a public address is known
  exactly when it was configured; and if no private address is used twice, the two translations are
  inverse to each other.
\<close>

theorem address_translation_consistent:
  assumes "addresses_ok as" "to_address_translation as = Mapping m"
  shows "(to_public (Mapping m) b = Some a \<longrightarrow> to_private (Mapping m) a = Some b)
    \<and> (to_private (Mapping m) a \<noteq> None \<longleftrightarrow> a \<in> set (addresses_iter as))
    \<and> (distinct (map snd m) \<longrightarrow>
         (to_private (Mapping m) a = Some b \<longleftrightarrow> to_public (Mapping m) b = Some a))"
proof -
  have ok: "translation_ok (Mapping m)"
    using translation_ok_addresses [OF assms(1)] assms(2) by simp
  show ?thesis
    using to_private_to_public [OF ok] to_public_to_private [OF ok] to_private_domain [of as a]
      addresses_contains_iter [OF assms(1)] assms(2)
    by (metis (no_types, lifting))
qed

definition sample_address :: "string \<Rightarrow> address" where
  "sample_address s = Address \<lparr>scheme = None, authority = Some s, path_and_query = None\<rparr>"

theorem address_translation_consistent_witness:
  "to_private (Mapping [(sample_address ''ext:1'', sample_address ''int:1'')]) (sample_address ''ext:1'')
     = Some (sample_address ''int:1'')"
  using address_translation_consistent
    [of "Translated [(sample_address ''ext:1'', sample_address ''int:1'')]"
      "[(sample_address ''ext:1'', sample_address ''int:1'')]"
      "sample_address ''int:1''" "sample_address ''ext:1''"]
  by (simp add: addresses_ok_def hm_ok_def to_address_translation_def to_public_def)

text \<open>
  C12: \<open>exclude_addresses\<close> keeps exactly the addresses that are in the excluded collection, the
  opposite of what its name and its parameter say.
\<close>

theorem exclude_addresses_keeps_the_excluded:
  assumes "addresses_ok as"
  shows "addresses_contains (exclude_addresses as excluded) a
    \<longleftrightarrow> addresses_contains as a \<and> addresses_contains excluded a"
  using assms by (rule exclude_addresses_contains)

theorem exclude_addresses_keeps_the_excluded_witness:
  "addresses_contains (exclude_addresses (Direct [sample_address ''a:1'', sample_address ''b:1''])
      (Direct [sample_address ''a:1''])) (sample_address ''a:1'')
   \<and> \<not> addresses_contains (exclude_addresses (Direct [sample_address ''a:1'', sample_address ''b:1''])
      (Direct [sample_address ''a:1''])) (sample_address ''b:1'')"
  using exclude_addresses_keeps_the_excluded
    [of "Direct [sample_address ''a:1'', sample_address ''b:1'']" "Direct [sample_address ''a:1'']"]
  by (simp add: addresses_ok_def addresses_contains_def [of "Direct [_]"]
      addresses_contains_def [of "Direct [_, _]"] sample_address_def)

end
