(* ===== verification/Effects.thy ===== *)
theory Effects
  imports Errors
begin

text \<open>
  Fallible operations on a state.  An operation takes the state and returns a result with the new state,
  whatever the result is; the operator \<open>?\<close> of the code is \<open>io_then\<close>.
\<close>

type_synonym ('s, 'a) io = "'s \<Rightarrow> ('a, error) result \<times> 's"

definition io_then :: "('a, error) result \<times> 's \<Rightarrow> ('a \<Rightarrow> ('s, 'b) io) \<Rightarrow> ('b, error) result \<times> 's" where
  "io_then x f =
     (case x of
        (Ok a, s) \<Rightarrow> f a s
      | (Err e, s) \<Rightarrow> (Err e, s)
      | (Panic, s) \<Rightarrow> (Panic, s))"

text \<open>The combinators \<open>map\<close> and \<open>and_then\<close> on the result.\<close>

definition io_map :: "('a \<Rightarrow> 'b) \<Rightarrow> ('a, error) result \<times> 's \<Rightarrow> ('b, error) result \<times> 's" where
  "io_map f x = (map_ok f (fst x), snd x)"

definition io_and_then :: "('a, error) result \<times> 's \<Rightarrow> ('a \<Rightarrow> ('b, error) result) \<Rightarrow> ('b, error) result \<times> 's" where
  "io_and_then x f = (and_then (fst x) f, snd x)"

lemma io_then_simps [simp]:
  "io_then (Ok a, s) f = f a s" "io_then (Err e, s) f = (Err e, s)" "io_then (Panic, s) f = (Panic, s)"
  by (simp_all add: io_then_def)

lemma io_map_simps [simp]: "io_map f (r, s) = (map_ok f r, s)"
  by (simp add: io_map_def)

lemma io_and_then_simps [simp]: "io_and_then (r, s) f = (and_then r f, s)"
  by (simp add: io_and_then_def)

lemma io_then_Ok:
  "io_then x f = (Ok b, s') \<longleftrightarrow> (\<exists>a s. x = (Ok a, s) \<and> f a s = (Ok b, s'))"
  by (cases x; cases "fst x") auto

lemma io_then_Err:
  "io_then x f = (Err e, s') \<longleftrightarrow> x = (Err e, s') \<or> (\<exists>a s. x = (Ok a, s) \<and> f a s = (Err e, s'))"
  by (cases x; cases "fst x") auto

text \<open>
  What an operation does to the state, as a relation that is reflexive and transitive, passes through the
  combinators.
\<close>

lemma io_then_keeps:
  assumes "P s (snd x)" "\<And>a s'. x = (Ok a, s') \<Longrightarrow> P s s' \<Longrightarrow> P s (snd (f a s'))"
  shows "P s (snd (io_then x f))"
  using assms by (cases x; cases "fst x") auto

end
