(* ===== verification/Servers.thy ===== *)
theory Servers
  imports Addresses
begin

text \<open>
  \<open>rust/src/connection/server/mod.rs\<close>, \<open>server_routing.rs\<close>, \<open>server_version.rs\<close> and
  \<open>network/proto/server.rs\<close>: the servers of a cluster as the driver sees them, routing directives,
  and reading them from the protocol's messages.
\<close>

section \<open>Servers\<close>

definition default_server_id :: u64 where
  "default_server_id = 0"

datatype replication_role = Primary | Candidate | Secondary

record replication_status =
  status_id :: u64
  status_role :: "replication_role option"
  status_term :: "u64 option"

definition replication_status_default :: replication_status where
  "replication_status_default = \<lparr>status_id = default_server_id, status_role = None, status_term = None\<rparr>"

record available_server =
  private_address :: address
  public_address :: "address option"
  available_status :: "replication_status option"

datatype server = Available available_server | Unavailable "replication_status option"

definition available_from_private :: "address \<Rightarrow> replication_status option \<Rightarrow> available_server" where
  "available_from_private a st = \<lparr>private_address = a, public_address = None, available_status = st\<rparr>"

definition server_available_from_private :: "address \<Rightarrow> replication_status option \<Rightarrow> server" where
  "server_available_from_private a st = Available (available_from_private a st)"

definition available_translated :: "address_translation \<Rightarrow> available_server \<Rightarrow> available_server" where
  "available_translated t s =
     (case to_public t (private_address s) of
        Some a \<Rightarrow> s\<lparr>public_address := Some a\<rparr>
      | None \<Rightarrow> s)"

definition server_translated :: "address_translation \<Rightarrow> server \<Rightarrow> server" where
  "server_translated t s =
     (case s of Available a \<Rightarrow> Available (available_translated t a) | Unavailable st \<Rightarrow> Unavailable st)"

definition available_address :: "available_server \<Rightarrow> address" where
  "available_address s = (case public_address s of Some a \<Rightarrow> a | None \<Rightarrow> private_address s)"

definition server_replication_status :: "server \<Rightarrow> replication_status option" where
  "server_replication_status s = (case s of Available a \<Rightarrow> available_status a | Unavailable st \<Rightarrow> st)"

definition server_address :: "server \<Rightarrow> address option" where
  "server_address s = (case s of Available a \<Rightarrow> Some (available_address a) | Unavailable _ \<Rightarrow> None)"

text \<open>The trait \<open>Replica\<close>, for servers and for available servers.\<close>

definition replica_id :: "replication_status option \<Rightarrow> u64" where
  "replica_id st = (case st of Some s \<Rightarrow> status_id s | None \<Rightarrow> default_server_id)"

definition replica_role :: "replication_status option \<Rightarrow> replication_role option" where
  "replica_role st = Option.bind st status_role"

definition replica_is_primary :: "replication_status option \<Rightarrow> bool" where
  "replica_is_primary st \<longleftrightarrow> replica_role st = Some Primary"

definition replica_term :: "replication_status option \<Rightarrow> u64 option" where
  "replica_term st = Option.bind st status_term"

definition available_is_primary :: "available_server \<Rightarrow> bool" where
  "available_is_primary s = replica_is_primary (available_status s)"

definition available_term :: "available_server \<Rightarrow> u64 option" where
  "available_term s = replica_term (available_status s)"

section \<open>Routing and versions\<close>

datatype server_routing = Auto | DirectTo address

definition server_routing_display :: "server_routing \<Rightarrow> (string, error) result" where
  "server_routing_display r =
     (case r of
        Auto \<Rightarrow> Ok ''Auto''
      | DirectTo a \<Rightarrow> map_ok (\<lambda>t. ''Direct('' @ t @ '')'') (address_display a))"

record server_version =
  distribution :: string
  version :: string

definition server_version_display :: "server_version \<Rightarrow> string" where
  "server_version_display v = distribution v @ '' '' @ version v"

section \<open>Messages\<close>

datatype replication_status_proto = ReplicationStatusProto u64 "i32 option" "u64 option"

datatype server_proto = ServerProto "string option" "replication_status_proto option"

datatype version_proto = VersionProto string string

definition replication_role_from_proto :: "i32 option \<Rightarrow> (replication_role option, error) result" where
  "replication_role_from_proto r =
     (case r of
        None \<Rightarrow> Ok None
      | Some k \<Rightarrow>
          if k = 0 then Ok (Some Primary) else if k = 1 then Ok (Some Candidate)
          else if k = 2 then Ok (Some Secondary)
          else Err (Connection (UnexpectedServerReplicationRole k)))"

fun replication_status_from_proto :: "replication_status_proto \<Rightarrow> (replication_status, error) result" where
  "replication_status_from_proto (ReplicationStatusProto i r t) =
     map_ok (\<lambda>role_of. \<lparr>status_id = i, status_role = role_of, status_term = t\<rparr>)
       (replication_role_from_proto r)"

fun server_from_proto :: "http_lib \<Rightarrow> server_proto \<Rightarrow> (server, error) result" where
  "server_from_proto http (ServerProto addr status_msg) =
     and_then (map_transpose replication_status_from_proto status_msg) (\<lambda>st.
       case addr of
         Some a \<Rightarrow> map_ok (\<lambda>a. server_available_from_private a st) (address_from_str http a)
       | None \<Rightarrow> Ok (Unavailable st))"

fun server_version_from_proto :: "version_proto \<Rightarrow> (server_version, error) result" where
  "server_version_from_proto (VersionProto d v) = Ok \<lparr>distribution = d, version = v\<rparr>"

end
