(* ===== verification/Decimals.thy ===== *)
theory Decimals
  imports Errors
begin

text \<open>
  The fixed-point \<open>Decimal\<close> of \<open>rust/src/concept/value.rs\<close>: a signed 64-bit integer part and an
  unsigned number of multiples of \<open>10\<^sup>-\<^sup>1\<^sup>9\<close>.  Its arithmetic, order, parser and printer, with the
  number a decimal stands for (\<open>decimal_scaled\<close>, in units of \<open>10\<^sup>-\<^sup>1\<^sup>9\<close>) as the specification.
\<close>

section \<open>The type\<close>

datatype decimal = Decimal (integer: i64) (fractional: u64)

definition frac_log10 :: nat where
  "frac_log10 = 19"

definition frac_denominator :: u64 where
  "frac_denominator = 10000000000000000000"

definition from_parts :: "i64 \<Rightarrow> u64 \<Rightarrow> (decimal, error) result" where
  "from_parts i f = (if f < frac_denominator then Ok (Decimal i f) else Panic)"

definition decimal_default :: decimal where
  "decimal_default = Decimal 0 0"

definition decimal_min :: decimal where
  "decimal_min = Decimal (word_of_int (- (2 ^ 63))) 0"

definition decimal_max :: decimal where
  "decimal_max = Decimal (word_of_int (2 ^ 63 - 1)) (frac_denominator - 1)"

text \<open>The derived order compares the integer parts (signed) and then the fractions.\<close>

text \<open>The derived order compares the integer parts first.\<close>

definition decimal_less_eq :: "decimal \<Rightarrow> decimal \<Rightarrow> bool" where
  "decimal_less_eq a b \<longleftrightarrow> sint (integer a) < sint (integer b)
     \<or> (sint (integer a) = sint (integer b) \<and> fractional a \<le> fractional b)"

definition decimal_less :: "decimal \<Rightarrow> decimal \<Rightarrow> bool" where
  "decimal_less a b \<longleftrightarrow> sint (integer a) < sint (integer b)
     \<or> (sint (integer a) = sint (integer b) \<and> fractional a < fractional b)"

instantiation decimal :: linorder
begin

definition less_eq_decimal :: "decimal \<Rightarrow> decimal \<Rightarrow> bool" where
  "less_eq_decimal = decimal_less_eq"

definition less_decimal :: "decimal \<Rightarrow> decimal \<Rightarrow> bool" where
  "less_decimal = decimal_less"

lemmas decimal_order_defs = less_eq_decimal_def less_decimal_def decimal_less_eq_def decimal_less_def

instance
proof
  fix x y z :: decimal
  show "x < y \<longleftrightarrow> x \<le> y \<and> \<not> y \<le> x"
    by (auto simp: decimal_order_defs)
  show "x \<le> x" by (simp add: decimal_order_defs)
  show "x \<le> y \<Longrightarrow> y \<le> z \<Longrightarrow> x \<le> z" by (auto simp: decimal_order_defs)
  show "x \<le> y \<Longrightarrow> y \<le> x \<Longrightarrow> x = y"
    by (cases x; cases y) (auto simp: decimal_order_defs intro: signed_word_eqI)
  show "x \<le> y \<or> y \<le> x" by (auto simp: decimal_order_defs)
qed

end

section \<open>Arithmetic\<close>

definition overflowing_add :: "u64 \<Rightarrow> u64 \<Rightarrow> u64 \<times> bool" where
  "overflowing_add a b = (a + b, unat a + unat b \<ge> 2 ^ 64)"

definition overflowing_sub :: "u64 \<Rightarrow> u64 \<Rightarrow> u64 \<times> bool" where
  "overflowing_sub a b = (a - b, a < b)"

text \<open>The fraction of a sum with its carry, and the correction of an overflow past \<open>2\<^sup>6\<^sup>4\<close>.\<close>

definition add_fraction :: "bool \<Rightarrow> u64 \<Rightarrow> u64 \<Rightarrow> (u64 \<times> i64, error) result" where
  "add_fraction oc f g =
     (case overflowing_add f g of (frac, overflow) \<Rightarrow>
        if \<not> overflow \<and> frac < frac_denominator then Ok (frac, 0)
        else if overflow \<and> frac < frac_denominator then
          map_ok (\<lambda>f. (f, 1)) (uadd oc frac (0 - frac_denominator))
        else if \<not> overflow then map_ok (\<lambda>f. (f, 1)) (usub oc frac frac_denominator)
        else Panic)"

definition decimal_add :: "bool \<Rightarrow> decimal \<Rightarrow> decimal \<Rightarrow> (decimal, error) result" where
  "decimal_add oc lhs rhs =
     and_then (add_fraction oc (fractional lhs) (fractional rhs)) (\<lambda>(frac, carry).
       and_then (sadd oc (integer lhs) (integer rhs)) (\<lambda>i.
       and_then (sadd oc i carry) (\<lambda>i. from_parts i frac)))"

definition decimal_sub :: "bool \<Rightarrow> decimal \<Rightarrow> decimal \<Rightarrow> (decimal, error) result" where
  "decimal_sub oc lhs rhs =
     (case overflowing_sub (fractional lhs) (fractional rhs) of (frac, overflow) \<Rightarrow>
        (let (frac, carry) = (if overflow then (frac + frac_denominator, 1) else (frac, 0)) in
         and_then (ssub oc (integer lhs) (integer rhs)) (\<lambda>i.
           and_then (ssub oc i carry) (\<lambda>i. from_parts i frac))))"

definition decimal_neg :: "bool \<Rightarrow> decimal \<Rightarrow> (decimal, error) result" where
  "decimal_neg oc d = decimal_sub oc decimal_default d"

section \<open>Parsing and printing\<close>

definition parsing_error :: "string \<Rightarrow> string \<Rightarrow> error" where
  "parsing_error unparsed reason = Concept (ErrorParsingDecimal unparsed reason)"

text \<open>The part after the sign: two integers around the first dot, the second scaled up.\<close>

definition parse_magnitude :: "bool \<Rightarrow> string \<Rightarrow> (decimal, error) result" where
  "parse_magnitude oc str =
     (let (integer_part, fractional_part) =
            (case split_once CHR ''.'' str of Some p \<Rightarrow> p | None \<Rightarrow> (str, ''0''))
      in and_then (map_err (\<lambda>k. parsing_error str (''Error parsing integer part: '' @ int_error_text k))
             (parse_i64 integer_part)) (\<lambda>i.
         and_then (map_err (\<lambda>k. parsing_error str (''Error parsing integer part: '' @ int_error_text k))
             (parse_u64 fractional_part)) (\<lambda>parsed_fractional.
         (let num_fractional_digits = length fractional_part mod 2 ^ 32 in
          if num_fractional_digits > frac_log10 then
            Err (parsing_error str ''The value cannot be parsed without a loss of precision'')
          else
            and_then (upow oc 10 (frac_log10 - num_fractional_digits)) (\<lambda>scale.
            and_then (umul oc parsed_fractional scale) (\<lambda>f. from_parts i f))))))"

definition strip_dec_suffix :: "string \<Rightarrow> string" where
  "strip_dec_suffix str = (if ends_with ''dec'' str then trim_end_matches ''dec'' str else str)"

definition decimal_from_str :: "bool \<Rightarrow> string \<Rightarrow> (decimal, error) result" where
  "decimal_from_str oc str0 =
     (let str1 = strip_dec_suffix str0;
          (str, is_negative) =
            (if starts_with ''-'' str1 then (drop 1 str1, True)
             else if starts_with ''+'' str1 then (drop 1 str1, False)
             else (str1, False))
      in and_then (parse_magnitude oc str) (\<lambda>d.
           if is_negative then decimal_neg oc d else Ok d))"

text \<open>The loop that drops trailing zeros; it is entered with a non-zero fraction only.\<close>

function strip_zeros :: "nat \<Rightarrow> nat \<Rightarrow> nat \<times> nat" where
  "strip_zeros tail_0s frac =
     (if 0 < frac \<and> frac mod 10 = 0 then strip_zeros (tail_0s + 1) (frac div 10)
      else (tail_0s, frac))"
  by pat_completeness auto
termination
  by (relation "measure (\<lambda>(t, f). f)") auto

declare strip_zeros.simps [simp del]

definition decimal_display :: "decimal \<Rightarrow> string" where
  "decimal_display d =
     (if fractional d = 0 then show_int (sint (integer d)) @ ''.0''
      else
        (let (tail_0s, frac) = strip_zeros 0 (unat (fractional d));
             fractional_width = frac_log10 - tail_0s
         in show_int (sint (integer d)) @ ''.'' @ pad0 fractional_width (show_nat frac) @ ''dec''))"

section \<open>The number a decimal stands for\<close>

definition decimal_ok :: "decimal \<Rightarrow> bool" where
  "decimal_ok d \<longleftrightarrow> fractional d < frac_denominator"

definition decimal_scaled :: "decimal \<Rightarrow> int" where
  "decimal_scaled d = sint (integer d) * 10 ^ 19 + uint (fractional d)"

lemma frac_denominator_uint [simp]: "uint frac_denominator = 10 ^ 19"
  by (simp add: frac_denominator_def)

lemma frac_less_iff: "f < frac_denominator \<longleftrightarrow> uint f < 10 ^ 19"
  by (simp add: word_less_def)

lemma decimal_ok_uint: "decimal_ok d \<longleftrightarrow> uint (fractional d) < 10 ^ 19"
  by (simp add: decimal_ok_def frac_less_iff)

lemma from_parts_Ok: "from_parts i f = Ok d \<longleftrightarrow> d = Decimal i f \<and> decimal_ok d"
  by (auto simp: from_parts_def decimal_ok_def)

lemma from_parts_ok: "uint f < 10 ^ 19 \<Longrightarrow> from_parts i f = Ok (Decimal i f)"
  by (simp add: from_parts_def frac_less_iff)

lemma scaled_less:
  fixes i j f g :: int
  assumes "0 \<le> f" "f < 10 ^ 19" "0 \<le> g" "g < 10 ^ 19"
  shows "i * 10 ^ 19 + f < j * 10 ^ 19 + g \<longleftrightarrow> i < j \<or> i = j \<and> f < g"
  using assms by (cases i j rule: linorder_cases) auto

lemma scaled_eq:
  fixes i j f g :: int
  assumes "0 \<le> f" "f < 10 ^ 19" "0 \<le> g" "g < 10 ^ 19"
  shows "i * 10 ^ 19 + f = j * 10 ^ 19 + g \<longleftrightarrow> i = j \<and> f = g"
  using assms by (cases i j rule: linorder_cases) auto

lemma decimal_scaled_inj:
  assumes "decimal_ok a" "decimal_ok b" "decimal_scaled a = decimal_scaled b"
  shows "a = b"
proof -
  have "sint (integer a) = sint (integer b) \<and> uint (fractional a) = uint (fractional b)"
    using assms scaled_eq [of "uint (fractional a)" "uint (fractional b)"]
    unfolding decimal_scaled_def decimal_ok_uint by simp
  then show ?thesis
    by (cases a; cases b) (auto intro: signed_word_eqI word_uint_eqI)
qed

lemma decimal_less_iff:
  assumes "decimal_ok a" "decimal_ok b"
  shows "a < b \<longleftrightarrow> decimal_scaled a < decimal_scaled b"
  using assms scaled_less [of "uint (fractional a)" "uint (fractional b)"]
  unfolding decimal_scaled_def decimal_ok_uint decimal_order_defs word_less_def by simp

section \<open>Addition, subtraction and negation\<close>

text \<open>Range of a value that a decimal can hold, and reduction to that range by the wrap-around.\<close>

definition decimal_range :: "int \<Rightarrow> bool" where
  "decimal_range v \<longleftrightarrow> - (2 ^ 63) * 10 ^ 19 \<le> v \<and> v < 2 ^ 63 * 10 ^ 19"

lemma decimal_range_fits:
  assumes "0 \<le> f" "f < 10 ^ 19"
  shows "decimal_range (i * 10 ^ 19 + f) \<longleftrightarrow> fits_signed 64 i"
  using assms by (auto simp: decimal_range_def fits_signed_def)

text \<open>
  The fraction of a sum: whatever branch of the code computes it, it is exact with the carry, and
  neither the \<open>unreachable!\<close> branch nor an overflow of the correction is possible.
\<close>

lemma uint_plus_overflow: "uint (f + g :: u64) = (if uint f + uint g < 2 ^ 64 then uint f + uint g
    else uint f + uint g - 2 ^ 64)"
  using uint_bounded [of f] uint_bounded [of g] by (simp add: uint_plus_if')

lemma uint_minus_overflow: "uint (f - g :: u64) = (if uint g \<le> uint f then uint f - uint g
    else uint f - uint g + 2 ^ 64)"
  by (simp add: uint_sub_if')

lemma unat_sum_overflow: "unat f + unat g \<ge> 2 ^ 64 \<longleftrightarrow> uint (f::u64) + uint (g::u64) \<ge> 2 ^ 64"
proof -
  have "int (unat f + unat g) = uint f + uint g" by simp
  then show ?thesis unfolding of_nat_le_iff [symmetric, where 'a = int] by simp
qed

lemma add_fraction_exact:
  assumes "uint f < 10 ^ 19" "uint g < 10 ^ 19"
  shows "\<exists>h c. add_fraction oc f g = Ok (h, c) \<and> uint h < 10 ^ 19 \<and> (c = 0 \<or> c = 1)
    \<and> uint f + uint g = uint c * 10 ^ 19 + uint h"
proof (cases "uint f + uint g < 10 ^ 19")
  case True
  then have "uint (f + g) = uint f + uint g" by (simp add: uint_plus_overflow)
  with True show ?thesis
    unfolding add_fraction_def overflowing_add_def unat_sum_overflow by (simp add: frac_less_iff)
next
  case no_carry: False
  show ?thesis
  proof (cases "uint f + uint g < 2 ^ 64")
    case True
    then have s: "uint (f + g) = uint f + uint g" by (simp add: uint_plus_overflow)
    with no_carry have "frac_denominator \<le> f + g" by (simp add: word_le_def)
    moreover have "uint (f + g - frac_denominator) = uint f + uint g - 10 ^ 19"
      using s no_carry by (simp add: uint_minus_overflow)
    ultimately show ?thesis
      using s True no_carry assms
      unfolding add_fraction_def overflowing_add_def unat_sum_overflow
      by (simp add: usub_def frac_less_iff)
  next
    case False
    then have s: "uint (f + g) = uint f + uint g - 2 ^ 64" by (simp add: uint_plus_overflow)
    have d: "uint (0 - frac_denominator) = 2 ^ 64 - 10 ^ 19" by (simp add: frac_denominator_def)
    have "uint (f + g + (0 - frac_denominator)) = uint f + uint g - 10 ^ 19"
      using assms unfolding uint_plus_overflow [of "f + g"] s d by simp
    moreover have "unat (f + g) + unat (0 - frac_denominator) < 2 ^ 64"
      using s d assms unat_sum_overflow [of "f + g" "0 - frac_denominator"] by simp
    ultimately show ?thesis
      using s False assms
      unfolding add_fraction_def overflowing_add_def unat_sum_overflow
      by (simp add: uadd_def frac_less_iff)
  qed
qed

lemma sub_fraction_exact:
  fixes f g :: u64
  assumes "uint f < 10 ^ 19" "uint g < 10 ^ 19"
  defines "h \<equiv> (if f < g then f - g + frac_denominator else f - g)"
  shows "uint h < 10 ^ 19 \<and> uint f - uint g = uint h - (if f < g then 10 ^ 19 else 0)"
proof (cases "f < g")
  case True
  then have less: "uint f < uint g" by (simp add: word_less_def)
  then have "uint (f - g) = uint f - uint g + 2 ^ 64" by (simp add: uint_minus_overflow)
  moreover from this have "\<not> uint (f - g) + uint frac_denominator < 2 ^ 64"
    using assms(2) uint_ge_0 [of f] unfolding frac_denominator_uint by linarith
  ultimately have "uint (f - g + frac_denominator) = uint f - uint g + 10 ^ 19"
    unfolding uint_plus_overflow [of "f - g"] by simp
  with True less show ?thesis by (simp add: h_def)
next
  case False
  then have "uint g \<le> uint f" by (simp add: word_less_def)
  moreover from this have "uint (f - g) = uint f - uint g" by (simp add: uint_minus_overflow)
  moreover have "uint f - uint g < 10 ^ 19" using assms(1) uint_ge_0 [of g] by linarith
  ultimately show ?thesis using False by (simp add: h_def)
qed

abbreviation decimal_modulus :: int where
  "decimal_modulus \<equiv> 2 ^ 64 * 10 ^ 19"

lemma sint_mod_64: "sint (x :: i64) mod 2 ^ 64 = uint x"
  by (simp add: uint_sint take_bit_eq_mod)

lemma sint_add_mod: "(sint (x + y :: i64) - (sint x + sint y)) mod 2 ^ 64 = 0"
proof -
  have "sint (x + y) mod 2 ^ 64 = (sint x mod 2 ^ 64 + sint y mod 2 ^ 64) mod 2 ^ 64"
    by (simp only: sint_mod_64) (simp add: uint_word_ariths)
  then show ?thesis by (simp add: mod_simps mod_eq_dvd_iff mod_eq_0_iff_dvd)
qed

lemma sint_sub_mod: "(sint (x - y :: i64) - (sint x - sint y)) mod 2 ^ 64 = 0"
proof -
  have "sint (x - y) mod 2 ^ 64 = (sint x mod 2 ^ 64 - sint y mod 2 ^ 64) mod 2 ^ 64"
    by (simp only: sint_mod_64) (simp add: uint_word_ariths)
  then show ?thesis by (simp add: mod_simps mod_eq_dvd_iff mod_eq_0_iff_dvd)
qed

lemma scaled_wraps:
  assumes "(sint i - k) mod 2 ^ 64 = 0"
  shows "decimal_scaled (Decimal i f) mod decimal_modulus = (k * 10 ^ 19 + uint f) mod decimal_modulus"
proof -
  have "2 ^ 64 * 10 ^ 19 dvd (sint i - k) * (10 ^ 19 :: int)"
    using assms by (intro mult_dvd_mono) (auto simp: mod_eq_0_iff_dvd)
  then show ?thesis
    by (simp add: decimal_scaled_def mod_eq_dvd_iff algebra_simps)
qed


text \<open>
  The integer part: \<open>x + y + carry\<close> in two checked steps.  When both steps fit, the result is exact;
  otherwise a checking build panics and a wrapping build is right modulo \<open>2\<^sup>6\<^sup>4\<close>.
\<close>

lemma from_parts_sum:
  assumes "uint h < 10 ^ 19"
  shows "if fits_signed 64 (sint x + sint y) \<and> fits_signed 64 (sint x + sint y + sint (c :: i64))
    then and_then (sadd oc x y) (\<lambda>i. and_then (sadd oc i c) (\<lambda>i. from_parts i h))
      = Ok (Decimal (x + y + c) h) \<and> sint (x + y + c) = sint x + sint y + sint c
    else and_then (sadd oc x y) (\<lambda>i. and_then (sadd oc i c) (\<lambda>i. from_parts i h))
      = (if oc then Panic else Ok (Decimal (x + y + c) h))"
  using assms sint_add_fits [of x y] sint_add_fits [of "x + y" c]
  by (cases oc) (auto simp: sadd_def checked_def from_parts_ok)

lemma from_parts_difference:
  assumes "uint h < 10 ^ 19"
  shows "if fits_signed 64 (sint x - sint y) \<and> fits_signed 64 (sint x - sint y - sint (c :: i64))
    then and_then (ssub oc x y) (\<lambda>i. and_then (ssub oc i c) (\<lambda>i. from_parts i h))
      = Ok (Decimal (x - y - c) h) \<and> sint (x - y - c) = sint x - sint y - sint c
    else and_then (ssub oc x y) (\<lambda>i. and_then (ssub oc i c) (\<lambda>i. from_parts i h))
      = (if oc then Panic else Ok (Decimal (x - y - c) h))"
  using assms sint_sub_fits [of x y] sint_sub_fits [of "x - y" c]
  by (cases oc) (auto simp: ssub_def checked_def from_parts_ok)

lemma decimal_add_spec:
  assumes "decimal_ok a" "decimal_ok b"
  shows "if fits_signed 64 (sint (integer a) + sint (integer b))
      \<and> decimal_range (decimal_scaled a + decimal_scaled b)
    then \<exists>d. decimal_add oc a b = Ok d \<and> decimal_ok d
      \<and> decimal_scaled d = decimal_scaled a + decimal_scaled b
    else if oc then decimal_add oc a b = Panic
    else \<exists>d. decimal_add oc a b = Ok d \<and> decimal_ok d
      \<and> decimal_scaled d mod decimal_modulus = (decimal_scaled a + decimal_scaled b) mod decimal_modulus"
proof -
  obtain h and c :: i64 where hc: "add_fraction oc (fractional a) (fractional b) = Ok (h, c)"
    and h: "uint h < 10 ^ 19" and c: "c = 0 \<or> c = 1"
    and sum: "uint (fractional a) + uint (fractional b) = uint c * 10 ^ 19 + uint h"
    using add_fraction_exact [of "fractional a" "fractional b" oc] assms unfolding decimal_ok_uint by blast
  let ?x = "integer a" and ?y = "integer b"
  have sc: "sint c = uint c" using c by auto
  have scaled: "decimal_scaled a + decimal_scaled b
      = (sint ?x + sint ?y + sint c) * 10 ^ 19 + uint h"
    using sum sc unfolding decimal_scaled_def by (simp add: algebra_simps)
  have range: "decimal_range (decimal_scaled a + decimal_scaled b)
      \<longleftrightarrow> fits_signed 64 (sint ?x + sint ?y + sint c)"
    unfolding scaled using h by (intro decimal_range_fits) simp_all
  have wrap: "decimal_scaled (Decimal (?x + ?y + c) h) mod decimal_modulus
      = (decimal_scaled a + decimal_scaled b) mod decimal_modulus"
    unfolding scaled
  proof (rule scaled_wraps)
    have "sint (?x + ?y + c) - (sint ?x + sint ?y + sint c)
        = (sint (?x + ?y + c) - (sint (?x + ?y) + sint c)) + (sint (?x + ?y) - (sint ?x + sint ?y))"
      by simp
    then show "(sint (?x + ?y + c) - (sint ?x + sint ?y + sint c)) mod 2 ^ 64 = 0"
      using sint_add_mod [of "?x + ?y" c] sint_add_mod [of ?x ?y]
      by (simp only: mod_eq_0_iff_dvd dvd_add)
  qed
  let ?fits = "fits_signed 64 (sint ?x + sint ?y) \<and> fits_signed 64 (sint ?x + sint ?y + sint c)"
    and ?r = "Decimal (?x + ?y + c) h"
  have step: "decimal_add oc a b = (if ?fits \<or> \<not> oc then Ok ?r else Panic)"
    and exact: "?fits \<Longrightarrow> decimal_scaled ?r = decimal_scaled a + decimal_scaled b"
    using from_parts_sum [OF h, of ?x ?y c oc] unfolding scaled decimal_scaled_def [of ?r]
    by (auto simp: decimal_add_def hc split: if_splits)
  have "decimal_ok ?r" using h by (simp add: decimal_ok_uint)
  then show ?thesis unfolding range using step exact wrap by (cases oc) auto
qed

lemma decimal_sub_spec:
  assumes "decimal_ok a" "decimal_ok b"
  shows "if fits_signed 64 (sint (integer a) - sint (integer b))
      \<and> decimal_range (decimal_scaled a - decimal_scaled b)
    then \<exists>d. decimal_sub oc a b = Ok d \<and> decimal_ok d
      \<and> decimal_scaled d = decimal_scaled a - decimal_scaled b
    else if oc then decimal_sub oc a b = Panic
    else \<exists>d. decimal_sub oc a b = Ok d \<and> decimal_ok d
      \<and> decimal_scaled d mod decimal_modulus = (decimal_scaled a - decimal_scaled b) mod decimal_modulus"
proof -
  let ?x = "integer a" and ?y = "integer b"
  define c :: i64 where "c = (if fractional a < fractional b then 1 else 0)"
  define h where "h = (if fractional a < fractional b
    then fractional a - fractional b + frac_denominator else fractional a - fractional b)"
  have h: "uint h < 10 ^ 19"
    and diff: "uint (fractional a) - uint (fractional b) = uint h - sint c * 10 ^ 19"
    using sub_fraction_exact [of "fractional a" "fractional b"] assms
    unfolding decimal_ok_uint h_def c_def by auto
  have scaled: "decimal_scaled a - decimal_scaled b
      = (sint ?x - sint ?y - sint c) * 10 ^ 19 + uint h"
    using diff unfolding decimal_scaled_def by (simp add: algebra_simps)
  have range: "decimal_range (decimal_scaled a - decimal_scaled b)
      \<longleftrightarrow> fits_signed 64 (sint ?x - sint ?y - sint c)"
    unfolding scaled using h by (intro decimal_range_fits) simp_all
  have wrap: "decimal_scaled (Decimal (?x - ?y - c) h) mod decimal_modulus
      = (decimal_scaled a - decimal_scaled b) mod decimal_modulus"
    unfolding scaled
  proof (rule scaled_wraps)
    have "sint (?x - ?y - c) - (sint ?x - sint ?y - sint c)
        = (sint (?x - ?y - c) - (sint (?x - ?y) - sint c)) + (sint (?x - ?y) - (sint ?x - sint ?y))"
      by simp
    then show "(sint (?x - ?y - c) - (sint ?x - sint ?y - sint c)) mod 2 ^ 64 = 0"
      using sint_sub_mod [of "?x - ?y" c] sint_sub_mod [of ?x ?y]
      by (simp only: mod_eq_0_iff_dvd dvd_add)
  qed
  let ?fits = "fits_signed 64 (sint ?x - sint ?y) \<and> fits_signed 64 (sint ?x - sint ?y - sint c)"
    and ?r = "Decimal (?x - ?y - c) h"
  have step: "decimal_sub oc a b = (if ?fits \<or> \<not> oc then Ok ?r else Panic)"
    and exact: "?fits \<Longrightarrow> decimal_scaled ?r = decimal_scaled a - decimal_scaled b"
    using from_parts_difference [OF h, of ?x ?y c oc] unfolding scaled decimal_scaled_def [of ?r]
    by (auto simp: decimal_sub_def overflowing_sub_def c_def h_def split: if_splits)
  have "decimal_ok ?r" using h by (simp add: decimal_ok_uint)
  then show ?thesis unfolding range using step exact wrap by (cases oc) auto
qed

section \<open>Round trip of printing and parsing\<close>

lemma strip_zeros_eval:
  "0 < f \<Longrightarrow> f mod 10 = 0 \<Longrightarrow> strip_zeros t f = strip_zeros (t + 1) (f div 10)"
  "f mod 10 \<noteq> 0 \<Longrightarrow> strip_zeros t f = (t, f)"
  by (subst strip_zeros.simps, simp)+

lemma strip_zeros_spec:
  assumes "0 < f" "strip_zeros t f = (t', f')"
  shows "t \<le> t' \<and> f = f' * 10 ^ (t' - t) \<and> 0 < f'"
  using assms
proof (induction t f rule: strip_zeros.induct)
  case (1 t f)
  show ?case
  proof (cases "f mod 10 = 0")
    case True
    then have "0 < f div 10" using 1(2) by auto
    moreover have "strip_zeros (t + 1) (f div 10) = (t', f')"
      using 1(2,3) True by (subst (asm) strip_zeros.simps) simp
    ultimately have IH: "t + 1 \<le> t'" "f div 10 = f' * 10 ^ (t' - (t + 1))" "0 < f'"
      using 1(1) 1(2) True by auto
    then have "f = f' * 10 ^ (t' - (t + 1)) * 10" using True by auto
    moreover obtain m where "t' = t + 1 + m" using IH(1) le_Suc_ex by blast
    ultimately show ?thesis using IH by simp
  next
    case False
    then show ?thesis using 1(2,3) by (subst (asm) strip_zeros.simps) auto
  qed
qed

lemma stripped_fraction:
  assumes "0 < f" "f < 10 ^ 19" "strip_zeros 0 f = (t, g)"
  shows "t < 19" "g * 10 ^ t = f" "g < 10 ^ (19 - t)"
proof -
  have fg: "f = g * 10 ^ t" "0 < g" using strip_zeros_spec [OF assms(1,3)] by auto
  then show "g * 10 ^ t = f" by simp
  have "10 ^ t \<le> f" using fg by simp
  with assms(2) have "(10::nat) ^ t < 10 ^ 19" by linarith
  then show t: "t < 19" by (rule power_less_imp_less_exp [rotated]) simp
  have "g * 10 ^ t < 10 ^ (19 - t) * 10 ^ t"
    using assms(2) fg t by (simp flip: power_add)
  then show "g < 10 ^ (19 - t)" by simp
qed

lemma decimal_ok_unat: "decimal_ok d \<longleftrightarrow> unat (fractional d) < 10 ^ 19"
  unfolding decimal_ok_uint of_nat_less_iff [symmetric, where 'a = int] by simp

text \<open>The printed form: sign and integer part, a dot, at most 19 digits, and an optional suffix.\<close>

lemma decimal_display_shape:
  assumes "decimal_ok d"
  obtains fp suffix where
    "decimal_display d = show_int (sint (integer d)) @ ''.'' @ fp @ suffix"
    "fp \<noteq> []" "length fp \<le> 19" "\<forall>c \<in> set fp. is_ascii_digit c"
    "digits_value fp * 10 ^ (19 - length fp) = unat (fractional d)"
    "suffix = [] \<or> suffix = ''dec''"
proof (cases "fractional d = 0")
  case True
  then show ?thesis
    by (intro that [of "''0''" "[]"]) (simp_all add: decimal_display_def)
next
  case False
  obtain t g where tg: "strip_zeros 0 (unat (fractional d)) = (t, g)" by fastforce
  have f: "0 < unat (fractional d)" "unat (fractional d) < 10 ^ 19"
    using False assms by (simp_all add: unat_gt_0 decimal_ok_unat)
  note strip = stripped_fraction [OF f tg]
  have len: "length (pad0 (19 - t) (show_nat g)) = 19 - t"
    using strip by (intro pad0_length show_nat_length_le) auto
  show ?thesis
  proof (rule that [of "pad0 (19 - t) (show_nat g)" "''dec''"])
    show "decimal_display d
        = show_int (sint (integer d)) @ ''.'' @ pad0 (19 - t) (show_nat g) @ ''dec''"
      using False by (simp add: decimal_display_def tg frac_log10_def)
    show "pad0 (19 - t) (show_nat g) \<noteq> []" by (simp add: pad0_def)
    show "length (pad0 (19 - t) (show_nat g)) \<le> 19" using len by simp
    show "\<forall>c \<in> set (pad0 (19 - t) (show_nat g)). is_ascii_digit c"
      by (rule pad0_digits [OF show_nat_digits])
    show "digits_value (pad0 (19 - t) (show_nat g)) * 10 ^ (19 - length (pad0 (19 - t) (show_nat g)))
        = unat (fractional d)"
      using strip by (simp add: len)
  qed simp
qed

lemma strip_dec_suffix_digits:
  assumes "s \<noteq> []" "is_ascii_digit (last s)" "suffix = [] \<or> suffix = ''dec''"
  shows "strip_dec_suffix (s @ suffix) = s"
proof -
  have no: "\<not> ends_with ''dec'' s"
  proof
    assume "ends_with ''dec'' s"
    then obtain r where "s = r @ ''dec''" unfolding ends_with_def by (metis append_take_drop_id)
    then have "last s = CHR ''c''" by simp
    with assms(2) show False by (simp add: is_ascii_digit_def)
  qed
  then have "trim_end_matches ''dec'' s = s" by (subst trim_end_matches.simps) simp
  moreover have "ends_with ''dec'' (s @ ''dec'')" by (simp add: ends_with_def)
  moreover from this have "trim_end_matches ''dec'' (s @ ''dec'') = trim_end_matches ''dec'' s"
    by (subst trim_end_matches.simps) simp
  ultimately show ?thesis using assms(3) no by (auto simp: strip_dec_suffix_def)
qed

lemma parse_i64_digits:
  assumes "s \<noteq> []" "\<forall>c \<in> set s. is_ascii_digit c" "digits_value s < 2 ^ 63"
  shows "parse_i64 s = Ok (of_nat (digits_value s))"
  using parse_int_digits [OF assms(1,2), of "2 ^ 63 - 1" "- (2 ^ 63)"] assms(3)
  by (simp add: parse_i64_def)

lemma parse_magnitude_digits:
  assumes "n < 2 ^ 63" "fp \<noteq> []" "length fp \<le> 19" "\<forall>c \<in> set fp. is_ascii_digit c"
  shows "parse_magnitude oc (show_nat n @ ''.'' @ fp)
    = Ok (Decimal (of_nat n) (of_nat (digits_value fp * 10 ^ (19 - length fp))))"
proof -
  let ?k = "19 - length fp"
  have "\<forall>c \<in> set (show_nat n). c \<noteq> CHR ''.''"
    using show_nat_digits [of n] by (auto simp: is_ascii_digit_def)
  then have sp: "split_once CHR ''.'' (show_nat n @ CHR ''.'' # fp) = Some (show_nat n, fp)"
    using split_once_digits [of "show_nat n" "CHR ''.''" fp] by simp
  have v: "digits_value fp < 10 ^ length fp" using assms(4) by (rule digits_value_less)
  have "digits_value fp * 10 ^ ?k < 10 ^ length fp * 10 ^ ?k" using v by simp
  also have "\<dots> = 10 ^ 19" using assms(3) by (simp flip: power_add)
  finally have prod: "digits_value fp * 10 ^ ?k < 10 ^ 19" .
  have "digits_value fp \<le> digits_value fp * 10 ^ ?k" by simp
  also note prod
  also have "(10::nat) ^ 19 < 2 ^ 64" by simp
  finally have v64: "digits_value fp < 2 ^ 64" .
  have "0 < length fp" using assms(2) by simp
  then have "?k \<le> 18" by linarith
  then have "(10::nat) ^ ?k \<le> 10 ^ 18" by (intro power_increasing) auto
  then have pk: "(10::nat) ^ ?k < 2 ^ 64" by simp
  have "(10 :: u64) ^ ?k = of_nat (10 ^ ?k)" by simp
  then have pw: "unat ((10 :: u64) ^ ?k) = 10 ^ ?k"
    using pk unat_small_nat [of "10 ^ ?k", where 'n = 64] by simp
  have uf: "unat (of_nat (digits_value fp) :: u64) = digits_value fp"
    using v64 by (simp add: unat_small_nat)
  have "uint (of_nat (digits_value fp * 10 ^ ?k) :: u64) = int (digits_value fp * 10 ^ ?k)"
    using prod by (intro uint_small_nat) simp
  moreover have "int (digits_value fp * 10 ^ ?k) < 10 ^ 19"
    using prod unfolding of_nat_less_iff [symmetric, where 'a = int] by simp
  ultimately have f19: "uint (of_nat (digits_value fp * 10 ^ ?k) :: u64) < 10 ^ 19" by linarith
  have "parse_i64 (show_nat n) = Ok (of_nat n)"
    using parse_i64_digits [OF show_nat_not_Nil show_nat_digits] assms(1) by simp
  moreover have "parse_u64 fp = Ok (of_nat (digits_value fp))"
    using parse_u64_digits assms(2,4) v64 by blast
  moreover have "length fp mod 2 ^ 32 = length fp" using assms(3) by simp
  ultimately show ?thesis
    using assms(3) pk prod pw uf f19
    by (simp add: parse_magnitude_def sp frac_log10_def upow_def umul_def from_parts_ok)
qed


text \<open>Parsing a printed decimal, by its sign.\<close>

lemma decimal_reparse_nonneg:
  assumes "decimal_ok d" "0 \<le> sint (integer d)"
  shows "decimal_from_str oc (decimal_display d) = Ok d"
proof -
  obtain fp suffix where display: "decimal_display d = show_int (sint (integer d)) @ ''.'' @ fp @ suffix"
    and fp: "fp \<noteq> []" "length fp \<le> 19" "\<forall>c \<in> set fp. is_ascii_digit c"
    and f: "digits_value fp * 10 ^ (19 - length fp) = unat (fractional d)"
    and suffix: "suffix = [] \<or> suffix = ''dec''"
    using decimal_display_shape [OF assms(1)] .
  define n where "n = nat (sint (integer d))"
  have n: "n < 2 ^ 63" "of_nat n = integer d"
    using assms(2) sint_lt [of "integer d"] by (simp_all add: n_def nat_less_iff)
  let ?s = "show_nat n @ ''.'' @ fp"
  have disp: "decimal_display d = ?s @ suffix"
    using assms(2) by (simp add: display show_int_def n_def)
  have strip: "strip_dec_suffix (decimal_display d) = ?s"
    unfolding disp using fp suffix by (intro strip_dec_suffix_digits) auto
  have "is_ascii_digit (hd (show_nat n))"
    using show_nat_digits [of n] by (meson hd_in_set show_nat_not_Nil)
  then have "\<not> starts_with ''-'' ?s" "\<not> starts_with ''+'' ?s"
    by (cases "show_nat n"; auto simp: starts_with_def is_ascii_digit_def)+
  moreover have "parse_magnitude oc ?s = Ok d"
    using parse_magnitude_digits [OF n(1) fp, of oc] f n(2) by (cases d) simp
  ultimately show ?thesis
    by (simp add: decimal_from_str_def strip)
qed

lemma decimal_reparse_negative:
  assumes "decimal_ok d" "sint (integer d) < 0" "sint (integer d) \<noteq> - (2 ^ 63)"
  shows "\<exists>e. decimal_from_str oc (decimal_display d) = Ok e \<and> decimal_ok e
    \<and> decimal_scaled e = decimal_scaled d - 2 * uint (fractional d)"
proof -
  obtain fp suffix where display: "decimal_display d = show_int (sint (integer d)) @ ''.'' @ fp @ suffix"
    and fp: "fp \<noteq> []" "length fp \<le> 19" "\<forall>c \<in> set fp. is_ascii_digit c"
    and f: "digits_value fp * 10 ^ (19 - length fp) = unat (fractional d)"
    and suffix: "suffix = [] \<or> suffix = ''dec''"
    using decimal_display_shape [OF assms(1)] .
  define n where "n = nat (- sint (integer d))"
  have n: "n < 2 ^ 63" "int n = - sint (integer d)"
    using assms(2,3) sint_ge [of "integer d"] by (simp_all add: n_def nat_less_iff)
  let ?s = "show_nat n @ ''.'' @ fp" and ?m = "Decimal (of_nat n) (fractional d)"
  have strip: "strip_dec_suffix (decimal_display d) = CHR ''-'' # ?s"
    using strip_dec_suffix_digits [of "CHR ''-'' # ?s" suffix] fp suffix assms(2)
    by (simp add: display show_int_def n_def)
  have "parse_magnitude oc ?s = Ok ?m"
    using parse_magnitude_digits [OF n(1) fp, of oc] f by simp
  then have parsed: "decimal_from_str oc (decimal_display d) = decimal_sub oc decimal_default ?m"
    by (simp add: decimal_from_str_def strip starts_with_def decimal_neg_def)
  have ok: "decimal_ok decimal_default" "decimal_ok ?m"
    using assms(1) by (simp_all add: decimal_ok_uint decimal_default_def)
  have scaled: "decimal_scaled decimal_default - decimal_scaled ?m
      = decimal_scaled d - 2 * uint (fractional d)"
    using n by (simp add: decimal_scaled_def decimal_default_def sint_small_nat)
  define u where "u = uint (fractional d)"
  have "0 \<le> u" "u < 10 ^ 19" using assms(1) by (simp_all add: u_def decimal_ok_uint)
  then have "decimal_range (decimal_scaled d - 2 * uint (fractional d))"
    using assms(2) n unfolding decimal_scaled_def decimal_range_def u_def [symmetric] by simp
  moreover have "fits_signed 64 (sint (integer decimal_default) - sint (integer ?m))"
    using n(1) by (simp add: fits_signed_def decimal_default_def sint_small_nat)
  ultimately show ?thesis
    using decimal_sub_spec [OF ok, of oc] unfolding parsed scaled by simp
qed

section \<open>Properties\<close>

text \<open>
  C28: addition of decimals.  With both fractions below \<open>10\<^sup>1\<^sup>9\<close>, the sum is exact and well formed
  whenever the integer parts and the result fit; otherwise a build with overflow checks panics and a
  build without them returns the sum modulo \<open>2\<^sup>6\<^sup>4 \<cdot> 10\<^sup>1\<^sup>9\<close>.  The branch marked \<open>unreachable!\<close> is
  never taken and the assertion of \<open>from_parts\<close> never fails.
\<close>

theorem decimal_add_correct:
  assumes "decimal_ok a" "decimal_ok b"
  shows "if fits_signed 64 (sint (integer a) + sint (integer b))
      \<and> decimal_range (decimal_scaled a + decimal_scaled b)
    then \<exists>d. decimal_add oc a b = Ok d \<and> decimal_ok d
      \<and> decimal_scaled d = decimal_scaled a + decimal_scaled b
    else if oc then decimal_add oc a b = Panic
    else \<exists>d. decimal_add oc a b = Ok d \<and> decimal_ok d
      \<and> decimal_scaled d mod decimal_modulus = (decimal_scaled a + decimal_scaled b) mod decimal_modulus"
  using assms by (rule decimal_add_spec)

theorem decimal_add_correct_witness:
  "\<exists>d. decimal_add True (Decimal 1 9999999999999999999) (Decimal 2 2) = Ok d
     \<and> decimal_scaled d = 4 * 10 ^ 19 + 1"
  using decimal_add_correct [of "Decimal 1 9999999999999999999" "Decimal 2 2" True]
  by (simp add: decimal_ok_uint decimal_range_def decimal_scaled_def fits_signed_def) blast

text \<open>
  C28: subtraction of decimals, in the same form: exact when the difference of the integer parts and
  the result fit, a panic or the difference modulo \<open>2\<^sup>6\<^sup>4 \<cdot> 10\<^sup>1\<^sup>9\<close> otherwise.
\<close>

theorem decimal_sub_correct:
  assumes "decimal_ok a" "decimal_ok b"
  shows "if fits_signed 64 (sint (integer a) - sint (integer b))
      \<and> decimal_range (decimal_scaled a - decimal_scaled b)
    then \<exists>d. decimal_sub oc a b = Ok d \<and> decimal_ok d
      \<and> decimal_scaled d = decimal_scaled a - decimal_scaled b
    else if oc then decimal_sub oc a b = Panic
    else \<exists>d. decimal_sub oc a b = Ok d \<and> decimal_ok d
      \<and> decimal_scaled d mod decimal_modulus = (decimal_scaled a - decimal_scaled b) mod decimal_modulus"
  using assms by (rule decimal_sub_spec)

theorem decimal_sub_correct_witness:
  "\<exists>d. decimal_sub True (Decimal 3 1) (Decimal 1 2) = Ok d \<and> decimal_scaled d = 2 * 10 ^ 19 - 1"
  using decimal_sub_correct [of "Decimal 3 1" "Decimal 1 2" True]
  by (simp add: decimal_ok_uint decimal_range_def decimal_scaled_def fits_signed_def) blast

text \<open>
  C31: the derived order on decimals, integer part first, is the order of the numbers they stand for,
  and equal numbers have equal representations.
\<close>

theorem decimal_order_numeric:
  assumes "decimal_ok a" "decimal_ok b"
  shows "(a < b \<longleftrightarrow> decimal_scaled a < decimal_scaled b)
    \<and> (a \<le> b \<longleftrightarrow> decimal_scaled a \<le> decimal_scaled b)
    \<and> (a = b \<longleftrightarrow> decimal_scaled a = decimal_scaled b)"
  using decimal_less_iff [OF assms] decimal_less_iff [OF assms(2,1)] decimal_scaled_inj [OF assms]
  by (metis linorder_not_less)

theorem decimal_order_numeric_witness:
  "Decimal (- 1) 5 < Decimal 0 (0 :: u64) \<and> decimal_scaled (Decimal (- 1) 5) < 0"
proof -
  have "decimal_scaled (Decimal (- 1) 5) < decimal_scaled (Decimal 0 0)"
    by (simp add: decimal_scaled_def)
  then show ?thesis
    using decimal_order_numeric [of "Decimal (- 1) 5" "Decimal 0 0"]
    by (simp add: decimal_ok_uint decimal_scaled_def)
qed

text \<open>
  C21: printing and parsing back.  A non-negative decimal, and a negative whole number above the
  minimum, is read back exactly, with or without overflow checks.
\<close>

theorem decimal_print_parse:
  assumes "decimal_ok d"
    and "0 \<le> sint (integer d) \<or> fractional d = 0 \<and> integer d \<noteq> integer decimal_min"
  shows "decimal_from_str oc (decimal_display d) = Ok d"
proof (cases "0 \<le> sint (integer d)")
  case True
  with assms(1) show ?thesis by (rule decimal_reparse_nonneg)
next
  case False
  with assms(2) have z: "fractional d = 0" "integer d \<noteq> integer decimal_min" by auto
  then have "sint (integer d) \<noteq> - (2 ^ 63)"
    by (auto simp: decimal_min_def dest!: arg_cong [where f = "word_of_int :: int \<Rightarrow> i64"])
  then obtain e where e: "decimal_from_str oc (decimal_display d) = Ok e" "decimal_ok e"
    "decimal_scaled e = decimal_scaled d"
    using decimal_reparse_negative [OF assms(1), of oc] False z by auto
  then show ?thesis using decimal_scaled_inj assms(1) by blast
qed

theorem decimal_print_parse_witness:
  "decimal_from_str True ''12.05dec'' = Ok (Decimal 12 500000000000000000)"
proof -
  have "decimal_display (Decimal 12 500000000000000000) = ''12.05dec''"
    by (simp add: decimal_display_def strip_zeros_eval show_int_def show_nat_eval pad0_def
        frac_log10_def)
  then show ?thesis
    using decimal_print_parse [of "Decimal 12 500000000000000000" True]
    by (simp add: decimal_ok_uint)
qed

text \<open>
  C29: a negative decimal with a fraction does not survive printing and parsing: the text shows the
  floor of the number followed by its non-negative fraction, and is read back as a number that is
  smaller by twice the fraction.  (Minus one and a half prints as \<open>-2.5dec\<close>.)
\<close>

theorem decimal_print_parse_negative_fraction:
  assumes "decimal_ok d" "sint (integer d) < 0" "integer d \<noteq> integer decimal_min" "fractional d \<noteq> 0"
  shows "\<exists>e. decimal_from_str oc (decimal_display d) = Ok e
    \<and> decimal_scaled e = decimal_scaled d - 2 * uint (fractional d) \<and> e \<noteq> d"
proof -
  have "sint (integer d) \<noteq> - (2 ^ 63)"
    using assms(3)
    by (auto simp: decimal_min_def dest!: arg_cong [where f = "word_of_int :: int \<Rightarrow> i64"])
  then obtain e where "decimal_from_str oc (decimal_display d) = Ok e"
    "decimal_scaled e = decimal_scaled d - 2 * uint (fractional d)"
    using decimal_reparse_negative [OF assms(1,2), of oc] by auto
  moreover have "uint (fractional d) \<noteq> 0" using assms(4) by (simp add: uint_0_iff)
  ultimately show ?thesis by auto
qed

theorem decimal_print_parse_negative_fraction_witness:
  "decimal_display (Decimal (- 2) 5000000000000000000) = ''-2.5dec''
   \<and> (\<exists>e. decimal_from_str True ''-2.5dec'' = Ok e \<and> e \<noteq> Decimal (- 2) 5000000000000000000)"
proof -
  have "decimal_display (Decimal (- 2) 5000000000000000000) = ''-2.5dec''"
    by (simp add: decimal_display_def strip_zeros_eval show_int_def show_nat_eval pad0_def
        frac_log10_def)
  moreover have "(- 2 :: i64) \<noteq> integer decimal_min" by (simp add: decimal_min_def)
  ultimately show ?thesis
    using decimal_print_parse_negative_fraction [of "Decimal (- 2) 5000000000000000000" True]
    by (auto simp: decimal_ok_uint)
qed

end
