(* ===== verification/Durations.thy ===== *)
theory Durations
  imports Errors
begin

text \<open>
  The calendar \<open>Duration\<close> of \<open>rust/src/concept/value.rs\<close>: months, days and nanoseconds, its ISO
  8601 printer and the parser that reads it back.  The parser works on bytes, as the code does, so a
  slice that would cut a character is a panic.
\<close>

section \<open>The type\<close>

record duration =
  months :: u32
  days :: u32
  nanos :: u64

definition nanos_per_sec :: u64 where "nanos_per_sec = 1000000000"
definition nanos_per_minute :: u64 where "nanos_per_minute = 60 * nanos_per_sec"
definition nanos_per_hour :: u64 where "nanos_per_hour = 60 * 60 * nanos_per_sec"
definition days_per_week :: u32 where "days_per_week = 7"
definition months_per_year :: u32 where "months_per_year = 12"

definition duration_new :: "u32 \<Rightarrow> u32 \<Rightarrow> u64 \<Rightarrow> duration" where
  "duration_new m d n = \<lparr>months = m, days = d, nanos = n\<rparr>"

definition duration_is_empty :: "duration \<Rightarrow> bool" where
  "duration_is_empty d \<longleftrightarrow> months d = 0 \<and> days d = 0 \<and> nanos d = 0"

text \<open>Conversion to \<open>chrono::Duration\<close>, a signed number of nanoseconds.\<close>

definition try_into_chrono :: "duration \<Rightarrow> (i64, error) result" where
  "try_into_chrono d =
     (if months d \<noteq> 0 \<or> days d \<noteq> 0 then
        Err (Other (''Converting TypeDB duration to chrono::Duration is only possible when ''
          @ ''months and days are not set.''))
      else if uint (nanos d) < 2 ^ 63 then Ok (nanos d)
      else Err (Other ''Duration u64 nanos exceeded i64 required for chrono::Duration''))"

section \<open>Parsing\<close>

datatype duration_parse_error = DurationParseError

record segment =
  number :: u64
  symbol :: char
  number_len :: nat

text \<open>\<open>str::is_char_boundary\<close>: an index that does not point at a UTF-8 continuation byte.\<close>

definition is_char_boundary :: "string \<Rightarrow> nat \<Rightarrow> bool" where
  "is_char_boundary s i \<longleftrightarrow> i = length s
     \<or> i < length s \<and> \<not> (128 \<le> (of_char (s ! i) :: nat) \<and> (of_char (s ! i) :: nat) < 192)"

definition slice_from :: "string \<Rightarrow> nat \<Rightarrow> (string, duration_parse_error) result" where
  "slice_from s i = (if is_char_boundary s i then Ok (drop i s) else Panic)"

text \<open>The digits before the first other byte; the last byte is never taken as a digit.\<close>

fun count_digits :: "string \<Rightarrow> nat" where
  "count_digits (c # d # s) = (if is_ascii_digit c then 1 + count_digits (d # s) else 0)"
| "count_digits _ = 0"

definition read_u32 :: "string \<Rightarrow> (segment \<times> string, duration_parse_error) result" where
  "read_u32 s =
     (let i = count_digits s in
      if i = 0 then Err DurationParseError
      else and_then (map_err (\<lambda>_. DurationParseError) (parse_u64 (take i s))) (\<lambda>v.
        and_then (slice_from s (i + 1)) (\<lambda>tail.
          Ok (\<lparr>number = v, symbol = s ! i, number_len = i\<rparr>, tail))))"

definition unit_step ::
    "bool \<Rightarrow> bool \<Rightarrow> char option \<Rightarrow> segment \<Rightarrow> duration \<Rightarrow> (duration, duration_parse_error) result" where
  "unit_step oc parsing_time previous seg d =
     (if symbol seg = CHR ''Y'' then
        and_then (umul oc (ucast (number seg)) months_per_year) (\<lambda>x.
          map_ok (\<lambda>m. d\<lparr>months := m\<rparr>) (uadd oc (months d) x))
      else if symbol seg = CHR ''M'' \<and> \<not> parsing_time then
        map_ok (\<lambda>m. d\<lparr>months := m\<rparr>) (uadd oc (months d) (ucast (number seg)))
      else if symbol seg = CHR ''W'' then
        and_then (umul oc (ucast (number seg)) days_per_week) (\<lambda>x.
          map_ok (\<lambda>m. d\<lparr>days := m\<rparr>) (uadd oc (days d) x))
      else if symbol seg = CHR ''D'' then
        map_ok (\<lambda>m. d\<lparr>days := m\<rparr>) (uadd oc (days d) (ucast (number seg)))
      else if symbol seg = CHR ''H'' then
        and_then (umul oc (number seg) nanos_per_hour) (\<lambda>x.
          map_ok (\<lambda>m. d\<lparr>nanos := m\<rparr>) (uadd oc (nanos d) x))
      else if symbol seg = CHR ''M'' \<and> parsing_time then
        and_then (umul oc (number seg) nanos_per_minute) (\<lambda>x.
          map_ok (\<lambda>m. d\<lparr>nanos := m\<rparr>) (uadd oc (nanos d) x))
      else if symbol seg = CHR ''.'' then
        and_then (umul oc (number seg) nanos_per_sec) (\<lambda>x.
          map_ok (\<lambda>m. d\<lparr>nanos := m\<rparr>) (uadd oc (nanos d) x))
      else if symbol seg = CHR ''S'' \<and> previous \<noteq> Some CHR ''.'' then
        and_then (umul oc (number seg) nanos_per_sec) (\<lambda>x.
          map_ok (\<lambda>m. d\<lparr>nanos := m\<rparr>) (uadd oc (nanos d) x))
      else if symbol seg = CHR ''S'' \<and> previous = Some CHR ''.'' then
        and_then (usub oc (9 :: u32) (of_nat (number_len seg))) (\<lambda>k.
        and_then (upow oc (10 :: u64) (unat k)) (\<lambda>scale.
        and_then (umul oc (number seg) scale) (\<lambda>x.
          map_ok (\<lambda>m. d\<lparr>nanos := m\<rparr>) (uadd oc (nanos d) x))))
      else Err DurationParseError)"

lemma slice_from_length: "slice_from s i = Ok t \<Longrightarrow> length t = length s - i"
  by (auto simp: slice_from_def split: if_splits)

lemma count_digits_less: "s \<noteq> [] \<Longrightarrow> count_digits s < length s"
  by (induction s rule: count_digits.induct) auto

lemma read_u32_shorter:
  assumes "read_u32 s = Ok (seg, tail)" shows "length tail < length s"
proof -
  have "slice_from s (count_digits s + 1) = Ok tail" "count_digits s \<noteq> 0"
    using assms by (auto simp: read_u32_def Let_def result_eqs split: if_splits)
  moreover from this have "s \<noteq> []" by auto
  ultimately show ?thesis
    using slice_from_length [of s _ tail] count_digits_less [of s] by simp
qed

function parse_loop ::
    "bool \<Rightarrow> bool \<Rightarrow> char option \<Rightarrow> duration \<Rightarrow> string \<Rightarrow> (duration, duration_parse_error) result" where
  "parse_loop oc parsing_time previous d s =
     (if s = [] then Ok d
      else
        (let parsing_time' = (hd s = CHR ''T'' \<or> parsing_time);
             str = (if hd s = CHR ''T'' then tl s else s)
         in and_then (read_u32 str) (\<lambda>(seg, tail).
              if previous = Some CHR ''.'' \<and> symbol seg \<noteq> CHR ''S'' then Err DurationParseError
              else and_then (unit_step oc parsing_time' previous seg d) (\<lambda>d'.
                parse_loop oc parsing_time' (Some (symbol seg)) d' tail))))"
  by pat_completeness auto
termination
proof (relation "measure (\<lambda>(oc, p, prev, d, s). length s)", goal_cases)
  case 1
  then show ?case by simp
next
  case (2 oc parsing_time previous d s parsing_time' str x seg tail d')
  then have "length tail < length str" by (auto dest: read_u32_shorter)
  moreover have "length str \<le> length s" using 2 by simp
  ultimately show ?case by simp
qed

declare parse_loop.simps [simp del]

definition duration_from_str :: "bool \<Rightarrow> string \<Rightarrow> (duration, duration_parse_error) result" where
  "duration_from_str oc s =
     (if s = [] then Panic
      else if hd s \<noteq> CHR ''P'' then Err DurationParseError
      else parse_loop oc False None (duration_new 0 0 0) (tl s))"

section \<open>Printing\<close>

definition duration_display :: "duration \<Rightarrow> string" where
  "duration_display d =
     (if duration_is_empty d then ''PT0S''
      else
        ''P''
        @ (if months d > 0 \<or> days d > 0 then
             (let years = months d div months_per_year; ms = months d mod months_per_year; ds = days d in
              (if years > 0 then show_nat (unat years) @ ''Y'' else [])
              @ (if ms > 0 then show_nat (unat ms) @ ''M'' else [])
              @ (if ds > 0 then show_nat (unat ds) @ ''D'' else []))
           else [])
        @ (if nanos d > 0 then
             (let hours = nanos d div nanos_per_hour;
                  minutes = (nanos d mod nanos_per_hour) div nanos_per_minute;
                  seconds = (nanos d mod nanos_per_minute) div nanos_per_sec;
                  ns = nanos d mod nanos_per_sec in
              ''T''
              @ (if hours > 0 then show_nat (unat hours) @ ''H'' else [])
              @ (if minutes > 0 then show_nat (unat minutes) @ ''M'' else [])
              @ (if seconds > 0 \<and> ns = 0 then show_nat (unat seconds) @ ''S''
                 else if ns > 0 then
                   show_nat (unat seconds) @ ''.'' @ pad0 9 (show_nat (unat ns)) @ ''S''
                 else []))
           else []))"

definition duration_debug :: "duration \<Rightarrow> string" where
  "duration_debug d = ''months: '' @ show_nat (unat (months d)) @ '', days: ''
     @ show_nat (unat (days d)) @ '', nanos: '' @ show_nat (unat (nanos d))"

section \<open>Reading one segment\<close>

definition ascii :: "string \<Rightarrow> bool" where
  "ascii s \<longleftrightarrow> (\<forall>c \<in> set s. (of_char c :: nat) < 128)"

lemma ascii_append [simp]: "ascii (s @ t) \<longleftrightarrow> ascii s \<and> ascii t"
  by (auto simp: ascii_def)

lemma ascii_Cons [simp]: "ascii (c # s) \<longleftrightarrow> (of_char c :: nat) < 128 \<and> ascii s"
  by (auto simp: ascii_def)

lemma ascii_Nil [simp]: "ascii []"
  by (simp add: ascii_def)

lemma ascii_digits: "\<forall>c \<in> set s. is_ascii_digit c \<Longrightarrow> ascii s"
  by (auto simp: ascii_def is_ascii_digit_def)

lemma ascii_show_nat [simp]: "ascii (show_nat n)" "ascii (pad0 w (show_nat n))"
  by (intro ascii_digits show_nat_digits pad0_digits)+

lemma count_digits_segment:
  "\<forall>x \<in> set ds. is_ascii_digit x \<Longrightarrow> \<not> is_ascii_digit c \<Longrightarrow> count_digits (ds @ c # rest) = length ds"
proof (induction ds)
  case Nil
  then show ?case by (cases rest) auto
next
  case (Cons d ds)
  then show ?case by (cases "ds @ c # rest") auto
qed

lemma read_u32_segment:
  assumes "ds \<noteq> []" "\<forall>x \<in> set ds. is_ascii_digit x" "digits_value ds < 2 ^ 64"
    and "\<not> is_ascii_digit c" "ascii rest"
  shows "read_u32 (ds @ c # rest)
    = Ok (\<lparr>number = of_nat (digits_value ds), symbol = c, number_len = length ds\<rparr>, rest)"
proof -
  have "is_char_boundary (ds @ c # rest) (length ds + 1)"
    using assms(5) by (cases rest) (auto simp: is_char_boundary_def nth_append)
  then show ?thesis
    using assms count_digits_segment [OF assms(2,4), of rest] parse_u64_digits [OF assms(1-3)]
    by (simp add: read_u32_def slice_from_def nth_append)
qed

lemma digit_not_T: "\<forall>x \<in> set ds. is_ascii_digit x \<Longrightarrow> ds \<noteq> [] \<Longrightarrow> hd ds \<noteq> CHR ''T''"
  by (cases ds) (auto simp: is_ascii_digit_def)

lemma parse_loop_segment:
  assumes "ds \<noteq> []" "\<forall>x \<in> set ds. is_ascii_digit x" "digits_value ds < 2 ^ 64"
    and "\<not> is_ascii_digit c" "ascii rest" "prev = Some CHR ''.'' \<longrightarrow> c = CHR ''S''"
  shows "parse_loop oc pt prev d (ds @ c # rest) =
    and_then (unit_step oc pt prev
        \<lparr>number = of_nat (digits_value ds), symbol = c, number_len = length ds\<rparr> d)
      (\<lambda>d'. parse_loop oc pt (Some c) d' rest)"
  using assms digit_not_T [OF assms(2,1)]
  by (subst parse_loop.simps) (auto simp: read_u32_segment Let_def)

lemma parse_loop_T:
  assumes "s \<noteq> []" "hd s \<noteq> CHR ''T''"
  shows "parse_loop oc pt prev d (CHR ''T'' # s) = parse_loop oc True prev d s"
  by (subst (1 2) parse_loop.simps) (simp add: assms)

lemma parse_loop_previous:
  "prev \<noteq> Some CHR ''.'' \<Longrightarrow> parse_loop oc pt prev d s = parse_loop oc pt None d s"
  by (subst (1 2) parse_loop.simps) (auto simp: unit_step_def Let_def split: prod.splits intro!: and_then_cong)

lemma parse_loop_Nil [simp]: "parse_loop oc pt prev d [] = Ok d"
  by (subst parse_loop.simps) simp

section \<open>Units\<close>

text \<open>Durations by the natural numbers they hold, while these fit.\<close>

abbreviation dur :: "nat \<Rightarrow> nat \<Rightarrow> nat \<Rightarrow> duration" where
  "dur m d n \<equiv> duration_new (of_nat m) (of_nat d) (of_nat n)"

lemma uadd_of_nat:
  "a + b < 2 ^ LENGTH('n) \<Longrightarrow> (uadd oc (of_nat a :: 'n::len word) (of_nat b) :: ('n word, 'e) result)
    = Ok (of_nat (a + b))"
  by (simp add: uadd_def unat_small_nat)

lemma umul_of_nat:
  assumes "a * b < 2 ^ LENGTH('n)" "0 < b" "b < 2 ^ LENGTH('n)"
  shows "(umul oc (of_nat a :: 'n::len word) (of_nat b) :: ('n word, 'e) result) = Ok (of_nat (a * b))"
proof -
  have "a * 1 \<le> a * b" using assms(2) by (intro mult_left_mono) auto
  with assms(1) have "a < 2 ^ LENGTH('n)" by linarith
  with assms show ?thesis by (simp add: umul_def unat_small_nat)
qed

lemma ucast_of_nat_u64: "n < 2 ^ 64 \<Longrightarrow> (ucast (of_nat n :: u64) :: u32) = of_nat n"
  by (simp add: unsigned_of_nat take_bit_nat_eq_self)

lemmas unit_consts = months_per_year_def days_per_week_def nanos_per_sec_def nanos_per_minute_def
  nanos_per_hour_def

lemma unit_year:
  assumes "m + n * 12 < 2 ^ 32"
  shows "unit_step oc pt prev \<lparr>number = of_nat n, symbol = CHR ''Y'', number_len = k\<rparr> (dur m d x)
    = Ok (dur (m + n * 12) d x)"
  using assms umul_of_nat [of n 12 oc, where 'n = 32 and 'e = duration_parse_error] uadd_of_nat [of m "n * 12" oc, where 'n = 32 and 'e = duration_parse_error]
  by (simp add: unit_step_def ucast_of_nat_u64 unit_consts duration_new_def)

lemma unit_month:
  assumes "m + n < 2 ^ 32"
  shows "unit_step oc False prev \<lparr>number = of_nat n, symbol = CHR ''M'', number_len = k\<rparr> (dur m d x)
    = Ok (dur (m + n) d x)"
  using assms uadd_of_nat [of m n oc, where 'n = 32 and 'e = duration_parse_error]
  by (simp add: unit_step_def ucast_of_nat_u64 unit_consts duration_new_def)

lemma unit_day:
  assumes "d + n < 2 ^ 32"
  shows "unit_step oc pt prev \<lparr>number = of_nat n, symbol = CHR ''D'', number_len = k\<rparr> (dur m d x)
    = Ok (dur m (d + n) x)"
  using assms uadd_of_nat [of d n oc, where 'n = 32 and 'e = duration_parse_error]
  by (simp add: unit_step_def ucast_of_nat_u64 unit_consts duration_new_def)

lemma unit_nanos:
  assumes "x + n * k < 2 ^ 64" "0 < k" "k < 2 ^ 64"
  shows "and_then (umul oc (of_nat n) (of_nat k)) (\<lambda>y. map_ok (\<lambda>z. (dur m d x)\<lparr>nanos := z\<rparr>)
      (uadd oc (nanos (dur m d x)) y)) = (Ok (dur m d (x + n * k)) :: (duration, duration_parse_error) result)"
  using assms umul_of_nat [of n k oc, where 'n = 64 and 'e = duration_parse_error] uadd_of_nat [of x "n * k" oc, where 'n = 64 and 'e = duration_parse_error]
  by (simp add: duration_new_def)

lemma unit_hour:
  assumes "x + n * 3600000000000 < 2 ^ 64"
  shows "unit_step oc pt prev \<lparr>number = of_nat n, symbol = CHR ''H'', number_len = k\<rparr> (dur m d x)
    = Ok (dur m d (x + n * 3600000000000))"
  using unit_nanos [OF assms, of oc m d] by (simp add: unit_step_def unit_consts)

lemma unit_minute:
  assumes "x + n * 60000000000 < 2 ^ 64"
  shows "unit_step oc True prev \<lparr>number = of_nat n, symbol = CHR ''M'', number_len = k\<rparr> (dur m d x)
    = Ok (dur m d (x + n * 60000000000))"
  using unit_nanos [OF assms, of oc m d] by (simp add: unit_step_def unit_consts)

lemma unit_second:
  assumes "x + n * 1000000000 < 2 ^ 64" "prev \<noteq> Some CHR ''.''" "c = CHR ''S'' \<or> c = CHR ''.''"
  shows "unit_step oc True prev \<lparr>number = of_nat n, symbol = c, number_len = k\<rparr> (dur m d x)
    = Ok (dur m d (x + n * 1000000000))"
  using unit_nanos [OF assms(1), of oc m d] assms(2,3)
  by (auto simp: unit_step_def unit_consts)

lemma unit_fraction:
  assumes "x + n < 2 ^ 64"
  shows "unit_step oc True (Some CHR ''.'') \<lparr>number = of_nat n, symbol = CHR ''S'', number_len = 9\<rparr> (dur m d x)
    = Ok (dur m d (x + n))"
  using assms unit_nanos [of x n 1 oc m d]
  by (simp add: unit_step_def unit_consts usub_def upow_def)

section \<open>Round trip\<close>

lemma parse_optional:
  assumes "\<not> is_ascii_digit c" "c \<noteq> CHR ''.''" "ascii rest" "n < 2 ^ 64" "n = 0 \<Longrightarrow> d' = d"
    and "unit_step oc pt None \<lparr>number = of_nat n, symbol = c, number_len = length (show_nat n)\<rparr> d = Ok d'"
  shows "parse_loop oc pt None d ((if 0 < n then show_nat n @ [c] else []) @ rest)
    = parse_loop oc pt None d' rest"
proof (cases "0 < n")
  case True
  have "parse_loop oc pt None d (show_nat n @ c # rest) = parse_loop oc pt (Some c) d' rest"
    using parse_loop_segment [OF show_nat_not_Nil show_nat_digits, of n c rest None oc pt d] assms
    by simp
  also have "\<dots> = parse_loop oc pt None d' rest"
    using assms(2) by (intro parse_loop_previous) simp
  finally show ?thesis using True by simp
qed (use assms in simp)

definition show_date :: "nat \<Rightarrow> nat \<Rightarrow> string" where
  "show_date m d = (if 0 < m div 12 then show_nat (m div 12) @ ''Y'' else [])
     @ (if 0 < m mod 12 then show_nat (m mod 12) @ ''M'' else [])
     @ (if 0 < d then show_nat d @ ''D'' else [])"

definition show_seconds :: "nat \<Rightarrow> nat \<Rightarrow> string" where
  "show_seconds s ns = (if 0 < s \<and> ns = 0 then show_nat s @ ''S''
     else if 0 < ns then show_nat s @ ''.'' @ pad0 9 (show_nat ns) @ ''S'' else [])"

definition show_clock :: "nat \<Rightarrow> string" where
  "show_clock n = (if 0 < n div 3600000000000 then show_nat (n div 3600000000000) @ ''H'' else [])
     @ (if 0 < n mod 3600000000000 div 60000000000
        then show_nat (n mod 3600000000000 div 60000000000) @ ''M'' else [])
     @ show_seconds (n mod 60000000000 div 1000000000) (n mod 1000000000)"

lemma not_digit_units [simp]:
  "\<not> is_ascii_digit CHR ''Y''" "\<not> is_ascii_digit CHR ''M''" "\<not> is_ascii_digit CHR ''D''"
  "\<not> is_ascii_digit CHR ''H''" "\<not> is_ascii_digit CHR ''S''" "\<not> is_ascii_digit CHR ''.''"
  by (simp_all add: is_ascii_digit_def)

lemma ascii_shown [simp]: "ascii (show_date m d)" "ascii (show_seconds s ns)" "ascii (show_clock n)"
  by (simp_all add: show_date_def show_seconds_def show_clock_def)

lemma parse_date:
  assumes "m < 2 ^ 32" "d < 2 ^ 32" "ascii rest"
  shows "parse_loop oc False None (dur 0 0 0) (show_date m d @ rest)
    = parse_loop oc False None (dur m d 0) rest"
proof -
  have "m div 12 * 12 \<le> m" by simp
  then have y: "0 + m div 12 * 12 < 2 ^ 32" using assms(1) by linarith
  have mo: "0 + m div 12 * 12 + m mod 12 < 2 ^ 32" and da: "0 + d < 2 ^ 32" using assms by simp_all
  let ?M = "if 0 < m mod 12 then show_nat (m mod 12) @ ''M'' else []"
    and ?D = "if 0 < d then show_nat d @ ''D'' else []"
  have "parse_loop oc False None (dur 0 0 0) (show_date m d @ rest)
      = parse_loop oc False None (dur (0 + m div 12 * 12) 0 0) (?M @ ?D @ rest)"
    unfolding show_date_def append_assoc
    by (rule parse_optional [OF _ _ _ _ _ unit_year [OF y]]) (use assms in auto)
  also have "\<dots> = parse_loop oc False None (dur (0 + m div 12 * 12 + m mod 12) 0 0) (?D @ rest)"
    by (rule parse_optional [OF _ _ _ _ _ unit_month [OF mo]]) (use assms in auto)
  also have "\<dots> = parse_loop oc False None (dur (0 + m div 12 * 12 + m mod 12) (0 + d) 0) rest"
    by (rule parse_optional [OF _ _ _ _ _ unit_day [OF da]]) (use assms in auto)
  finally show ?thesis by (simp only: add_0_left div_mult_mod_eq)
qed

lemma parse_seconds:
  assumes "x + s * 1000000000 + ns < 2 ^ 64" "s < 60" "ns < 1000000000"
  shows "parse_loop oc True None (dur m d x) (show_seconds s ns)
    = Ok (dur m d (x + s * 1000000000 + ns))"
proof (cases "ns = 0")
  case True
  have "x + s * 1000000000 < 2 ^ 64" using assms(1) by simp
  then show ?thesis
    using True parse_optional [OF _ _ _ _ _ unit_second [of x s None "CHR ''S''"], of "[]"] assms(2)
    by (cases "s = 0") (simp_all add: show_seconds_def)
next
  case False
  let ?f = "pad0 9 (show_nat ns)"
  have len: "length ?f = 9"
    using assms(3) by (intro pad0_length show_nat_length_le) auto
  have "parse_loop oc True None (dur m d x) (show_seconds s ns)
      = parse_loop oc True (Some CHR ''.'') (dur m d (x + s * 1000000000)) (?f @ ''S'')"
    using parse_loop_segment [OF show_nat_not_Nil show_nat_digits, of s "CHR ''.''" "?f @ ''S''"]
      unit_second [of x s None "CHR ''.''"] False assms
    by (simp add: show_seconds_def)
  also have "\<dots> = Ok (dur m d (x + s * 1000000000 + ns))"
    using parse_loop_segment [OF _ pad0_digits [OF show_nat_digits], of 9 ns "CHR ''S''" "[]"]
      unit_fraction [of "x + s * 1000000000" ns] assms len
    by (simp add: pad0_def)
  finally show ?thesis .
qed

lemma clock_sum:
  "n div 3600000000000 * 3600000000000 + n mod 3600000000000 div 60000000000 * 60000000000
     + n mod 60000000000 div 1000000000 * 1000000000 + n mod 1000000000 = (n :: nat)"
proof -
  have "n mod 3600000000000 mod 60000000000 = n mod 60000000000"
    "n mod 60000000000 mod 1000000000 = n mod 1000000000"
    by (simp_all add: mod_mod_cancel)
  then show ?thesis
    by (metis (no_types, lifting) add.assoc div_mult_mod_eq)
qed

lemma show_clock_starts:
  assumes "0 < n" shows "show_clock n \<noteq> [] \<and> hd (show_clock n) \<noteq> CHR ''T''"
proof -
  have hd: "hd (show_nat k @ t) \<noteq> CHR ''T''" for k t
    using digit_not_T [OF show_nat_digits show_nat_not_Nil] by simp
  let ?h = "n div 3600000000000" and ?m = "n mod 3600000000000 div 60000000000"
    and ?s = "n mod 60000000000 div 1000000000" and ?ns = "n mod 1000000000"
  have "0 < ?h \<or> 0 < ?m \<or> 0 < ?s \<or> 0 < ?ns" using assms clock_sum [of n] by (metis add_0 gr0I mult_0)
  then show ?thesis
    unfolding show_clock_def show_seconds_def using hd
    by (cases "0 < ?h"; cases "0 < ?m"; cases "0 < ?s"; cases "0 < ?ns") (simp_all only: if_True if_False simp_thms append_Nil append_assoc, simp_all)
qed

lemma parse_clock:
  assumes "0 < n" "n < 2 ^ 64"
  shows "parse_loop oc False None (dur m d 0) (''T'' @ show_clock n) = Ok (dur m d n)"
proof -
  let ?h = "n div 3600000000000" and ?m = "n mod 3600000000000 div 60000000000"
    and ?s = "n mod 60000000000 div 1000000000" and ?ns = "n mod 1000000000"
  let ?xh = "0 + ?h * 3600000000000"
  let ?xm = "?xh + ?m * 60000000000"
  have sum: "?xm + ?s * 1000000000 + ?ns = n" using clock_sum [of n] by simp
  then have h: "?xh < 2 ^ 64" and m: "?xm < 2 ^ 64" and s: "?xm + ?s * 1000000000 + ?ns < 2 ^ 64"
    using assms(2) by linarith+
  have "parse_loop oc False None (dur m d 0) (''T'' @ show_clock n)
      = parse_loop oc True None (dur m d 0) (show_clock n)"
    using parse_loop_T show_clock_starts [OF assms(1)] by simp
  also have "\<dots> = parse_loop oc True None (dur m d ?xh)
      ((if 0 < ?m then show_nat ?m @ ''M'' else []) @ show_seconds ?s ?ns)"
    unfolding show_clock_def
    by (rule parse_optional [OF _ _ _ _ _ unit_hour [OF h]]) (use assms(2) in auto)
  also have "\<dots> = parse_loop oc True None (dur m d ?xm) (show_seconds ?s ?ns)"
    by (rule parse_optional [OF _ _ _ _ _ unit_minute [OF m]]) (use assms(2) in auto)
  also have "\<dots> = Ok (dur m d (?xm + ?s * 1000000000 + ?ns))"
    by (rule parse_seconds [OF s]) auto
  finally show ?thesis unfolding sum .
qed

lemma unat_consts:
  "unat months_per_year = 12" "unat nanos_per_sec = 1000000000"
  "unat nanos_per_minute = 60000000000" "unat nanos_per_hour = 3600000000000"
  by (simp_all add: unit_consts)

lemma word_pos_unat: "0 < (w :: 'a::len word) \<longleftrightarrow> 0 < unat w" "w = 0 \<longleftrightarrow> unat w = 0"
  by (simp_all add: word_less_nat_alt unat_eq_zero)

lemma duration_display_nat:
  assumes "\<not> duration_is_empty d"
  shows "duration_display d = ''P'' @ show_date (unat (months d)) (unat (days d))
    @ (if 0 < unat (nanos d) then ''T'' @ show_clock (unat (nanos d)) else [])"
proof -
  have date: "(if 0 < m \<or> 0 < k then (if 0 < m div 12 then show_nat (m div 12) @ ''Y'' else [])
        @ (if 0 < m mod 12 then show_nat (m mod 12) @ ''M'' else [])
        @ (if 0 < k then show_nat k @ ''D'' else []) else []) = show_date m k" for m k
    by (simp add: show_date_def)
  show ?thesis
    unfolding duration_display_def Let_def
    by (simp only: assms if_False word_pos_unat unat_div_distrib unat_mod_distrib unat_consts
        date show_clock_def show_seconds_def append_assoc)
qed

lemma duration_reparse: "duration_from_str oc (duration_display d) = Ok d"
proof (cases "duration_is_empty d")
  case True
  have "parse_loop oc False None (dur 0 0 0) ''T0S'' = parse_loop oc True None (dur 0 0 0) (''0'' @ ''S'')"
    by (subst parse_loop_T) simp_all
  also have "\<dots> = Ok (dur 0 0 0)"
    using parse_loop_segment [of "''0''" "CHR ''S''" "[]" None oc True "dur 0 0 0"]
      unit_second [of 0 0 None "CHR ''S''" oc "Suc 0" 0 0] by simp
  finally show ?thesis
    using True by (cases d) (simp add: duration_display_def duration_from_str_def
        duration_is_empty_def duration_new_def)
next
  case False
  let ?m = "unat (months d)" and ?d = "unat (days d)" and ?n = "unat (nanos d)"
  let ?time = "if 0 < ?n then ''T'' @ show_clock ?n else []"
  have m: "?m < 2 ^ 32" and dd: "?d < 2 ^ 32" and n: "?n < 2 ^ 64"
    using unsigned_less [of "months d"] unsigned_less [of "days d"] unsigned_less [of "nanos d"]
    by simp_all
  have "duration_from_str oc (duration_display d) = parse_loop oc False None (dur 0 0 0) (show_date ?m ?d @ ?time)"
    by (simp only: duration_display_nat [OF False]) (simp add: duration_from_str_def)
  also have "\<dots> = parse_loop oc False None (dur ?m ?d 0) ?time"
    by (rule parse_date [OF m dd]) simp
  also have "\<dots> = Ok (dur ?m ?d ?n)"
    using parse_clock [OF _ n, of oc ?m ?d] by (cases "0 < ?n") auto
  also have "dur ?m ?d ?n = d" by (simp add: duration_new_def)
  finally show ?thesis .
qed

section \<open>Absence of panics\<close>

lemma ascii_boundary: "ascii s \<Longrightarrow> i \<le> length s \<Longrightarrow> is_char_boundary s i"
  using nth_mem [of i s] by (fastforce simp: is_char_boundary_def ascii_def)

lemma read_u32_ascii:
  assumes "ascii s" shows "read_u32 s \<noteq> Panic \<and> (read_u32 s = Ok (seg, tail) \<longrightarrow> ascii tail)"
proof -
  let ?i = "count_digits s"
  have "?i \<noteq> 0 \<Longrightarrow> is_char_boundary s (?i + 1)"
    using assms count_digits_less [of s] by (cases "s = []") (auto intro: ascii_boundary)
  moreover have "parse_u64 t \<noteq> Panic" for t
  proof -
    have "parse_pos hi acc t \<noteq> Panic" for hi acc t
      by (induction hi acc t rule: parse_pos.induct) auto
    moreover have "parse_neg lo acc t \<noteq> Panic" for lo acc t
      by (induction lo acc t rule: parse_neg.induct) auto
    ultimately show ?thesis by (simp add: parse_u64_def parse_int_def)
  qed
  moreover have "ascii (drop k s)" for k using assms by (auto simp: ascii_def dest: in_set_dropD)
  ultimately show ?thesis
    by (auto simp: read_u32_def Let_def result_eqs slice_from_def)
qed

lemma unit_step_release: "unit_step False pt prev seg d \<noteq> Panic"
  by (simp add: unit_step_def machine_defs)

lemma parse_loop_release: "ascii s \<Longrightarrow> parse_loop False pt prev d s \<noteq> Panic"
proof (induction s arbitrary: pt prev d rule: length_induct)
  case (1 s)
  show ?case
  proof (cases "s = []")
    case False
    let ?str = "if hd s = CHR ''T'' then tl s else s"
    have str: "ascii ?str" "length ?str \<le> length s"
      using "1.prems" by (cases s; auto)+
    have tail: "ascii tail \<and> length tail < length s" if "read_u32 ?str = Ok (seg, tail)" for seg tail
      using that str read_u32_ascii read_u32_shorter [OF that] by fastforce
    show ?thesis
      using False "1.IH" tail read_u32_ascii [OF str(1)] unit_step_release
      by (subst parse_loop.simps) (auto simp: Let_def and_then_eq_Panic split: prod.splits)
  qed simp
qed

section \<open>Properties\<close>

text \<open>
  C20: every duration is read back from its ISO 8601 text exactly, in builds with and without
  overflow checks; in particular parsing a printed duration terminates without error or panic.
\<close>

theorem duration_print_parse: "duration_from_str oc (duration_display d) = Ok d"
  by (rule duration_reparse)

text \<open>
  C32: without overflow checks, parsing any non-empty ASCII text returns a duration or a parse
  error, never a panic.
\<close>

theorem duration_parse_release_total:
  assumes "s \<noteq> []" "ascii s"
  shows "duration_from_str False s \<noteq> Panic"
  using assms parse_loop_release [of "tl s"] by (cases s) (auto simp: duration_from_str_def)

theorem duration_parse_release_total_witness: "duration_from_str False ''P1Y2X'' \<noteq> Panic"
  by (rule duration_parse_release_total) simp_all

text \<open>
  C11: inputs on which the duration parser misbehaves.  The empty text panics (the first byte is
  read before the length is checked); a number followed by a two-byte character panics (the slice
  starts inside the character); and a number of years above \<open>2\<^sup>3\<^sup>2\<close> is silently cut to 32 bits.
\<close>

theorem duration_parse_defects:
  "duration_from_str oc [] = Panic
   \<and> duration_from_str oc (''P1'' @ [CHR 0xC3, CHR 0xA9]) = Panic
   \<and> duration_from_str oc ''P4294967296Y'' = Ok (duration_new 0 0 0)"
proof (intro conjI)
  show "duration_from_str oc [] = Panic" by (simp add: duration_from_str_def)
  have "parse_u64 ''1'' = Ok 1"
    using parse_u64_digits [of "''1''"] by (simp add: is_ascii_digit_def digit_of_def)
  then have "read_u32 (''1'' @ [CHR 0xC3, CHR 0xA9]) = Panic"
    by (simp add: read_u32_def is_ascii_digit_def slice_from_def is_char_boundary_def)
  then show "duration_from_str oc (''P1'' @ [CHR 0xC3, CHR 0xA9]) = Panic"
    by (simp add: duration_from_str_def parse_loop.simps)
  have ds: "digits_value ''4294967296'' = 4294967296"
    by (simp add: digits_value_def digit_of_def)
  have "parse_loop oc False None (duration_new 0 0 0) (''4294967296'' @ CHR ''Y'' # [])
      = Ok (duration_new 0 0 0)"
    using parse_loop_segment [of "''4294967296''" "CHR ''Y''" "[]" None oc False] ds
    by (simp add: is_ascii_digit_def unit_step_def unit_consts machine_defs duration_new_def)
  then show "duration_from_str oc ''P4294967296Y'' = Ok (duration_new 0 0 0)"
    by (simp add: duration_from_str_def)
qed

end
