(* ===== verification/Concepts.thy ===== *)
theory Concepts
  imports Decimals Durations Hash_Maps
begin

text \<open>
  \<open>rust/src/concept\<close>: values and their types, types, instances, concepts with their getters and
  textual forms.  Constructors of the enums \<open>ValueType\<close>, \<open>Value\<close>, \<open>Concept\<close> and
  \<open>ConceptCategory\<close>, which share their names in the code, carry the prefixes \<open>T\<close>, \<open>V\<close>, \<open>C\<close> and
  the suffix \<open>Category\<close> here.  Dates and times are \<open>chrono\<close>'s: a date is its day number, a
  datetime its seconds and nanoseconds since the epoch, a zone its name or offset.  How they and
  floating-point numbers are printed is a parameter (\<open>fmt_lib\<close>).
\<close>

section \<open>Values\<close>

type_synonym f64 = "64 word"
type_synonym naive_date = int

record naive_datetime =
  dt_seconds :: int
  dt_nanos :: nat

datatype time_zone = IANA string | Fixed int

record datetime_tz =
  dt_utc :: naive_datetime
  dt_zone :: time_zone

datatype value_type =
    TBoolean | TInteger | TDouble | TDecimal | TString | TDate | TDatetime | TDatetimeTZ | TDuration
  | TStruct string

primrec value_type_name :: "value_type \<Rightarrow> string" where
  "value_type_name TBoolean = ''boolean''"
| "value_type_name TInteger = ''integer''"
| "value_type_name TDouble = ''double''"
| "value_type_name TDecimal = ''decimal''"
| "value_type_name TString = ''string''"
| "value_type_name TDate = ''date''"
| "value_type_name TDatetime = ''datetime''"
| "value_type_name TDatetimeTZ = ''datetime-tz''"
| "value_type_name TDuration = ''duration''"
| "value_type_name (TStruct name) = name"

datatype cvalue =
    VBoolean bool
  | VInteger i64
  | VDouble f64
  | VDecimal decimal
  | VString string
  | VDate naive_date
  | VDatetime naive_datetime
  | VDatetimeTZ datetime_tz
  | VDuration duration
  | VStruct "(string \<times> cvalue option) list" string

type_synonym struct = "(string \<times> cvalue option) list"

definition get_type :: "cvalue \<Rightarrow> value_type" where
  "get_type v =
     (case v of
        VBoolean _ \<Rightarrow> TBoolean | VInteger _ \<Rightarrow> TInteger | VDouble _ \<Rightarrow> TDouble
      | VString _ \<Rightarrow> TString | VDecimal _ \<Rightarrow> TDecimal | VDate _ \<Rightarrow> TDate
      | VDatetime _ \<Rightarrow> TDatetime | VDatetimeTZ _ \<Rightarrow> TDatetimeTZ | VDuration _ \<Rightarrow> TDuration
      | VStruct _ name \<Rightarrow> TStruct name)"

definition get_type_name :: "cvalue \<Rightarrow> string" where
  "get_type_name v =
     (case v of
        VBoolean _ \<Rightarrow> value_type_name TBoolean | VInteger _ \<Rightarrow> value_type_name TInteger
      | VDouble _ \<Rightarrow> value_type_name TDouble | VString _ \<Rightarrow> value_type_name TString
      | VDecimal _ \<Rightarrow> value_type_name TDecimal | VDate _ \<Rightarrow> value_type_name TDate
      | VDatetime _ \<Rightarrow> value_type_name TDatetime | VDatetimeTZ _ \<Rightarrow> value_type_name TDatetimeTZ
      | VDuration _ \<Rightarrow> value_type_name TDuration | VStruct _ name \<Rightarrow> name)"

definition get_boolean :: "cvalue \<Rightarrow> bool option" where
  "get_boolean v = (case v of VBoolean b \<Rightarrow> Some b | _ \<Rightarrow> None)"

definition get_integer :: "cvalue \<Rightarrow> i64 option" where
  "get_integer v = (case v of VInteger i \<Rightarrow> Some i | _ \<Rightarrow> None)"

definition get_double :: "cvalue \<Rightarrow> f64 option" where
  "get_double v = (case v of VDouble x \<Rightarrow> Some x | _ \<Rightarrow> None)"

definition get_string :: "cvalue \<Rightarrow> string option" where
  "get_string v = (case v of VString s \<Rightarrow> Some s | _ \<Rightarrow> None)"

definition get_decimal :: "cvalue \<Rightarrow> decimal option" where
  "get_decimal v = (case v of VDecimal d \<Rightarrow> Some d | _ \<Rightarrow> None)"

definition get_date :: "cvalue \<Rightarrow> naive_date option" where
  "get_date v = (case v of VDate d \<Rightarrow> Some d | _ \<Rightarrow> None)"

definition get_datetime :: "cvalue \<Rightarrow> naive_datetime option" where
  "get_datetime v = (case v of VDatetime d \<Rightarrow> Some d | _ \<Rightarrow> None)"

definition get_datetime_tz :: "cvalue \<Rightarrow> datetime_tz option" where
  "get_datetime_tz v = (case v of VDatetimeTZ d \<Rightarrow> Some d | _ \<Rightarrow> None)"

definition get_duration :: "cvalue \<Rightarrow> duration option" where
  "get_duration v = (case v of VDuration d \<Rightarrow> Some d | _ \<Rightarrow> None)"

definition get_struct :: "cvalue \<Rightarrow> struct option" where
  "get_struct v = (case v of VStruct s _ \<Rightarrow> Some s | _ \<Rightarrow> None)"

text \<open>
  Textual forms.  \<open>fmt_lib\<close> holds the formatting of the standard library and of \<open>chrono\<close>: \<open>Display\<close>
  of a double, the three format strings of the code, \<open>Display\<close> of dates, and \<open>Debug\<close> of a string.
\<close>

record fmt_lib =
  fmt_f64 :: "f64 \<Rightarrow> string"
  fmt_date :: "naive_date \<Rightarrow> string"
  fmt_datetime :: "naive_datetime \<Rightarrow> string"
  fmt_datetime_tz :: "datetime_tz \<Rightarrow> string"
  fmt_datetime_tz_offset :: "datetime_tz \<Rightarrow> string"
  disp_date :: "naive_date \<Rightarrow> string"
  disp_datetime :: "naive_datetime \<Rightarrow> string"
  disp_datetime_tz :: "datetime_tz \<Rightarrow> string"
  debug_str :: "string \<Rightarrow> string"

definition show_bool :: "bool \<Rightarrow> string" where
  "show_bool b = (if b then ''true'' else ''false'')"

definition in_quotes :: "string \<Rightarrow> string" where
  "in_quotes s = [CHR 0x22] @ s @ [CHR 0x22]"

fun value_debug :: "fmt_lib \<Rightarrow> cvalue \<Rightarrow> string" where
  "value_debug fmt v = get_type_name v @ '': '' @
     (case v of
        VBoolean b \<Rightarrow> show_bool b
      | VInteger i \<Rightarrow> show_int (sint i)
      | VDouble x \<Rightarrow> fmt_f64 fmt x
      | VDecimal d \<Rightarrow> decimal_display d
      | VString s \<Rightarrow> in_quotes s
      | VDate d \<Rightarrow> disp_date fmt d
      | VDatetime d \<Rightarrow> disp_datetime fmt d
      | VDatetimeTZ d \<Rightarrow> disp_datetime_tz fmt d
      | VDuration d \<Rightarrow> duration_display d
      | VStruct fs name \<Rightarrow> name @ '' '' @
          ''{'' @ join '', '' (map (\<lambda>(k, f). debug_str fmt k @ '': '' @
            (case f of None \<Rightarrow> ''None'' | Some w \<Rightarrow> ''Some('' @ value_debug fmt w @ '')'')) fs) @ ''}'')"

declare value_debug.simps [simp del]

definition struct_debug :: "fmt_lib \<Rightarrow> struct \<Rightarrow> string" where
  "struct_debug fmt fs =
     ''{'' @ join '', '' (map (\<lambda>(k, f). debug_str fmt k @ '': '' @
       (case f of None \<Rightarrow> ''None'' | Some w \<Rightarrow> ''Some('' @ value_debug fmt w @ '')'')) fs) @ ''}''"

definition value_display :: "fmt_lib \<Rightarrow> cvalue \<Rightarrow> string" where
  "value_display fmt v =
     (case v of
        VBoolean b \<Rightarrow> show_bool b
      | VInteger i \<Rightarrow> show_int (sint i)
      | VDouble x \<Rightarrow> fmt_f64 fmt x
      | VString s \<Rightarrow> in_quotes s
      | VDecimal d \<Rightarrow> decimal_display d
      | VDate d \<Rightarrow> fmt_date fmt d
      | VDatetime d \<Rightarrow> fmt_datetime fmt d
      | VDatetimeTZ d \<Rightarrow>
          (case dt_zone d of
             IANA name \<Rightarrow> fmt_datetime_tz fmt d @ '' '' @ name
           | Fixed _ \<Rightarrow> fmt_datetime_tz_offset fmt d)
      | VDuration d \<Rightarrow> duration_display d
      | VStruct fs name \<Rightarrow> name @ '' '' @ struct_debug fmt fs)"

section \<open>Equality of values\<close>

text \<open>
  \<open>PartialEq\<close> of floating-point numbers: not a number is unequal to everything, and the two zeros are equal.
  Moments are equal when they are the same instant, in whatever zones; structs when they have the same
  fields, in whatever order the maps hold them.
\<close>

definition f64_magnitude :: "f64 \<Rightarrow> nat" where
  "f64_magnitude x = unat x mod 2 ^ 63"

definition f64_is_nan :: "f64 \<Rightarrow> bool" where
  "f64_is_nan x \<longleftrightarrow> 2047 * 2 ^ 52 < f64_magnitude x"

definition f64_eq :: "f64 \<Rightarrow> f64 \<Rightarrow> bool" where
  "f64_eq x y \<longleftrightarrow> \<not> f64_is_nan x \<and> \<not> f64_is_nan y
     \<and> (x = y \<or> f64_magnitude x = 0 \<and> f64_magnitude y = 0)"

definition eq_options :: "('a \<Rightarrow> 'b \<Rightarrow> bool) \<Rightarrow> 'a option \<Rightarrow> 'b option \<Rightarrow> bool" where
  "eq_options eq a b = (case (a, b) of (Some x, Some y) \<Rightarrow> eq x y | (None, None) \<Rightarrow> True | _ \<Rightarrow> False)"

lemma eq_options_cong [fundef_cong]:
  "a = a' \<Longrightarrow> b = b' \<Longrightarrow> (\<And>x y. a' = Some x \<Longrightarrow> b' = Some y \<Longrightarrow> eq x y = eq' x y) \<Longrightarrow> eq_options eq a b = eq_options eq' a' b'"
  by (auto simp: eq_options_def split: option.split)

fun value_eq :: "cvalue \<Rightarrow> cvalue \<Rightarrow> bool" where
  "value_eq (VDouble x) (VDouble y) \<longleftrightarrow> f64_eq x y"
| "value_eq (VDatetimeTZ x) (VDatetimeTZ y) \<longleftrightarrow> dt_utc x = dt_utc y"
| "value_eq (VStruct xs m) (VStruct ys n) \<longleftrightarrow> m = n \<and> length xs = length ys
     \<and> list_all (\<lambda>(k, v). case hm_get ys k of None \<Rightarrow> False | Some w \<Rightarrow> eq_options value_eq v w) xs"
| "value_eq v w \<longleftrightarrow> v = w"

section \<open>Types and instances\<close>

record entity_type =
  entity_type_label :: string

record relation_type =
  relation_type_label :: string

record attribute_type =
  attribute_type_label :: string
  attribute_value_type :: "value_type option"

record role_type =
  role_type_label :: string

datatype type_t =
    EntityType entity_type
  | RelationType relation_type
  | AttributeType attribute_type
  | RoleType role_type

definition type_label :: "type_t \<Rightarrow> string" where
  "type_label t =
     (case t of
        EntityType e \<Rightarrow> entity_type_label e
      | RelationType r \<Rightarrow> relation_type_label r
      | AttributeType a \<Rightarrow> attribute_type_label a
      | RoleType r \<Rightarrow> role_type_label r)"

record entity =
  entity_iid :: iid
  type_of_entity :: "entity_type option"

record relation =
  relation_iid :: iid
  type_of_relation :: "relation_type option"

record attribute =
  attribute_iid :: iid
  attribute_value :: cvalue
  type_of_attribute :: "attribute_type option"

section \<open>Concepts\<close>

datatype concept =
    CEntityType entity_type
  | CRelationType relation_type
  | CRoleType role_type
  | CAttributeType attribute_type
  | CEntity entity
  | CRelation relation
  | CAttribute attribute
  | CValue cvalue

definition attribute_eq :: "attribute \<Rightarrow> attribute \<Rightarrow> bool" where
  "attribute_eq a b \<longleftrightarrow> attribute_iid a = attribute_iid b \<and> value_eq (attribute_value a) (attribute_value b)
     \<and> type_of_attribute a = type_of_attribute b"

definition concept_eq :: "concept \<Rightarrow> concept \<Rightarrow> bool" where
  "concept_eq c d =
     (case (c, d) of
        (CAttribute a, CAttribute b) \<Rightarrow> attribute_eq a b
      | (CValue v, CValue w) \<Rightarrow> value_eq v w
      | _ \<Rightarrow> c = d)"

datatype concept_category =
    EntityTypeCategory | RelationTypeCategory | RoleTypeCategory | AttributeTypeCategory
  | EntityCategory | RelationCategory | AttributeCategory | ValueCategory

primrec category_name :: "concept_category \<Rightarrow> string" where
  "category_name EntityTypeCategory = ''EntityType''"
| "category_name RelationTypeCategory = ''RelationType''"
| "category_name RoleTypeCategory = ''RoleType''"
| "category_name AttributeTypeCategory = ''AttributeType''"
| "category_name EntityCategory = ''Entity''"
| "category_name RelationCategory = ''Relation''"
| "category_name AttributeCategory = ''Attribute''"
| "category_name ValueCategory = ''Value''"

definition unknown_label :: string where
  "unknown_label = ''unknown''"

definition try_get_iid :: "concept \<Rightarrow> iid option" where
  "try_get_iid c =
     (case c of CEntity e \<Rightarrow> Some (entity_iid e) | CRelation r \<Rightarrow> Some (relation_iid r) | _ \<Rightarrow> None)"

definition try_get_label :: "concept \<Rightarrow> string option" where
  "try_get_label c =
     (case c of
        CEntityType t \<Rightarrow> Some (entity_type_label t)
      | CRelationType t \<Rightarrow> Some (relation_type_label t)
      | CAttributeType t \<Rightarrow> Some (attribute_type_label t)
      | CRoleType t \<Rightarrow> Some (role_type_label t)
      | CEntity e \<Rightarrow> map_option entity_type_label (type_of_entity e)
      | CRelation r \<Rightarrow> map_option relation_type_label (type_of_relation r)
      | CAttribute a \<Rightarrow> map_option attribute_type_label (type_of_attribute a)
      | CValue v \<Rightarrow> Some (get_type_name v))"

definition get_label :: "concept \<Rightarrow> string" where
  "get_label c = (case try_get_label c of Some l \<Rightarrow> l | None \<Rightarrow> unknown_label)"

definition try_get_value_label :: "concept \<Rightarrow> string option" where
  "try_get_value_label c =
     (case c of
        CAttributeType t \<Rightarrow> map_option value_type_name (attribute_value_type t)
      | CAttribute a \<Rightarrow> Some (get_type_name (attribute_value a))
      | CValue v \<Rightarrow> Some (get_type_name v)
      | _ \<Rightarrow> None)"

definition try_get_value_type :: "concept \<Rightarrow> value_type option" where
  "try_get_value_type c =
     (case c of
        CAttributeType t \<Rightarrow> attribute_value_type t
      | CAttribute a \<Rightarrow> Some (get_type (attribute_value a))
      | CValue v \<Rightarrow> Some (get_type v)
      | _ \<Rightarrow> None)"

definition try_get_value :: "concept \<Rightarrow> cvalue option" where
  "try_get_value c =
     (case c of CAttribute a \<Rightarrow> Some (attribute_value a) | CValue v \<Rightarrow> Some v | _ \<Rightarrow> None)"

definition try_get_boolean :: "concept \<Rightarrow> bool option" where
  "try_get_boolean c = Option.bind (try_get_value c) get_boolean"

definition try_get_integer :: "concept \<Rightarrow> i64 option" where
  "try_get_integer c = Option.bind (try_get_value c) get_integer"

definition try_get_double :: "concept \<Rightarrow> f64 option" where
  "try_get_double c = Option.bind (try_get_value c) get_double"

definition try_get_decimal :: "concept \<Rightarrow> decimal option" where
  "try_get_decimal c = Option.bind (try_get_value c) get_decimal"

definition try_get_string :: "concept \<Rightarrow> string option" where
  "try_get_string c = Option.bind (try_get_value c) get_string"

definition try_get_date :: "concept \<Rightarrow> naive_date option" where
  "try_get_date c = Option.bind (try_get_value c) get_date"

definition try_get_datetime :: "concept \<Rightarrow> naive_datetime option" where
  "try_get_datetime c = Option.bind (try_get_value c) get_datetime"

definition try_get_datetime_tz :: "concept \<Rightarrow> datetime_tz option" where
  "try_get_datetime_tz c = Option.bind (try_get_value c) get_datetime_tz"

definition try_get_duration :: "concept \<Rightarrow> duration option" where
  "try_get_duration c = Option.bind (try_get_value c) get_duration"

definition try_get_struct :: "concept \<Rightarrow> struct option" where
  "try_get_struct c = Option.bind (try_get_value c) get_struct"

primrec get_category :: "concept \<Rightarrow> concept_category" where
  "get_category (CEntityType t) = EntityTypeCategory"
| "get_category (CRelationType t) = RelationTypeCategory"
| "get_category (CRoleType t) = RoleTypeCategory"
| "get_category (CAttributeType t) = AttributeTypeCategory"
| "get_category (CEntity e) = EntityCategory"
| "get_category (CRelation r) = RelationCategory"
| "get_category (CAttribute a) = AttributeCategory"
| "get_category (CValue v) = ValueCategory"

definition is_type :: "concept \<Rightarrow> bool" where
  "is_type c = (case c of CEntityType _ \<Rightarrow> True | CRelationType _ \<Rightarrow> True | CRoleType _ \<Rightarrow> True
     | CAttributeType _ \<Rightarrow> True | _ \<Rightarrow> False)"

definition is_entity_type :: "concept \<Rightarrow> bool" where
  "is_entity_type c \<longleftrightarrow> get_category c = EntityTypeCategory"

definition is_relation_type :: "concept \<Rightarrow> bool" where
  "is_relation_type c \<longleftrightarrow> get_category c = RelationTypeCategory"

definition is_role_type :: "concept \<Rightarrow> bool" where
  "is_role_type c \<longleftrightarrow> get_category c = RoleTypeCategory"

definition is_attribute_type :: "concept \<Rightarrow> bool" where
  "is_attribute_type c \<longleftrightarrow> get_category c = AttributeTypeCategory"

definition is_instance :: "concept \<Rightarrow> bool" where
  "is_instance c = (case c of CEntity _ \<Rightarrow> True | CRelation _ \<Rightarrow> True | CAttribute _ \<Rightarrow> True | _ \<Rightarrow> False)"

definition is_entity :: "concept \<Rightarrow> bool" where
  "is_entity c \<longleftrightarrow> get_category c = EntityCategory"

definition is_relation :: "concept \<Rightarrow> bool" where
  "is_relation c \<longleftrightarrow> get_category c = RelationCategory"

definition is_attribute :: "concept \<Rightarrow> bool" where
  "is_attribute c \<longleftrightarrow> get_category c = AttributeCategory"

definition is_value :: "concept \<Rightarrow> bool" where
  "is_value c \<longleftrightarrow> get_category c = ValueCategory"

definition is_boolean :: "concept \<Rightarrow> bool" where
  "is_boolean c \<longleftrightarrow> try_get_value_type c = Some TBoolean"

definition is_integer :: "concept \<Rightarrow> bool" where
  "is_integer c \<longleftrightarrow> try_get_value_type c = Some TInteger"

definition is_decimal :: "concept \<Rightarrow> bool" where
  "is_decimal c \<longleftrightarrow> try_get_value_type c = Some TDecimal"

definition is_double :: "concept \<Rightarrow> bool" where
  "is_double c \<longleftrightarrow> try_get_value_type c = Some TDouble"

definition is_string :: "concept \<Rightarrow> bool" where
  "is_string c \<longleftrightarrow> try_get_value_type c = Some TString"

definition is_date :: "concept \<Rightarrow> bool" where
  "is_date c \<longleftrightarrow> try_get_value_type c = Some TDate"

definition is_datetime :: "concept \<Rightarrow> bool" where
  "is_datetime c \<longleftrightarrow> try_get_value_type c = Some TDatetime"

definition is_datetime_tz :: "concept \<Rightarrow> bool" where
  "is_datetime_tz c \<longleftrightarrow> try_get_value_type c = Some TDatetimeTZ"

definition is_duration :: "concept \<Rightarrow> bool" where
  "is_duration c \<longleftrightarrow> try_get_value_type c = Some TDuration"

definition is_struct :: "concept \<Rightarrow> bool" where
  "is_struct c = (case try_get_value_type c of Some (TStruct _) \<Rightarrow> True | _ \<Rightarrow> False)"

definition concept_debug :: "fmt_lib \<Rightarrow> concept \<Rightarrow> string" where
  "concept_debug fmt c =
     (if is_type c then category_name (get_category c) @ ''('' @ get_label c @ '')''
      else category_name (get_category c) @ ''('' @ get_label c
        @ (case try_get_iid c of
             Some i \<Rightarrow> '': '' @ id_display i
               @ (case try_get_value c of Some v \<Rightarrow> '', '' @ value_display fmt v | None \<Rightarrow> [])
           | None \<Rightarrow>
               (case try_get_value c of Some v \<Rightarrow> '': '' @ value_display fmt v | None \<Rightarrow> []))
        @ '')'')"

datatype kind = KEntity | KAttribute | KRelation | KRole

primrec kind_name :: "kind \<Rightarrow> string" where
  "kind_name KEntity = ''entity''"
| "kind_name KAttribute = ''attribute''"
| "kind_name KRelation = ''relation''"
| "kind_name KRole = ''relation:role''"

definition kind_debug :: "kind \<Rightarrow> string" where
  "kind_debug k = ''Kind['' @ kind_name k @ '']''"

section \<open>Properties\<close>

lemmas category_defs = is_type_def is_entity_type_def is_relation_type_def is_role_type_def
  is_attribute_type_def is_instance_def is_entity_def is_relation_def is_attribute_def is_value_def

lemmas value_type_defs = is_boolean_def is_integer_def is_decimal_def is_double_def is_string_def
  is_date_def is_datetime_def is_datetime_tz_def is_duration_def is_struct_def

lemmas value_getter_defs = try_get_boolean_def try_get_integer_def try_get_double_def
  try_get_decimal_def try_get_string_def try_get_date_def try_get_datetime_def
  try_get_datetime_tz_def try_get_duration_def try_get_struct_def try_get_value_def
  get_boolean_def get_integer_def get_double_def get_decimal_def get_string_def get_date_def
  get_datetime_def get_datetime_tz_def get_duration_def get_struct_def

lemma get_type_name_type: "get_type_name v = value_type_name (get_type v)"
  by (cases v) (simp_all add: get_type_name_def get_type_def)

text \<open>
  C36: classification of concepts.  Every concept is exactly one of a type, an instance and a value;
  the documented equivalences of \<open>is_type\<close> and \<open>is_instance\<close> hold; a concept that is not a type
  has exactly one of an IID and a value, so the branch of \<open>Debug\<close> marked as unreachable is; and the
  value label is the name of the value type.
\<close>

theorem concept_classification:
  "(is_type c \<longleftrightarrow> is_entity_type c \<or> is_relation_type c \<or> is_role_type c \<or> is_attribute_type c)
   \<and> (is_instance c \<longleftrightarrow> is_entity c \<or> is_relation c \<or> is_attribute c)
   \<and> (is_type c \<longleftrightarrow> \<not> is_instance c \<and> \<not> is_value c) \<and> \<not> (is_instance c \<and> is_value c)
   \<and> ((try_get_iid c = None) \<noteq> (try_get_value c = None)) = (\<not> is_type c)
   \<and> try_get_value_label c = map_option value_type_name (try_get_value_type c)"
  by (cases c)
    (simp_all add: category_defs try_get_iid_def try_get_value_def try_get_value_label_def
      try_get_value_type_def get_type_name_type)

text \<open>
  the typed getters are exact.  Each returns a value exactly when the concept carries a value
  and its value type is the one asked for, and no two of them succeed on the same concept.
\<close>

theorem concept_getters_exact:
  "(try_get_boolean c \<noteq> None \<longleftrightarrow> try_get_value c \<noteq> None \<and> is_boolean c)
   \<and> (try_get_integer c \<noteq> None \<longleftrightarrow> try_get_value c \<noteq> None \<and> is_integer c)
   \<and> (try_get_double c \<noteq> None \<longleftrightarrow> try_get_value c \<noteq> None \<and> is_double c)
   \<and> (try_get_decimal c \<noteq> None \<longleftrightarrow> try_get_value c \<noteq> None \<and> is_decimal c)
   \<and> (try_get_string c \<noteq> None \<longleftrightarrow> try_get_value c \<noteq> None \<and> is_string c)
   \<and> (try_get_date c \<noteq> None \<longleftrightarrow> try_get_value c \<noteq> None \<and> is_date c)
   \<and> (try_get_datetime c \<noteq> None \<longleftrightarrow> try_get_value c \<noteq> None \<and> is_datetime c)
   \<and> (try_get_datetime_tz c \<noteq> None \<longleftrightarrow> try_get_value c \<noteq> None \<and> is_datetime_tz c)
   \<and> (try_get_duration c \<noteq> None \<longleftrightarrow> try_get_value c \<noteq> None \<and> is_duration c)
   \<and> (try_get_struct c \<noteq> None \<longleftrightarrow> try_get_value c \<noteq> None \<and> is_struct c)"
  by (cases c)
    (auto simp: value_type_defs value_getter_defs try_get_value_type_def get_type_def
      split: cvalue.splits value_type.splits)

end
