(* ===== verification/Analyze.thy ===== *)
theory Analyze
  imports Concepts Hash_Maps
begin

text \<open>
  \<open>rust/src/analyze\<close>: the representation of an analyzed query, that is its pipelines, conjunctions,
  constraints and inferred types.  Constructors that the code's enums share with other enums carry
  a suffix naming their enum.  A map from variables or keys is an association list.
\<close>

section \<open>Conjunctions\<close>

datatype conjunction_id = ConjunctionID nat

datatype variable = Variable u32

datatype type_annotations =
    InstanceAnnotations "type_t list"
  | TypeAnnotations "type_t list"
  | ValueAnnotations value_type

record variable_annotations =
  is_optional :: bool
  annotation_types :: type_annotations

datatype constraint_exactness = Exact | Subtypes

record constraint_span =
  span_begin :: nat
  span_end :: nat

record named_role =
  role_variable :: variable
  role_name :: string

datatype constraint_vertex =
    VariableVertex variable
  | LabelVertex type_t
  | ValueVertex cvalue
  | NamedRoleVertex named_role

datatype comparator =
  Equal | NotEqual | LessThan | LessOrEqual | Greater | GreaterOrEqual | Like | Contains

datatype constraint =
    Isa constraint_vertex constraint_vertex constraint_exactness
  | Has constraint_vertex constraint_vertex constraint_exactness
  | Links constraint_vertex constraint_vertex constraint_vertex constraint_exactness
  | Sub constraint_vertex constraint_vertex constraint_exactness
  | Owns constraint_vertex constraint_vertex constraint_exactness
  | Relates constraint_vertex constraint_vertex constraint_exactness
  | Plays constraint_vertex constraint_vertex constraint_exactness
  | FunctionCall string "constraint_vertex list" "constraint_vertex list"
  | Expression string constraint_vertex "constraint_vertex list"
  | Is constraint_vertex constraint_vertex
  | Iid constraint_vertex iid
  | Comparison constraint_vertex constraint_vertex comparator
  | KindConstraint kind constraint_vertex
  | LabelConstraint constraint_vertex string
  | ValueConstraint constraint_vertex value_type
  | Or "conjunction_id list"
  | Not conjunction_id
  | Try conjunction_id

record constraint_with_span =
  constraint_of :: constraint
  constraint_span_of :: "constraint_span option"

record conjunction =
  constraints :: "constraint_with_span list"
  conjunction_annotations :: "(variable \<times> variable_annotations) list"

primrec comparator_symbol :: "comparator \<Rightarrow> string" where
  "comparator_symbol Equal = ''==''"
| "comparator_symbol NotEqual = ''!=''"
| "comparator_symbol LessThan = ''<''"
| "comparator_symbol LessOrEqual = ''<=''"
| "comparator_symbol Greater = ''>''"
| "comparator_symbol GreaterOrEqual = ''>=''"
| "comparator_symbol Like = ''Like''"
| "comparator_symbol Contains = ''Contains''"

text \<open>\<open>PartialEq\<close> of a named role compares the variables only.\<close>

definition named_role_eq :: "named_role \<Rightarrow> named_role \<Rightarrow> bool" where
  "named_role_eq a b \<longleftrightarrow> role_variable a = role_variable b"

section \<open>Pipelines\<close>

record variable_info =
  variable_info_name :: string

record reducer =
  reducer_arguments :: "variable list"
  reducer_name :: string

record reduce_assignment =
  assigned :: variable
  assigned_reducer :: reducer

datatype sort_order = Ascending | Descending

record sort_variable =
  sorted_variable :: variable
  sorted_order :: sort_order

datatype pipeline_stage =
    MatchStage conjunction_id
  | InsertStage conjunction_id
  | PutStage conjunction_id
  | UpdateStage conjunction_id
  | DeleteStage conjunction_id "variable list"
  | SelectStage "variable list"
  | SortStage "sort_variable list"
  | RequireStage "variable list"
  | OffsetStage u64
  | LimitStage u64
  | DistinctStage
  | ReduceStage "reduce_assignment list" "variable list"

record pipeline =
  conjunctions :: "conjunction list"
  stages :: "pipeline_stage list"
  pipeline_variable_info :: "(variable \<times> variable_info) list"
  outputs :: "variable list"

definition variable_name :: "pipeline \<Rightarrow> variable \<Rightarrow> string option" where
  "variable_name p v = map_option variable_info_name (hm_get (pipeline_variable_info p) v)"

section \<open>Queries\<close>

datatype return_operation =
    StreamReturn "variable list"
  | SingleReturn string "variable list"
  | CheckReturn
  | ReduceReturn "reducer list"

record function_t =
  argument_variables :: "variable list"
  return_operation_of :: return_operation
  function_body :: pipeline
  argument_annotations :: "variable_annotations list"
  return_annotations :: "variable_annotations list"

record given =
  given_variables :: "variable list"
  given_annotations :: "(variable \<times> variable_annotations) list"

record fetch_leaf =
  leaf_annotations :: "value_type list"

datatype fetch =
    FetchList fetch
  | FetchLeafNode fetch_leaf
  | FetchObject "(string \<times> fetch) list"

record analyzed_query =
  query_source :: string
  query_preamble :: "function_t list"
  query_given :: "given option"
  query_pipeline :: pipeline
  query_fetch :: "fetch option"

end
