(* ===== verification/Json.thy ===== *)
theory Json
  imports Concepts Hash_Maps
begin

text \<open>
  \<open>rust/src/answer/json.rs\<close> and \<open>concept_document.rs\<close>: JSON values, their textual form with the
  escaping of strings, and the conversion of a document of concepts to JSON.  A double is its bit
  pattern; printing one and converting an integer to one are parameters.
\<close>

section \<open>JSON and its text\<close>

datatype json =
    JObject "(string \<times> json) list"
  | JArray "json list"
  | JString string
  | JNumber f64
  | JBoolean bool
  | JNull

text \<open>
  The table \<open>ESCAPE\<close>: the letter that names a control byte in its short escape, or \<open>None\<close> for the
  bytes written in hexadecimal.
\<close>

definition escape_letter :: "nat \<Rightarrow> char option" where
  "escape_letter b =
     (if b = 8 then Some CHR ''b'' else if b = 9 then Some CHR ''t'' else if b = 10 then Some CHR ''n''
      else if b = 12 then Some CHR ''f'' else if b = 13 then Some CHR ''r'' else None)"

definition hex_digits :: string where
  "hex_digits = ''0123456789abcdef''"

abbreviation backslash :: char where
  "backslash \<equiv> CHR 0x5C"

abbreviation dquote :: char where
  "dquote \<equiv> CHR 0x22"

definition escape_byte :: "char \<Rightarrow> string" where
  "escape_byte c =
     (let b = (of_char c :: nat) in
      if b < 0x20 then
        (case escape_letter b of
           None \<Rightarrow> [backslash, CHR ''u'', CHR ''0'', CHR ''0'',
             hex_digits ! (b div 16), hex_digits ! (b mod 16)]
         | Some special \<Rightarrow> [backslash, special])
      else if c = dquote \<or> c = backslash then [backslash, c]
      else [c])"

definition escape_bytes :: "string \<Rightarrow> string" where
  "escape_bytes s = concat (map escape_byte s)"

definition write_escaped_string :: "string \<Rightarrow> string" where
  "write_escaped_string s = [dquote] @ escape_bytes s @ [dquote]"

fun json_display :: "(f64 \<Rightarrow> string) \<Rightarrow> json \<Rightarrow> string" where
  "json_display num (JObject kvs) =
     ''{'' @ join '', '' (map (\<lambda>(k, v). [dquote] @ k @ [dquote] @ '': '' @ json_display num v) kvs) @ ''}''"
| "json_display num (JArray vs) = ''['' @ join '', '' (map (json_display num) vs) @ '']''"
| "json_display num (JString s) = write_escaped_string s"
| "json_display num (JNumber n) = num n"
| "json_display num (JBoolean b) = show_bool b"
| "json_display num JNull = ''null''"

section \<open>Documents\<close>

datatype leaf =
    LeafEmpty
  | LeafConcept concept
  | LeafValueType value_type
  | LeafKind kind

datatype node =
    MapNode "(string \<times> node) list"
  | ListNode "node list"
  | LeafNode "leaf option"

datatype query_type = ReadQuery | WriteQuery | SchemaQuery

record concept_document_header =
  document_query_type :: query_type

record concept_document =
  document_header :: concept_document_header
  document_root :: "node option"

definition json_kind :: "kind \<Rightarrow> json" where
  "json_kind k = JString (kind_name k)"

definition json_type :: "kind \<Rightarrow> string \<Rightarrow> json" where
  "json_type k label = JObject (hm_collect [(''kind'', json_kind k), (''label'', JString label)])"

definition json_value_type :: "value_type option \<Rightarrow> json" where
  "json_value_type t = JString
     (case t of
        None \<Rightarrow> ''none''
      | Some TBoolean \<Rightarrow> ''boolean''
      | Some TInteger \<Rightarrow> ''integer''
      | Some TDouble \<Rightarrow> ''double''
      | Some TDecimal \<Rightarrow> ''decimal''
      | Some TString \<Rightarrow> ''string''
      | Some TDate \<Rightarrow> ''date''
      | Some TDatetime \<Rightarrow> ''datetime''
      | Some TDatetimeTZ \<Rightarrow> ''datetime-tz''
      | Some TDuration \<Rightarrow> ''duration''
      | Some (TStruct name) \<Rightarrow> name)"

definition json_attribute_type :: "string \<Rightarrow> value_type option \<Rightarrow> json" where
  "json_attribute_type label t =
     JObject (hm_collect [(''kind'', JString (kind_name KAttribute)), (''label'', JString label),
       (''valueType'', json_value_type t)])"

fun json_value :: "fmt_lib \<Rightarrow> (i64 \<Rightarrow> f64) \<Rightarrow> cvalue \<Rightarrow> json" where
  "json_value fmt to_f64 (VBoolean b) = JBoolean b"
| "json_value fmt to_f64 (VInteger i) = JNumber (to_f64 i)"
| "json_value fmt to_f64 (VDouble x) = JNumber x"
| "json_value fmt to_f64 (VString s) = JString s"
| "json_value fmt to_f64 (VDecimal d) = JString (value_display fmt (VDecimal d))"
| "json_value fmt to_f64 (VDate d) = JString (value_display fmt (VDate d))"
| "json_value fmt to_f64 (VDatetime d) = JString (value_display fmt (VDatetime d))"
| "json_value fmt to_f64 (VDatetimeTZ d) = JString (value_display fmt (VDatetimeTZ d))"
| "json_value fmt to_f64 (VDuration d) = JString (value_display fmt (VDuration d))"
| "json_value fmt to_f64 (VStruct fs name) =
     JObject (hm_collect [(name, JObject (hm_collect
       (map (\<lambda>(k, f). (k, case f of Some v \<Rightarrow> json_value fmt to_f64 v | None \<Rightarrow> JNull)) fs)))])"

definition json_struct :: "fmt_lib \<Rightarrow> (i64 \<Rightarrow> f64) \<Rightarrow> struct \<Rightarrow> json" where
  "json_struct fmt to_f64 fs = JObject (hm_collect
     (map (\<lambda>(k, f). (k, case f of Some v \<Rightarrow> json_value fmt to_f64 v | None \<Rightarrow> JNull)) fs))"

definition leaf_into_json :: "fmt_lib \<Rightarrow> (i64 \<Rightarrow> f64) \<Rightarrow> leaf \<Rightarrow> (json, error) result" where
  "leaf_into_json fmt to_f64 l =
     (case l of
        LeafEmpty \<Rightarrow> Ok JNull
      | LeafConcept (CEntityType t) \<Rightarrow> Ok (json_type KEntity (entity_type_label t))
      | LeafConcept (CRelationType t) \<Rightarrow> Ok (json_type KRelation (relation_type_label t))
      | LeafConcept (CAttributeType t) \<Rightarrow>
          Ok (json_attribute_type (attribute_type_label t) (attribute_value_type t))
      | LeafConcept (CRoleType t) \<Rightarrow> Ok (json_type KRole (role_type_label t))
      | LeafConcept (CAttribute a) \<Rightarrow> Ok (json_value fmt to_f64 (attribute_value a))
      | LeafConcept (CValue v) \<Rightarrow> Ok (json_value fmt to_f64 v)
      | LeafConcept (CEntity _) \<Rightarrow> Panic
      | LeafConcept (CRelation _) \<Rightarrow> Panic
      | LeafValueType t \<Rightarrow> Ok (json_value_type (Some t))
      | LeafKind k \<Rightarrow> Ok (json_kind k))"

fun node_into_json :: "fmt_lib \<Rightarrow> (i64 \<Rightarrow> f64) \<Rightarrow> node \<Rightarrow> (json, error) result" where
  "node_into_json fmt to_f64 (MapNode kvs) =
     map_ok (\<lambda>js. JObject (hm_collect js))
       (try_map (\<lambda>(k, n). map_ok (Pair k) (node_into_json fmt to_f64 n)) kvs)"
| "node_into_json fmt to_f64 (ListNode ns) = map_ok JArray (try_map (node_into_json fmt to_f64) ns)"
| "node_into_json fmt to_f64 (LeafNode (Some l)) = leaf_into_json fmt to_f64 l"
| "node_into_json fmt to_f64 (LeafNode None) = Ok JNull"

definition document_into_json :: "fmt_lib \<Rightarrow> (i64 \<Rightarrow> f64) \<Rightarrow> concept_document \<Rightarrow> (json, error) result" where
  "document_into_json fmt to_f64 d =
     (case document_root d of None \<Rightarrow> Ok JNull | Some n \<Rightarrow> node_into_json fmt to_f64 n)"

definition document_get_query_type :: "concept_document \<Rightarrow> query_type" where
  "document_get_query_type d = document_query_type (document_header d)"

section \<open>Escaping\<close>

text \<open>
  A reader of the escapes a JSON string may contain, as far as the printer uses them; it is the
  specification the printer is checked against.
\<close>

definition hex_value :: "char \<Rightarrow> nat" where
  "hex_value c = (if is_ascii_digit c then digit_of c else of_char c - 87)"

definition letter_byte :: "char \<Rightarrow> nat" where
  "letter_byte c = (if c = CHR ''b'' then 8 else if c = CHR ''t'' then 9 else if c = CHR ''n'' then 10
     else if c = CHR ''f'' then 12 else if c = CHR ''r'' then 13 else of_char c)"

fun unescape :: "string \<Rightarrow> string" where
  "unescape [] = []"
| "unescape (c # cs) =
     (if c \<noteq> backslash then c # unescape cs
      else
        (case cs of
           d # ds \<Rightarrow>
             (if d = CHR ''u'' then
                (case ds of
                   _ # _ # x # y # rest \<Rightarrow> char_of (hex_value x * 16 + hex_value y) # unescape rest
                 | _ \<Rightarrow> [])
              else char_of (letter_byte d) # unescape ds)
         | [] \<Rightarrow> []))"

text \<open>The extent of a string literal: everything up to the first quote that is not escaped.\<close>

fun scan_string :: "string \<Rightarrow> (string \<times> string) option" where
  "scan_string [] = None"
| "scan_string (c # cs) =
     (if c = dquote then Some ([], cs)
      else if c = backslash then
        (case cs of
           [] \<Rightarrow> None
         | d # ds \<Rightarrow> map_option (\<lambda>(a, b). (c # d # a, b)) (scan_string ds))
      else map_option (\<lambda>(a, b). (c # a, b)) (scan_string cs))"

lemma escape_control_byte:
  "\<forall>b \<in> set [0..<32].
     unescape (escape_byte (char_of b) @ rest) = char_of b # unescape rest
     \<and> scan_string (escape_byte (char_of b) @ rest)
        = map_option (\<lambda>(x, y). (escape_byte (char_of b) @ x, y)) (scan_string rest)
     \<and> (\<forall>d \<in> set (escape_byte (char_of b)). 32 \<le> (of_char d :: nat))"
  by (simp add: upt_rec escape_byte_def escape_letter_def hex_digits_def hex_value_def letter_byte_def
      is_ascii_digit_def digit_of_def option.map_comp comp_def case_prod_unfold)

lemma letter_byte_self:
  "c \<notin> {CHR ''b'', CHR ''t'', CHR ''n'', CHR ''f'', CHR ''r''} \<Longrightarrow> char_of (letter_byte c) = c"
  by (simp add: letter_byte_def)

lemmas letter_byte_punctuation = letter_byte_self [of dquote, simplified]
  letter_byte_self [of backslash, simplified]

lemma escape_byte_reads:
  "unescape (escape_byte c @ rest) = c # unescape rest
   \<and> scan_string (escape_byte c @ rest) = map_option (\<lambda>(x, y). (escape_byte c @ x, y)) (scan_string rest)
   \<and> (\<forall>d \<in> set (escape_byte c). 32 \<le> (of_char d :: nat))"
proof (cases "(of_char c :: nat) < 32")
  case True
  then have "(of_char c :: nat) \<in> set [0..<32]" by simp
  from bspec [OF escape_control_byte [of rest] this] show ?thesis by simp
next
  case False
  then show ?thesis
    by (auto simp: escape_byte_def letter_byte_punctuation option.map_comp comp_def case_prod_unfold)
qed

lemma unescape_escape_bytes: "unescape (escape_bytes s @ rest) = s @ unescape rest"
  by (induction s) (simp_all add: escape_bytes_def escape_byte_reads)

lemma scan_escape_bytes:
  "scan_string (escape_bytes s @ rest) = map_option (\<lambda>(x, y). (escape_bytes s @ x, y)) (scan_string rest)"
  by (induction s)
    (simp_all add: escape_bytes_def escape_byte_reads option.map_comp comp_def case_prod_unfold
      option.map_ident)

section \<open>Leaves of a document\<close>

fun node_leaves :: "node \<Rightarrow> leaf list" where
  "node_leaves (MapNode kvs) = concat (map (\<lambda>(k, n). node_leaves n) kvs)"
| "node_leaves (ListNode ns) = concat (map node_leaves ns)"
| "node_leaves (LeafNode (Some l)) = [l]"
| "node_leaves (LeafNode None) = []"

definition is_fetchable :: "leaf \<Rightarrow> bool" where
  "is_fetchable l = (case l of LeafConcept (CEntity _) \<Rightarrow> False | LeafConcept (CRelation _) \<Rightarrow> False | _ \<Rightarrow> True)"

lemma leaf_into_json_cases:
  "if is_fetchable l then \<exists>j. leaf_into_json fmt to_f64 l = Ok j else leaf_into_json fmt to_f64 l = Panic"
  by (auto simp: leaf_into_json_def is_fetchable_def split: leaf.splits concept.splits)

lemma try_map_Panic_iff:
  "(\<And>x. x \<in> set xs \<Longrightarrow> f x = Panic \<or> (\<exists>y. f x = Ok y)) \<Longrightarrow>
   (if \<exists>x \<in> set xs. f x = Panic then try_map f xs = Panic else \<exists>ys. try_map f xs = Ok ys)"
  by (induction xs) (auto, (metis and_then.simps map_ok.simps)+)

lemma node_into_json_cases:
  "if \<forall>l \<in> set (node_leaves n). is_fetchable l then \<exists>j. node_into_json fmt to_f64 n = Ok j
   else node_into_json fmt to_f64 n = Panic"
proof (induction fmt to_f64 n rule: node_into_json.induct)
  case (1 fmt to_f64 kvs)
  let ?f = "\<lambda>(k, n). map_ok (Pair k) (node_into_json fmt to_f64 n)"
  have IH: "if \<forall>l \<in> set (node_leaves n). is_fetchable l then \<exists>j. node_into_json fmt to_f64 n = Ok j
      else node_into_json fmt to_f64 n = Panic" if "(k, n) \<in> set kvs" for k n
    using 1 [OF that] by simp
  have "?f kn = Panic \<or> (\<exists>j. ?f kn = Ok j)" if "kn \<in> set kvs" for kn
    using IH [of "fst kn" "snd kn"] that by (auto simp: case_prod_unfold split: if_splits)
  note * = try_map_Panic_iff [of kvs ?f, OF this]
  have "(\<exists>kn \<in> set kvs. ?f kn = Panic) \<longleftrightarrow> \<not> (\<forall>l \<in> set (node_leaves (MapNode kvs)). is_fetchable l)"
    using IH by (fastforce split: if_splits)
  with * show ?case by (auto simp: case_prod_unfold split: if_splits)
next
  case (2 fmt to_f64 ns)
  let ?f = "node_into_json fmt to_f64"
  have "?f n = Panic \<or> (\<exists>j. ?f n = Ok j)" if "n \<in> set ns" for n
    using 2 [OF that] by (auto split: if_splits)
  note * = try_map_Panic_iff [of ns ?f, OF this]
  have "(\<exists>n \<in> set ns. ?f n = Panic) \<longleftrightarrow> \<not> (\<forall>l \<in> set (node_leaves (ListNode ns)). is_fetchable l)"
    using 2 by (fastforce split: if_splits)
  with * show ?case by (auto split: if_splits)
qed (use leaf_into_json_cases in auto)

section \<open>Properties\<close>

text \<open>
  C35: the text of a JSON string.  A reader that stops at the first quote that is not escaped finds
  exactly the written text, whatever follows it; undoing the escapes gives the string back; and no
  control byte is written raw.
\<close>

theorem json_string_text_faithful:
  "scan_string (tl (write_escaped_string s) @ rest) = Some (escape_bytes s, rest)
   \<and> unescape (escape_bytes s) = s
   \<and> (\<forall>c. c \<in> set (write_escaped_string s) \<longrightarrow> 32 \<le> (of_char c :: nat))"
  using unescape_escape_bytes [of s "[]"] scan_escape_bytes [of s "dquote # rest"] escape_byte_reads
  by (auto simp: write_escaped_string_def escape_bytes_def)

theorem json_string_text_faithful_witness:
  "write_escaped_string [dquote, CHR 0x0A] = [dquote, backslash, dquote, backslash, CHR ''n'', dquote]
   \<and> 32 \<le> (of_char (last (write_escaped_string [dquote, CHR 0x0A])) :: nat)"
  using json_string_text_faithful [of "[dquote, CHR 0x0A]" "[]"]
  by (simp add: write_escaped_string_def escape_bytes_def escape_byte_def escape_letter_def)

text \<open>
  a document is converted to JSON without panic exactly when no leaf holds an entity or a
  relation; the conversion never returns an error.
\<close>

theorem document_into_json_total:
  "document_into_json fmt to_f64 \<lparr>document_header = h, document_root = root\<rparr> \<noteq> Err e
   \<and> (document_into_json fmt to_f64 \<lparr>document_header = h, document_root = root\<rparr> = Panic
      \<longleftrightarrow> (\<exists>n l. root = Some n \<and> l \<in> set (node_leaves n) \<and> \<not> is_fetchable l))"
  using node_into_json_cases [of "the root" fmt to_f64]
  by (cases root) (auto simp: document_into_json_def split: if_splits)

text \<open>
  the keys of an object are written without escaping, so two different objects can have the same
  text.
\<close>

theorem json_object_keys_not_escaped:
  "json_display num (JObject [(''a'' @ [dquote] @ '': null, '' @ [dquote] @ ''b'', JNull)])
     = json_display num (JObject [(''a'', JNull), (''b'', JNull)])"
  by simp

end
