(* ===== verification/Concept_Rows.thy ===== *)
theory Concept_Rows
  imports Analyze Json
begin

text \<open>
  \<open>rust/src/answer/concept_row.rs\<close> and \<open>answer/mod.rs\<close>: rows of concepts with their header, access
  by name and by position, the conjunctions a row answers (a bit set), and query answers.  A stream
  of answers is the list of its elements.
\<close>

unbundle bit_operations_syntax

section \<open>Rows\<close>

record concept_row_header =
  column_names :: "string list"
  row_query_type :: query_type
  query_structure :: "pipeline option"

fun find_position :: "('a \<Rightarrow> bool) \<Rightarrow> 'a list \<Rightarrow> nat option" where
  "find_position P [] = None"
| "find_position P (x # xs) = (if P x then Some 0 else map_option Suc (find_position P xs))"

definition header_get_index :: "concept_row_header \<Rightarrow> string \<Rightarrow> nat option" where
  "header_get_index h name = find_position (\<lambda>column_name. column_name = name) (column_names h)"

record concept_row =
  row_header :: concept_row_header
  row_concepts :: "concept option list"
  involved_conjunctions :: "u8 list option"

definition concept_row_new ::
    "concept_row_header \<Rightarrow> concept option list \<Rightarrow> u8 list option \<Rightarrow> concept_row" where
  "concept_row_new h row involved =
     \<lparr>row_header = h, row_concepts = row, involved_conjunctions = involved\<rparr>"

definition get_column_names :: "concept_row \<Rightarrow> string list" where
  "get_column_names r = column_names (row_header r)"

definition get_query_type :: "concept_row \<Rightarrow> query_type" where
  "get_query_type r = row_query_type (row_header r)"

definition get_query_structure :: "concept_row \<Rightarrow> pipeline option" where
  "get_query_structure r = query_structure (row_header r)"

definition involved_ids :: "u8 list \<Rightarrow> conjunction_id list" where
  "involved_ids involved =
     map ConjunctionID (filter (\<lambda>conjunction.
       (let index = conjunction div 8; mask = push_bit (conjunction mod 8) 1 in
        involved ! index AND mask \<noteq> 0)) [0..<length involved * 8])"

definition get_involved_conjunctions :: "concept_row \<Rightarrow> conjunction_id list option" where
  "get_involved_conjunctions r = map_option involved_ids (involved_conjunctions r)"

definition get_involved_conjunctions_cloned :: "concept_row \<Rightarrow> conjunction_id list option" where
  "get_involved_conjunctions_cloned r =
     (let cloned = involved_conjunctions r in map_option involved_ids cloned)"

definition row_get_index :: "concept_row \<Rightarrow> nat \<Rightarrow> (concept option, error) result" where
  "row_get_index r i =
     (if i < length (row_concepts r) then Ok (row_concepts r ! i)
      else Err (Concept (UnavailableRowIndex i)))"

definition row_get :: "concept_row \<Rightarrow> string \<Rightarrow> (concept option, error) result" where
  "row_get r column_name =
     and_then (ok_or (header_get_index (row_header r) column_name)
         (Concept (UnavailableRowVariable column_name)))
       (row_get_index r)"

definition get_concepts :: "concept_row \<Rightarrow> concept list" where
  "get_concepts r = List.map_filter id (row_concepts r)"

definition concept_row_eq :: "concept_row \<Rightarrow> concept_row \<Rightarrow> bool" where
  "concept_row_eq a b \<longleftrightarrow>
     list_all2 (eq_options concept_eq) (row_concepts a) (row_concepts b)
     \<and> involved_conjunctions a = involved_conjunctions b"

definition concept_row_debug :: "fmt_lib \<Rightarrow> concept_row \<Rightarrow> string" where
  "concept_row_debug fmt r =
     ''|'' @ concat (map (\<lambda>(c, name).
       case c of
         None \<Rightarrow> ''  $'' @ name @ '': empty  ''
       | Some c \<Rightarrow> ''  $'' @ name @ '': '' @ concept_debug fmt c @ ''  |'')
       (zip (row_concepts r) (column_names (row_header r))))"

section \<open>Answers\<close>

datatype query_answer =
    AnswerOk query_type
  | ConceptRowStream concept_row_header "(concept_row, error) result list"
  | ConceptDocumentStream concept_document_header "(concept_document, error) result list"

definition answer_get_query_type :: "query_answer \<Rightarrow> query_type" where
  "answer_get_query_type a =
     (case a of
        AnswerOk t \<Rightarrow> t
      | ConceptRowStream h _ \<Rightarrow> row_query_type h
      | ConceptDocumentStream h _ \<Rightarrow> document_query_type h)"

definition answer_is_ok :: "query_answer \<Rightarrow> bool" where
  "answer_is_ok a = (case a of AnswerOk _ \<Rightarrow> True | _ \<Rightarrow> False)"

definition is_row_stream :: "query_answer \<Rightarrow> bool" where
  "is_row_stream a = (case a of ConceptRowStream _ _ \<Rightarrow> True | _ \<Rightarrow> False)"

definition is_document_stream :: "query_answer \<Rightarrow> bool" where
  "is_document_stream a = (case a of ConceptDocumentStream _ _ \<Rightarrow> True | _ \<Rightarrow> False)"

definition into_rows :: "query_answer \<Rightarrow> ((concept_row, error) result list, error) result" where
  "into_rows a = (case a of ConceptRowStream _ s \<Rightarrow> Ok s | _ \<Rightarrow> Panic)"

definition into_documents :: "query_answer \<Rightarrow> ((concept_document, error) result list, error) result" where
  "into_documents a = (case a of ConceptDocumentStream _ s \<Rightarrow> Ok s | _ \<Rightarrow> Panic)"

definition answer_debug :: "query_answer \<Rightarrow> string" where
  "answer_debug a =
     (case a of
        AnswerOk _ \<Rightarrow> ''QueryAnswer::Ok''
      | ConceptRowStream _ _ \<Rightarrow> ''QueryAnswer::ConceptRowStream(<stream>)''
      | ConceptDocumentStream _ _ \<Rightarrow> ''QueryAnswer::ConceptDocumentStream(<stream>)'')"

section \<open>Access by name\<close>

lemma find_position_None: "find_position P xs = None \<longleftrightarrow> (\<forall>x \<in> set xs. \<not> P x)"
  by (induction xs) auto

lemma find_position_Some:
  "find_position P xs = Some i \<longleftrightarrow> i < length xs \<and> P (xs ! i) \<and> (\<forall>j < i. \<not> P (xs ! j))"
proof (induction xs arbitrary: i)
  case (Cons x xs)
  show ?case
  proof (cases i)
    case (Suc k)
    then show ?thesis using Cons by (auto simp: less_Suc_eq_0_disj)
  qed simp
qed simp

lemma involved_ids_set:
  "ConjunctionID k \<in> set (involved_ids involved)
   \<longleftrightarrow> k div 8 < length involved \<and> bit (involved ! (k div 8)) (k mod 8)"
proof -
  have "k < length involved * 8 \<longleftrightarrow> k div 8 < length involved"
    by (simp add: less_mult_imp_div_less div_less_iff_less_mult)
  moreover have "(w AND push_bit n 1 \<noteq> 0) = bit w n" for w :: u8 and n
    by (simp add: and_exp_eq_0_iff_not_bit push_bit_of_1)
  ultimately show ?thesis by (auto simp: involved_ids_def)
qed

section \<open>Properties\<close>

text \<open>
  C34: access to a row by column name.  An unknown name gives \<open>UnavailableRowVariable\<close>; a known one
  gives the concept at the first column of that name, or \<open>UnavailableRowIndex\<close> when the server sent
  a row shorter than its header; there is no panic.
\<close>

theorem row_get_by_name:
  "row_get r name \<noteq> Panic
   \<and> (row_get r name = Err (Concept (UnavailableRowVariable name)) \<longleftrightarrow> name \<notin> set (get_column_names r))
   \<and> (\<forall>i < length (get_column_names r).
        get_column_names r ! i = name \<longrightarrow> (\<forall>j < i. get_column_names r ! j \<noteq> name) \<longrightarrow>
        row_get r name = (if i < length (row_concepts r) then Ok (row_concepts r ! i)
          else Err (Concept (UnavailableRowIndex i))))"
proof -
  let ?f = "header_get_index (row_header r) name"
  have found: "?f = Some i \<longleftrightarrow> i < length (get_column_names r) \<and> get_column_names r ! i = name
      \<and> (\<forall>j < i. get_column_names r ! j \<noteq> name)" for i
    by (simp add: header_get_index_def find_position_Some get_column_names_def)
  have missing: "?f = None \<longleftrightarrow> name \<notin> set (get_column_names r)"
    by (auto simp: header_get_index_def find_position_None get_column_names_def)
  have "row_get r name \<noteq> Panic"
    and "row_get r name = Err (Concept (UnavailableRowVariable name)) \<longleftrightarrow> ?f = None"
    by (cases ?f; simp add: row_get_def row_get_index_def)+
  moreover have "row_get r name = (if i < length (row_concepts r) then Ok (row_concepts r ! i)
      else Err (Concept (UnavailableRowIndex i)))"
    if "i < length (get_column_names r)" "get_column_names r ! i = name"
      "\<forall>j < i. get_column_names r ! j \<noteq> name" for i
  proof -
    have "?f = Some i" using found that by simp
    then show ?thesis by (simp add: row_get_def row_get_index_def)
  qed
  ultimately show ?thesis using missing by simp
qed

definition sample_row :: concept_row where
  "sample_row = concept_row_new
     \<lparr>column_names = [''x'', ''y''], row_query_type = ReadQuery, query_structure = None\<rparr>
     [None, Some (CValue (VInteger 7))] (Some [5])"

theorem row_get_by_name_witness:
  "row_get sample_row ''y'' = Ok (Some (CValue (VInteger 7)))"
proof -
  have "get_column_names sample_row = [''x'', ''y'']"
    by (simp add: sample_row_def get_column_names_def concept_row_new_def)
  then have "row_get sample_row ''y'' = (if 1 < length (row_concepts sample_row)
      then Ok (row_concepts sample_row ! 1) else Err (Concept (UnavailableRowIndex 1)))"
    using row_get_by_name [of sample_row "''y''"] by (auto simp: less_Suc_eq)
  then show ?thesis by (simp add: sample_row_def concept_row_new_def)
qed

text \<open>
  C37: the conjunctions a row reports are exactly the set bits of its bit string, least significant
  bit first within each byte, in increasing order and without repetition.
\<close>

theorem involved_conjunctions_are_set_bits:
  "\<exists>ks. get_involved_conjunctions (concept_row_new h row (Some involved)) = Some (map ConjunctionID ks)
     \<and> sorted ks \<and> distinct ks
     \<and> (\<forall>k. k \<in> set ks \<longleftrightarrow> k div 8 < length involved \<and> bit (involved ! (k div 8)) (k mod 8))"
proof -
  let ?ks = "filter (\<lambda>k. involved ! (k div 8) AND push_bit (k mod 8) 1 \<noteq> 0) [0..<length involved * 8]"
  have ids: "involved_ids involved = map ConjunctionID ?ks" by (simp add: involved_ids_def)
  have "k \<in> set ?ks \<longleftrightarrow> k div 8 < length involved \<and> bit (involved ! (k div 8)) (k mod 8)" for k
    using involved_ids_set [of k involved] unfolding ids by (auto simp: image_iff)
  moreover have "sorted ?ks" "distinct ?ks" by (simp_all add: sorted_wrt_filter)
  moreover have "get_involved_conjunctions (concept_row_new h row (Some involved))
      = Some (map ConjunctionID ?ks)"
    by (simp add: get_involved_conjunctions_def concept_row_new_def ids)
  ultimately show ?thesis by blast
qed

end
