(* ===== verification/Given_Rows.thy ===== *)
theory Given_Rows
  imports Concepts Hash_Maps
begin

text \<open>
  \<open>rust/src/given.rs\<close>, the rows of input of a query with a \<open>given\<close> stage, and the builder that
  \<open>c/src/given_rows.rs\<close> offers across the foreign-function interface.  An operation on a mutable
  reference returns its result together with the new state.  The builder is a state machine; its
  invariant is that every stored row and the row under construction have the header's width.
\<close>

section \<open>Rows\<close>

datatype given_row_entry =
    GivenEmpty
  | GivenEntity entity
  | GivenRelation relation
  | GivenAttribute attribute
  | GivenValue cvalue

definition given_row_entry_try_from :: "concept \<Rightarrow> (given_row_entry, error) result" where
  "given_row_entry_try_from c =
     (case c of
        CEntity e \<Rightarrow> Ok (GivenEntity e)
      | CRelation r \<Rightarrow> Ok (GivenRelation r)
      | CAttribute a \<Rightarrow> Ok (GivenAttribute a)
      | CValue v \<Rightarrow> Ok (GivenValue v)
      | _ \<Rightarrow> Err (Query InvalidTypeToGivenRow))"

record given_rows_header =
  variables :: "string list"
  index :: "(string \<times> nat) list"

definition given_rows_header_new :: "string list \<Rightarrow> given_rows_header" where
  "given_rows_header_new vs =
     \<lparr>variables = vs, index = hm_collect (map (\<lambda>(i, v). (v, i)) (enumerate 0 vs))\<rparr>"

definition header_width :: "given_rows_header \<Rightarrow> nat" where
  "header_width h = length (variables h)"

record given_row =
  given_row_header :: given_rows_header
  given_row_entries :: "given_row_entry list"

definition given_row_new :: "given_rows_header \<Rightarrow> given_row" where
  "given_row_new h = \<lparr>given_row_header = h, given_row_entries = replicate (header_width h) GivenEmpty\<rparr>"

definition given_row_width :: "given_row \<Rightarrow> nat" where
  "given_row_width r = header_width (given_row_header r)"

definition set_at :: "given_row \<Rightarrow> nat \<Rightarrow> given_row_entry \<Rightarrow> (unit, error) result \<times> given_row" where
  "set_at r i e =
     (if i < length (given_row_entries r)
      then (Ok (), r\<lparr>given_row_entries := (given_row_entries r)[i := e]\<rparr>)
      else (Err (Query (GivenRowIndexOutOfBounds i (header_width (given_row_header r)))), r))"

definition set_var :: "given_row \<Rightarrow> string \<Rightarrow> given_row_entry \<Rightarrow> (unit, error) result \<times> given_row" where
  "set_var r v e =
     (case hm_get (index (given_row_header r)) v of
        Some i \<Rightarrow> set_at r i e
      | None \<Rightarrow> (Err (Query (GivenRowUnknownVariable v)), r))"

record given_rows =
  given_rows_header_of :: given_rows_header
  given_rows_list :: "given_row_entry list list"

definition given_rows_new_with_headers :: "given_rows_header \<Rightarrow> nat \<Rightarrow> given_rows" where
  "given_rows_new_with_headers h row_count_hint =
     \<lparr>given_rows_header_of = h, given_rows_list = []\<rparr>"

definition given_rows_new :: "string list \<Rightarrow> nat \<Rightarrow> given_rows" where
  "given_rows_new vs row_count_hint =
     given_rows_new_with_headers (given_rows_header_new vs) row_count_hint"

definition given_rows_into_parts :: "given_rows \<Rightarrow> given_rows_header \<times> given_row_entry list list" where
  "given_rows_into_parts rs = (given_rows_header_of rs, given_rows_list rs)"

definition push_row :: "given_rows \<Rightarrow> given_row_entry list \<Rightarrow> (unit, error) result \<times> given_rows" where
  "push_row rs row =
     (if length row = header_width (given_rows_header_of rs)
      then (Ok (), rs\<lparr>given_rows_list := given_rows_list rs @ [row]\<rparr>)
      else (Err (Query (GivenRowsSizeMismatch (length row) (header_width (given_rows_header_of rs)))), rs))"

definition push :: "given_rows \<Rightarrow> given_row \<Rightarrow> (unit, error) result \<times> given_rows" where
  "push rs row = push_row rs (given_row_entries row)"

fun set_all :: "given_row \<Rightarrow> (string \<times> given_row_entry) list \<Rightarrow> (unit, error) result \<times> given_row" where
  "set_all r [] = (Ok (), r)"
| "set_all r ((v, e) # ves) =
     (case set_var r v e of
        (Ok _, r') \<Rightarrow> set_all r' ves
      | (failure, r') \<Rightarrow> (failure, r'))"

definition push_map :: "given_rows \<Rightarrow> (string \<times> given_row_entry) list \<Rightarrow> (unit, error) result \<times> given_rows" where
  "push_map rs ves =
     (case set_all (given_row_new (given_rows_header_of rs)) ves of
        (Ok _, row) \<Rightarrow> push rs row
      | (failure, _) \<Rightarrow> (failure, rs))"

section \<open>The builder of the foreign-function interface\<close>

record given_rows_builder =
  builder_rows :: given_rows
  builder_active_row :: "given_row option"

definition no_active_row :: error where
  "no_active_row = FFI ''given_rows_builder_commit_row: No active row found''"

definition uncommitted_row :: error where
  "uncommitted_row = FFI ''given_rows_builder_finish: There is an active, uncommitted row.''"

definition to_given_row_entry :: "concept \<Rightarrow> string \<Rightarrow> (given_row_entry, error) result" where
  "to_given_row_entry c variable_or_index =
     (case c of
        CEntity e \<Rightarrow> Ok (GivenEntity e)
      | CRelation r \<Rightarrow> Ok (GivenRelation r)
      | CAttribute a \<Rightarrow> Ok (GivenAttribute a)
      | CValue v \<Rightarrow> Ok (GivenValue v)
      | _ \<Rightarrow> Err (Query (GivenRowsReceivedType variable_or_index)))"

definition given_rows_builder_new :: "given_rows_header \<Rightarrow> nat \<Rightarrow> given_rows_builder" where
  "given_rows_builder_new h row_count_hint =
     \<lparr>builder_rows = given_rows_new_with_headers h row_count_hint, builder_active_row = None\<rparr>"

definition builder_start_new_row :: "given_rows_builder \<Rightarrow> (unit, error) result \<times> given_rows_builder" where
  "builder_start_new_row b =
     (Ok (), b\<lparr>builder_active_row := Some (given_row_new (given_rows_header_of (builder_rows b)))\<rparr>)"

definition builder_commit_row :: "given_rows_builder \<Rightarrow> (unit, error) result \<times> given_rows_builder" where
  "builder_commit_row b =
     (case builder_active_row b of
        Some row \<Rightarrow>
          (case push (builder_rows b) row of
             (r, rows) \<Rightarrow> (r, b\<lparr>builder_active_row := None, builder_rows := rows\<rparr>))
      | None \<Rightarrow> (Err no_active_row, b\<lparr>builder_active_row := None\<rparr>))"

definition builder_finish :: "given_rows_builder \<Rightarrow> (given_rows, error) result" where
  "builder_finish b =
     (if builder_active_row b \<noteq> None then Err uncommitted_row else Ok (builder_rows b))"

text \<open>\<open>active_row().and_then(|row| ...)\<close>: the operation runs on the row in place.\<close>

definition on_active_row ::
    "given_rows_builder \<Rightarrow> (given_row \<Rightarrow> (unit, error) result \<times> given_row)
     \<Rightarrow> (unit, error) result \<times> given_rows_builder" where
  "on_active_row b f =
     (case builder_active_row b of
        Some row \<Rightarrow> (case f row of (r, row') \<Rightarrow> (r, b\<lparr>builder_active_row := Some row'\<rparr>))
      | None \<Rightarrow> (Err no_active_row, b))"

definition builder_set_index_to_concept ::
    "given_rows_builder \<Rightarrow> nat \<Rightarrow> concept \<Rightarrow> (unit, error) result \<times> given_rows_builder" where
  "builder_set_index_to_concept b i c =
     on_active_row b (\<lambda>row.
       case to_given_row_entry c (show_nat i) of
         Ok e \<Rightarrow> set_at row i e
       | Err x \<Rightarrow> (Err x, row)
       | Panic \<Rightarrow> (Panic, row))"

definition builder_set_variable_to_concept ::
    "given_rows_builder \<Rightarrow> string \<Rightarrow> concept \<Rightarrow> (unit, error) result \<times> given_rows_builder" where
  "builder_set_variable_to_concept b v c =
     on_active_row b (\<lambda>row.
       case to_given_row_entry c v of
         Ok e \<Rightarrow> set_var row v e
       | Err x \<Rightarrow> (Err x, row)
       | Panic \<Rightarrow> (Panic, row))"

definition builder_set_index_to_empty ::
    "given_rows_builder \<Rightarrow> nat \<Rightarrow> (unit, error) result \<times> given_rows_builder" where
  "builder_set_index_to_empty b i = on_active_row b (\<lambda>row. set_at row i GivenEmpty)"

definition builder_set_variable_to_empty ::
    "given_rows_builder \<Rightarrow> string \<Rightarrow> (unit, error) result \<times> given_rows_builder" where
  "builder_set_variable_to_empty b v = on_active_row b (\<lambda>row. set_var row v GivenEmpty)"

text \<open>One call of the interface on a builder.\<close>

inductive builder_step :: "given_rows_builder \<Rightarrow> given_rows_builder \<Rightarrow> bool" where
  step_start: "builder_step b (snd (builder_start_new_row b))"
| step_commit: "builder_step b (snd (builder_commit_row b))"
| step_index_concept: "builder_step b (snd (builder_set_index_to_concept b i c))"
| step_variable_concept: "builder_step b (snd (builder_set_variable_to_concept b v c))"
| step_index_empty: "builder_step b (snd (builder_set_index_to_empty b i))"
| step_variable_empty: "builder_step b (snd (builder_set_variable_to_empty b v))"

inductive_cases builder_stepE: "builder_step b b'"

inductive builder_reachable :: "given_rows_header \<Rightarrow> given_rows_builder \<Rightarrow> bool" for h where
  reach_new: "builder_reachable h (given_rows_builder_new h n)"
| reach_step: "builder_reachable h b \<Longrightarrow> builder_step b b' \<Longrightarrow> builder_reachable h b'"

section \<open>Width invariant\<close>

definition given_rows_ok :: "given_rows \<Rightarrow> bool" where
  "given_rows_ok rs \<longleftrightarrow>
     (\<forall>row \<in> set (given_rows_list rs). length row = header_width (given_rows_header_of rs))"

definition given_row_ok :: "given_rows_header \<Rightarrow> given_row \<Rightarrow> bool" where
  "given_row_ok h r \<longleftrightarrow> given_row_header r = h \<and> length (given_row_entries r) = header_width h"

definition builder_ok :: "given_rows_header \<Rightarrow> given_rows_builder \<Rightarrow> bool" where
  "builder_ok h b \<longleftrightarrow> given_rows_header_of (builder_rows b) = h \<and> given_rows_ok (builder_rows b)
     \<and> (case builder_active_row b of None \<Rightarrow> True | Some r \<Rightarrow> given_row_ok h r)"

lemma given_row_new_ok [simp]: "given_row_ok h (given_row_new h)"
  by (simp add: given_row_ok_def given_row_new_def)

lemma set_at_ok: "given_row_ok h r \<Longrightarrow> given_row_ok h (snd (set_at r i e))"
  by (simp add: given_row_ok_def set_at_def)

lemma set_var_ok: "given_row_ok h r \<Longrightarrow> given_row_ok h (snd (set_var r v e))"
  by (simp add: set_var_def set_at_ok split: option.splits)

lemma set_all_ok: "given_row_ok h r \<Longrightarrow> given_row_ok h (snd (set_all r ves))"
proof (induction r ves rule: set_all.induct)
  case (2 r v e ves)
  obtain res r' where s: "set_var r v e = (res, r')" by (cases "set_var r v e")
  then have "given_row_ok h r'" using set_var_ok [OF "2.prems", of v e] by simp
  with s "2.IH" show ?case by (cases res) auto
qed simp

lemma push_row_ok: "given_rows_ok rs \<Longrightarrow> given_rows_ok (snd (push_row rs row))"
  by (auto simp: given_rows_ok_def push_row_def)

lemma push_row_header [simp]: "given_rows_header_of (snd (push_row rs row)) = given_rows_header_of rs"
  by (simp add: push_row_def)

lemma push_ok: "given_row_ok (given_rows_header_of rs) row \<Longrightarrow> fst (push rs row) = Ok ()"
  by (simp add: push_def push_row_def given_row_ok_def)

lemma on_active_row_ok:
  assumes "builder_ok h b" "\<And>row. given_row_ok h row \<Longrightarrow> given_row_ok h (snd (f row))"
  shows "builder_ok h (snd (on_active_row b f))"
  using assms by (auto simp: on_active_row_def builder_ok_def split: option.splits prod.splits) fastforce

lemma builder_commit_ok:
  assumes "builder_ok h b" shows "builder_ok h (snd (builder_commit_row b))"
proof (cases "builder_active_row b")
  case None
  with assms show ?thesis by (simp add: builder_commit_row_def builder_ok_def)
next
  case (Some row)
  obtain res rs where p: "push_row (builder_rows b) (given_row_entries row) = (res, rs)" by fastforce
  then have "given_rows_ok rs" "given_rows_header_of rs = h"
    using assms push_row_ok [of "builder_rows b" "given_row_entries row"]
      push_row_header [of "builder_rows b" "given_row_entries row"] by (auto simp: builder_ok_def)
  with Some show ?thesis
    by (simp add: builder_commit_row_def builder_ok_def push_def p)
qed

lemma builder_step_ok: "builder_step b b' \<Longrightarrow> builder_ok h b \<Longrightarrow> builder_ok h b'"
proof (induction rule: builder_step.induct)
  case (step_start b)
  then show ?case by (simp add: builder_start_new_row_def builder_ok_def)
next
  case (step_commit b)
  then show ?case by (rule builder_commit_ok)
next
  case (step_index_concept b i c)
  then show ?case
    unfolding builder_set_index_to_concept_def
    by (intro on_active_row_ok) (auto simp: set_at_ok split: result.splits)
next
  case (step_variable_concept b v c)
  then show ?case
    unfolding builder_set_variable_to_concept_def
    by (intro on_active_row_ok) (auto simp: set_var_ok split: result.splits)
next
  case (step_index_empty b i)
  then show ?case
    unfolding builder_set_index_to_empty_def by (intro on_active_row_ok set_at_ok)
next
  case (step_variable_empty b v)
  then show ?case
    unfolding builder_set_variable_to_empty_def by (intro on_active_row_ok set_var_ok)
qed

lemma builder_reachable_ok: "builder_reachable h b \<Longrightarrow> builder_ok h b"
proof (induction rule: builder_reachable.induct)
  case (reach_new n)
  show ?case
    by (simp add: builder_ok_def given_rows_builder_new_def given_rows_new_with_headers_def given_rows_ok_def)
qed (rule builder_step_ok)

section \<open>Rows from maps\<close>

lemma header_index:
  "hm_get (index (given_rows_header_new vs)) v = map_of (rev (map (\<lambda>(i, v). (v, i)) (enumerate 0 vs))) v"
  by (simp add: given_rows_header_new_def hm_get_collect)

lemma enumerate_keys: "map fst (map (\<lambda>(i, v). (v, i)) (enumerate 0 vs)) = vs"
  by (simp add: comp_def case_prod_unfold)

lemma header_index_None: "hm_get (index (given_rows_header_new vs)) v = None \<longleftrightarrow> v \<notin> set vs"
  unfolding header_index map_of_eq_None_iff set_rev
  by (metis enumerate_keys list.set_map)

lemma header_index_Some:
  assumes "distinct vs" "i < length vs"
  shows "hm_get (index (given_rows_header_new vs)) (vs ! i) = Some i"
proof -
  have "distinct (map fst (rev (map (\<lambda>(i, v). (v, i)) (enumerate 0 vs))))"
    using assms(1) by (metis distinct_rev rev_map enumerate_keys)
  moreover have "(vs ! i, i) \<in> set (rev (map (\<lambda>(i, v). (v, i)) (enumerate 0 vs)))"
    using assms(2) by (force simp: in_set_enumerate_eq)
  ultimately show ?thesis unfolding header_index by (rule map_of_is_SomeI)
qed

lemma set_var_known:
  assumes "distinct vs" "given_row_ok (given_rows_header_new vs) r" "i < length vs"
  shows "set_var r (vs ! i) e = (Ok (), r\<lparr>given_row_entries := (given_row_entries r)[i := e]\<rparr>)"
  using assms header_index_Some [OF assms(1,3)]
  by (simp add: set_var_def set_at_def given_row_ok_def header_width_def given_rows_header_new_def)

lemma set_all_known:
  assumes "distinct vs" "given_row_ok (given_rows_header_new vs) r" "fst ` set ves \<subseteq> set vs"
  shows "\<exists>r'. set_all r ves = (Ok (), r') \<and> given_row_ok (given_rows_header_new vs) r'
    \<and> (\<forall>i < length vs. given_row_entries r' ! i
        = (case map_of (rev ves) (vs ! i) of Some e \<Rightarrow> e | None \<Rightarrow> given_row_entries r ! i))"
  using assms
proof (induction ves arbitrary: r)
  case (Cons ve ves)
  obtain v e where ve: "ve = (v, e)" by (cases ve)
  then obtain i where i: "i < length vs" "v = vs ! i"
    using Cons.prems(3) by (auto simp: in_set_conv_nth)
  let ?r = "r\<lparr>given_row_entries := (given_row_entries r)[i := e]\<rparr>"
  have set: "set_var r v e = (Ok (), ?r)" using set_var_known Cons.prems(1,2) i by simp
  have ok: "given_row_ok (given_rows_header_new vs) ?r"
    using Cons.prems(2) by (simp add: given_row_ok_def)
  have len: "length (given_row_entries r) = length vs"
    using Cons.prems(2) by (simp add: given_row_ok_def header_width_def given_rows_header_new_def)
  obtain r' where r': "set_all ?r ves = (Ok (), r')" "given_row_ok (given_rows_header_new vs) r'"
    and ent: "\<forall>j < length vs. given_row_entries r' ! j
      = (case map_of (rev ves) (vs ! j) of Some e \<Rightarrow> e | None \<Rightarrow> given_row_entries ?r ! j)"
    using Cons.IH [OF Cons.prems(1) ok] Cons.prems(3) by auto
  have "given_row_entries r' ! j
      = (case map_of (rev (ve # ves)) (vs ! j) of Some e \<Rightarrow> e | None \<Rightarrow> given_row_entries r ! j)"
    if j: "j < length vs" for j
    using ent j i len Cons.prems(1)
    by (auto simp: ve map_add_def nth_list_update nth_eq_iff_index_eq split: option.splits)
  with r' set show ?case by (auto simp: ve)
qed simp

lemma push_map_known:
  assumes "distinct vs" "given_rows_header_of rs = given_rows_header_new vs" "fst ` set ves \<subseteq> set vs"
  shows "push_map rs ves = (Ok (), rs\<lparr>given_rows_list := given_rows_list rs
    @ [map (\<lambda>v. case map_of (rev ves) v of Some e \<Rightarrow> e | None \<Rightarrow> GivenEmpty) vs]\<rparr>)"
proof -
  let ?h = "given_rows_header_new vs"
  let ?row = "map (\<lambda>v. case map_of (rev ves) v of Some e \<Rightarrow> e | None \<Rightarrow> GivenEmpty) vs"
  have w: "header_width ?h = length vs" by (simp add: header_width_def given_rows_header_new_def)
  obtain r' where r': "set_all (given_row_new ?h) ves = (Ok (), r')" "given_row_ok ?h r'"
    and ent: "\<forall>i < length vs. given_row_entries r' ! i = (case map_of (rev ves) (vs ! i) of
        Some e \<Rightarrow> e | None \<Rightarrow> given_row_entries (given_row_new ?h) ! i)"
    using set_all_known [OF assms(1) given_row_new_ok assms(3)] by blast
  have "\<forall>i < length vs. given_row_entries (given_row_new ?h) ! i = GivenEmpty"
    by (simp add: given_row_new_def w)
  with r'(2) ent have "given_row_entries r' = ?row"
    by (intro nth_equalityI) (auto simp: given_row_ok_def w split: option.splits)
  then show ?thesis
    using r' by (simp add: push_map_def assms(2) push_def push_row_def w)
qed

section \<open>Properties\<close>

text \<open>
  C27: whatever sequence of calls is made on a builder, every stored row and the row under
  construction have the width of the header; committing a started row therefore never fails, and a
  finished builder hands over well-formed rows.
\<close>

theorem builder_rows_have_header_width:
  assumes "builder_reachable h b"
  shows "given_rows_ok (builder_rows b) \<and> given_rows_header_of (builder_rows b) = h
    \<and> (builder_active_row b \<noteq> None \<longrightarrow> fst (builder_commit_row b) = Ok ())
    \<and> (builder_finish b = Ok rs \<longrightarrow> given_rows_ok rs \<and> given_rows_header_of rs = h)"
  using builder_reachable_ok [OF assms] push_ok [of "builder_rows b"]
  by (auto simp: builder_ok_def builder_finish_def builder_commit_row_def
      split: option.splits prod.splits if_splits) (metis fst_conv)

theorem builder_rows_have_header_width_witness:
  "fst (builder_commit_row (snd (builder_start_new_row
     (given_rows_builder_new (given_rows_header_new [''x'', ''y'']) 1)))) = Ok ()"
proof -
  let ?b = "snd (builder_start_new_row (given_rows_builder_new (given_rows_header_new [''x'', ''y'']) 1))"
  have "builder_reachable (given_rows_header_new [''x'', ''y'']) ?b"
    by (rule reach_step [OF reach_new step_start])
  moreover have "builder_active_row ?b \<noteq> None" by (simp add: builder_start_new_row_def)
  ultimately show ?thesis using builder_rows_have_header_width by blast
qed



end
