(* ===== verification/Messages.thy ===== *)
theory Messages
  imports Servers Concept_Rows Given_Rows
begin

text \<open>
  \<open>rust/src/connection/message.rs\<close> and \<open>credentials.rs\<close>: the requests and responses the driver's
  components exchange.  An imported or exported item is the bytes of its message, which the driver
  passes on unread; a channel or stream of the network library is its number.
\<close>

record credentials =
  username :: string
  password :: string

definition credentials_new :: "string \<Rightarrow> string \<Rightarrow> credentials" where
  "credentials_new u p = \<lparr>username = u, password = p\<rparr>"

text \<open>The \<open>Debug\<close> text leaves the password out.\<close>

definition credentials_debug :: "fmt_lib \<Rightarrow> credentials \<Rightarrow> string" where
  "credentials_debug fmt c = ''Credentials { username: '' @ debug_str fmt (username c) @ '' }''"

type_synonym migration_item = "u8 list"
type_synonym channel = nat
type_synonym uuid = "u8 list"

datatype database_import_request =
    ImportInitial string string
  | ImportItemPart "migration_item list"
  | ImportDone

datatype database_export_response =
    ExportSchema string
  | ExportItems "migration_item list"
  | ExportDone

datatype query_request = QueryRequest string query_options "given_rows option"

datatype transaction_request =
    Open string transaction_type transaction_options std_duration
  | Commit
  | Rollback
  | AnalyzeQuery string
  | QueryReq query_request
  | StreamMore request_id

datatype query_response =
    QOk query_type
  | ConceptRowsHeader concept_row_header
  | ConceptDocumentsHeader concept_document_header
  | StreamConceptRows "(concept option list \<times> u8 list option) list"
  | StreamConceptDocuments "node option list"
  | QError server_error

datatype analyze_response = AnalyzeOk analyzed_query | AnalyzeErr server_error

datatype transaction_response =
    OpenRes u64
  | CommitRes
  | RollbackRes
  | QueryRes query_response
  | AnalyzeRes analyze_response
  | CloseRes

datatype request =
    ConnectionOpen string string credentials
  | ServersAll
  | ServersGet
  | ServerVersion
  | DatabasesAll
  | DatabaseGet string
  | DatabasesContains string
  | DatabaseCreate string
  | DatabaseImport database_import_request
  | DatabaseDelete string
  | DatabaseSchema string
  | DatabaseTypeSchema string
  | DatabaseExport string
  | Transaction transaction_request
  | UsersAll
  | UsersGet string
  | UsersContains string
  | UsersCreate user_info
  | UsersUpdate string user_info
  | UsersDelete string

datatype response =
    ConnectionOpenRes uuid u64 "server list"
  | ServersAllRes "server list"
  | ServersGetRes server
  | ServerVersionRes server_version
  | DatabasesContainsRes bool
  | DatabaseCreateRes database_info
  | DatabaseImportRes channel channel
  | DatabaseGetRes database_info
  | DatabasesAllRes "database_info list"
  | DatabaseDeleteRes
  | DatabaseSchemaRes string
  | DatabaseTypeSchemaRes string
  | DatabaseExportStreamRes channel
  | TransactionStreamRes request_id channel channel u64
  | UsersAllRes "user_info list"
  | UsersContainRes bool
  | UsersCreateRes
  | UsersUpdateRes
  | UsersDeleteRes
  | UsersGetRes "user_info option"

end
