(* ===== verification/Proto_Concepts.thy ===== *)
theory Proto_Concepts
  imports Given_Rows Json
begin

text \<open>
  \<open>rust/src/connection/network/proto/concept.rs\<close>: the conversions between concepts and the messages
  of the protocol.  A message is a datatype with the fields the conversions read or write; a field
  that the protocol leaves optional is an \<open>option\<close>, and \<open>None\<close> is a field the peer did not set.  A
  conversion that can reach an \<open>unwrap\<close>, an assertion or an overflow returns a result, whose \<open>Panic\<close>
  is that outcome.  What the conversions ask of the \<open>chrono\<close> and \<open>chrono_tz\<close> crates is the record
  \<open>chrono_lib\<close>.
\<close>

section \<open>Messages\<close>

datatype value_type_proto =
    PTBoolean | PTInteger | PTDouble | PTString | PTDecimal | PTDate | PTDatetime | PTDatetimeTz
  | PTDuration | PTStruct string

datatype value_type_message = ValueTypeMessage "value_type_proto option"

datatype decimal_proto = DecimalProto i64 u64

datatype datetime_proto = DatetimeProto i64 u32

datatype timezone_proto = Named string | Offset i32

datatype datetime_tz_proto = DatetimeTzProto "datetime_proto option" "timezone_proto option"

datatype duration_proto = DurationProto u32 u32 u64

datatype value_proto =
    PBoolean bool
  | PInteger i64
  | PDouble f64
  | PString string
  | PDecimal decimal_proto
  | PDate i32
  | PDatetime datetime_proto
  | PDatetimeTz datetime_tz_proto
  | PDuration duration_proto
  | PStruct

datatype value_message = ValueMessage "value_proto option"

datatype entity_type_proto = EntityTypeProto string

datatype relation_type_proto = RelationTypeProto string

datatype attribute_type_proto = AttributeTypeProto string "value_type_message option"

datatype role_type_proto = RoleTypeProto string

datatype entity_proto = EntityProto "u8 list" "entity_type_proto option"

datatype relation_proto = RelationProto "u8 list" "relation_type_proto option"

datatype attribute_proto = AttributeProto "u8 list" "attribute_type_proto option" "value_message option"

datatype type_proto =
    TypeEntityType entity_type_proto
  | TypeRelationType relation_type_proto
  | TypeAttributeType attribute_type_proto
  | TypeRoleType role_type_proto

datatype type_message = TypeMessage "type_proto option"

datatype concept_proto =
    PEntityType entity_type_proto
  | PRelationType relation_type_proto
  | PAttributeType attribute_type_proto
  | PRoleType role_type_proto
  | PEntity entity_proto
  | PRelation relation_proto
  | PAttribute attribute_proto

datatype concept_message = ConceptMessage "concept_proto option"

datatype entry_proto =
    EntryEmpty
  | EntryConcept concept_message
  | EntryValue value_message
  | EntryConceptList "concept_message list"
  | EntryValueList "value_message list"

record concept_row_proto =
  proto_row :: "entry_proto option list"
  involved_blocks :: "u8 list option"

datatype leaf_proto =
    LEmpty
  | LEntityType entity_type_proto
  | LRelationType relation_type_proto
  | LAttributeType attribute_type_proto
  | LRoleType role_type_proto
  | LValueType value_type_message
  | LAttribute attribute_proto
  | LValue value_message
  | LKind i32

datatype node_message = NodeMessage "node_proto option"
and node_proto =
    PMap "(string \<times> node_message) list"
  | PList "node_message list"
  | PLeaf "leaf_proto option"

datatype concept_document_proto = ConceptDocumentProto "node_message option"

section \<open>Dates and times\<close>

text \<open>
  \<open>NaiveDate::from_num_days_from_ce_opt\<close> and \<open>num_days_from_ce\<close>, \<open>DateTime::from_timestamp\<close> with
  \<open>timestamp\<close> and \<open>nanosecond\<close>, \<open>Tz::from_str\<close>, and \<open>FixedOffset::east_opt\<close>, \<open>west_opt\<close> and
  \<open>local_minus_utc\<close>.
\<close>

record chrono_lib =
  from_num_days_from_ce_opt :: "i32 \<Rightarrow> naive_date option"
  num_days_from_ce :: "naive_date \<Rightarrow> i32"
  from_timestamp :: "i64 \<Rightarrow> u32 \<Rightarrow> naive_datetime option"
  timestamp :: "naive_datetime \<Rightarrow> i64"
  nanosecond :: "naive_datetime \<Rightarrow> u32"
  tz_from_str :: "string \<Rightarrow> string option"
  east_opt :: "i32 \<Rightarrow> int option"
  west_opt :: "i32 \<Rightarrow> int option"
  local_minus_utc :: "int \<Rightarrow> i32"

definition naive_datetime_from_timestamp ::
    "chrono_lib \<Rightarrow> i64 \<Rightarrow> u32 \<Rightarrow> (naive_datetime, error) result" where
  "naive_datetime_from_timestamp chrono secs ns = unwrap (from_timestamp chrono secs ns)"

definition from_utc_datetime :: "time_zone \<Rightarrow> naive_datetime \<Rightarrow> datetime_tz" where
  "from_utc_datetime tz utc = \<lparr>dt_utc = utc, dt_zone = tz\<rparr>"

text \<open>The negation of a negative offset overflows at the smallest 32-bit number.\<close>

definition sneg :: "bool \<Rightarrow> i32 \<Rightarrow> (i32, error) result" where
  "sneg oc a = checked oc (fits_signed 32 (- sint a)) (- a)"

definition time_zone_from_proto ::
    "bool \<Rightarrow> chrono_lib \<Rightarrow> timezone_proto \<Rightarrow> (time_zone, error) result" where
  "time_zone_from_proto oc chrono tz =
     (case tz of
        Named name \<Rightarrow>
          map_ok IANA (ok_or (tz_from_str chrono name)
            (Connection (ValueTimeZoneNameNotRecognised name)))
      | Offset offset_seconds \<Rightarrow>
          and_then
            (if 0 \<le> sint offset_seconds then Ok (east_opt chrono offset_seconds)
             else map_ok (west_opt chrono) (sneg oc offset_seconds))
            (\<lambda>fixed_offset. map_ok Fixed (ok_or fixed_offset
               (Connection (ValueTimeZoneOffsetNotRecognised offset_seconds)))))"

section \<open>From messages\<close>

definition missing :: "string \<Rightarrow> error" where
  "missing field = Connection (MissingResponseField field)"

primrec value_type_from_proto :: "value_type_proto \<Rightarrow> value_type" where
  "value_type_from_proto PTBoolean = TBoolean"
| "value_type_from_proto PTInteger = TInteger"
| "value_type_from_proto PTDouble = TDouble"
| "value_type_from_proto PTString = TString"
| "value_type_from_proto PTDecimal = TDecimal"
| "value_type_from_proto PTDate = TDate"
| "value_type_from_proto PTDatetime = TDatetime"
| "value_type_from_proto PTDatetimeTz = TDatetimeTZ"
| "value_type_from_proto PTDuration = TDuration"
| "value_type_from_proto (PTStruct name) = TStruct name"

fun value_type_try_from_proto :: "value_type_message \<Rightarrow> (value_type, error) result" where
  "value_type_try_from_proto (ValueTypeMessage vt) =
     map_ok value_type_from_proto (ok_or vt (missing ''value_type''))"

fun entity_type_from_proto :: "entity_type_proto \<Rightarrow> entity_type" where
  "entity_type_from_proto (EntityTypeProto label) = \<lparr>entity_type_label = label\<rparr>"

fun relation_type_from_proto :: "relation_type_proto \<Rightarrow> relation_type" where
  "relation_type_from_proto (RelationTypeProto label) = \<lparr>relation_type_label = label\<rparr>"

text \<open>A value type message without its field panics here; \<open>value_type_try_from_proto\<close> reports it.\<close>

fun attribute_type_from_proto :: "attribute_type_proto \<Rightarrow> (attribute_type, error) result" where
  "attribute_type_from_proto (AttributeTypeProto label value_type) =
     map_ok (\<lambda>vt. \<lparr>attribute_type_label = label, attribute_value_type = vt\<rparr>)
       (case value_type of
          None \<Rightarrow> Ok None
        | Some (ValueTypeMessage proto) \<Rightarrow> map_ok (\<lambda>p. Some (value_type_from_proto p)) (unwrap proto))"

fun role_type_from_proto :: "role_type_proto \<Rightarrow> role_type" where
  "role_type_from_proto (RoleTypeProto label) = \<lparr>role_type_label = label\<rparr>"

fun value_try_from_proto :: "bool \<Rightarrow> chrono_lib \<Rightarrow> value_message \<Rightarrow> (cvalue, error) result" where
  "value_try_from_proto oc chrono (ValueMessage v) =
     (case v of
        Some (PBoolean b) \<Rightarrow> Ok (VBoolean b)
      | Some (PInteger i) \<Rightarrow> Ok (VInteger i)
      | Some (PDouble d) \<Rightarrow> Ok (VDouble d)
      | Some (PString s) \<Rightarrow> Ok (VString s)
      | Some (PDecimal (DecimalProto i f)) \<Rightarrow> map_ok VDecimal (from_parts i f)
      | Some (PDate n) \<Rightarrow> map_ok VDate (unwrap (from_num_days_from_ce_opt chrono n))
      | Some (PDatetime (DatetimeProto s n)) \<Rightarrow>
          map_ok VDatetime (naive_datetime_from_timestamp chrono s n)
      | Some (PDatetimeTz (DatetimeTzProto datetime timezone)) \<Rightarrow>
          and_then (ok_or datetime (missing ''Value.datetime_tz.datetime'')) (\<lambda>dt.
            case dt of DatetimeProto s n \<Rightarrow>
              and_then (naive_datetime_from_timestamp chrono s n) (\<lambda>naive.
              and_then (ok_or timezone (missing ''Value.datetime_tz.timezone'')) (\<lambda>tz.
              map_ok (\<lambda>z. VDatetimeTZ (from_utc_datetime z naive))
                (time_zone_from_proto oc chrono tz))))
      | Some (PDuration (DurationProto mo d n)) \<Rightarrow> Ok (VDuration (duration_new mo d n))
      | Some PStruct \<Rightarrow> Err (Connection ValueStructNotImplemented)
      | None \<Rightarrow> Err (missing ''Value.value''))"

definition kind_try_from_proto :: "i32 \<Rightarrow> (kind, error) result" where
  "kind_try_from_proto k =
     (if k = 0 then Ok KEntity else if k = 1 then Ok KRelation else if k = 2 then Ok KAttribute
      else if k = 3 then Ok KRole else Err (Connection (UnexpectedKind k)))"

fun entity_try_from_proto :: "entity_proto \<Rightarrow> (entity, error) result" where
  "entity_try_from_proto (EntityProto i t) =
     Ok \<lparr>entity_iid = ID i, type_of_entity = map_option entity_type_from_proto t\<rparr>"

fun relation_try_from_proto :: "relation_proto \<Rightarrow> (relation, error) result" where
  "relation_try_from_proto (RelationProto i t) =
     Ok \<lparr>relation_iid = ID i, type_of_relation = map_option relation_type_from_proto t\<rparr>"

fun attribute_try_from_proto ::
    "bool \<Rightarrow> chrono_lib \<Rightarrow> attribute_proto \<Rightarrow> (attribute, error) result" where
  "attribute_try_from_proto oc chrono (AttributeProto i t v) =
     and_then (map_transpose attribute_type_from_proto t) (\<lambda>type_of.
     and_then (ok_or v (missing ''value'')) (\<lambda>value_msg.
     map_ok (\<lambda>value_of. \<lparr>attribute_iid = ID i, attribute_value = value_of, type_of_attribute = type_of\<rparr>)
       (value_try_from_proto oc chrono value_msg)))"

fun concept_try_from_proto :: "bool \<Rightarrow> chrono_lib \<Rightarrow> concept_message \<Rightarrow> (concept, error) result" where
  "concept_try_from_proto oc chrono (ConceptMessage c) =
     (case c of
        Some (PEntityType t) \<Rightarrow> Ok (CEntityType (entity_type_from_proto t))
      | Some (PRelationType t) \<Rightarrow> Ok (CRelationType (relation_type_from_proto t))
      | Some (PAttributeType t) \<Rightarrow> map_ok CAttributeType (attribute_type_from_proto t)
      | Some (PRoleType t) \<Rightarrow> Ok (CRoleType (role_type_from_proto t))
      | Some (PEntity e) \<Rightarrow> map_ok CEntity (entity_try_from_proto e)
      | Some (PRelation r) \<Rightarrow> map_ok CRelation (relation_try_from_proto r)
      | Some (PAttribute a) \<Rightarrow> map_ok CAttribute (attribute_try_from_proto oc chrono a)
      | None \<Rightarrow> Err (missing ''concept''))"

fun type_try_from_proto :: "type_message \<Rightarrow> (type_t, error) result" where
  "type_try_from_proto (TypeMessage t) =
     (case t of
        Some (TypeEntityType e) \<Rightarrow> Ok (EntityType (entity_type_from_proto e))
      | Some (TypeRelationType r) \<Rightarrow> Ok (RelationType (relation_type_from_proto r))
      | Some (TypeAttributeType a) \<Rightarrow> map_ok AttributeType (attribute_type_from_proto a)
      | Some (TypeRoleType r) \<Rightarrow> Ok (RoleType (role_type_from_proto r))
      | None \<Rightarrow> Err (missing ''type''))"

definition entry_from_proto ::
    "bool \<Rightarrow> chrono_lib \<Rightarrow> entry_proto option \<Rightarrow> (concept option, error) result" where
  "entry_from_proto oc chrono entry =
     and_then (ok_or entry (missing ''ConceptRow.entry'')) (\<lambda>e.
       case e of
         EntryEmpty \<Rightarrow> Ok None
       | EntryConcept c \<Rightarrow> map_ok Some (concept_try_from_proto oc chrono c)
       | EntryValue v \<Rightarrow> map_ok (\<lambda>v. Some (CValue v)) (value_try_from_proto oc chrono v)
       | EntryConceptList _ \<Rightarrow> Err (Connection ListsNotImplemented)
       | EntryValueList _ \<Rightarrow> Err (Connection ListsNotImplemented))"

definition row_try_from_proto ::
    "bool \<Rightarrow> chrono_lib \<Rightarrow> concept_row_proto \<Rightarrow> (concept option list \<times> u8 list option, error) result" where
  "row_try_from_proto oc chrono proto =
     map_ok (\<lambda>row. (row, involved_blocks proto)) (try_map (entry_from_proto oc chrono) (proto_row proto))"

fun leaf_try_from_proto ::
    "bool \<Rightarrow> chrono_lib \<Rightarrow> leaf_proto option \<Rightarrow> (leaf option, error) result" where
  "leaf_try_from_proto oc chrono (Some LEmpty) = Ok None"
| "leaf_try_from_proto oc chrono (Some (LEntityType t)) =
     Ok (Some (LeafConcept (CEntityType (entity_type_from_proto t))))"
| "leaf_try_from_proto oc chrono (Some (LRelationType t)) =
     Ok (Some (LeafConcept (CRelationType (relation_type_from_proto t))))"
| "leaf_try_from_proto oc chrono (Some (LAttributeType t)) =
     map_ok (\<lambda>t. Some (LeafConcept (CAttributeType t))) (attribute_type_from_proto t)"
| "leaf_try_from_proto oc chrono (Some (LRoleType t)) =
     Ok (Some (LeafConcept (CRoleType (role_type_from_proto t))))"
| "leaf_try_from_proto oc chrono (Some (LValueType t)) =
     map_ok (\<lambda>t. Some (LeafValueType t)) (value_type_try_from_proto t)"
| "leaf_try_from_proto oc chrono (Some (LAttribute a)) =
     map_ok (\<lambda>a. Some (LeafConcept (CAttribute a))) (attribute_try_from_proto oc chrono a)"
| "leaf_try_from_proto oc chrono (Some (LValue v)) =
     map_ok (\<lambda>v. Some (LeafConcept (CValue v))) (value_try_from_proto oc chrono v)"
| "leaf_try_from_proto oc chrono (Some (LKind k)) =
     map_ok (\<lambda>k. Some (LeafKind k)) (kind_try_from_proto k)"
| "leaf_try_from_proto oc chrono None = Ok None"

fun node_try_from_proto :: "bool \<Rightarrow> chrono_lib \<Rightarrow> node_message \<Rightarrow> (node, error) result" where
  "node_try_from_proto oc chrono (NodeMessage None) = Err (missing ''node'')"
| "node_try_from_proto oc chrono (NodeMessage (Some (PMap m))) =
     map_ok (\<lambda>ps. MapNode (hm_collect ps))
       (try_map (\<lambda>(var, n). map_ok (Pair var) (node_try_from_proto oc chrono n)) m)"
| "node_try_from_proto oc chrono (NodeMessage (Some (PList ns))) =
     map_ok ListNode (try_map (node_try_from_proto oc chrono) ns)"
| "node_try_from_proto oc chrono (NodeMessage (Some (PLeaf l))) =
     map_ok LeafNode (leaf_try_from_proto oc chrono l)"

fun document_try_from_proto ::
    "bool \<Rightarrow> chrono_lib \<Rightarrow> concept_document_proto \<Rightarrow> (node option, error) result" where
  "document_try_from_proto oc chrono (ConceptDocumentProto None) = Ok None"
| "document_try_from_proto oc chrono (ConceptDocumentProto (Some n)) =
     map_ok Some (node_try_from_proto oc chrono n)"

section \<open>Into messages\<close>

fun decimal_into_proto :: "decimal \<Rightarrow> decimal_proto" where
  "decimal_into_proto (Decimal i f) = DecimalProto i f"

definition duration_into_proto :: "duration \<Rightarrow> duration_proto" where
  "duration_into_proto d = DurationProto (months d) (days d) (nanos d)"

definition date_into_proto :: "chrono_lib \<Rightarrow> naive_date \<Rightarrow> i32" where
  "date_into_proto chrono d = num_days_from_ce chrono d"

definition datetime_into_proto :: "chrono_lib \<Rightarrow> naive_datetime \<Rightarrow> datetime_proto" where
  "datetime_into_proto chrono dt = DatetimeProto (timestamp chrono dt) (nanosecond chrono dt)"

definition datetime_tz_into_proto :: "chrono_lib \<Rightarrow> datetime_tz \<Rightarrow> datetime_tz_proto" where
  "datetime_tz_into_proto chrono dt =
     DatetimeTzProto (Some (datetime_into_proto chrono (dt_utc dt)))
       (Some (case dt_zone dt of IANA tz \<Rightarrow> Named tz | Fixed fixed \<Rightarrow> Offset (local_minus_utc chrono fixed)))"

text \<open>Structs cannot be sent: \<open>unreachable!\<close>.\<close>

definition value_into_proto :: "chrono_lib \<Rightarrow> cvalue \<Rightarrow> (value_message, error) result" where
  "value_into_proto chrono v =
     map_ok (\<lambda>p. ValueMessage (Some p))
       (case v of
          VBoolean b \<Rightarrow> Ok (PBoolean b)
        | VInteger i \<Rightarrow> Ok (PInteger i)
        | VDouble d \<Rightarrow> Ok (PDouble d)
        | VDecimal d \<Rightarrow> Ok (PDecimal (decimal_into_proto d))
        | VString s \<Rightarrow> Ok (PString s)
        | VDate d \<Rightarrow> Ok (PDate (date_into_proto chrono d))
        | VDatetime dt \<Rightarrow> Ok (PDatetime (datetime_into_proto chrono dt))
        | VDatetimeTZ dt \<Rightarrow> Ok (PDatetimeTz (datetime_tz_into_proto chrono dt))
        | VDuration d \<Rightarrow> Ok (PDuration (duration_into_proto d))
        | VStruct _ _ \<Rightarrow> Panic)"

definition entity_into_proto :: "entity \<Rightarrow> entity_proto" where
  "entity_into_proto e = EntityProto (bytes_cloned (entity_iid e)) None"

definition relation_into_proto :: "relation \<Rightarrow> relation_proto" where
  "relation_into_proto r = RelationProto (bytes_cloned (relation_iid r)) None"

definition attribute_into_proto :: "attribute \<Rightarrow> attribute_proto" where
  "attribute_into_proto a = AttributeProto (bytes_cloned (attribute_iid a)) None None"

section \<open>Facts about the conversions\<close>

text \<open>
  What the conversions rely on in \<open>chrono\<close> and \<open>chrono_tz\<close>: a date the calendar has is found again
  under its day number, a moment under its timestamp and nanoseconds, the name of a zone names it,
  and offsets of less than a day either way are accepted and give back their seconds.
\<close>

record chrono_range =
  date_ok :: "naive_date \<Rightarrow> bool"
  datetime_ok :: "naive_datetime \<Rightarrow> bool"
  zone_ok :: "string \<Rightarrow> bool"

definition offset_ok :: "int \<Rightarrow> bool" where
  "offset_ok s \<longleftrightarrow> - 86400 < s \<and> s < 86400"

definition chrono_ok :: "chrono_lib \<Rightarrow> chrono_range \<Rightarrow> bool" where
  "chrono_ok chrono cal \<longleftrightarrow>
     (\<forall>d. date_ok cal d \<longrightarrow> from_num_days_from_ce_opt chrono (num_days_from_ce chrono d) = Some d)
   \<and> (\<forall>dt. datetime_ok cal dt \<longrightarrow>
        from_timestamp chrono (timestamp chrono dt) (nanosecond chrono dt) = Some dt)
   \<and> (\<forall>z. zone_ok cal z \<longrightarrow> tz_from_str chrono z = Some z)
   \<and> (\<forall>s. east_opt chrono s = (if offset_ok (sint s) then Some (sint s) else None))
   \<and> (\<forall>s. west_opt chrono s = (if offset_ok (sint s) then Some (- sint s) else None))
   \<and> (\<forall>s. offset_ok s \<longrightarrow> sint (local_minus_utc chrono s) = s)"

definition zone_sendable :: "chrono_range \<Rightarrow> time_zone \<Rightarrow> bool" where
  "zone_sendable cal z = (case z of IANA name \<Rightarrow> zone_ok cal name | Fixed s \<Rightarrow> offset_ok s)"

text \<open>The values of the types: decimals in range, dates and moments of the calendar, no structs.\<close>

definition value_sendable :: "chrono_range \<Rightarrow> cvalue \<Rightarrow> bool" where
  "value_sendable cal v =
     (case v of
        VDecimal d \<Rightarrow> decimal_ok d
      | VDate d \<Rightarrow> date_ok cal d
      | VDatetime dt \<Rightarrow> datetime_ok cal dt
      | VDatetimeTZ dt \<Rightarrow> datetime_ok cal (dt_utc dt) \<and> zone_sendable cal (dt_zone dt)
      | VStruct _ _ \<Rightarrow> False
      | _ \<Rightarrow> True)"

lemma sint_uminus_offset:
  assumes "offset_ok (sint (a :: i32))" "sint a < 0"
  shows "sint (- a) = - sint a" "fits_signed 32 (- sint a)"
proof -
  show fits: "fits_signed 32 (- sint a)" using assms by (simp add: fits_signed_def offset_ok_def)
  then show "sint (- a) = - sint a"
    using sint_sub_fits [of 0 a] by simp
qed

lemma time_zone_round_trip:
  assumes "chrono_ok chrono cal" "zone_sendable cal z"
  shows "time_zone_from_proto oc chrono
     (case z of IANA tz \<Rightarrow> Named tz | Fixed fixed \<Rightarrow> Offset (local_minus_utc chrono fixed)) = Ok z"
proof (cases z)
  case (IANA name)
  then show ?thesis using assms by (simp add: time_zone_from_proto_def chrono_ok_def zone_sendable_def)
next
  case (Fixed s)
  let ?w = "local_minus_utc chrono s"
  have s: "offset_ok s" "sint ?w = s" using assms Fixed by (auto simp: chrono_ok_def zone_sendable_def)
  show ?thesis
  proof (cases "0 \<le> s")
    case True
    then show ?thesis using assms(1) s Fixed by (simp add: time_zone_from_proto_def chrono_ok_def)
  next
    case False
    then have "sint (- ?w) = - s" "sneg oc ?w = Ok (- ?w)" and "offset_ok (- s)"
      using sint_uminus_offset [of ?w] s by (auto simp: sneg_def offset_ok_def)
    then show ?thesis using assms(1) s False Fixed
      by (simp add: time_zone_from_proto_def chrono_ok_def)
  qed
qed

lemma from_parts_exact: "decimal_ok (Decimal i f) \<Longrightarrow> from_parts i f = Ok (Decimal i f)"
  by (simp add: decimal_ok_def from_parts_def)

lemma duration_new_parts: "duration_new (months d) (days d) (nanos d) = d"
  by (simp add: duration_new_def)

lemma from_utc_datetime_parts: "from_utc_datetime (dt_zone dt) (dt_utc dt) = dt"
  by (simp add: from_utc_datetime_def)

lemmas into_proto_defs = value_into_proto_def date_into_proto_def datetime_into_proto_def
  datetime_tz_into_proto_def duration_into_proto_def

lemmas from_proto_defs = naive_datetime_from_timestamp_def from_parts_exact duration_new_parts
  from_utc_datetime_parts

lemma value_round_trip:
  assumes "chrono_ok chrono cal" "value_sendable cal v"
  shows "\<exists>m. value_into_proto chrono v = Ok m \<and> value_try_from_proto oc chrono m = Ok v"
proof (cases v)
  case (VDecimal d)
  then show ?thesis using assms by (cases d) (simp add: into_proto_defs value_sendable_def from_proto_defs)
next
  case (VDatetimeTZ dt)
  then show ?thesis
    using assms time_zone_round_trip [OF assms(1), of "dt_zone dt" oc]
    by (simp add: into_proto_defs from_proto_defs value_sendable_def chrono_ok_def)
qed (use assms in \<open>auto simp: into_proto_defs from_proto_defs value_sendable_def chrono_ok_def\<close>)

section \<open>Properties\<close>

text \<open>
  C15: a value survives the wire.  Every value except a struct has a message, and reading that message
  gives the value back, in both build profiles.
\<close>

theorem value_wire_round_trip:
  assumes "chrono_ok chrono cal" "value_sendable cal v"
  shows "\<exists>m. value_into_proto chrono v = Ok m \<and> value_try_from_proto oc chrono m = Ok v"
  by (rule value_round_trip [OF assms])

definition sample_chrono :: chrono_lib where
  "sample_chrono = \<lparr>from_num_days_from_ce_opt = (\<lambda>n. Some (sint n)), num_days_from_ce = word_of_int,
     from_timestamp = (\<lambda>s n. Some \<lparr>dt_seconds = sint s, dt_nanos = unat n\<rparr>),
     timestamp = (\<lambda>dt. word_of_int (dt_seconds dt)), nanosecond = (\<lambda>dt. of_nat (dt_nanos dt)),
     tz_from_str = (\<lambda>z. if z = ''Europe/London'' then Some z else None),
     east_opt = (\<lambda>s. if offset_ok (sint s) then Some (sint s) else None),
     west_opt = (\<lambda>s. if offset_ok (sint s) then Some (- sint s) else None),
     local_minus_utc = word_of_int\<rparr>"

definition sample_calendar :: chrono_range where
  "sample_calendar = \<lparr>date_ok = fits_signed 32,
     datetime_ok = (\<lambda>dt. fits_signed 64 (dt_seconds dt) \<and> dt_nanos dt < 1000000000),
     zone_ok = (\<lambda>z. z = ''Europe/London'')\<rparr>"

lemma sample_chrono_ok: "chrono_ok sample_chrono sample_calendar"
proof -
  have "fits_signed 32 s" if "offset_ok s" for s
    using that by (simp add: offset_ok_def fits_signed_def)
  then show ?thesis
    using sint_word_of_int_fits [where 'n = 32] sint_word_of_int_fits [where 'n = 64]
    by (auto simp: chrono_ok_def sample_chrono_def sample_calendar_def unsigned_of_nat
        take_bit_nat_eq_self)
qed

theorem value_wire_round_trip_witness:
  "\<exists>m. value_into_proto sample_chrono
      (VDatetimeTZ \<lparr>dt_utc = \<lparr>dt_seconds = 1700000000, dt_nanos = 5\<rparr>, dt_zone = Fixed (- 12600)\<rparr>) = Ok m
    \<and> value_try_from_proto True sample_chrono m
      = Ok (VDatetimeTZ \<lparr>dt_utc = \<lparr>dt_seconds = 1700000000, dt_nanos = 5\<rparr>, dt_zone = Fixed (- 12600)\<rparr>)"
  by (rule value_wire_round_trip [OF sample_chrono_ok])
    (simp add: value_sendable_def zone_sendable_def sample_calendar_def fits_signed_def offset_ok_def)

text \<open>
  reading a value panics exactly on a decimal whose fraction is not below one, on a date or a
  moment the calendar does not have, and, in a build with overflow checks, on the smallest 32-bit
  number as offset of a zone (when the moment is in range).
\<close>

theorem value_try_from_proto_panics:
  "value_try_from_proto oc chrono (ValueMessage v) = Panic \<longleftrightarrow>
     (case v of
        Some (PDecimal (DecimalProto i f)) \<Rightarrow> frac_denominator \<le> f
      | Some (PDate n) \<Rightarrow> from_num_days_from_ce_opt chrono n = None
      | Some (PDatetime (DatetimeProto s n)) \<Rightarrow> from_timestamp chrono s n = None
      | Some (PDatetimeTz (DatetimeTzProto (Some (DatetimeProto s n)) tz)) \<Rightarrow>
          from_timestamp chrono s n = None
          \<or> (oc \<and> (case tz of Some (Offset w) \<Rightarrow> sint w = - (2 ^ 31) | _ \<Rightarrow> False))
      | _ \<Rightarrow> False)"
  (is "?l = ?r")
proof -
  have neg: "sneg oc w = Panic \<longleftrightarrow> oc \<and> sint w = - (2 ^ 31)" for w :: i32
    using sint_ge [of w] sint_lt [of w] by (auto simp: sneg_def checked_eq_Panic fits_signed_def)
  have "time_zone_from_proto oc chrono tz = Panic
      \<longleftrightarrow> (case tz of Named _ \<Rightarrow> False | Offset w \<Rightarrow> oc \<and> sint w = - (2 ^ 31))" for tz
    by (auto simp: time_zone_from_proto_def result_eqs neg split: timezone_proto.splits)
  note tz = this
  note defs = naive_datetime_from_timestamp_def from_parts_def unwrap_eq not_less
  show ?thesis
  proof (cases "\<exists>dt z. v = Some (PDatetimeTz (DatetimeTzProto dt z))")
    case True
    then obtain dt z where v: "v = Some (PDatetimeTz (DatetimeTzProto dt z))" by blast
    show ?thesis
    proof (cases dt)
      case (Some d)
      obtain secs ns where d: "d = DatetimeProto secs ns" by (cases d)
      show ?thesis
        by (cases "from_timestamp chrono secs ns"; cases z) (simp_all add: v Some d defs tz split: timezone_proto.splits)
    qed (simp add: v)
  next
    case False
    then show ?thesis
      by (auto simp: defs split: option.splits value_proto.splits decimal_proto.splits datetime_proto.splits
          datetime_tz_proto.splits duration_proto.splits)
  qed
qed

lemma leaf_from_proto_fetchable:
  "leaf_try_from_proto oc chrono p = Ok (Some l) \<Longrightarrow> is_fetchable l"
  by (induction oc chrono p rule: leaf_try_from_proto.induct) (auto simp: is_fetchable_def map_ok_eq_Ok)

lemma node_from_proto_fetchable:
  "node_try_from_proto oc chrono p = Ok n \<Longrightarrow> l \<in> set (node_leaves n) \<Longrightarrow> is_fetchable l"
proof (induction oc chrono p arbitrary: n l rule: node_try_from_proto.induct)
  case (2 oc chrono m)
  then obtain ps where ps: "try_map (\<lambda>(var, n). map_ok (Pair var) (node_try_from_proto oc chrono n)) m = Ok ps"
    and n: "n = MapNode (hm_collect ps)"
    by (auto simp: map_ok_eq_Ok)
  obtain k n' where kn: "(k, n') \<in> set ps" and l: "l \<in> set (node_leaves n')"
    using 2 n hm_collect_subset [of ps] by (auto simp del: node_try_from_proto.simps)
  then obtain x where "x \<in> set m" "(\<lambda>(var, n). map_ok (Pair var) (node_try_from_proto oc chrono n)) x = Ok (k, n')"
    using try_map_mem [OF ps] by blast
  with 2 l show ?case by (cases x) (auto simp: map_ok_eq_Ok)
next
  case (3 oc chrono ns)
  then obtain ms where ms: "try_map (node_try_from_proto oc chrono) ns = Ok ms" and n: "n = ListNode ms"
    by (auto simp: map_ok_eq_Ok)
  obtain n' where "n' \<in> set ms" and l: "l \<in> set (node_leaves n')" using 3 n by auto
  then obtain x where "x \<in> set ns" "node_try_from_proto oc chrono x = Ok n'"
    using try_map_mem [OF ms] by blast
  with 3 l show ?case by auto
next
  case (4 oc chrono lp)
  then obtain lf where lf: "leaf_try_from_proto oc chrono lp = Ok lf" "n = LeafNode lf"
    by (auto simp: map_ok_eq_Ok)
  with 4 show ?case by (cases lf) (auto intro: leaf_from_proto_fetchable)
qed simp

text \<open>
  C38: a document received from the server can always be turned into JSON: the messages have no
  entity and no relation leaf, so the panicking branch of the conversion is not reachable for it.
\<close>

theorem received_document_into_json:
  assumes "document_try_from_proto oc chrono p = Ok root"
  shows "\<exists>j. document_into_json fmt to_f64 \<lparr>document_header = h, document_root = root\<rparr> = Ok j"
proof (cases root)
  case None
  then show ?thesis by (simp add: document_into_json_def)
next
  case (Some n)
  obtain m where "p = ConceptDocumentProto (Some m)" "node_try_from_proto oc chrono m = Ok n"
    using assms Some by (cases "(oc, chrono, p)" rule: document_try_from_proto.cases) (auto simp: map_ok_eq_Ok)
  then show ?thesis
    using node_into_json_cases [of n fmt to_f64] node_from_proto_fetchable Some
    by (auto simp: document_into_json_def split: if_splits)
qed

theorem received_document_into_json_witness:
  "\<forall>fmt. \<exists>j. document_into_json fmt (\<lambda>_. 0) \<lparr>document_header = \<lparr>document_query_type = ReadQuery\<rparr>,
     document_root = Some (MapNode [(''kind'', LeafNode (Some (LeafKind KRelation)))])\<rparr> = Ok j"
  by (rule allI, rule received_document_into_json
      [of True sample_chrono "ConceptDocumentProto (Some (NodeMessage (Some (PMap
         [(''kind'', NodeMessage (Some (PLeaf (Some (LKind 1)))))]))))"])
    (simp add: kind_try_from_proto_def hm_collect_def hm_insert_def)

end
