(* ===== verification/Proto_Analyze.thy ===== *)
theory Proto_Analyze
  imports Proto_Concepts Analyze
begin

text \<open>
  \<open>rust/src/connection/network/proto/analyze.rs\<close>: reading an analyzed query, its pipelines,
  conjunctions and annotations from the messages of the protocol.  Messages are modelled as in
  \<open>Proto_Concepts\<close>.  The enums of the protocol arrive as 32-bit numbers; which number stands for which
  constant is decided by generated code and is the record \<open>enum_lib\<close>, as are the type names that the
  error for an unknown number carries.
\<close>

section \<open>Messages\<close>

datatype exactness_proto = PExact | PSubtypes

datatype comparator_proto =
  PEqual | PNotEqual | PLess | PLessOrEqual | PGreater | PGreaterOrEqual | PLike | PContains

datatype sort_direction_proto = Asc | Desc

record enum_lib =
  exactness_of :: "i32 \<Rightarrow> exactness_proto option"
  comparator_of :: "i32 \<Rightarrow> comparator_proto option"
  sort_direction_of :: "i32 \<Rightarrow> sort_direction_proto option"
  exactness_type_name :: string
  comparator_type_name :: string
  sort_direction_type_name :: string

datatype variable_proto = VariableProto u32

datatype named_role_proto = NamedRoleProto "variable_proto option" string

datatype vertex_proto =
    PVariable variable_proto
  | PLabel type_message
  | PValueVertex value_message
  | PNamedRole named_role_proto

datatype vertex_message = VertexMessage "vertex_proto option"

datatype constraint_proto =
    POr "u32 list"
  | PNot u32
  | PTry u32
  | PIsa "vertex_message option" "vertex_message option" i32
  | PHas "vertex_message option" "vertex_message option" i32
  | PLinks "vertex_message option" "vertex_message option" "vertex_message option" i32
  | PKind i32 "vertex_message option"
  | PSub "vertex_message option" "vertex_message option" i32
  | POwns "vertex_message option" "vertex_message option" i32
  | PRelates "vertex_message option" "vertex_message option" i32
  | PPlays "vertex_message option" "vertex_message option" i32
  | PValueConstraint "vertex_message option" "value_type_message option"
  | PLabelConstraint "vertex_message option" string
  | PComparison "vertex_message option" "vertex_message option" i32
  | PExpression "vertex_message option" "vertex_message list" string
  | PFunctionCall string "vertex_message list" "vertex_message list"
  | PIs "vertex_message option" "vertex_message option"
  | PIid "vertex_message option" "u8 list"

datatype span_proto = SpanProto u64 u64

datatype constraint_message = ConstraintMessage "constraint_proto option" "span_proto option"

datatype annotations_proto =
    PInstanceAnnotations "type_message list"
  | PTypeAnnotations "type_message list"
  | PValueAnnotations value_type_message

datatype variable_annotations_proto = VariableAnnotationsProto bool "annotations_proto option"

datatype conjunction_proto =
  ConjunctionProto "constraint_message list" "(u32 \<times> variable_annotations_proto) list"

datatype reducer_proto = ReducerProto "variable_proto list" string

datatype reduce_assign_proto = ReduceAssignProto "variable_proto option" "reducer_proto option"

datatype sort_variable_proto = SortVariableProto "variable_proto option" i32

datatype stage_proto =
    PMatch u32
  | PInsert u32
  | PPut u32
  | PUpdate u32
  | PDelete u32 "variable_proto list"
  | PSelect "variable_proto list"
  | PSort "sort_variable_proto list"
  | PRequire "variable_proto list"
  | POffset u64
  | PLimit u64
  | PDistinct
  | PReduce "reduce_assign_proto list" "variable_proto list"

datatype stage_message = StageMessage "stage_proto option"

datatype variable_info_proto = VariableInfoProto string

datatype pipeline_proto =
  PipelineProto "conjunction_proto list" "stage_message list" "(u32 \<times> variable_info_proto) list"
    "variable_proto list"

datatype return_proto =
    PStreamReturn "variable_proto list"
  | PSingleReturn string "variable_proto list"
  | PCheckReturn
  | PReduceReturn "reducer_proto list"

datatype return_message = ReturnMessage (return_field: "return_proto option")

datatype function_proto =
  FunctionProto "pipeline_proto option" "variable_proto list" "return_message option"
    "variable_annotations_proto list" "variable_annotations_proto list"

datatype given_proto = GivenProto "variable_proto list" "(u32 \<times> variable_annotations_proto) list"

datatype fetch_leaf_proto = FetchLeafProto "value_type_message list"

datatype fetch_message = FetchMessage "fetch_proto option"
and fetch_proto =
    PFetchObject "(string \<times> fetch_message) list"
  | PFetchList fetch_message
  | PFetchLeaf fetch_leaf_proto

datatype analyzed_query_proto =
  AnalyzedQueryProto string "function_proto list" "given_proto option" "pipeline_proto option"
    "fetch_message option"

section \<open>Generic conversions\<close>

definition analyze_missing :: "string \<Rightarrow> error" where
  "analyze_missing field = Analyze (AnalyzeMissingResponseField field)"

definition expect_try_from_proto ::
    "('src \<Rightarrow> ('dst, error) result) \<Rightarrow> 'src option \<Rightarrow> string \<Rightarrow> ('dst, error) result" where
  "expect_try_from_proto conv x field = and_then (ok_or x (analyze_missing field)) conv"

definition vec_from_proto :: "('src \<Rightarrow> ('dst, error) result) \<Rightarrow> 'src list \<Rightarrow> ('dst list, error) result" where
  "vec_from_proto conv protocol_vec = try_map conv protocol_vec"

definition enum_from_proto :: "(i32 \<Rightarrow> 'e option) \<Rightarrow> string \<Rightarrow> i32 \<Rightarrow> ('e, error) result" where
  "enum_from_proto try_from name v = ok_or (try_from v) (Analyze (UnknownEnumValue name v))"

text \<open>\<open>collect::<Result<HashMap<_, _>>>\<close> of converted entries.\<close>

definition map_from_proto ::
    "('k \<Rightarrow> 'j) \<Rightarrow> ('src \<Rightarrow> ('dst, error) result) \<Rightarrow> ('k \<times> 'src) list \<Rightarrow> (('j \<times> 'dst) list, error) result" where
  "map_from_proto key conv m =
     map_ok hm_collect (try_map (\<lambda>(k, v). map_ok (Pair (key k)) (conv v)) m)"

definition block_id :: "u32 \<Rightarrow> conjunction_id" where
  "block_id block = ConjunctionID (unat block)"

section \<open>Conjunctions\<close>

fun variable_from_proto :: "variable_proto \<Rightarrow> (variable, error) result" where
  "variable_from_proto (VariableProto i) = Ok (Variable i)"

fun named_role_from_proto :: "named_role_proto \<Rightarrow> (named_role, error) result" where
  "named_role_from_proto (NamedRoleProto v name) =
     map_ok (\<lambda>v. \<lparr>role_variable = v, role_name = name\<rparr>)
       (expect_try_from_proto variable_from_proto v ''NamedRole.variable'')"

fun vertex_from_proto :: "bool \<Rightarrow> chrono_lib \<Rightarrow> vertex_message \<Rightarrow> (constraint_vertex, error) result" where
  "vertex_from_proto oc chrono (VertexMessage v) =
     (case v of
        Some (PVariable x) \<Rightarrow> map_ok VariableVertex (variable_from_proto x)
      | Some (PLabel t) \<Rightarrow> map_ok LabelVertex (type_try_from_proto t)
      | Some (PValueVertex w) \<Rightarrow> map_ok ValueVertex (value_try_from_proto oc chrono w)
      | Some (PNamedRole r) \<Rightarrow> map_ok NamedRoleVertex (named_role_from_proto r)
      | None \<Rightarrow> Err (analyze_missing ''StructureVertex.vertex''))"

primrec comparator_from_proto :: "comparator_proto \<Rightarrow> comparator" where
  "comparator_from_proto PEqual = Equal"
| "comparator_from_proto PNotEqual = NotEqual"
| "comparator_from_proto PLess = LessThan"
| "comparator_from_proto PLessOrEqual = LessOrEqual"
| "comparator_from_proto PGreater = Greater"
| "comparator_from_proto PGreaterOrEqual = GreaterOrEqual"
| "comparator_from_proto PLike = Like"
| "comparator_from_proto PContains = Contains"

primrec exactness_from_proto :: "exactness_proto \<Rightarrow> constraint_exactness" where
  "exactness_from_proto PExact = Exact"
| "exactness_from_proto PSubtypes = Subtypes"

fun span_from_proto :: "span_proto \<Rightarrow> (constraint_span, error) result" where
  "span_from_proto (SpanProto b e) = Ok \<lparr>span_begin = unat b, span_end = unat e\<rparr>"

text \<open>A constraint of two vertices and an exactness: the exactness is decoded first.\<close>

definition exactness_first ::
    "enum_lib \<Rightarrow> i32 \<Rightarrow> (constraint_exactness \<Rightarrow> (constraint, error) result) \<Rightarrow> (constraint, error) result" where
  "exactness_first enums e k =
     and_then (enum_from_proto (exactness_of enums) (exactness_type_name enums) e)
       (\<lambda>p. k (exactness_from_proto p))"

fun constraint_from_proto ::
    "bool \<Rightarrow> chrono_lib \<Rightarrow> enum_lib \<Rightarrow> constraint_proto \<Rightarrow> (constraint, error) result" where
  "constraint_from_proto oc chrono enums (POr branches) = Ok (Or (map block_id branches))"
| "constraint_from_proto oc chrono enums (PNot c) = Ok (Not (block_id c))"
| "constraint_from_proto oc chrono enums (PTry c) = Ok (Try (block_id c))"
| "constraint_from_proto oc chrono enums (PIsa i t e) =
     exactness_first enums e (\<lambda>x.
     and_then (expect_try_from_proto (vertex_from_proto oc chrono) i ''structure_constraint::Isa.instance'') (\<lambda>a.
     and_then (expect_try_from_proto (vertex_from_proto oc chrono) t ''structure_constraint::Isa.type'') (\<lambda>b.
     Ok (Isa a b x))))"
| "constraint_from_proto oc chrono enums (PHas own attr e) =
     exactness_first enums e (\<lambda>x.
     and_then (expect_try_from_proto (vertex_from_proto oc chrono) own ''structure_constraint::Has.owner'') (\<lambda>a.
     and_then (expect_try_from_proto (vertex_from_proto oc chrono) attr ''structure_constraint::Has.attribute'') (\<lambda>b.
     Ok (Has a b x))))"
| "constraint_from_proto oc chrono enums (PLinks r p ro e) =
     exactness_first enums e (\<lambda>x.
     and_then (expect_try_from_proto (vertex_from_proto oc chrono) r ''structure_constraint::Links.relation'') (\<lambda>a.
     and_then (expect_try_from_proto (vertex_from_proto oc chrono) p ''structure_constraint::Links.player'') (\<lambda>b.
     and_then (expect_try_from_proto (vertex_from_proto oc chrono) ro ''structure_constraint::Links.role'') (\<lambda>c.
     Ok (Links a b c x)))))"
| "constraint_from_proto oc chrono enums (PKind k t) =
     and_then (kind_try_from_proto k) (\<lambda>kind_of.
     and_then (expect_try_from_proto (vertex_from_proto oc chrono) t ''structure_constraint::Kind.kind'') (\<lambda>a.
     Ok (KindConstraint kind_of a)))"
| "constraint_from_proto oc chrono enums (PSub s t e) =
     exactness_first enums e (\<lambda>x.
     and_then (expect_try_from_proto (vertex_from_proto oc chrono) s ''structure_constraint::Sub.subtype'') (\<lambda>a.
     and_then (expect_try_from_proto (vertex_from_proto oc chrono) t ''structure_constraint::Sub.supertype'') (\<lambda>b.
     Ok (Sub a b x))))"
| "constraint_from_proto oc chrono enums (POwns own attr e) =
     exactness_first enums e (\<lambda>x.
     and_then (expect_try_from_proto (vertex_from_proto oc chrono) own ''structure_constraint::Owns.owner'') (\<lambda>a.
     and_then (expect_try_from_proto (vertex_from_proto oc chrono) attr ''structure_constraint::Owns.attribute'') (\<lambda>b.
     Ok (Owns a b x))))"
| "constraint_from_proto oc chrono enums (PRelates r ro e) =
     exactness_first enums e (\<lambda>x.
     and_then (expect_try_from_proto (vertex_from_proto oc chrono) r ''structure_constraint::Relates.relation'') (\<lambda>a.
     and_then (expect_try_from_proto (vertex_from_proto oc chrono) ro ''structure_constraint::Relates.role'') (\<lambda>b.
     Ok (Relates a b x))))"
| "constraint_from_proto oc chrono enums (PPlays p ro e) =
     exactness_first enums e (\<lambda>x.
     and_then (expect_try_from_proto (vertex_from_proto oc chrono) p ''structure_constraint::Plays.player'') (\<lambda>a.
     and_then (expect_try_from_proto (vertex_from_proto oc chrono) ro ''structure_constraint::Plays.role'') (\<lambda>b.
     Ok (Plays a b x))))"
| "constraint_from_proto oc chrono enums (PValueConstraint t vt) =
     and_then (expect_try_from_proto (vertex_from_proto oc chrono) t ''structure_constraint::Value.attribute_type'') (\<lambda>a.
     and_then (expect_try_from_proto value_type_try_from_proto vt ''structure_constraint::Value.value_type'') (\<lambda>b.
     Ok (ValueConstraint a b)))"
| "constraint_from_proto oc chrono enums (PLabelConstraint t l) =
     and_then (expect_try_from_proto (vertex_from_proto oc chrono) t ''structure_constraint::Label.type'') (\<lambda>a.
     Ok (LabelConstraint a l))"
| "constraint_from_proto oc chrono enums (PComparison lhs rhs cmp) =
     and_then (enum_from_proto (comparator_of enums) (comparator_type_name enums) cmp) (\<lambda>c.
     and_then (expect_try_from_proto (vertex_from_proto oc chrono) lhs ''structure_constraint::Comparison.lhs'') (\<lambda>a.
     and_then (expect_try_from_proto (vertex_from_proto oc chrono) rhs ''structure_constraint::Comparison.rhs'') (\<lambda>b.
     Ok (Comparison a b (comparator_from_proto c)))))"
| "constraint_from_proto oc chrono enums (PExpression asg args txt) =
     and_then (expect_try_from_proto (vertex_from_proto oc chrono) asg ''Expression.assigned'') (\<lambda>a.
     and_then (vec_from_proto (vertex_from_proto oc chrono) args) (\<lambda>bs.
     Ok (Expression txt a bs)))"
| "constraint_from_proto oc chrono enums (PFunctionCall name asg args) =
     and_then (vec_from_proto (vertex_from_proto oc chrono) asg) (\<lambda>xs.
     and_then (vec_from_proto (vertex_from_proto oc chrono) args) (\<lambda>bs.
     Ok (FunctionCall name xs bs)))"
| "constraint_from_proto oc chrono enums (PIs lhs rhs) =
     and_then (expect_try_from_proto (vertex_from_proto oc chrono) lhs ''structure_constraint::Is.lhs'') (\<lambda>a.
     and_then (expect_try_from_proto (vertex_from_proto oc chrono) rhs ''structure_constraint::Is.rhs'') (\<lambda>b.
     Ok (Is a b)))"
| "constraint_from_proto oc chrono enums (PIid c i) =
     and_then (expect_try_from_proto (vertex_from_proto oc chrono) c ''structure_constraint::Iid.concept'') (\<lambda>a.
     Ok (Iid a (ID i)))"

fun constraint_with_span_from_proto ::
    "bool \<Rightarrow> chrono_lib \<Rightarrow> enum_lib \<Rightarrow> constraint_message \<Rightarrow> (constraint_with_span, error) result" where
  "constraint_with_span_from_proto oc chrono enums (ConstraintMessage c s) =
     and_then (expect_try_from_proto (constraint_from_proto oc chrono enums) c ''Constraint.constraint'') (\<lambda>a.
     and_then (map_transpose span_from_proto s) (\<lambda>sp.
     Ok \<lparr>constraint_of = a, constraint_span_of = sp\<rparr>))"

section \<open>Annotations\<close>

fun annotations_from_proto :: "annotations_proto \<Rightarrow> (type_annotations, error) result" where
  "annotations_from_proto (PInstanceAnnotations ts) =
     map_ok InstanceAnnotations (vec_from_proto type_try_from_proto ts)"
| "annotations_from_proto (PTypeAnnotations ts) =
     map_ok TypeAnnotations (vec_from_proto type_try_from_proto ts)"
| "annotations_from_proto (PValueAnnotations (ValueTypeMessage vt)) =
     map_ok (\<lambda>p. ValueAnnotations (value_type_from_proto p))
       (ok_or vt (analyze_missing ''Value.value_type in VariableAnnotations::ValueAnnotations''))"

fun variable_annotations_from_proto ::
    "variable_annotations_proto \<Rightarrow> (variable_annotations, error) result" where
  "variable_annotations_from_proto (VariableAnnotationsProto opt anns) =
     map_ok (\<lambda>t. \<lparr>is_optional = opt, annotation_types = t\<rparr>)
       (expect_try_from_proto annotations_from_proto anns ''VariableAnnotations.annotations'')"

fun conjunction_from_proto ::
    "bool \<Rightarrow> chrono_lib \<Rightarrow> enum_lib \<Rightarrow> conjunction_proto \<Rightarrow> (conjunction, error) result" where
  "conjunction_from_proto oc chrono enums (ConjunctionProto cs anns) =
     and_then (map_from_proto Variable variable_annotations_from_proto anns) (\<lambda>va.
     and_then (vec_from_proto (constraint_with_span_from_proto oc chrono enums) cs) (\<lambda>xs.
     Ok \<lparr>constraints = xs, conjunction_annotations = va\<rparr>))"

section \<open>Pipelines\<close>

fun variable_info_from_proto :: "variable_info_proto \<Rightarrow> (variable_info, error) result" where
  "variable_info_from_proto (VariableInfoProto name) = Ok \<lparr>variable_info_name = name\<rparr>"

fun reducer_from_proto :: "reducer_proto \<Rightarrow> (reducer, error) result" where
  "reducer_from_proto (ReducerProto vs name) =
     map_ok (\<lambda>args. \<lparr>reducer_arguments = args, reducer_name = name\<rparr>) (vec_from_proto variable_from_proto vs)"

fun reduce_assign_from_proto :: "reduce_assign_proto \<Rightarrow> (reduce_assignment, error) result" where
  "reduce_assign_from_proto (ReduceAssignProto v r) =
     and_then (expect_try_from_proto variable_from_proto v ''ReduceAssign.assigned'') (\<lambda>a.
     and_then (expect_try_from_proto reducer_from_proto r ''ReduceAssign.reducer'') (\<lambda>b.
     Ok \<lparr>assigned = a, assigned_reducer = b\<rparr>))"

definition sort_order_of :: "sort_direction_proto \<Rightarrow> sort_order" where
  "sort_order_of d = (case d of Asc \<Rightarrow> Ascending | Desc \<Rightarrow> Descending)"

fun sort_variable_from_proto :: "enum_lib \<Rightarrow> sort_variable_proto \<Rightarrow> (sort_variable, error) result" where
  "sort_variable_from_proto enums (SortVariableProto v d) =
     and_then (expect_try_from_proto variable_from_proto v ''SortVariable.variable'') (\<lambda>a.
     and_then (enum_from_proto (sort_direction_of enums) (sort_direction_type_name enums) d) (\<lambda>b.
     Ok \<lparr>sorted_variable = a, sorted_order = sort_order_of b\<rparr>))"

fun stage_from_proto :: "enum_lib \<Rightarrow> stage_message \<Rightarrow> (pipeline_stage, error) result" where
  "stage_from_proto enums (StageMessage None) = Err (analyze_missing ''PipelineStage.stage'')"
| "stage_from_proto enums (StageMessage (Some stage)) =
     (case stage of
        PMatch block \<Rightarrow> Ok (MatchStage (block_id block))
      | PInsert block \<Rightarrow> Ok (InsertStage (block_id block))
      | PPut block \<Rightarrow> Ok (PutStage (block_id block))
      | PUpdate block \<Rightarrow> Ok (UpdateStage (block_id block))
      | PDelete block vs \<Rightarrow> map_ok (DeleteStage (block_id block)) (vec_from_proto variable_from_proto vs)
      | PSelect vs \<Rightarrow> map_ok SelectStage (vec_from_proto variable_from_proto vs)
      | PSort vs \<Rightarrow> map_ok SortStage (vec_from_proto (sort_variable_from_proto enums) vs)
      | PRequire vs \<Rightarrow> map_ok RequireStage (vec_from_proto variable_from_proto vs)
      | POffset n \<Rightarrow> Ok (OffsetStage n)
      | PLimit n \<Rightarrow> Ok (LimitStage n)
      | PDistinct \<Rightarrow> Ok DistinctStage
      | PReduce rs vs \<Rightarrow>
          and_then (vec_from_proto reduce_assign_from_proto rs) (\<lambda>as.
          and_then (vec_from_proto variable_from_proto vs) (\<lambda>gs. Ok (ReduceStage as gs))))"

fun pipeline_from_proto ::
    "bool \<Rightarrow> chrono_lib \<Rightarrow> enum_lib \<Rightarrow> pipeline_proto \<Rightarrow> (pipeline, error) result" where
  "pipeline_from_proto oc chrono enums (PipelineProto cs ss infos outs) =
     and_then (vec_from_proto (conjunction_from_proto oc chrono enums) cs) (\<lambda>cs'.
     and_then (vec_from_proto (stage_from_proto enums) ss) (\<lambda>ss'.
     and_then (map_from_proto Variable variable_info_from_proto infos) (\<lambda>infos'.
     and_then (vec_from_proto variable_from_proto outs) (\<lambda>outs'.
     Ok \<lparr>conjunctions = cs', stages = ss', pipeline_variable_info = infos', outputs = outs'\<rparr>))))"

section \<open>Queries\<close>

fun return_from_proto :: "return_proto \<Rightarrow> (return_operation, error) result" where
  "return_from_proto (PStreamReturn vs) = map_ok StreamReturn (vec_from_proto variable_from_proto vs)"
| "return_from_proto (PSingleReturn selector vs) =
     map_ok (SingleReturn selector) (vec_from_proto variable_from_proto vs)"
| "return_from_proto PCheckReturn = Ok CheckReturn"
| "return_from_proto (PReduceReturn rs) = map_ok ReduceReturn (vec_from_proto reducer_from_proto rs)"

fun function_from_proto ::
    "bool \<Rightarrow> chrono_lib \<Rightarrow> enum_lib \<Rightarrow> function_proto \<Rightarrow> (function_t, error) result" where
  "function_from_proto oc chrono enums (FunctionProto body args ret arg_anns ret_anns) =
     and_then (vec_from_proto variable_from_proto args) (\<lambda>args'.
     and_then (expect_try_from_proto return_from_proto (Option.bind ret return_field) ''Function.return_operation'') (\<lambda>ret'.
     and_then (expect_try_from_proto (pipeline_from_proto oc chrono enums) body ''Function.body'') (\<lambda>body'.
     and_then (vec_from_proto variable_annotations_from_proto arg_anns) (\<lambda>aas.
     and_then (vec_from_proto variable_annotations_from_proto ret_anns) (\<lambda>ras.
     Ok \<lparr>argument_variables = args', return_operation_of = ret', function_body = body',
         argument_annotations = aas, return_annotations = ras\<rparr>)))))"

fun given_from_proto :: "given_proto \<Rightarrow> (given, error) result" where
  "given_from_proto (GivenProto vs anns) =
     and_then (vec_from_proto variable_from_proto vs) (\<lambda>vs'.
     and_then (map_from_proto Variable variable_annotations_from_proto anns) (\<lambda>anns'.
     Ok \<lparr>given_variables = vs', given_annotations = anns'\<rparr>))"

fun fetch_leaf_from_proto :: "fetch_leaf_proto \<Rightarrow> (fetch_leaf, error) result" where
  "fetch_leaf_from_proto (FetchLeafProto anns) =
     map_ok (\<lambda>vts. \<lparr>leaf_annotations = vts\<rparr>) (vec_from_proto value_type_try_from_proto anns)"

fun fetch_from_proto :: "fetch_message \<Rightarrow> (fetch, error) result" where
  "fetch_from_proto (FetchMessage None) = Err (analyze_missing ''Fetch.node'')"
| "fetch_from_proto (FetchMessage (Some (PFetchObject kvs))) =
     map_ok (\<lambda>ps. FetchObject (hm_collect ps))
       (try_map (\<lambda>(key, f). map_ok (Pair key) (fetch_from_proto f)) kvs)"
| "fetch_from_proto (FetchMessage (Some (PFetchList f))) = map_ok FetchList (fetch_from_proto f)"
| "fetch_from_proto (FetchMessage (Some (PFetchLeaf l))) = map_ok FetchLeafNode (fetch_leaf_from_proto l)"

fun analyzed_query_from_proto ::
    "bool \<Rightarrow> chrono_lib \<Rightarrow> enum_lib \<Rightarrow> analyzed_query_proto \<Rightarrow> (analyzed_query, error) result" where
  "analyzed_query_from_proto oc chrono enums (AnalyzedQueryProto source preamble giv query fetched) =
     and_then (vec_from_proto (function_from_proto oc chrono enums) preamble) (\<lambda>fs.
     and_then (map_transpose given_from_proto giv) (\<lambda>g.
     and_then (expect_try_from_proto (pipeline_from_proto oc chrono enums) query ''AnalyzedQuery.query'') (\<lambda>q.
     and_then (map_transpose fetch_from_proto fetched) (\<lambda>f.
     Ok \<lparr>query_source = source, query_preamble = fs, query_given = g, query_pipeline = q,
         query_fetch = f\<rparr>))))"

end
