(* ===== verification/Proto_Messages.thy ===== *)
theory Proto_Messages
  imports Messages Proto_Analyze
begin

text \<open>
  \<open>rust/src/connection/network/proto/message.rs\<close>, \<open>common.rs\<close>, \<open>user.rs\<close> and \<open>database.rs\<close>: the
  conversions of requests into protocol messages and of protocol messages into responses.  Each of the
  protocol's calls has a request and a response message of its own; a message without fields is a
  constructor without arguments.  \<open>proto_lib\<close> collects what comes from generated code and other crates:
  the protocol's version numbers and the numbering of its transaction types, the \<open>Debug\<close> text of a
  request, and \<open>Uuid::from_slice\<close>.
\<close>

record proto_lib =
  protocol_version :: i32
  protocol_extension_version :: i32
  transaction_type_code :: "transaction_type \<Rightarrow> i32"
  request_debug :: "request \<Rightarrow> string"
  uuid_from_slice :: "u8 list \<Rightarrow> uuid option"

section \<open>Request messages\<close>

datatype token_create_req = TokenCreateReq string string

datatype user_proto = UserProto string "string option"

datatype database_proto = DatabaseProto string

datatype import_client = InitialReq string string | ReqPart "migration_item list" | DoneReq

record transaction_options_proto =
  parallel :: "bool option"
  transaction_timeout_millis :: "u64 option"
  schema_lock_acquire_timeout_millis :: "u64 option"

record query_options_proto =
  proto_include_instance_types :: "bool option"
  proto_prefetch_size :: "u64 option"
  proto_include_query_structure :: "bool option"

datatype thing_proto = ThingEntity entity_proto | ThingRelation relation_proto | ThingAttribute attribute_proto

datatype given_entry_proto = PGivenEmpty | PGivenValue value_message | PGivenThing "thing_proto option"

datatype given_rows_proto = GivenRowsProto "string list" "given_entry_proto option list list"

datatype query_req = QueryReqProto string "query_options_proto option" "given_rows_proto option"

datatype transaction_req_body =
    OpenReqP string i32 "transaction_options_proto option" u64
  | CommitReqP
  | RollbackReqP
  | AnalyzeReqP string
  | QueryReqP query_req
  | StreamReqP

record transaction_req =
  req_id :: "u8 list"
  req_body :: "transaction_req_body option"

type_synonym transaction_client = "transaction_req list"

datatype connection_open_req = ConnectionOpenReq i32 i32 string string "token_create_req option"

datatype unit_req = EmptyReq

datatype name_req = NameReq string

datatype import_client_msg = ImportClientMsg "import_client option"

datatype import_req = ImportReq "import_client_msg option"

datatype export_req = ExportReq "name_req option"

datatype user_create_req = UserCreateReq "user_proto option"

datatype user_update_req = UserUpdateReq string "user_proto option"

section \<open>Options\<close>

definition transaction_type_into_proto :: "proto_lib \<Rightarrow> transaction_type \<Rightarrow> i32" where
  "transaction_type_into_proto p t = transaction_type_code p t"

definition query_type_from_proto :: "i32 \<Rightarrow> (query_type, error) result" where
  "query_type_from_proto t =
     (if t = 0 then Ok ReadQuery else if t = 1 then Ok WriteQuery else if t = 2 then Ok SchemaQuery
      else Err (Connection (UnexpectedQueryType t)))"

text \<open>\<open>as_millis() as u64\<close> cuts the 128-bit number of milliseconds.\<close>

definition millis_u64 :: "std_duration \<Rightarrow> u64" where
  "millis_u64 d = of_nat (as_millis d)"

definition transaction_options_into_proto :: "transaction_options \<Rightarrow> transaction_options_proto" where
  "transaction_options_into_proto o' = \<lparr>parallel = None,
     transaction_timeout_millis = map_option millis_u64 (transaction_timeout o'),
     schema_lock_acquire_timeout_millis = map_option millis_u64 (schema_lock_acquire_timeout o')\<rparr>"

definition query_options_into_proto :: "query_options \<Rightarrow> query_options_proto" where
  "query_options_into_proto o' = \<lparr>proto_include_instance_types = include_instance_types o',
     proto_prefetch_size = prefetch_size o',
     proto_include_query_structure = include_query_structure o'\<rparr>"

fun user_from_proto :: "user_proto \<Rightarrow> user_info" where
  "user_from_proto (UserProto name pw) = \<lparr>user_info_name = name, user_info_password = pw\<rparr>"

definition user_proto_of :: "user_info \<Rightarrow> user_proto" where
  "user_proto_of u = UserProto (user_info_name u) (user_info_password u)"

fun database_from_proto :: "database_proto \<Rightarrow> (database_info, error) result" where
  "database_from_proto (DatabaseProto name) = Ok \<lparr>database_info_name = name\<rparr>"

section \<open>Requests into messages\<close>

definition unexpected_request :: "proto_lib \<Rightarrow> request \<Rightarrow> ('m, error) result" where
  "unexpected_request p r = Err (Internal (UnexpectedRequestType (request_debug p r)))"

definition credentials_into_proto :: "credentials \<Rightarrow> (token_create_req, error) result" where
  "credentials_into_proto c = Ok (TokenCreateReq (username c) (password c))"

definition connection_open_into_proto :: "proto_lib \<Rightarrow> request \<Rightarrow> (connection_open_req, error) result" where
  "connection_open_into_proto p r =
     (case r of
        ConnectionOpen lang vers creds \<Rightarrow>
          map_ok (\<lambda>t. ConnectionOpenReq (protocol_version p) (protocol_extension_version p) lang vers (Some t))
            (credentials_into_proto creds)
      | _ \<Rightarrow> unexpected_request p r)"

definition servers_all_into_proto :: "proto_lib \<Rightarrow> request \<Rightarrow> (unit_req, error) result" where
  "servers_all_into_proto p r = (case r of ServersAll \<Rightarrow> Ok EmptyReq | _ \<Rightarrow> unexpected_request p r)"

definition servers_get_into_proto :: "proto_lib \<Rightarrow> request \<Rightarrow> (unit_req, error) result" where
  "servers_get_into_proto p r = (case r of ServersGet \<Rightarrow> Ok EmptyReq | _ \<Rightarrow> unexpected_request p r)"

definition server_version_into_proto :: "proto_lib \<Rightarrow> request \<Rightarrow> (unit_req, error) result" where
  "server_version_into_proto p r = (case r of ServerVersion \<Rightarrow> Ok EmptyReq | _ \<Rightarrow> unexpected_request p r)"

definition databases_all_into_proto :: "proto_lib \<Rightarrow> request \<Rightarrow> (unit_req, error) result" where
  "databases_all_into_proto p r = (case r of DatabasesAll \<Rightarrow> Ok EmptyReq | _ \<Rightarrow> unexpected_request p r)"

definition database_get_into_proto :: "proto_lib \<Rightarrow> request \<Rightarrow> (name_req, error) result" where
  "database_get_into_proto p r = (case r of DatabaseGet n \<Rightarrow> Ok (NameReq n) | _ \<Rightarrow> unexpected_request p r)"

definition databases_contains_into_proto :: "proto_lib \<Rightarrow> request \<Rightarrow> (name_req, error) result" where
  "databases_contains_into_proto p r =
     (case r of DatabasesContains n \<Rightarrow> Ok (NameReq n) | _ \<Rightarrow> unexpected_request p r)"

definition database_create_into_proto :: "proto_lib \<Rightarrow> request \<Rightarrow> (name_req, error) result" where
  "database_create_into_proto p r =
     (case r of DatabaseCreate n \<Rightarrow> Ok (NameReq n) | _ \<Rightarrow> unexpected_request p r)"

definition import_request_into_proto :: "database_import_request \<Rightarrow> import_client_msg" where
  "import_request_into_proto r =
     ImportClientMsg (Some
       (case r of
          ImportInitial name schema \<Rightarrow> InitialReq name schema
        | ImportItemPart items \<Rightarrow> ReqPart items
        | ImportDone \<Rightarrow> DoneReq))"

definition database_import_into_proto :: "proto_lib \<Rightarrow> request \<Rightarrow> (import_req, error) result" where
  "database_import_into_proto p r =
     (case r of
        DatabaseImport ir \<Rightarrow> Ok (ImportReq (Some (import_request_into_proto ir)))
      | _ \<Rightarrow> unexpected_request p r)"

definition database_delete_into_proto :: "proto_lib \<Rightarrow> request \<Rightarrow> (name_req, error) result" where
  "database_delete_into_proto p r =
     (case r of DatabaseDelete n \<Rightarrow> Ok (NameReq n) | _ \<Rightarrow> unexpected_request p r)"

definition database_schema_into_proto :: "proto_lib \<Rightarrow> request \<Rightarrow> (name_req, error) result" where
  "database_schema_into_proto p r =
     (case r of DatabaseSchema n \<Rightarrow> Ok (NameReq n) | _ \<Rightarrow> unexpected_request p r)"

definition database_type_schema_into_proto :: "proto_lib \<Rightarrow> request \<Rightarrow> (name_req, error) result" where
  "database_type_schema_into_proto p r =
     (case r of DatabaseTypeSchema n \<Rightarrow> Ok (NameReq n) | _ \<Rightarrow> unexpected_request p r)"

definition database_export_into_proto :: "proto_lib \<Rightarrow> request \<Rightarrow> (export_req, error) result" where
  "database_export_into_proto p r =
     (case r of DatabaseExport n \<Rightarrow> Ok (ExportReq (Some (NameReq n))) | _ \<Rightarrow> unexpected_request p r)"

definition given_entry_into_proto ::
    "chrono_lib \<Rightarrow> given_row_entry \<Rightarrow> (given_entry_proto option, error) result" where
  "given_entry_into_proto chrono e =
     map_ok Some
       (case e of
          GivenEmpty \<Rightarrow> Ok PGivenEmpty
        | GivenValue v \<Rightarrow> map_ok PGivenValue (value_into_proto chrono v)
        | GivenEntity x \<Rightarrow> Ok (PGivenThing (Some (ThingEntity (entity_into_proto x))))
        | GivenRelation x \<Rightarrow> Ok (PGivenThing (Some (ThingRelation (relation_into_proto x))))
        | GivenAttribute x \<Rightarrow> Ok (PGivenThing (Some (ThingAttribute (attribute_into_proto x)))))"

definition given_row_into_proto ::
    "chrono_lib \<Rightarrow> given_row_entry list \<Rightarrow> (given_entry_proto option list, error) result" where
  "given_row_into_proto chrono entries = try_map (given_entry_into_proto chrono) entries"

definition given_rows_into_proto :: "chrono_lib \<Rightarrow> given_rows \<Rightarrow> (given_rows_proto, error) result" where
  "given_rows_into_proto chrono g =
     map_ok (GivenRowsProto (variables (given_rows_header_of g)))
       (try_map (given_row_into_proto chrono) (given_rows_list g))"

fun query_request_into_proto :: "chrono_lib \<Rightarrow> query_request \<Rightarrow> (query_req, error) result" where
  "query_request_into_proto chrono (QueryRequest q options given_of) =
     map_ok (QueryReqProto q (Some (query_options_into_proto options)))
       (map_transpose (given_rows_into_proto chrono) given_of)"

text \<open>
  A request is numbered with a freshly generated identifier (the argument \<open>fresh\<close>), except a request
  for more answers, which carries the identifier of the query it continues.
\<close>

definition transaction_request_into_proto ::
    "proto_lib \<Rightarrow> chrono_lib \<Rightarrow> request_id \<Rightarrow> transaction_request \<Rightarrow> (transaction_req, error) result" where
  "transaction_request_into_proto p chrono fresh r =
     (let request_id = (case r of StreamMore i \<Rightarrow> i | _ \<Rightarrow> fresh) in
      map_ok (\<lambda>body. \<lparr>req_id = bytes_cloned request_id, req_body = Some body\<rparr>)
       (case r of
          Open db t options latency \<Rightarrow>
            Ok (OpenReqP db (transaction_type_into_proto p t)
              (Some (transaction_options_into_proto options)) (millis_u64 latency))
        | Commit \<Rightarrow> Ok CommitReqP
        | Rollback \<Rightarrow> Ok RollbackReqP
        | AnalyzeQuery q \<Rightarrow> Ok (AnalyzeReqP q)
        | QueryReq q \<Rightarrow> map_ok QueryReqP (query_request_into_proto chrono q)
        | StreamMore _ \<Rightarrow> Ok StreamReqP))"

definition transaction_into_proto ::
    "proto_lib \<Rightarrow> chrono_lib \<Rightarrow> request_id \<Rightarrow> request \<Rightarrow> (transaction_client, error) result" where
  "transaction_into_proto p chrono fresh r =
     (case r of
        Transaction t \<Rightarrow> map_ok (\<lambda>m. [m]) (transaction_request_into_proto p chrono fresh t)
      | _ \<Rightarrow> unexpected_request p r)"

definition users_all_into_proto :: "proto_lib \<Rightarrow> request \<Rightarrow> (unit_req, error) result" where
  "users_all_into_proto p r = (case r of UsersAll \<Rightarrow> Ok EmptyReq | _ \<Rightarrow> unexpected_request p r)"

definition users_get_into_proto :: "proto_lib \<Rightarrow> request \<Rightarrow> (name_req, error) result" where
  "users_get_into_proto p r = (case r of UsersGet n \<Rightarrow> Ok (NameReq n) | _ \<Rightarrow> unexpected_request p r)"

definition users_contains_into_proto :: "proto_lib \<Rightarrow> request \<Rightarrow> (name_req, error) result" where
  "users_contains_into_proto p r =
     (case r of UsersContains n \<Rightarrow> Ok (NameReq n) | _ \<Rightarrow> unexpected_request p r)"

definition users_create_into_proto :: "proto_lib \<Rightarrow> request \<Rightarrow> (user_create_req, error) result" where
  "users_create_into_proto p r =
     (case r of UsersCreate u \<Rightarrow> Ok (UserCreateReq (Some (user_proto_of u))) | _ \<Rightarrow> unexpected_request p r)"

definition users_update_into_proto :: "proto_lib \<Rightarrow> request \<Rightarrow> (user_update_req, error) result" where
  "users_update_into_proto p r =
     (case r of
        UsersUpdate n u \<Rightarrow> Ok (UserUpdateReq n (Some (user_proto_of u)))
      | _ \<Rightarrow> unexpected_request p r)"

definition users_delete_into_proto :: "proto_lib \<Rightarrow> request \<Rightarrow> (name_req, error) result" where
  "users_delete_into_proto p r =
     (case r of UsersDelete n \<Rightarrow> Ok (NameReq n) | _ \<Rightarrow> unexpected_request p r)"

section \<open>Response messages\<close>

record error_proto =
  proto_error_code :: string
  proto_domain :: string
  proto_stack_trace :: "string list"

datatype connection_open_res = ConnectionOpenResP "server_proto list option" "u8 list option" u64

datatype servers_all_res = ServersAllResP "server_proto list"

datatype servers_get_res = ServersGetResP "server_proto option"

datatype databases_all_res = DatabasesAllResP "database_proto list"

datatype database_res = DatabaseResP "database_proto option"

datatype export_server = PExportInitial string | PExportPart "migration_item list" | PExportDone

datatype export_server_msg = ExportServerMsg "export_server option"

datatype export_res = ExportRes "export_server_msg option"

datatype users_all_res = UsersAllResP "user_proto list"

datatype users_get_res = UsersGetResP "user_proto option"

datatype query_ok_proto =
    PDone i32
  | PDocumentStream i32
  | PRowStream "string list" i32 "pipeline_proto option"

datatype query_initial_res = PInitialError error_proto | PInitialOk "query_ok_proto option"

datatype analyze_result_proto = PAnalyzeOk analyzed_query_proto | PAnalyzeErr error_proto

datatype transaction_res_body =
    POpenRes u64
  | PCommitRes
  | PRollbackRes
  | PQueryInitialRes "query_initial_res option"
  | PAnalyzeRes "analyze_result_proto option"

record transaction_res =
  res_req_id :: "u8 list"
  res_body :: "transaction_res_body option"

datatype query_res_part = PDocumentsRes "concept_document_proto list" | PRowsRes "concept_row_proto list"

datatype stream_state = PContinue | PStreamDone | PStreamError error_proto

datatype res_part_body = PQueryRes "query_res_part option" | PStreamRes "stream_state option"

record transaction_res_part =
  part_req_id :: "u8 list"
  part_body :: "res_part_body option"

datatype server_body = ServerRes transaction_res | ServerResPart transaction_res_part

type_synonym transaction_server = "server_body option"

section \<open>Messages into responses\<close>

fun connection_open_from_proto ::
    "proto_lib \<Rightarrow> http_lib \<Rightarrow> connection_open_res \<Rightarrow> (response, error) result" where
  "connection_open_from_proto p http (ConnectionOpenResP servers_all conn_id millis) =
     and_then (ok_or servers_all (missing ''servers_all'')) (\<lambda>ss.
     and_then (try_map (server_from_proto http) ss) (\<lambda>servers.
     and_then (ok_or conn_id (missing ''connection_id'')) (\<lambda>bytes.
     and_then (unwrap (uuid_from_slice p bytes)) (\<lambda>u.
     Ok (ConnectionOpenRes u millis servers)))))"

fun servers_all_from_proto :: "http_lib \<Rightarrow> servers_all_res \<Rightarrow> (response, error) result" where
  "servers_all_from_proto http (ServersAllResP ss) = map_ok ServersAllRes (try_map (server_from_proto http) ss)"

fun servers_get_from_proto :: "http_lib \<Rightarrow> servers_get_res \<Rightarrow> (response, error) result" where
  "servers_get_from_proto http (ServersGetResP s) =
     and_then (ok_or s (missing ''server'')) (\<lambda>s. map_ok ServersGetRes (server_from_proto http s))"

fun version_response_from_proto :: "version_proto \<Rightarrow> (response, error) result" where
  "version_response_from_proto (VersionProto d v) = Ok (ServerVersionRes \<lparr>distribution = d, version = v\<rparr>)"

fun databases_all_from_proto :: "databases_all_res \<Rightarrow> (response, error) result" where
  "databases_all_from_proto (DatabasesAllResP ds) = map_ok DatabasesAllRes (try_map database_from_proto ds)"

fun database_get_from_proto :: "database_res \<Rightarrow> (response, error) result" where
  "database_get_from_proto (DatabaseResP d) =
     and_then (ok_or d (missing ''database'')) (\<lambda>d. map_ok DatabaseGetRes (database_from_proto d))"

fun database_create_from_proto :: "database_res \<Rightarrow> (response, error) result" where
  "database_create_from_proto (DatabaseResP d) =
     and_then (ok_or d (missing ''database'')) (\<lambda>d. map_ok DatabaseCreateRes (database_from_proto d))"

fun export_from_proto :: "export_res \<Rightarrow> (database_export_response, error) result" where
  "export_from_proto (ExportRes None) = Err (missing ''server'')"
| "export_from_proto (ExportRes (Some (ExportServerMsg None))) = Err (missing ''server'')"
| "export_from_proto (ExportRes (Some (ExportServerMsg (Some (PExportInitial schema))))) = Ok (ExportSchema schema)"
| "export_from_proto (ExportRes (Some (ExportServerMsg (Some (PExportPart items))))) = Ok (ExportItems items)"
| "export_from_proto (ExportRes (Some (ExportServerMsg (Some PExportDone)))) = Ok ExportDone"

fun users_all_from_proto :: "users_all_res \<Rightarrow> response" where
  "users_all_from_proto (UsersAllResP us) = UsersAllRes (map user_from_proto us)"

fun users_get_from_proto :: "users_get_res \<Rightarrow> response" where
  "users_get_from_proto (UsersGetResP u) = UsersGetRes (map_option user_from_proto u)"

text \<open>The message field of a server error is left empty; the trace carries the text.\<close>

definition server_error_from_proto :: "error_proto \<Rightarrow> server_error" where
  "server_error_from_proto e =
     server_error_new (proto_error_code e) (proto_domain e) [] (proto_stack_trace e)"

definition query_error_from_proto :: "error_proto \<Rightarrow> query_response" where
  "query_error_from_proto e = QError (server_error_from_proto e)"

fun query_ok_from_proto ::
    "bool \<Rightarrow> chrono_lib \<Rightarrow> enum_lib \<Rightarrow> query_ok_proto \<Rightarrow> (query_response, error) result" where
  "query_ok_from_proto oc chrono enums (PDone t) = map_ok QOk (query_type_from_proto t)"
| "query_ok_from_proto oc chrono enums (PDocumentStream t) =
     map_ok (\<lambda>qt. ConceptDocumentsHeader \<lparr>document_query_type = qt\<rparr>) (query_type_from_proto t)"
| "query_ok_from_proto oc chrono enums (PRowStream names t structure) =
     and_then (map_transpose (pipeline_from_proto oc chrono enums) structure) (\<lambda>qs.
     map_ok (\<lambda>qt. ConceptRowsHeader \<lparr>column_names = names, row_query_type = qt, query_structure = qs\<rparr>)
       (query_type_from_proto t))"

fun analyze_response_from_proto ::
    "bool \<Rightarrow> chrono_lib \<Rightarrow> enum_lib \<Rightarrow> analyze_result_proto \<Rightarrow> (analyze_response, error) result" where
  "analyze_response_from_proto oc chrono enums (PAnalyzeOk q) =
     map_ok AnalyzeOk (analyzed_query_from_proto oc chrono enums q)"
| "analyze_response_from_proto oc chrono enums (PAnalyzeErr e) = Ok (AnalyzeErr (server_error_from_proto e))"

definition transaction_res_from_proto ::
    "bool \<Rightarrow> chrono_lib \<Rightarrow> enum_lib \<Rightarrow> transaction_res \<Rightarrow> (transaction_response, error) result" where
  "transaction_res_from_proto oc chrono enums res =
     (case res_body res of
        Some (POpenRes millis) \<Rightarrow> Ok (OpenRes millis)
      | Some PCommitRes \<Rightarrow> Ok CommitRes
      | Some PRollbackRes \<Rightarrow> Ok RollbackRes
      | Some (PQueryInitialRes initial) \<Rightarrow>
          (case initial of
             Some (PInitialError e) \<Rightarrow> Ok (QueryRes (query_error_from_proto e))
           | Some (PInitialOk None) \<Rightarrow> Err (missing ''transaction.res.query.initial_res.res.Ok.ok'')
           | Some (PInitialOk (Some header)) \<Rightarrow> map_ok QueryRes (query_ok_from_proto oc chrono enums header)
           | None \<Rightarrow> Err (missing ''transaction.res.query.initial_res.res''))
      | Some (PAnalyzeRes r) \<Rightarrow>
          map_ok AnalyzeRes (expect_try_from_proto (analyze_response_from_proto oc chrono enums) r ''analyze.Res.result'')
      | None \<Rightarrow> Err (missing ''res''))"

fun query_part_from_proto ::
    "bool \<Rightarrow> chrono_lib \<Rightarrow> query_res_part \<Rightarrow> (query_response, error) result" where
  "query_part_from_proto oc chrono (PDocumentsRes ds) =
     map_ok StreamConceptDocuments (try_map (document_try_from_proto oc chrono) ds)"
| "query_part_from_proto oc chrono (PRowsRes rs) =
     map_ok StreamConceptRows (try_map (row_try_from_proto oc chrono) rs)"

definition query_res_from_proto ::
    "bool \<Rightarrow> chrono_lib \<Rightarrow> query_res_part option \<Rightarrow> (transaction_response, error) result" where
  "query_res_from_proto oc chrono res =
     (case res of
        Some r \<Rightarrow> map_ok QueryRes (query_part_from_proto oc chrono r)
      | None \<Rightarrow> Err (missing ''query.ResPart.res''))"

definition databases_contains_from_proto :: "bool \<Rightarrow> response" where
  "databases_contains_from_proto contains = DatabasesContainsRes contains"

definition database_delete_from_proto :: "unit_req \<Rightarrow> response" where
  "database_delete_from_proto m = DatabaseDeleteRes"

definition database_schema_from_proto :: "string \<Rightarrow> response" where
  "database_schema_from_proto schema = DatabaseSchemaRes schema"

definition database_type_schema_from_proto :: "string \<Rightarrow> response" where
  "database_type_schema_from_proto schema = DatabaseTypeSchemaRes schema"

definition users_contains_from_proto :: "bool \<Rightarrow> response" where
  "users_contains_from_proto contains = UsersContainRes contains"

definition users_create_from_proto :: "unit_req \<Rightarrow> response" where
  "users_create_from_proto m = UsersCreateRes"

definition users_update_from_proto :: "unit_req \<Rightarrow> response" where
  "users_update_from_proto m = UsersUpdateRes"

definition users_delete_from_proto :: "unit_req \<Rightarrow> response" where
  "users_delete_from_proto m = UsersDeleteRes"

section \<open>Facts about the conversions\<close>

text \<open>The entries of a request that the protocol cannot carry: values of a struct type.\<close>

definition is_struct_entry :: "given_row_entry \<Rightarrow> bool" where
  "is_struct_entry e = (case e of GivenValue (VStruct _ _) \<Rightarrow> True | _ \<Rightarrow> False)"

definition given_entries :: "transaction_request \<Rightarrow> given_row_entry list" where
  "given_entries r =
     (case r of QueryReq (QueryRequest _ _ (Some g)) \<Rightarrow> concat (given_rows_list g) | _ \<Rightarrow> [])"

lemma given_entry_cases:
  "if is_struct_entry e then given_entry_into_proto chrono e = Panic
   else \<exists>m. given_entry_into_proto chrono e = Ok m"
  by (auto simp: given_entry_into_proto_def is_struct_entry_def value_into_proto_def
      split: given_row_entry.splits cvalue.splits)

lemma given_row_cases:
  "if \<exists>e \<in> set row. is_struct_entry e then given_row_into_proto chrono row = Panic
   else \<exists>m. given_row_into_proto chrono row = Ok m"
  using try_map_Panic_iff [of row "given_entry_into_proto chrono"] given_entry_cases [of _ chrono]
  unfolding given_row_into_proto_def by (smt (verit) result.distinct(3))

lemma given_rows_cases:
  "if \<exists>row \<in> set (given_rows_list g). \<exists>e \<in> set row. is_struct_entry e
   then given_rows_into_proto chrono g = Panic else \<exists>m. given_rows_into_proto chrono g = Ok m"
  using try_map_Panic_iff [of "given_rows_list g" "given_row_into_proto chrono"] given_row_cases [of _ chrono]
  unfolding given_rows_into_proto_def
  by (smt (verit) map_ok.simps map_ok_eq_Panic result.distinct(3))

lemma transaction_request_cases:
  "if \<exists>e \<in> set (given_entries r). is_struct_entry e
   then transaction_request_into_proto p chrono fresh r = Panic
   else \<exists>body. transaction_request_into_proto p chrono fresh r
     = Ok \<lparr>req_id = bytes_cloned (case r of StreamMore i \<Rightarrow> i | _ \<Rightarrow> fresh), req_body = Some body\<rparr>"
proof (cases "\<exists>q options g. r = QueryReq (QueryRequest q options (Some g))")
  case True
  then obtain q options g where r: "r = QueryReq (QueryRequest q options (Some g))" by blast
  show ?thesis
    using given_rows_cases [of g chrono] by (auto simp: r given_entries_def transaction_request_into_proto_def)
next
  case False
  then have "given_entries r = []"
    by (auto simp: given_entries_def split: transaction_request.splits query_request.splits option.splits)
  moreover have "\<exists>m. query_request_into_proto chrono q = Ok m" if "r = QueryReq q" for q
    using False that by (cases q; cases "case q of QueryRequest _ _ g \<Rightarrow> g") auto
  ultimately show ?thesis
    by (cases r) (auto simp: transaction_request_into_proto_def map_ok_eq_Ok)
qed

definition rejected :: "('m, error) result \<Rightarrow> bool" where
  "rejected res = (case res of Err (Internal (UnexpectedRequestType _)) \<Rightarrow> True | _ \<Rightarrow> False)"

text \<open>The outcome of each of the protocol's calls for a request, in the order of the code.\<close>

definition accepting_calls :: "proto_lib \<Rightarrow> chrono_lib \<Rightarrow> request_id \<Rightarrow> request \<Rightarrow> string list" where
  "accepting_calls p chrono fresh r = map fst (filter (\<lambda>c. \<not> snd c)
     [(''connection.open'', rejected (connection_open_into_proto p r)),
      (''servers.all'', rejected (servers_all_into_proto p r)),
      (''servers.get'', rejected (servers_get_into_proto p r)),
      (''server.version'', rejected (server_version_into_proto p r)),
      (''databases.all'', rejected (databases_all_into_proto p r)),
      (''databases.get'', rejected (database_get_into_proto p r)),
      (''databases.contains'', rejected (databases_contains_into_proto p r)),
      (''databases.create'', rejected (database_create_into_proto p r)),
      (''databases.import'', rejected (database_import_into_proto p r)),
      (''database.delete'', rejected (database_delete_into_proto p r)),
      (''database.schema'', rejected (database_schema_into_proto p r)),
      (''database.type_schema'', rejected (database_type_schema_into_proto p r)),
      (''database.export'', rejected (database_export_into_proto p r)),
      (''transaction'', rejected (transaction_into_proto p chrono fresh r)),
      (''users.all'', rejected (users_all_into_proto p r)),
      (''users.get'', rejected (users_get_into_proto p r)),
      (''users.contains'', rejected (users_contains_into_proto p r)),
      (''users.create'', rejected (users_create_into_proto p r)),
      (''users.update'', rejected (users_update_into_proto p r)),
      (''users.delete'', rejected (users_delete_into_proto p r))])"

lemmas call_defs = connection_open_into_proto_def servers_all_into_proto_def servers_get_into_proto_def
  server_version_into_proto_def databases_all_into_proto_def database_get_into_proto_def
  databases_contains_into_proto_def database_create_into_proto_def database_import_into_proto_def
  database_delete_into_proto_def database_schema_into_proto_def database_type_schema_into_proto_def
  database_export_into_proto_def transaction_into_proto_def users_all_into_proto_def
  users_get_into_proto_def users_contains_into_proto_def users_create_into_proto_def
  users_update_into_proto_def users_delete_into_proto_def

lemma rejected_simps [simp]:
  "rejected (unexpected_request p r)" "\<not> rejected (Ok m)" "\<not> rejected Panic"
  by (simp_all add: rejected_def unexpected_request_def)

lemma transaction_not_rejected:
  "\<not> rejected (map_ok (\<lambda>m. [m]) (transaction_request_into_proto p chrono fresh t))"
  using transaction_request_cases [of t p chrono fresh] by (auto split: if_splits)

section \<open>Properties\<close>

text \<open>
  every request is accepted by exactly one of the protocol's twenty calls, and which one it is
  depends on the kind of the request only.
\<close>

theorem request_accepted_by_one_call:
  "accepting_calls p chrono fresh r =
     [case r of
        ConnectionOpen _ _ _ \<Rightarrow> ''connection.open'' | ServersAll \<Rightarrow> ''servers.all''
      | ServersGet \<Rightarrow> ''servers.get'' | ServerVersion \<Rightarrow> ''server.version''
      | DatabasesAll \<Rightarrow> ''databases.all'' | DatabaseGet _ \<Rightarrow> ''databases.get''
      | DatabasesContains _ \<Rightarrow> ''databases.contains'' | DatabaseCreate _ \<Rightarrow> ''databases.create''
      | DatabaseImport _ \<Rightarrow> ''databases.import'' | DatabaseDelete _ \<Rightarrow> ''database.delete''
      | DatabaseSchema _ \<Rightarrow> ''database.schema'' | DatabaseTypeSchema _ \<Rightarrow> ''database.type_schema''
      | DatabaseExport _ \<Rightarrow> ''database.export'' | Transaction _ \<Rightarrow> ''transaction''
      | UsersAll \<Rightarrow> ''users.all'' | UsersGet _ \<Rightarrow> ''users.get'' | UsersContains _ \<Rightarrow> ''users.contains''
      | UsersCreate _ \<Rightarrow> ''users.create'' | UsersUpdate _ _ \<Rightarrow> ''users.update''
      | UsersDelete _ \<Rightarrow> ''users.delete'']"
  by (cases r)
    (simp_all add: accepting_calls_def call_defs transaction_not_rejected credentials_into_proto_def)

text \<open>
  C39: a request of a transaction is turned into a message without error, carrying the identifier of the
  query it continues or the fresh one, exactly when none of its given rows holds a struct value; with
  one, the conversion panics.
\<close>

theorem transaction_request_conversion:
  "(transaction_request_into_proto p chrono fresh r = Panic
      \<longleftrightarrow> (\<exists>e. e \<in> set (given_entries r) \<and> is_struct_entry e))
   \<and> transaction_request_into_proto p chrono fresh r \<noteq> Err err
   \<and> (case transaction_request_into_proto p chrono fresh r of
        Ok m \<Rightarrow> ID (req_id m) = (case r of StreamMore i \<Rightarrow> i | _ \<Rightarrow> fresh) \<and> req_body m \<noteq> None
      | _ \<Rightarrow> True)"
proof -
  have "ID (bytes_cloned i) = i" for i by (cases i) (simp add: bytes_cloned_def)
  then show ?thesis
    using transaction_request_cases [of r p chrono fresh] by (auto split: if_splits)
qed

end
