(* ===== verification/Request_Buffers.thy ===== *)
theory Request_Buffers
  imports Proto_Messages
begin

text \<open>
  Buffers that collect elements and hand them over in batches.  The locale \<open>batch_buffer\<close> is the contract
  a batching loop relies on; it is interpreted by the buffer of transaction requests
  (\<open>network/transmitter/transaction.rs\<close>, \<open>TransactionRequestBuffer\<close>) here, and by the buffer of imported
  items in \<open>Migration\<close>.  The size of a request on the wire (\<open>encoded_len\<close> of the protobuf library) is a
  parameter.
\<close>

section \<open>Batching\<close>

locale batch_buffer =
  fixes buf_is_empty :: "'b \<Rightarrow> bool"
    and buf_len :: "'b \<Rightarrow> nat"
    and buf_push :: "'r \<Rightarrow> 'b \<Rightarrow> 'b"
    and buf_take :: "'b \<Rightarrow> 'r list \<times> 'b"
    and contents :: "'b \<Rightarrow> 'r list"
    and weight :: "'r \<Rightarrow> nat"
    and buf_ok :: "'b \<Rightarrow> bool"
    and empty_buf :: 'b
  assumes is_empty_contents: "buf_is_empty b \<longleftrightarrow> contents b = []"
    and contents_push: "contents (buf_push r b) = contents b @ [r]"
    and take_contents: "fst (buf_take b) = contents b"
    and contents_take: "contents (snd (buf_take b)) = []"
    and len_contents: "buf_ok b \<Longrightarrow> buf_len b = sum_list (map weight (contents b))"
    and ok_push: "buf_ok b \<Longrightarrow> buf_ok (buf_push r b)"
    and ok_take: "buf_ok (snd (buf_take b))"
    and empty_contents: "contents empty_buf = []"
    and ok_empty: "buf_ok empty_buf"
begin

text \<open>
  A batching loop: before an element is pushed the buffer may be flushed, and after it was pushed too.
  The state is the batches sent so far and the buffer.
\<close>

definition flush :: "'r list list \<times> 'b \<Rightarrow> 'r list list \<times> 'b" where
  "flush s = (fst s @ [fst (buf_take (snd s))], snd (buf_take (snd s)))"

definition feed :: "('b \<Rightarrow> 'r \<Rightarrow> bool) \<Rightarrow> ('b \<Rightarrow> bool) \<Rightarrow> 'r \<Rightarrow> 'r list list \<times> 'b \<Rightarrow> 'r list list \<times> 'b" where
  "feed before after r s =
     (let s1 = if before (snd s) r then flush s else s;
          s2 = (fst s1, buf_push r (snd s1))
      in if after (snd s2) then flush s2 else s2)"

definition finish_batches :: "'r list list \<times> 'b \<Rightarrow> 'r list list \<times> 'b" where
  "finish_batches s = (if buf_is_empty (snd s) then s else flush s)"

definition all_requests :: "'r list list \<times> 'b \<Rightarrow> 'r list" where
  "all_requests s = concat (fst s) @ contents (snd s)"

lemma all_requests_flush [simp]: "all_requests (flush s) = all_requests s"
  by (simp add: all_requests_def flush_def take_contents contents_take)

text \<open>Nothing is lost, duplicated or reordered, whatever the two conditions are.\<close>

lemma all_requests_feed [simp]: "all_requests (feed before after r s) = all_requests s @ [r]"
proof -
  have push: "all_requests (bs, buf_push r b) = all_requests (bs, b) @ [r]" for bs b
    by (simp add: all_requests_def contents_push)
  show ?thesis
    using push [of "fst s" "snd s"] push [of "fst (flush s)" "snd (flush s)"]
    by (simp add: feed_def Let_def)
qed

lemma all_requests_feeds: "all_requests (fold (feed before after) rs s) = all_requests s @ rs"
  by (induction rs arbitrary: s) simp_all

lemma all_requests_finish [simp]: "all_requests (finish_batches s) = all_requests s"
  by (simp add: finish_batches_def)

lemma finish_contents: "contents (snd (finish_batches s)) = []"
  by (simp add: finish_batches_def is_empty_contents flush_def contents_take)

lemma ok_feed: "buf_ok (snd s) \<Longrightarrow> buf_ok (snd (feed before after r s))"
  by (simp add: feed_def Let_def flush_def ok_push ok_take)

lemma ok_feeds: "buf_ok (snd s) \<Longrightarrow> buf_ok (snd (fold (feed before after) rs s))"
  by (induction rs arbitrary: s) (simp_all add: ok_feed)

lemma feeds_from_empty: "concat (fst (finish_batches (fold (feed before after) rs ([], empty_buf)))) = rs"
  using all_requests_feeds [of before after rs "([], empty_buf)"]
    finish_contents [of "fold (feed before after) rs ([], empty_buf)"]
    all_requests_finish [of "fold (feed before after) rs ([], empty_buf)"]
  by (simp add: all_requests_def empty_contents)

end

section \<open>The buffer of transaction requests\<close>

record request_buffer =
  reqs :: "transaction_req list"
  buffered_len :: nat

definition buffer_default :: request_buffer where
  "buffer_default = \<lparr>reqs = [], buffered_len = 0\<rparr>"

definition buffer_is_empty :: "request_buffer \<Rightarrow> bool" where
  "buffer_is_empty b \<longleftrightarrow> reqs b = []"

definition buffer_push :: "(transaction_req \<Rightarrow> nat) \<Rightarrow> transaction_req \<Rightarrow> request_buffer \<Rightarrow> request_buffer" where
  "buffer_push encoded_len r b =
     b\<lparr>buffered_len := buffered_len b + encoded_len r, reqs := reqs b @ [r]\<rparr>"

definition buffer_take :: "request_buffer \<Rightarrow> transaction_client \<times> request_buffer" where
  "buffer_take b = (reqs b, b\<lparr>buffered_len := 0, reqs := []\<rparr>)"

definition buffer_ok :: "(transaction_req \<Rightarrow> nat) \<Rightarrow> request_buffer \<Rightarrow> bool" where
  "buffer_ok encoded_len b \<longleftrightarrow> buffered_len b = sum_list (map encoded_len (reqs b))"

lemmas buffer_defs = buffer_default_def buffer_is_empty_def buffer_push_def buffer_take_def buffer_ok_def

interpretation tb: batch_buffer buffer_is_empty buffered_len "buffer_push encoded_len" buffer_take reqs
  encoded_len "buffer_ok encoded_len" buffer_default
  for encoded_len
  by unfold_locales (simp_all add: buffer_defs)

definition max_grpc_message_len :: nat where
  "max_grpc_message_len = 1000000"

text \<open>The part of the dispatch loop that buffers one converted request.\<close>

definition buffer_request ::
    "(transaction_req \<Rightarrow> nat) \<Rightarrow> transaction_req \<Rightarrow> transaction_client list \<times> request_buffer
      \<Rightarrow> transaction_client list \<times> request_buffer" where
  "buffer_request encoded_len r s =
     (let (sent, b) = s;
          (sent, b) = if max_grpc_message_len < buffered_len b + encoded_len r
                      then (let (batch, b) = buffer_take b in (sent @ [batch], b)) else (sent, b)
      in (sent, buffer_push encoded_len r b))"

definition flush_buffer ::
    "transaction_client list \<times> request_buffer \<Rightarrow> transaction_client list \<times> request_buffer" where
  "flush_buffer s =
     (let (sent, b) = s in
      if buffer_is_empty b then (sent, b) else (let (batch, b) = buffer_take b in (sent @ [batch], b)))"

definition over_limit :: "(transaction_req \<Rightarrow> nat) \<Rightarrow> request_buffer \<Rightarrow> transaction_req \<Rightarrow> bool" where
  "over_limit encoded_len b r \<longleftrightarrow> max_grpc_message_len < buffered_len b + encoded_len r"

lemma buffer_request_feed:
  "buffer_request encoded_len r s = tb.feed encoded_len (over_limit encoded_len) (\<lambda>_. False) r s"
  by (simp add: buffer_request_def tb.feed_def tb.flush_def over_limit_def split: prod.splits)

lemma flush_buffer_finish: "flush_buffer s = tb.finish_batches s"
  by (simp add: flush_buffer_def tb.finish_batches_def tb.flush_def split: prod.splits)

section \<open>Sizes of the batches\<close>

definition batch_fits :: "(transaction_req \<Rightarrow> nat) \<Rightarrow> transaction_client \<Rightarrow> bool" where
  "batch_fits encoded_len batch \<longleftrightarrow>
     sum_list (map encoded_len batch) \<le> max_grpc_message_len \<or> length batch = 1"

lemma buffer_request_cases:
  "buffer_request encoded_len r (sent, b) =
     (if over_limit encoded_len b r
      then (sent @ [reqs b], \<lparr>reqs = [r], buffered_len = encoded_len r\<rparr>)
      else (sent, \<lparr>reqs = reqs b @ [r], buffered_len = buffered_len b + encoded_len r\<rparr>))"
  by (simp add: buffer_request_def over_limit_def buffer_defs)

lemma buffer_requests_fit:
  assumes "buffer_ok encoded_len b" "batch_fits encoded_len (reqs b)" "list_all (batch_fits encoded_len) sent"
    and "fold (buffer_request encoded_len) rs (sent, b) = (sent', b')"
  shows "list_all (batch_fits encoded_len) sent' \<and> batch_fits encoded_len (reqs b')"
  using assms
proof (induction rs arbitrary: sent b)
  case (Cons r rs)
  show ?case
  proof (cases "over_limit encoded_len b r")
    case True
    have "fold (buffer_request encoded_len) rs
        (sent @ [reqs b], \<lparr>reqs = [r], buffered_len = encoded_len r\<rparr>) = (sent', b')"
      using Cons.prems(4) True by (simp add: buffer_request_cases)
    then show ?thesis using Cons.prems by (intro Cons.IH) (auto simp: buffer_ok_def batch_fits_def)
  next
    case False
    have "fold (buffer_request encoded_len) rs
        (sent, \<lparr>reqs = reqs b @ [r], buffered_len = buffered_len b + encoded_len r\<rparr>) = (sent', b')"
      using Cons.prems(4) False by (simp add: buffer_request_cases)
    then show ?thesis using Cons.prems False
      by (intro Cons.IH) (auto simp: buffer_ok_def batch_fits_def over_limit_def)
  qed
qed simp

lemma buffer_requests_empty_batch:
  assumes "fold (buffer_request encoded_len) rs (sent, b) = (sent', b')"
  shows "[] \<in> set sent' \<longleftrightarrow> [] \<in> set sent \<or> (rs \<noteq> [] \<and> reqs b = [] \<and> over_limit encoded_len b (hd rs))"
  using assms
proof (induction rs arbitrary: sent b)
  case (Cons r rs)
  then show ?case
    by (cases "over_limit encoded_len b r") (fastforce simp: buffer_request_cases)+
qed auto

section \<open>Properties\<close>

text \<open>
  C13: how a run of requests is sent.  The batches contain the requests in order and nothing else; each
  batch is at most the maximal message length long or consists of a single request; and an empty
  message is sent exactly when the first request alone is longer than the maximum.
\<close>

theorem dispatched_batches:
  "let batches = fst (flush_buffer (fold (buffer_request encoded_len) rs ([], buffer_default)))
   in concat batches = rs
    \<and> list_all (batch_fits encoded_len) batches
    \<and> ([] \<in> set batches \<longleftrightarrow> rs \<noteq> [] \<and> max_grpc_message_len < encoded_len (hd rs))"
proof -
  define batches where "batches = fst (flush_buffer (fold (buffer_request encoded_len) rs ([], buffer_default)))"
  obtain sent b where f: "fold (buffer_request encoded_len) rs ([], buffer_default) = (sent, b)"
    by (cases "fold (buffer_request encoded_len) rs ([], buffer_default)")
  have batches: "batches = sent @ (if reqs b = [] then [] else [reqs b])"
    by (simp add: batches_def f flush_buffer_def buffer_is_empty_def buffer_take_def)
  have "batches = fst (tb.finish_batches (fold (tb.feed encoded_len (over_limit encoded_len) (\<lambda>_. False)) rs
      ([], buffer_default)))"
    by (simp add: batches_def flush_buffer_finish buffer_request_feed [abs_def])
  then have "concat batches = rs" by (simp add: tb.feeds_from_empty)
  moreover have "list_all (batch_fits encoded_len) sent \<and> batch_fits encoded_len (reqs b)"
    by (rule buffer_requests_fit [OF _ _ _ f]) (simp_all add: buffer_defs batch_fits_def)
  moreover have "[] \<in> set sent \<longleftrightarrow> rs \<noteq> [] \<and> max_grpc_message_len < encoded_len (hd rs)"
    using buffer_requests_empty_batch [OF f] by (simp add: buffer_defs over_limit_def)
  ultimately show ?thesis unfolding batches_def [symmetric] Let_def by (auto simp: batches)
qed

end
