(* ===== verification/Transactions.thy ===== *)
theory Transactions
  imports Request_Buffers
begin

text \<open>
  \<open>rust/src/connection/network/transmitter/transaction.rs\<close> and \<open>response_sink.rs\<close>: the transmitter of a
  transaction.  Three parties share its state: the callers (requests, callbacks on close, closing), the
  dispatch thread that sends queued requests in batches, and the listener task that delivers the
  server's messages to the waiting callers.  Every operation is a function on the shared state, and the
  relation \<open>tx_step\<close> interleaves them.

  A sink is the sending end of a channel; channels are numbered, and \<open>delivered\<close> is the log of
  everything sent over them.  Callbacks on close are numbered too, and \<open>ran\<close> logs their runs.  Sending to
  a receiver that is gone is only logged by the code and leaves no trace here.
\<close>

section \<open>Response sinks\<close>

datatype response_sink = AsyncOneShot channel | BlockingOneShot channel | Streamed channel

datatype stream_response =
    StreamResult "(transaction_response, error) result"
  | StreamContinue request_id

type_synonym delivery = "channel \<times> stream_response"

primrec sink_channel :: "response_sink \<Rightarrow> channel" where
  "sink_channel (AsyncOneShot c) = c"
| "sink_channel (BlockingOneShot c) = c"
| "sink_channel (Streamed c) = c"

definition sink_finish :: "response_sink \<Rightarrow> (transaction_response, error) result \<Rightarrow> delivery" where
  "sink_finish sink response =
     (case sink of
        AsyncOneShot c \<Rightarrow> (c, StreamResult response)
      | BlockingOneShot c \<Rightarrow> (c, StreamResult response)
      | Streamed c \<Rightarrow> (c, StreamResult response))"

text \<open>Streaming over a one-shot sink is \<open>unreachable!\<close>.\<close>

definition sink_send_result ::
    "response_sink \<Rightarrow> (transaction_response, error) result \<Rightarrow> delivery option" where
  "sink_send_result sink response =
     (case sink of Streamed c \<Rightarrow> Some (c, StreamResult response) | _ \<Rightarrow> None)"

definition sink_send_continuable :: "response_sink \<Rightarrow> request_id \<Rightarrow> delivery option" where
  "sink_send_continuable sink rid =
     (case sink of Streamed c \<Rightarrow> Some (c, StreamContinue rid) | _ \<Rightarrow> None)"

definition sink_error :: "response_sink \<Rightarrow> error \<Rightarrow> delivery" where
  "sink_error sink e =
     (case sink of
        AsyncOneShot c \<Rightarrow> (c, StreamResult (Err e))
      | BlockingOneShot c \<Rightarrow> (c, StreamResult (Err e))
      | Streamed c \<Rightarrow> (c, StreamResult (Err e)))"

section \<open>State\<close>

text \<open>
  The dispatch thread is at the top of its loop, draining the queue, blocked on the lock of the
  callbacks, or has ended; the listener is listening, has returned after closing, has panicked, or is
  blocked on the lock of the callbacks, which it holds itself.  \<open>one_shots\<close> are the channels that take a
  single message; \<open>poisoned\<close> says that the lock of the callbacks was held for writing in a panic.
\<close>

datatype dispatch_pc = AtTop | Draining | Blocked | Stopped

datatype listen_pc = Listening | Closed | Panicked | Deadlocked

record tx_state =
  tx_queue :: "(transaction_request \<times> response_sink option) list"
  tx_is_open :: bool
  tx_error :: "error option"
  callbacks :: "(request_id \<times> response_sink) list"
  on_close_queue :: "nat list"
  on_close :: "nat list"
  shutdown_signals :: nat
  buffer :: request_buffer
  sent :: "transaction_client list"
  delivered :: "delivery list"
  ran :: "(nat \<times> error option) list"
  next_channel :: channel
  one_shots :: "channel list"
  poisoned :: bool
  dispatcher :: dispatch_pc
  listener :: listen_pc

text \<open>
  The parameters of a run: the libraries, whether the build has overflow checks and the \<open>sync\<close> feature,
  and the encoded length of a message.
\<close>

record tx_env =
  env_proto :: proto_lib
  env_chrono :: chrono_lib
  env_enums :: enum_lib
  env_overflow_checks :: bool
  env_sync :: bool
  env_encoded_len :: "transaction_req \<Rightarrow> nat"

definition tx_new :: tx_state where
  "tx_new = \<lparr>tx_queue = [], tx_is_open = True, tx_error = None, callbacks = [], on_close_queue = [],
     on_close = [], shutdown_signals = 0, buffer = buffer_default, sent = [], delivered = [], ran = [],
     next_channel = 0, one_shots = [], poisoned = False, dispatcher = AtTop, listener = Listening\<rparr>"

definition deliver :: "delivery \<Rightarrow> tx_state \<Rightarrow> tx_state" where
  "deliver d s = s\<lparr>delivered := delivered s @ [d]\<rparr>"

section \<open>The callers\<close>

definition transaction_is_closed :: error where
  "transaction_is_closed = Connection TransactionIsClosed"

definition tx_current_error :: "tx_state \<Rightarrow> error" where
  "tx_current_error s = (case tx_error s of Some e \<Rightarrow> e | None \<Rightarrow> transaction_is_closed)"

text \<open>
  Sending on the request channel fails when the dispatch thread has returned.  A request that was
  queued gets the channel its caller waits on.
\<close>

definition tx_send ::
    "transaction_request \<Rightarrow> response_sink option \<Rightarrow> tx_state \<Rightarrow> bool \<times> tx_state" where
  "tx_send req sink s =
     (if dispatcher s = Stopped then (False, s)
      else (True, s\<lparr>tx_queue := tx_queue s @ [(req, sink)]\<rparr>))"

definition single :: "tx_env \<Rightarrow> transaction_request \<Rightarrow> tx_state \<Rightarrow> (channel, error) result \<times> tx_state" where
  "single env req s =
     (if \<not> tx_is_open s then (Err (tx_current_error s), s)
      else
        let c = next_channel s;
            sink = (if env_sync env then BlockingOneShot c else AsyncOneShot c);
            (ok, s') = tx_send req (Some sink)
              (s\<lparr>next_channel := Suc c, one_shots := c # one_shots s\<rparr>)
        in (if ok then Ok c else Err transaction_is_closed, s'))"

definition stream :: "transaction_request \<Rightarrow> tx_state \<Rightarrow> (channel, error) result \<times> tx_state" where
  "stream req s =
     (if \<not> tx_is_open s then (Err (tx_current_error s), s)
      else
        let c = next_channel s;
            (ok, s') = tx_send req (Some (Streamed c)) (s\<lparr>next_channel := Suc c\<rparr>)
        in (if ok then Ok c else Err transaction_is_closed, s'))"

text \<open>A reader of a stream answers a continue signal with a request for more.\<close>

definition process_response ::
    "stream_response \<Rightarrow> tx_state \<Rightarrow> (transaction_response, error) result option \<times> tx_state" where
  "process_response response s =
     (case response of
        StreamResult r \<Rightarrow> (Some r, s)
      | StreamContinue rid \<Rightarrow>
          let (ok, s') = tx_send (StreamMore rid) None s
          in (if ok then None else Some (Err transaction_is_closed), s'))"

text \<open>A callback reaches the listener only while it runs; afterwards it is dropped.\<close>

definition register_on_close :: "nat \<Rightarrow> tx_state \<Rightarrow> tx_state" where
  "register_on_close callback s =
     (if listener s = Closed \<or> listener s = Panicked then s
      else s\<lparr>on_close_queue := on_close_queue s @ [callback]\<rparr>)"

text \<open>
  Closing by a caller, up to the point where it waits for its callback: the flag is exchanged, the
  notifier registered, then the error stored and the shutdown signalled.  \<open>runtime_open\<close> is the state of
  the background runtime.
\<close>

definition close_begin :: "bool \<Rightarrow> nat \<Rightarrow> tx_state \<Rightarrow> bool \<times> tx_state" where
  "close_begin runtime_open notifier s =
     (if runtime_open \<and> tx_is_open s
      then (True, register_on_close notifier (s\<lparr>tx_is_open := False\<rparr>))
      else (False, s))"

definition send_shutdown :: "tx_state \<Rightarrow> tx_state" where
  "send_shutdown s =
     (if dispatcher s = Stopped then s else s\<lparr>shutdown_signals := Suc (shutdown_signals s)\<rparr>)"

definition close_commit :: "tx_state \<Rightarrow> tx_state" where
  "close_commit s = send_shutdown (s\<lparr>tx_error := Some transaction_is_closed\<rparr>)"

definition submit_close :: "tx_state \<Rightarrow> tx_state" where
  "submit_close s = (if tx_is_open s then send_shutdown (s\<lparr>tx_is_open := False\<rparr>) else s)"

section \<open>The dispatch thread\<close>

definition register :: "request_id \<Rightarrow> response_sink \<Rightarrow> tx_state \<Rightarrow> tx_state" where
  "register rid sink s = s\<lparr>callbacks := hm_insert rid sink (callbacks s)\<rparr>"

definition flush_requests :: "tx_state \<Rightarrow> tx_state" where
  "flush_requests s =
     (let (sent', b) = flush_buffer (sent s, buffer s) in s\<lparr>sent := sent', buffer := b\<rparr>)"

definition dispatch_end :: "tx_state \<Rightarrow> tx_state" where
  "dispatch_end s = s\<lparr>dispatcher := Stopped, tx_queue := []\<rparr>"

text \<open>
  The top of the loop: on a shutdown signal the thread sends what is buffered and returns, which drops
  the request channel with the requests still queued; otherwise it starts draining.
\<close>

definition dispatch_top :: "tx_state \<Rightarrow> tx_state" where
  "dispatch_top s =
     (if 0 < shutdown_signals s
      then dispatch_end (flush_requests (s\<lparr>shutdown_signals := shutdown_signals s - 1\<rparr>))
      else s\<lparr>dispatcher := Draining\<rparr>)"

text \<open>
  One turn of the inner loop, with the identifier that is generated for the request.  A request that
  cannot be converted panics the thread, which ends it like a return; registering a sink needs the lock
  of the callbacks.
\<close>

definition dispatch_one :: "tx_env \<Rightarrow> request_id \<Rightarrow> tx_state \<Rightarrow> tx_state" where
  "dispatch_one env fresh s =
     (case tx_queue s of
        [] \<Rightarrow> (flush_requests s)\<lparr>dispatcher := AtTop\<rparr>
      | (request, callback) # rest \<Rightarrow>
          (case transaction_request_into_proto (env_proto env) (env_chrono env) fresh request of
             Ok m \<Rightarrow>
               if callback \<noteq> None \<and> listener s = Deadlocked then s\<lparr>dispatcher := Blocked\<rparr>
               else if callback \<noteq> None \<and> poisoned s then dispatch_end s
               else
                 (let s1 = s\<lparr>tx_queue := rest\<rparr>;
                      s2 = (case callback of Some sink \<Rightarrow> register (ID (req_id m)) sink s1 | None \<Rightarrow> s1);
                      (sent', b) = buffer_request (env_encoded_len env) m (sent s2, buffer s2)
                  in s2\<lparr>sent := sent', buffer := b\<rparr>)
           | _ \<Rightarrow> dispatch_end s))"

section \<open>The listener\<close>

definition panic :: "tx_state \<Rightarrow> tx_state" where
  "panic s = s\<lparr>listener := Panicked\<rparr>"

definition deadlock :: "tx_state \<Rightarrow> tx_state" where
  "deadlock s = s\<lparr>listener := Deadlocked\<rparr>"

definition deliver_or_panic :: "delivery option \<Rightarrow> tx_state \<Rightarrow> tx_state" where
  "deliver_or_panic d s = (case d of Some d \<Rightarrow> deliver d s | None \<Rightarrow> panic s)"

definition forget :: "request_id \<Rightarrow> tx_state \<Rightarrow> tx_state" where
  "forget rid s = s\<lparr>callbacks := hm_remove rid (callbacks s)\<rparr>"

definition is_query_response :: "transaction_response \<Rightarrow> bool" where
  "is_query_response r = (case r of QueryRes _ \<Rightarrow> True | _ \<Rightarrow> False)"

definition collect_res :: "tx_env \<Rightarrow> transaction_res \<Rightarrow> tx_state \<Rightarrow> tx_state" where
  "collect_res env res s =
     (let rid = ID (res_req_id res) in
      case hm_get (callbacks s) rid of
        None \<Rightarrow> s
      | Some sink \<Rightarrow>
          (case transaction_res_from_proto (env_overflow_checks env) (env_chrono env) (env_enums env) res of
             Panic \<Rightarrow> panic s
           | Err e \<Rightarrow> deliver (sink_error sink e) (forget rid s)
           | Ok r \<Rightarrow>
               if is_query_response r then
                 (case sink_send_result sink (Ok r) of
                    Some d \<Rightarrow> deliver d s
                  | None \<Rightarrow> panic (s\<lparr>poisoned := True\<rparr>))
               else deliver (sink_finish sink (Ok r)) (forget rid s)))"

text \<open>
  A part of an answer.  When a part cannot be converted, the code asks for the write lock of the
  callbacks while the read guard of the enclosing \<open>match\<close> is alive: the listener waits for itself.
\<close>

definition collect_query_part ::
    "tx_env \<Rightarrow> request_id \<Rightarrow> query_res_part option \<Rightarrow> tx_state \<Rightarrow> tx_state" where
  "collect_query_part env rid part s =
     (case hm_get (callbacks s) rid of
        None \<Rightarrow> s
      | Some sink \<Rightarrow>
          (case query_res_from_proto (env_overflow_checks env) (env_chrono env) part of
             Panic \<Rightarrow> panic s
           | Err e \<Rightarrow> deadlock s
           | Ok r \<Rightarrow> deliver_or_panic (sink_send_result sink (Ok r)) s))"

definition collect_stream_state :: "request_id \<Rightarrow> stream_state option \<Rightarrow> tx_state \<Rightarrow> tx_state" where
  "collect_stream_state rid state s =
     (case state of
        None \<Rightarrow> forget rid s
      | Some PContinue \<Rightarrow>
          (case hm_get (callbacks s) rid of
             Some sink \<Rightarrow> deliver_or_panic (sink_send_continuable sink rid) s
           | None \<Rightarrow> s)
      | Some PStreamDone \<Rightarrow> forget rid s
      | Some (PStreamError e) \<Rightarrow>
          (case hm_get (callbacks s) rid of
             Some sink \<Rightarrow>
               (case sink_send_result sink (Ok (QueryRes (query_error_from_proto e))) of
                  Some d \<Rightarrow> forget rid (deliver d s)
                | None \<Rightarrow> panic s)
           | None \<Rightarrow> forget rid s))"

definition collect_res_part :: "tx_env \<Rightarrow> transaction_res_part \<Rightarrow> tx_state \<Rightarrow> tx_state" where
  "collect_res_part env part s =
     (let rid = ID (part_req_id part) in
      case part_body part of
        Some (PQueryRes query_res) \<Rightarrow> collect_query_part env rid query_res s
      | Some (PStreamRes state) \<Rightarrow> collect_stream_state rid state s
      | None \<Rightarrow> forget rid s)"

definition collect :: "tx_env \<Rightarrow> transaction_server \<Rightarrow> tx_state \<Rightarrow> tx_state" where
  "collect env message s =
     (case message of
        Some (ServerRes res) \<Rightarrow> collect_res env res s
      | Some (ServerResPart part) \<Rightarrow> collect_res_part env part s
      | None \<Rightarrow> s)"

text \<open>Closing: every waiting caller gets a last message, then the callbacks run in order.\<close>

definition collector_close :: "tx_state \<Rightarrow> tx_state" where
  "collector_close s =
     s\<lparr>tx_is_open := False, callbacks := [],
       delivered := delivered s @ map (\<lambda>(_, sink). sink_finish sink (Ok CloseRes)) (callbacks s),
       on_close := [], ran := ran s @ map (\<lambda>c. (c, None)) (on_close s)\<rparr>"

definition collector_close_with_error :: "error \<Rightarrow> tx_state \<Rightarrow> tx_state" where
  "collector_close_with_error e s =
     s\<lparr>tx_is_open := False, tx_error := Some e, callbacks := [],
       delivered := delivered s @ map (\<lambda>(_, sink). sink_error sink e) (callbacks s),
       on_close := [], ran := ran s @ map (\<lambda>c. (c, Some e)) (on_close s)\<rparr>"

datatype grpc_event = GrpcMessage transaction_server | GrpcStatus error | GrpcEnd

text \<open>The end of the listen loop: the shutdown is signalled and the registrations still queued are dropped.\<close>

definition listen_exit :: "tx_state \<Rightarrow> tx_state" where
  "listen_exit s = (send_shutdown s)\<lparr>listener := Closed, on_close_queue := []\<rparr>"

definition listen_grpc :: "tx_env \<Rightarrow> grpc_event \<Rightarrow> tx_state \<Rightarrow> tx_state" where
  "listen_grpc env event s =
     (case event of
        GrpcMessage m \<Rightarrow> collect env m s
      | GrpcStatus e \<Rightarrow> listen_exit (collector_close_with_error e s)
      | GrpcEnd \<Rightarrow> listen_exit (collector_close s))"

definition listen_register :: "tx_state \<Rightarrow> tx_state" where
  "listen_register s =
     (case on_close_queue s of
        [] \<Rightarrow> s
      | callback # rest \<Rightarrow> s\<lparr>on_close_queue := rest, on_close := on_close s @ [callback]\<rparr>)"

section \<open>Waiting callers\<close>

text \<open>
  The sending end of a channel is held by the queue or by the table of callbacks; the table itself lives
  as long as the dispatch thread or the listener.  A caller that waits for a single response gets the
  first message of its channel, or an error once the sending end is gone.
\<close>

definition queued_sinks :: "tx_state \<Rightarrow> response_sink list" where
  "queued_sinks s = List.map_filter snd (tx_queue s)"

definition table_alive :: "tx_state \<Rightarrow> bool" where
  "table_alive s \<longleftrightarrow> dispatcher s \<noteq> Stopped \<or> (listener s \<noteq> Closed \<and> listener s \<noteq> Panicked)"

definition held_sinks :: "tx_state \<Rightarrow> response_sink list" where
  "held_sinks s = queued_sinks s @ (if table_alive s then map snd (callbacks s) else [])"

definition received :: "channel \<Rightarrow> tx_state \<Rightarrow> stream_response list" where
  "received c s = map snd (filter (\<lambda>d. fst d = c) (delivered s))"

definition await_single :: "channel \<Rightarrow> tx_state \<Rightarrow> (transaction_response, error) result option" where
  "await_single c s =
     (case received c s of
        StreamResult r # _ \<Rightarrow> Some r
      | _ \<Rightarrow> if c \<in> sink_channel ` set (held_sinks s) then None else Some (Err (Internal RecvError)))"

section \<open>Interleaving\<close>

text \<open>
  The identifiers of the requests sent so far.  A generated identifier is a random UUID; that it is not
  one of these is the assumption on the generator.  Callers ask for everything but more answers; that
  request is made by the readers of streams.
\<close>

definition requests_made :: "tx_state \<Rightarrow> transaction_req list" where
  "requests_made s = concat (sent s) @ reqs (buffer s)"

definition used_ids :: "tx_state \<Rightarrow> request_id set" where
  "used_ids s = (\<lambda>m. ID (req_id m)) ` set (requests_made s)"

definition is_stream_more :: "transaction_request \<Rightarrow> bool" where
  "is_stream_more r = (case r of StreamMore _ \<Rightarrow> True | _ \<Rightarrow> False)"

inductive tx_step :: "tx_env \<Rightarrow> tx_state \<Rightarrow> tx_state \<Rightarrow> bool" for env where
  Single: "\<not> is_stream_more req \<Longrightarrow> tx_step env s (snd (single env req s))"
| Stream: "\<not> is_stream_more req \<Longrightarrow> tx_step env s (snd (stream req s))"
| Process: "tx_step env s (snd (process_response response s))"
| OnClose: "tx_step env s (register_on_close callback s)"
| CloseBegin: "tx_step env s (snd (close_begin runtime_open notifier s))"
| CloseCommit: "\<not> tx_is_open s \<Longrightarrow> tx_step env s (close_commit s)"
| DropTx: "tx_step env s (submit_close s)"
| DispatchTop: "dispatcher s = AtTop \<Longrightarrow> tx_step env s (dispatch_top s)"
| DispatchOne: "dispatcher s = Draining \<Longrightarrow> fresh \<notin> used_ids s \<Longrightarrow> tx_step env s (dispatch_one env fresh s)"
| ListenGrpc: "listener s = Listening \<Longrightarrow> tx_step env s (listen_grpc env event s)"
| ListenRegister: "listener s = Listening \<Longrightarrow> tx_step env s (listen_register s)"

inductive tx_reachable :: "tx_env \<Rightarrow> tx_state \<Rightarrow> bool" for env where
  Init: "tx_reachable env tx_new"
| Step: "tx_reachable env s \<Longrightarrow> tx_step env s s' \<Longrightarrow> tx_reachable env s'"

end
