(* ===== verification/Analyze_Wire.thy ===== *)
theory Analyze_Wire
  imports Proto_Analyze
begin

text \<open>
  The wire form of an analyzed query, as the specification of the conversions of \<open>Proto_Analyze\<close>, and
  the proof that they read it back.
\<close>

section \<open>The wire form of an analyzed query\<close>

text \<open>
  The specification the conversions are checked against: the message in which every field of the
  representation is stored in the field of the same name.  The driver never builds these messages;
  the server does.  \<open>enum_codes\<close> are the numbers the protocol gives to the constants of its enums.
\<close>

record enum_codes =
  exactness_code :: "exactness_proto \<Rightarrow> i32"
  comparator_code :: "comparator_proto \<Rightarrow> i32"
  sort_direction_code :: "sort_direction_proto \<Rightarrow> i32"

text \<open>Reading the number of a constant gives the constant.\<close>

definition enums_ok :: "enum_lib \<Rightarrow> enum_codes \<Rightarrow> bool" where
  "enums_ok enums codes \<longleftrightarrow>
     (\<forall>e. exactness_of enums (exactness_code codes e) = Some e)
   \<and> (\<forall>c. comparator_of enums (comparator_code codes c) = Some c)
   \<and> (\<forall>d. sort_direction_of enums (sort_direction_code codes d) = Some d)"

primrec enc_value_type :: "value_type \<Rightarrow> value_type_proto" where
  "enc_value_type TBoolean = PTBoolean"
| "enc_value_type TInteger = PTInteger"
| "enc_value_type TDouble = PTDouble"
| "enc_value_type TDecimal = PTDecimal"
| "enc_value_type TString = PTString"
| "enc_value_type TDate = PTDate"
| "enc_value_type TDatetime = PTDatetime"
| "enc_value_type TDatetimeTZ = PTDatetimeTz"
| "enc_value_type TDuration = PTDuration"
| "enc_value_type (TStruct name) = PTStruct name"

definition enc_value_type_message :: "value_type \<Rightarrow> value_type_message" where
  "enc_value_type_message vt = ValueTypeMessage (Some (enc_value_type vt))"

primrec enc_type :: "type_t \<Rightarrow> type_proto" where
  "enc_type (EntityType e) = TypeEntityType (EntityTypeProto (entity_type_label e))"
| "enc_type (RelationType r) = TypeRelationType (RelationTypeProto (relation_type_label r))"
| "enc_type (AttributeType a) = TypeAttributeType (AttributeTypeProto (attribute_type_label a)
     (map_option enc_value_type_message (attribute_value_type a)))"
| "enc_type (RoleType r) = TypeRoleType (RoleTypeProto (role_type_label r))"

definition enc_type_message :: "type_t \<Rightarrow> type_message" where
  "enc_type_message t = TypeMessage (Some (enc_type t))"

definition enc_value :: "chrono_lib \<Rightarrow> cvalue \<Rightarrow> value_message" where
  "enc_value chrono v = (case value_into_proto chrono v of Ok m \<Rightarrow> m | _ \<Rightarrow> ValueMessage None)"

primrec enc_variable :: "variable \<Rightarrow> variable_proto" where
  "enc_variable (Variable i) = VariableProto i"

primrec enc_vertex :: "chrono_lib \<Rightarrow> constraint_vertex \<Rightarrow> vertex_proto" where
  "enc_vertex chrono (VariableVertex x) = PVariable (enc_variable x)"
| "enc_vertex chrono (LabelVertex t) = PLabel (enc_type_message t)"
| "enc_vertex chrono (ValueVertex v) = PValueVertex (enc_value chrono v)"
| "enc_vertex chrono (NamedRoleVertex r) =
     PNamedRole (NamedRoleProto (Some (enc_variable (role_variable r))) (role_name r))"

definition enc_vm :: "chrono_lib \<Rightarrow> constraint_vertex \<Rightarrow> vertex_message" where
  "enc_vm chrono v = VertexMessage (Some (enc_vertex chrono v))"

primrec enc_block :: "conjunction_id \<Rightarrow> u32" where
  "enc_block (ConjunctionID n) = of_nat n"

definition enc_exactness :: "constraint_exactness \<Rightarrow> exactness_proto" where
  "enc_exactness e = (case e of Exact \<Rightarrow> PExact | Subtypes \<Rightarrow> PSubtypes)"

primrec enc_comparator :: "comparator \<Rightarrow> comparator_proto" where
  "enc_comparator Equal = PEqual"
| "enc_comparator NotEqual = PNotEqual"
| "enc_comparator LessThan = PLess"
| "enc_comparator LessOrEqual = PLessOrEqual"
| "enc_comparator Greater = PGreater"
| "enc_comparator GreaterOrEqual = PGreaterOrEqual"
| "enc_comparator Like = PLike"
| "enc_comparator Contains = PContains"

definition enc_kind :: "kind \<Rightarrow> i32" where
  "enc_kind k = (case k of KEntity \<Rightarrow> 0 | KRelation \<Rightarrow> 1 | KAttribute \<Rightarrow> 2 | KRole \<Rightarrow> 3)"

primrec enc_constraint :: "chrono_lib \<Rightarrow> enum_codes \<Rightarrow> constraint \<Rightarrow> constraint_proto" where
  "enc_constraint chrono codes (Isa i t e) =
     PIsa (Some (enc_vm chrono i)) (Some (enc_vm chrono t)) (exactness_code codes (enc_exactness e))"
| "enc_constraint chrono codes (Has ow at e) =
     PHas (Some (enc_vm chrono ow)) (Some (enc_vm chrono at)) (exactness_code codes (enc_exactness e))"
| "enc_constraint chrono codes (Links r p ro e) =
     PLinks (Some (enc_vm chrono r)) (Some (enc_vm chrono p)) (Some (enc_vm chrono ro))
       (exactness_code codes (enc_exactness e))"
| "enc_constraint chrono codes (Sub s t e) =
     PSub (Some (enc_vm chrono s)) (Some (enc_vm chrono t)) (exactness_code codes (enc_exactness e))"
| "enc_constraint chrono codes (Owns ow at e) =
     POwns (Some (enc_vm chrono ow)) (Some (enc_vm chrono at)) (exactness_code codes (enc_exactness e))"
| "enc_constraint chrono codes (Relates r ro e) =
     PRelates (Some (enc_vm chrono r)) (Some (enc_vm chrono ro)) (exactness_code codes (enc_exactness e))"
| "enc_constraint chrono codes (Plays p ro e) =
     PPlays (Some (enc_vm chrono p)) (Some (enc_vm chrono ro)) (exactness_code codes (enc_exactness e))"
| "enc_constraint chrono codes (FunctionCall name xs args) =
     PFunctionCall name (map (enc_vm chrono) xs) (map (enc_vm chrono) args)"
| "enc_constraint chrono codes (Expression txt x args) =
     PExpression (Some (enc_vm chrono x)) (map (enc_vm chrono) args) txt"
| "enc_constraint chrono codes (Is a b) = PIs (Some (enc_vm chrono a)) (Some (enc_vm chrono b))"
| "enc_constraint chrono codes (Iid c i) = PIid (Some (enc_vm chrono c)) (bytes_cloned i)"
| "enc_constraint chrono codes (Comparison a b c) =
     PComparison (Some (enc_vm chrono a)) (Some (enc_vm chrono b)) (comparator_code codes (enc_comparator c))"
| "enc_constraint chrono codes (KindConstraint k t) = PKind (enc_kind k) (Some (enc_vm chrono t))"
| "enc_constraint chrono codes (LabelConstraint t l) = PLabelConstraint (Some (enc_vm chrono t)) l"
| "enc_constraint chrono codes (ValueConstraint t vt) =
     PValueConstraint (Some (enc_vm chrono t)) (Some (enc_value_type_message vt))"
| "enc_constraint chrono codes (Or bs) = POr (map enc_block bs)"
| "enc_constraint chrono codes (Not b) = PNot (enc_block b)"
| "enc_constraint chrono codes (Try b) = PTry (enc_block b)"

definition enc_span :: "constraint_span \<Rightarrow> span_proto" where
  "enc_span s = SpanProto (of_nat (span_begin s)) (of_nat (span_end s))"

definition enc_constraint_message ::
    "chrono_lib \<Rightarrow> enum_codes \<Rightarrow> constraint_with_span \<Rightarrow> constraint_message" where
  "enc_constraint_message chrono codes c =
     ConstraintMessage (Some (enc_constraint chrono codes (constraint_of c)))
       (map_option enc_span (constraint_span_of c))"

primrec enc_annotations :: "type_annotations \<Rightarrow> annotations_proto" where
  "enc_annotations (InstanceAnnotations ts) = PInstanceAnnotations (map enc_type_message ts)"
| "enc_annotations (TypeAnnotations ts) = PTypeAnnotations (map enc_type_message ts)"
| "enc_annotations (ValueAnnotations vt) = PValueAnnotations (enc_value_type_message vt)"

definition enc_variable_annotations :: "variable_annotations \<Rightarrow> variable_annotations_proto" where
  "enc_variable_annotations a =
     VariableAnnotationsProto (is_optional a) (Some (enc_annotations (annotation_types a)))"

primrec variable_id :: "variable \<Rightarrow> u32" where
  "variable_id (Variable i) = i"

definition enc_map :: "('a \<Rightarrow> 'b) \<Rightarrow> (variable \<times> 'a) list \<Rightarrow> (u32 \<times> 'b) list" where
  "enc_map f m = map (\<lambda>(v, a). (variable_id v, f a)) m"

definition enc_conjunction :: "chrono_lib \<Rightarrow> enum_codes \<Rightarrow> conjunction \<Rightarrow> conjunction_proto" where
  "enc_conjunction chrono codes c =
     ConjunctionProto (map (enc_constraint_message chrono codes) (constraints c))
       (enc_map enc_variable_annotations (conjunction_annotations c))"

definition enc_reducer :: "reducer \<Rightarrow> reducer_proto" where
  "enc_reducer r = ReducerProto (map enc_variable (reducer_arguments r)) (reducer_name r)"

definition enc_reduce_assign :: "reduce_assignment \<Rightarrow> reduce_assign_proto" where
  "enc_reduce_assign a =
     ReduceAssignProto (Some (enc_variable (assigned a))) (Some (enc_reducer (assigned_reducer a)))"

definition enc_sort_variable :: "enum_codes \<Rightarrow> sort_variable \<Rightarrow> sort_variable_proto" where
  "enc_sort_variable codes s = SortVariableProto (Some (enc_variable (sorted_variable s)))
     (sort_direction_code codes (case sorted_order s of Ascending \<Rightarrow> Asc | Descending \<Rightarrow> Desc))"

primrec enc_stage :: "enum_codes \<Rightarrow> pipeline_stage \<Rightarrow> stage_proto" where
  "enc_stage codes (MatchStage b) = PMatch (enc_block b)"
| "enc_stage codes (InsertStage b) = PInsert (enc_block b)"
| "enc_stage codes (PutStage b) = PPut (enc_block b)"
| "enc_stage codes (UpdateStage b) = PUpdate (enc_block b)"
| "enc_stage codes (DeleteStage b vs) = PDelete (enc_block b) (map enc_variable vs)"
| "enc_stage codes (SelectStage vs) = PSelect (map enc_variable vs)"
| "enc_stage codes (SortStage vs) = PSort (map (enc_sort_variable codes) vs)"
| "enc_stage codes (RequireStage vs) = PRequire (map enc_variable vs)"
| "enc_stage codes (OffsetStage n) = POffset n"
| "enc_stage codes (LimitStage n) = PLimit n"
| "enc_stage codes DistinctStage = PDistinct"
| "enc_stage codes (ReduceStage rs vs) = PReduce (map enc_reduce_assign rs) (map enc_variable vs)"

definition enc_pipeline :: "chrono_lib \<Rightarrow> enum_codes \<Rightarrow> pipeline \<Rightarrow> pipeline_proto" where
  "enc_pipeline chrono codes p =
     PipelineProto (map (enc_conjunction chrono codes) (conjunctions p))
       (map (\<lambda>s. StageMessage (Some (enc_stage codes s))) (stages p))
       (enc_map (\<lambda>i. VariableInfoProto (variable_info_name i)) (pipeline_variable_info p))
       (map enc_variable (outputs p))"

primrec enc_return :: "return_operation \<Rightarrow> return_proto" where
  "enc_return (StreamReturn vs) = PStreamReturn (map enc_variable vs)"
| "enc_return (SingleReturn selector vs) = PSingleReturn selector (map enc_variable vs)"
| "enc_return CheckReturn = PCheckReturn"
| "enc_return (ReduceReturn rs) = PReduceReturn (map enc_reducer rs)"

definition enc_function :: "chrono_lib \<Rightarrow> enum_codes \<Rightarrow> function_t \<Rightarrow> function_proto" where
  "enc_function chrono codes f =
     FunctionProto (Some (enc_pipeline chrono codes (function_body f)))
       (map enc_variable (argument_variables f))
       (Some (ReturnMessage (Some (enc_return (return_operation_of f)))))
       (map enc_variable_annotations (argument_annotations f))
       (map enc_variable_annotations (return_annotations f))"

definition enc_given :: "given \<Rightarrow> given_proto" where
  "enc_given g = GivenProto (map enc_variable (given_variables g))
     (enc_map enc_variable_annotations (given_annotations g))"

fun enc_fetch :: "fetch \<Rightarrow> fetch_message" where
  "enc_fetch (FetchObject kvs) =
     FetchMessage (Some (PFetchObject (map (\<lambda>(k, f). (k, enc_fetch f)) kvs)))"
| "enc_fetch (FetchList f) = FetchMessage (Some (PFetchList (enc_fetch f)))"
| "enc_fetch (FetchLeafNode l) =
     FetchMessage (Some (PFetchLeaf (FetchLeafProto (map enc_value_type_message (leaf_annotations l)))))"

definition enc_analyzed_query :: "chrono_lib \<Rightarrow> enum_codes \<Rightarrow> analyzed_query \<Rightarrow> analyzed_query_proto" where
  "enc_analyzed_query chrono codes q =
     AnalyzedQueryProto (query_source q) (map (enc_function chrono codes) (query_preamble q))
       (map_option enc_given (query_given q)) (Some (enc_pipeline chrono codes (query_pipeline q)))
       (map_option enc_fetch (query_fetch q))"

section \<open>What can be on the wire\<close>

text \<open>
  Conjunctions are numbered with 32 bits, spans with 64; values have a message; maps have one entry
  per key.
\<close>

definition block_ok :: "conjunction_id \<Rightarrow> bool" where
  "block_ok b = (case b of ConjunctionID n \<Rightarrow> n < 2 ^ 32)"

definition vertex_ok :: "chrono_range \<Rightarrow> constraint_vertex \<Rightarrow> bool" where
  "vertex_ok cal v = (case v of ValueVertex w \<Rightarrow> value_sendable cal w | _ \<Rightarrow> True)"

primrec constraint_ok :: "chrono_range \<Rightarrow> constraint \<Rightarrow> bool" where
  "constraint_ok cal (Isa a b e) = (vertex_ok cal a \<and> vertex_ok cal b)"
| "constraint_ok cal (Has a b e) = (vertex_ok cal a \<and> vertex_ok cal b)"
| "constraint_ok cal (Links a b c e) = (vertex_ok cal a \<and> vertex_ok cal b \<and> vertex_ok cal c)"
| "constraint_ok cal (Sub a b e) = (vertex_ok cal a \<and> vertex_ok cal b)"
| "constraint_ok cal (Owns a b e) = (vertex_ok cal a \<and> vertex_ok cal b)"
| "constraint_ok cal (Relates a b e) = (vertex_ok cal a \<and> vertex_ok cal b)"
| "constraint_ok cal (Plays a b e) = (vertex_ok cal a \<and> vertex_ok cal b)"
| "constraint_ok cal (FunctionCall name xs args) =
     (list_all (vertex_ok cal) xs \<and> list_all (vertex_ok cal) args)"
| "constraint_ok cal (Expression txt x args) = (vertex_ok cal x \<and> list_all (vertex_ok cal) args)"
| "constraint_ok cal (Is a b) = (vertex_ok cal a \<and> vertex_ok cal b)"
| "constraint_ok cal (Iid c i) = vertex_ok cal c"
| "constraint_ok cal (Comparison a b c) = (vertex_ok cal a \<and> vertex_ok cal b)"
| "constraint_ok cal (KindConstraint k t) = vertex_ok cal t"
| "constraint_ok cal (LabelConstraint t l) = vertex_ok cal t"
| "constraint_ok cal (ValueConstraint t vt) = vertex_ok cal t"
| "constraint_ok cal (Or bs) = list_all block_ok bs"
| "constraint_ok cal (Not b) = block_ok b"
| "constraint_ok cal (Try b) = block_ok b"

definition span_ok :: "constraint_span \<Rightarrow> bool" where
  "span_ok s \<longleftrightarrow> span_begin s < 2 ^ 64 \<and> span_end s < 2 ^ 64"

definition constraint_with_span_ok :: "chrono_range \<Rightarrow> constraint_with_span \<Rightarrow> bool" where
  "constraint_with_span_ok cal c \<longleftrightarrow>
     constraint_ok cal (constraint_of c) \<and> pred_option span_ok (constraint_span_of c)"

definition conjunction_ok :: "chrono_range \<Rightarrow> conjunction \<Rightarrow> bool" where
  "conjunction_ok cal c \<longleftrightarrow>
     list_all (constraint_with_span_ok cal) (constraints c) \<and> hm_ok (conjunction_annotations c)"

definition stage_ok :: "pipeline_stage \<Rightarrow> bool" where
  "stage_ok s =
     (case s of
        MatchStage b \<Rightarrow> block_ok b | InsertStage b \<Rightarrow> block_ok b | PutStage b \<Rightarrow> block_ok b
      | UpdateStage b \<Rightarrow> block_ok b | DeleteStage b _ \<Rightarrow> block_ok b | _ \<Rightarrow> True)"

definition pipeline_ok :: "chrono_range \<Rightarrow> pipeline \<Rightarrow> bool" where
  "pipeline_ok cal p \<longleftrightarrow>
     list_all (conjunction_ok cal) (conjunctions p) \<and> list_all stage_ok (stages p)
   \<and> hm_ok (pipeline_variable_info p)"

fun fetch_ok :: "fetch \<Rightarrow> bool" where
  "fetch_ok (FetchObject kvs) = (hm_ok kvs \<and> (\<forall>kv \<in> set kvs. fetch_ok (snd kv)))"
| "fetch_ok (FetchList f) = fetch_ok f"
| "fetch_ok (FetchLeafNode l) = True"

definition analyzed_query_ok :: "chrono_range \<Rightarrow> analyzed_query \<Rightarrow> bool" where
  "analyzed_query_ok cal q \<longleftrightarrow>
     list_all (\<lambda>f. pipeline_ok cal (function_body f)) (query_preamble q)
   \<and> pred_option (\<lambda>g. hm_ok (given_annotations g)) (query_given q)
   \<and> pipeline_ok cal (query_pipeline q) \<and> pred_option fetch_ok (query_fetch q)"

section \<open>Reading the wire form\<close>

lemma try_map_enc:
  "(\<And>x. x \<in> set xs \<Longrightarrow> conv (enc x) = Ok x) \<Longrightarrow> try_map conv (map enc xs) = Ok xs"
  by (induction xs) auto

lemma vec_enc:
  "list_all P xs \<Longrightarrow> (\<And>x. P x \<Longrightarrow> conv (enc x) = Ok x) \<Longrightarrow> vec_from_proto conv (map enc xs) = Ok xs"
  by (simp add: vec_from_proto_def try_map_enc list_all_iff)

lemma vec_enc_all: "(\<And>x. conv (enc x) = Ok x) \<Longrightarrow> vec_from_proto conv (map enc xs) = Ok xs"
  by (simp add: vec_from_proto_def try_map_enc)

lemma variable_id_inverse [simp]: "Variable (variable_id v) = v"
  by (cases v) simp

lemma map_enc:
  assumes "hm_ok m" and conv: "\<And>x. conv (enc x) = Ok x"
  shows "map_from_proto Variable conv (enc_map enc m) = Ok m"
proof -
  have "try_map (\<lambda>(k, v). map_ok (Pair (Variable k)) (conv v)) (map (\<lambda>(v, a). (variable_id v, enc a)) m) = Ok m"
    by (rule try_map_enc) (auto simp: conv)
  then show ?thesis using assms(1) by (simp add: map_from_proto_def enc_map_def hm_collect_ok)
qed

lemma expect_enc: "conv y = Ok x \<Longrightarrow> expect_try_from_proto conv (Some y) field = Ok x"
  by (simp add: expect_try_from_proto_def)

lemma transpose_enc:
  "pred_option P m \<Longrightarrow> (\<And>x. P x \<Longrightarrow> conv (enc x) = Ok x) \<Longrightarrow> map_transpose conv (map_option enc m) = Ok m"
  by (cases m) auto

lemma value_type_enc [simp]: "value_type_from_proto (enc_value_type vt) = vt"
  by (cases vt) simp_all

lemma value_type_message_enc [simp]: "value_type_try_from_proto (enc_value_type_message vt) = Ok vt"
  by (simp add: enc_value_type_message_def)

lemma type_enc [simp]: "type_try_from_proto (enc_type_message t) = Ok t"
proof (cases t)
  case (AttributeType a)
  then show ?thesis
    by (cases "attribute_value_type a") (simp_all add: enc_type_message_def enc_value_type_message_def)
qed (simp_all add: enc_type_message_def)

lemma variable_enc [simp]: "variable_from_proto (enc_variable v) = Ok v"
  by (cases v) simp

lemma block_enc: "block_ok b \<Longrightarrow> block_id (enc_block b) = b"
  by (cases b) (simp add: block_ok_def block_id_def unat_small_nat)

lemma kind_enc [simp]: "kind_try_from_proto (enc_kind k) = Ok k"
  by (cases k) (simp_all add: enc_kind_def kind_try_from_proto_def)

lemma comparator_enc [simp]: "comparator_from_proto (enc_comparator c) = c"
  by (cases c) simp_all

lemma exactness_enc [simp]: "exactness_from_proto (enc_exactness e) = e"
  by (cases e) (simp_all add: enc_exactness_def)

lemma span_enc: "span_ok s \<Longrightarrow> span_from_proto (enc_span s) = Ok s"
  by (simp add: span_ok_def enc_span_def unat_small_nat)

lemma annotations_enc [simp]: "annotations_from_proto (enc_annotations a) = Ok a"
  by (cases a) (simp_all add: vec_enc_all enc_value_type_message_def)

lemma variable_annotations_enc [simp]:
  "variable_annotations_from_proto (enc_variable_annotations a) = Ok a"
  by (simp add: enc_variable_annotations_def expect_enc)

lemma value_enc:
  assumes "chrono_ok chrono cal" "value_sendable cal v"
  shows "value_try_from_proto oc chrono (enc_value chrono v) = Ok v"
proof -
  obtain m where "value_into_proto chrono v = Ok m" "value_try_from_proto oc chrono m = Ok v"
    using value_round_trip [OF assms] by blast
  then show ?thesis by (simp add: enc_value_def)
qed

lemma vertex_enc:
  assumes "chrono_ok chrono cal" "vertex_ok cal v"
  shows "vertex_from_proto oc chrono (enc_vm chrono v) = Ok v"
  using assms by (cases v) (simp_all add: enc_vm_def vertex_ok_def value_enc expect_enc)

lemma exactness_first_enc:
  "enums_ok enums codes \<Longrightarrow> exactness_first enums (exactness_code codes (enc_exactness e)) k = k e"
  by (simp add: exactness_first_def enum_from_proto_def enums_ok_def)

lemma comparator_first_enc:
  "enums_ok enums codes \<Longrightarrow>
   enum_from_proto (comparator_of enums) name (comparator_code codes c) = Ok c"
  by (simp add: enum_from_proto_def enums_ok_def)

lemma constraint_enc:
  assumes chr: "chrono_ok chrono cal" and enu: "enums_ok enums codes" and "constraint_ok cal c"
  shows "constraint_from_proto oc chrono enums (enc_constraint chrono codes c) = Ok c"
proof -
  note vertex = vertex_enc [OF chr] vec_enc [of "vertex_ok cal" _ "vertex_from_proto oc chrono" "enc_vm chrono"]
  note first = exactness_first_enc [OF enu] comparator_first_enc [OF enu]
  have ids: "list_all block_ok bs \<Longrightarrow> map (block_id \<circ> enc_block) bs = bs" for bs
    by (induction bs) (auto simp: block_enc)
  show ?thesis
    using assms(3)
    by (cases c) (simp_all add: vertex first block_enc ids expect_enc bytes_cloned_def split: id.splits)
qed

lemma constraint_with_span_enc:
  assumes "chrono_ok chrono cal" "enums_ok enums codes" "constraint_with_span_ok cal c"
  shows "constraint_with_span_from_proto oc chrono enums (enc_constraint_message chrono codes c) = Ok c"
  using assms
  by (simp add: enc_constraint_message_def constraint_with_span_ok_def expect_enc constraint_enc
      transpose_enc [of span_ok] span_enc)

lemma conjunction_enc:
  assumes "chrono_ok chrono cal" "enums_ok enums codes" "conjunction_ok cal c"
  shows "conjunction_from_proto oc chrono enums (enc_conjunction chrono codes c) = Ok c"
  using assms
  by (simp add: enc_conjunction_def conjunction_ok_def map_enc
      constraint_with_span_enc
      vec_enc [of "constraint_with_span_ok cal" _ _ "enc_constraint_message chrono codes"])

lemma reducer_enc [simp]: "reducer_from_proto (enc_reducer r) = Ok r"
  by (simp add: enc_reducer_def vec_enc_all)

lemma reduce_assign_enc [simp]: "reduce_assign_from_proto (enc_reduce_assign a) = Ok a"
  by (simp add: enc_reduce_assign_def expect_enc)

lemma sort_variable_enc:
  "enums_ok enums codes \<Longrightarrow> sort_variable_from_proto enums (enc_sort_variable codes s) = Ok s"
  by (cases "sorted_order s")
    (simp_all add: enc_sort_variable_def expect_enc enum_from_proto_def enums_ok_def sort_order_of_def)

lemma stage_enc:
  assumes "enums_ok enums codes" "stage_ok s"
  shows "stage_from_proto enums (StageMessage (Some (enc_stage codes s))) = Ok s"
  using assms
  by (cases s) (simp_all add: stage_ok_def block_enc vec_enc_all sort_variable_enc)

lemma variable_info_enc: "variable_info_from_proto (VariableInfoProto (variable_info_name i)) = Ok i"
  by simp

lemma pipeline_enc:
  assumes "chrono_ok chrono cal" "enums_ok enums codes" "pipeline_ok cal p"
  shows "pipeline_from_proto oc chrono enums (enc_pipeline chrono codes p) = Ok p"
  using assms
  by (simp add: enc_pipeline_def pipeline_ok_def map_enc vec_enc_all
      conjunction_enc stage_enc
      vec_enc [of "conjunction_ok cal" _ _ "enc_conjunction chrono codes"]
      vec_enc [of stage_ok _ _ "\<lambda>s. StageMessage (Some (enc_stage codes s))"]
      del: stage_from_proto.simps)

lemma return_enc [simp]: "return_from_proto (enc_return r) = Ok r"
  by (cases r) (simp_all add: vec_enc_all)

lemma function_enc:
  assumes "chrono_ok chrono cal" "enums_ok enums codes" "pipeline_ok cal (function_body f)"
  shows "function_from_proto oc chrono enums (enc_function chrono codes f) = Ok f"
  using assms by (simp add: enc_function_def vec_enc_all expect_enc pipeline_enc)

lemma given_enc: "hm_ok (given_annotations g) \<Longrightarrow> given_from_proto (enc_given g) = Ok g"
  by (simp add: enc_given_def vec_enc_all map_enc)

lemma fetch_enc: "fetch_ok f \<Longrightarrow> fetch_from_proto (enc_fetch f) = Ok f"
proof (induction f rule: enc_fetch.induct)
  case (1 kvs)
  have "try_map (\<lambda>(key, f). map_ok (Pair key) (fetch_from_proto f)) (map (\<lambda>(k, f). (k, enc_fetch f)) kvs) = Ok kvs"
    using 1 by (intro try_map_enc) fastforce
  then show ?case using 1 by (simp add: hm_collect_ok)
qed (simp_all add: vec_enc_all)

section \<open>Properties\<close>

text \<open>
  C7: an analyzed query is read from its wire form exactly: every stage, constraint, vertex, annotation
  and span arrives in its place, for every query whose conjunction numbers and spans fit their fields,
  whose values have a message and whose maps have one entry per key.
\<close>

theorem analyzed_query_wire_round_trip:
  assumes "chrono_ok chrono cal" "enums_ok enums codes" "analyzed_query_ok cal q"
  shows "analyzed_query_from_proto oc chrono enums (enc_analyzed_query chrono codes q) = Ok q"
  using assms
  by (simp add: enc_analyzed_query_def analyzed_query_ok_def expect_enc pipeline_enc
      function_enc fetch_enc given_enc
      vec_enc [of "\<lambda>f. pipeline_ok cal (function_body f)" _ _ "enc_function chrono codes"]
      transpose_enc [of fetch_ok _ _ enc_fetch]
      transpose_enc [of "\<lambda>g. hm_ok (given_annotations g)" _ _ enc_given])

definition sample_enums :: enum_lib where
  "sample_enums = \<lparr>
     exactness_of = (\<lambda>i. if i = 0 then Some PExact else if i = 1 then Some PSubtypes else None),
     comparator_of = (\<lambda>i. if i = 0 then Some PEqual else if i = 1 then Some PNotEqual
       else if i = 2 then Some PLess else if i = 3 then Some PLessOrEqual else if i = 4 then Some PGreater
       else if i = 5 then Some PGreaterOrEqual else if i = 6 then Some PLike
       else if i = 7 then Some PContains else None),
     sort_direction_of = (\<lambda>i. if i = 0 then Some Asc else if i = 1 then Some Desc else None),
     exactness_type_name = ''ConstraintExactness'', comparator_type_name = ''Comparator'',
     sort_direction_type_name = ''SortDirection''\<rparr>"

definition sample_codes :: enum_codes where
  "sample_codes = \<lparr>
     exactness_code = (\<lambda>e. case e of PExact \<Rightarrow> 0 | PSubtypes \<Rightarrow> 1),
     comparator_code = (\<lambda>c. case c of PEqual \<Rightarrow> 0 | PNotEqual \<Rightarrow> 1 | PLess \<Rightarrow> 2 | PLessOrEqual \<Rightarrow> 3
       | PGreater \<Rightarrow> 4 | PGreaterOrEqual \<Rightarrow> 5 | PLike \<Rightarrow> 6 | PContains \<Rightarrow> 7),
     sort_direction_code = (\<lambda>d. case d of Asc \<Rightarrow> 0 | Desc \<Rightarrow> 1)\<rparr>"

lemma sample_enums_ok: "enums_ok sample_enums sample_codes"
  by (auto simp: enums_ok_def sample_enums_def sample_codes_def
      split: exactness_proto.splits comparator_proto.splits sort_direction_proto.splits)

definition sample_pipeline :: pipeline where
  "sample_pipeline = \<lparr>
     conjunctions = [\<lparr>constraints = [\<lparr>constraint_of =
         Has (VariableVertex (Variable 0)) (VariableVertex (Variable 1)) Subtypes,
         constraint_span_of = Some \<lparr>span_begin = 6, span_end = 17\<rparr>\<rparr>],
       conjunction_annotations = [(Variable 0, \<lparr>is_optional = False, annotation_types =
         InstanceAnnotations [EntityType \<lparr>entity_type_label = ''person''\<rparr>]\<rparr>)]\<rparr>],
     stages = [MatchStage (ConjunctionID 0), LimitStage 5],
     pipeline_variable_info = [(Variable 0, \<lparr>variable_info_name = ''x''\<rparr>)],
     outputs = [Variable 0, Variable 1]\<rparr>"

definition sample_query :: analyzed_query where
  "sample_query = \<lparr>query_source = ''match $x has $y; limit 5;'', query_preamble = [], query_given = None,
     query_pipeline = sample_pipeline, query_fetch = None\<rparr>"

theorem analyzed_query_wire_round_trip_witness:
  "analyzed_query_from_proto True sample_chrono sample_enums
     (enc_analyzed_query sample_chrono sample_codes sample_query) = Ok sample_query"
  by (rule analyzed_query_wire_round_trip [OF sample_chrono_ok sample_enums_ok])
    (simp add: analyzed_query_ok_def sample_query_def sample_pipeline_def pipeline_ok_def conjunction_ok_def
      constraint_with_span_ok_def vertex_ok_def span_ok_def stage_ok_def block_ok_def hm_ok_def)

end
