(* ===== verification/Transaction_Safety.thy ===== *)
theory Transaction_Safety
  imports Transactions Analyze_Wire
begin

text \<open>
  What holds of the transmitter of a transaction in every interleaving of its callers, its dispatch thread
  and its listener: sinks are used linearly, requests go out in the order they were made, a close
  reaches everybody who waits, and the dispatch thread ends after a shutdown.
\<close>

section \<open>The invariant\<close>

text \<open>
  The invariant of the transmitter: every sink is held once, a one-shot sink that is still held has
  received nothing, no one-shot channel has received more than one message, callbacks are registered
  under identifiers of requests that were sent, and the buffer is empty at the top of the dispatch loop.
\<close>

definition is_one_shot :: "response_sink \<Rightarrow> bool" where
  "is_one_shot k = (case k of Streamed _ \<Rightarrow> False | _ \<Rightarrow> True)"

definition sinks :: "tx_state \<Rightarrow> response_sink list" where
  "sinks s = queued_sinks s @ map snd (callbacks s)"

definition sink_ok :: "tx_state \<Rightarrow> response_sink \<Rightarrow> bool" where
  "sink_ok s k \<longleftrightarrow> sink_channel k < next_channel s
     \<and> (is_one_shot k \<longleftrightarrow> sink_channel k \<in> set (one_shots s))
     \<and> (is_one_shot k \<longrightarrow> received (sink_channel k) s = [])"

definition channels_ok :: "tx_state \<Rightarrow> bool" where
  "channels_ok s \<longleftrightarrow>
     distinct (map sink_channel (sinks s)) \<and> list_all (sink_ok s) (sinks s)
   \<and> (\<forall>c \<in> set (one_shots s). c < next_channel s \<and> length (received c s) \<le> 1)
   \<and> (\<forall>d \<in> set (delivered s). fst d < next_channel s)"

definition requests_ok :: "tx_state \<Rightarrow> bool" where
  "requests_ok s \<longleftrightarrow>
     hm_ok (callbacks s) \<and> fst ` set (callbacks s) \<subseteq> used_ids s
   \<and> (\<forall>q \<in> set (tx_queue s). snd q \<noteq> None \<longrightarrow> \<not> is_stream_more (fst q))
   \<and> (dispatcher s = AtTop \<longrightarrow> reqs (buffer s) = [])"

lemmas channel_defs = channels_ok_def sink_ok_def sinks_def queued_sinks_def received_def

lemma queued_sinks_append [simp]:
  "queued_sinks (s\<lparr>tx_queue := q @ q'\<rparr>) = queued_sinks (s\<lparr>tx_queue := q\<rparr>) @ queued_sinks (s\<lparr>tx_queue := q'\<rparr>)"
  by (simp add: queued_sinks_def map_filter_def)

lemma received_deliver [simp]:
  "received c (deliver d s) = received c s @ (if fst d = c then [snd d] else [])"
  by (simp add: received_def deliver_def)

subsection \<open>Operations that keep the channels\<close>

text \<open>The channels depend on the queue, the callbacks, the log and the allocation only.\<close>

lemma channels_ok_cong:
  assumes "tx_queue s' = tx_queue s" "callbacks s' = callbacks s" "delivered s' = delivered s"
    "next_channel s' = next_channel s" "one_shots s' = one_shots s"
  shows "channels_ok s' = channels_ok s"
proof -
  have "sinks s' = sinks s" "received c s' = received c s" for c
    using assms by (simp_all add: sinks_def queued_sinks_def received_def)
  moreover have "sink_ok s' = sink_ok s" using assms by (simp add: sink_ok_def fun_eq_iff received_def)
  ultimately show ?thesis using assms by (simp add: channels_ok_def)
qed

text \<open>Holding fewer sinks keeps the invariant.\<close>

lemma channels_ok_fewer:
  assumes "channels_ok s" "delivered s' = delivered s" "next_channel s' = next_channel s"
    "one_shots s' = one_shots s" "distinct (map sink_channel (sinks s'))" "set (sinks s') \<subseteq> set (sinks s)"
  shows "channels_ok s'"
proof -
  have "received c s' = received c s" for c using assms(2) by (simp add: received_def)
  then have "sink_ok s' k = sink_ok s k" for k using assms(3,4) by (simp add: sink_ok_def)
  then show ?thesis using assms
    by (auto simp: channels_ok_def list_all_iff \<open>\<And>c. received c s' = received c s\<close>)
qed

lemma distinct_sinks_filter:
  assumes "distinct (map sink_channel (xs @ map snd cs))"
  shows "distinct (map sink_channel (xs @ map snd (filter P cs)))"
proof -
  have "distinct (map (sink_channel \<circ> snd) cs)" using assms by simp
  then have "distinct (map (sink_channel \<circ> snd) (filter P cs))" by (rule distinct_map_filter)
  with assms show ?thesis by auto
qed

lemma sinks_forget:
  assumes "distinct (map sink_channel (sinks s))"
  shows "distinct (map sink_channel (sinks (forget rid s)))" "set (sinks (forget rid s)) \<subseteq> set (sinks s)"
proof -
  have eq: "sinks (forget rid s) = queued_sinks s @ map snd (filter (\<lambda>p. fst p \<noteq> rid) (callbacks s))"
    by (simp add: sinks_def forget_def queued_sinks_def hm_remove_filter)
  show "distinct (map sink_channel (sinks (forget rid s)))"
    unfolding eq by (rule distinct_sinks_filter) (use assms in \<open>simp add: sinks_def\<close>)
  show "set (sinks (forget rid s)) \<subseteq> set (sinks s)" unfolding eq by (auto simp: sinks_def)
qed

lemma channels_ok_forget: "channels_ok s \<Longrightarrow> channels_ok (forget rid s)"
  by (rule channels_ok_fewer [of s]) (simp_all add: sinks_forget channels_ok_def, simp_all add: forget_def)

text \<open>A message to a streamed sink that is held.\<close>

lemma channels_ok_deliver_stream:
  assumes "channels_ok s" "Streamed c \<in> set (sinks s)"
  shows "channels_ok (deliver (c, r) s)"
proof -
  have c: "c < next_channel s" "c \<notin> set (one_shots s)"
    using assms by (auto simp: channels_ok_def list_all_iff sink_ok_def is_one_shot_def)
  have "sinks (deliver (c, r) s) = sinks s" by (simp add: sinks_def queued_sinks_def deliver_def)
  moreover have "sink_ok (deliver (c, r) s) k" if "sink_ok s k" for k
    using that c by (auto simp: sink_ok_def) (auto simp: deliver_def)
  ultimately show ?thesis using assms(1) c
    by (auto simp: channels_ok_def list_all_iff) (auto simp: deliver_def)
qed

text \<open>A last message to a sink that is held no longer.\<close>

lemma channels_ok_deliver_last:
  assumes "channels_ok s" "sink \<in> set (sinks s)" "sink_channel sink = c"
    and "sinks s' = xs" "distinct (map sink_channel xs)" "set xs \<subseteq> set (sinks s)" "c \<notin> sink_channel ` set xs"
    and "delivered s' = delivered s @ [(c, r)]" "next_channel s' = next_channel s" "one_shots s' = one_shots s"
  shows "channels_ok s'"
proof -
  have rec: "received c' s' = received c' s @ (if c' = c then [r] else [])" for c'
    using assms(8) by (simp add: received_def)
  have sink: "sink_ok s sink" using assms(1,2) by (auto simp: channels_ok_def list_all_iff)
  have "sink_ok s' k" if "k \<in> set xs" for k
  proof -
    have "sink_ok s k" using assms(1,6) that by (auto simp: channels_ok_def list_all_iff)
    moreover have "sink_channel k \<noteq> c" using assms(7) that by auto
    ultimately show ?thesis using assms(9,10) by (simp add: sink_ok_def rec)
  qed
  moreover have "length (received c' s') \<le> 1" if "c' \<in> set (one_shots s)" for c'
    using that sink assms(1,3) by (auto simp: rec channels_ok_def sink_ok_def)
  ultimately show ?thesis
    using assms sink by (auto simp: channels_ok_def list_all_iff sink_ok_def)
qed

lemma callback_sink: "hm_get (callbacks s) rid = Some sink \<Longrightarrow> sink \<in> set (sinks s)"
  by (force simp: sinks_def dest: hm_get_mem)

lemma forgotten_channel:
  assumes "distinct (map sink_channel (sinks s))" "hm_get (callbacks s) rid = Some sink"
  shows "sink_channel sink \<notin> sink_channel ` set (sinks (forget rid s))"
proof
  assume "sink_channel sink \<in> sink_channel ` set (sinks (forget rid s))"
  then obtain k where k: "k \<in> set (sinks (forget rid s))" "sink_channel k = sink_channel sink" by auto
  have mem: "(rid, sink) \<in> set (callbacks s)" using assms(2) by (rule hm_get_mem)
  have d: "distinct (map sink_channel (queued_sinks s) @ map (sink_channel \<circ> snd) (callbacks s))"
    using assms(1) by (simp add: sinks_def)
  moreover have "sink_channel sink \<in> (sink_channel \<circ> snd) ` set (callbacks s)"
    by (rule rev_image_eqI [OF mem]) simp
  ultimately have "sink_channel sink \<notin> sink_channel ` set (queued_sinks s)" by auto
  then have "k \<notin> set (queued_sinks s)" unfolding k(2) [symmetric] by blast
  with k have "k \<in> snd ` set (filter (\<lambda>p. fst p \<noteq> rid) (callbacks s))"
    by (auto simp: sinks_def forget_def queued_sinks_def hm_remove_filter)
  then obtain rid' where "(rid', k) \<in> set (callbacks s)" "rid' \<noteq> rid" by auto
  moreover have "inj_on (sink_channel \<circ> snd) (set (callbacks s))" using d by (simp add: distinct_map)
  ultimately show False using mem k(2) inj_onD [of "sink_channel \<circ> snd" _ "(rid', k)" "(rid, sink)"] by auto
qed

lemma channels_ok_finish:
  assumes "channels_ok s" "hm_get (callbacks s) rid = Some sink" "sink_channel sink = c"
  shows "channels_ok (deliver (c, r) (forget rid s))"
proof (rule channels_ok_deliver_last [OF assms(1) callback_sink [OF assms(2)] assms(3) refl])
  have d: "distinct (map sink_channel (sinks s))" using assms(1) by (simp add: channels_ok_def)
  have same: "sinks (deliver (c, r) (forget rid s)) = sinks (forget rid s)"
    by (simp add: deliver_def sinks_def queued_sinks_def)
  show "distinct (map sink_channel (sinks (deliver (c, r) (forget rid s))))"
    "set (sinks (deliver (c, r) (forget rid s))) \<subseteq> set (sinks s)"
    "c \<notin> sink_channel ` set (sinks (deliver (c, r) (forget rid s)))"
    using sinks_forget [OF d] forgotten_channel [OF d assms(2)] assms(3) by (auto simp: same)
qed (simp_all add: deliver_def forget_def)

lemma sink_finish_eq: "sink_finish sink r = (sink_channel sink, StreamResult r)"
  and sink_error_eq: "sink_error sink e = (sink_channel sink, StreamResult (Err e))"
  by (cases sink; simp add: sink_finish_def sink_error_def)+

lemma sink_send_result_eq: "sink_send_result sink r = Some d \<longleftrightarrow> (\<exists>c. sink = Streamed c \<and> d = (c, StreamResult r))"
  by (cases sink) (auto simp: sink_send_result_def)

lemma sink_send_continuable_eq:
  "sink_send_continuable sink rid = Some d \<longleftrightarrow> (\<exists>c. sink = Streamed c \<and> d = (c, StreamContinue rid))"
  by (cases sink) (auto simp: sink_send_continuable_def)

lemma channels_ok_panic [simp]: "channels_ok (panic s) = channels_ok s"
  "channels_ok (deadlock s) = channels_ok s" "channels_ok (s\<lparr>poisoned := b\<rparr>) = channels_ok s"
  by (rule channels_ok_cong; simp add: panic_def deadlock_def)+

lemma channels_ok_send_result:
  assumes "channels_ok s" "hm_get (callbacks s) rid = Some sink" "sink_send_result sink r = Some d"
  shows "channels_ok (deliver d s)" "channels_ok (forget rid (deliver d s))"
proof -
  show "channels_ok (deliver d s)"
    using assms callback_sink [OF assms(2)] channels_ok_deliver_stream by (auto simp: sink_send_result_eq)
  then show "channels_ok (forget rid (deliver d s))" by (rule channels_ok_forget)
qed

lemma channels_ok_send_continuable:
  assumes "channels_ok s" "hm_get (callbacks s) rid = Some sink" "sink_send_continuable sink i = Some d"
  shows "channels_ok (deliver d s)"
  using assms callback_sink [OF assms(2)] channels_ok_deliver_stream by (auto simp: sink_send_continuable_eq)

lemma channels_ok_collect: "channels_ok s \<Longrightarrow> channels_ok (collect env m s)"
  by (auto simp: collect_def collect_res_def collect_res_part_def collect_query_part_def
      collect_stream_state_def deliver_or_panic_def Let_def channels_ok_forget channels_ok_finish
      sink_finish_eq sink_error_eq channels_ok_send_result channels_ok_send_continuable
      split: option.splits server_body.splits result.splits res_part_body.splits stream_state.splits)

text \<open>Closing delivers one message to each sink of the table and forgets them all.\<close>

lemma channels_ok_close_all:
  assumes ok: "channels_ok s"
    and s': "tx_queue s' = tx_queue s" "callbacks s' = []" "next_channel s' = next_channel s"
      "one_shots s' = one_shots s"
      "delivered s' = delivered s @ map (\<lambda>p. (sink_channel (snd p), r)) (callbacks s)"
  shows "channels_ok s'"
proof -
  let ?last = "\<lambda>c. filter (\<lambda>p. sink_channel (snd p) = c) (callbacks s)"
  have rec: "received c s' = received c s @ map (\<lambda>_. r) (?last c)" for c
    using s'(5) by (simp add: received_def filter_map comp_def)
  have d: "distinct (map sink_channel (queued_sinks s) @ map (sink_channel \<circ> snd) (callbacks s))"
    using ok by (simp add: channels_ok_def sinks_def)
  have once: "length (?last c) \<le> 1" for c
  proof -
    have "distinct (map (sink_channel \<circ> snd) (?last c))" using d by (auto intro: distinct_map_filter)
    then have "card (set (map (sink_channel \<circ> snd) (?last c))) = length (?last c)"
      by (simp only: distinct_card length_map)
    moreover have "card (set (map (sink_channel \<circ> snd) (?last c))) \<le> card {c}"
      by (rule card_mono) auto
    ultimately show ?thesis by simp
  qed
  have all: "list_all (sink_ok s) (sinks s)" using ok by (simp add: channels_ok_def)
  have "sink_ok s' k" if k: "k \<in> set (queued_sinks s)" for k
  proof -
    have "?last (sink_channel k) = []" using d k by (force simp: filter_empty_conv)
    moreover have "sink_ok s k" using all k by (auto simp: list_all_iff sinks_def)
    ultimately show ?thesis using s'(3,4) by (simp add: sink_ok_def rec)
  qed
  moreover have "length (received c s') \<le> 1" if c: "c \<in> set (one_shots s)" for c
  proof (cases "?last c = []")
    case True
    then show ?thesis using ok c by (simp add: rec channels_ok_def)
  next
    case False
    then obtain p where p: "p \<in> set (callbacks s)" "sink_channel (snd p) = c" by (auto simp: filter_empty_conv)
    then have "sink_ok s (snd p)" using all by (auto simp: list_all_iff sinks_def)
    then have "received c s = []" using p c by (auto simp: sink_ok_def)
    then show ?thesis using once by (simp add: rec)
  qed
  moreover have "fst d < next_channel s" if "d \<in> set (delivered s')" for d
  proof -
    have "sink_channel (snd p) < next_channel s" if "p \<in> set (callbacks s)" for p
      using all that by (auto simp: list_all_iff sinks_def sink_ok_def)
    then show ?thesis using that ok s'(5) by (auto simp: channels_ok_def)
  qed
  moreover have "queued_sinks s' = queued_sinks s" using s'(1) by (simp add: queued_sinks_def)
  ultimately show ?thesis
    using ok s'(2-4) d by (auto simp: channels_ok_def sinks_def list_all_iff)
qed

subsection \<open>Every step keeps the channels\<close>

lemma channels_ok_collector_close:
  "channels_ok s \<Longrightarrow> channels_ok (collector_close s)"
  "channels_ok s \<Longrightarrow> channels_ok (collector_close_with_error e s)"
  by (rule channels_ok_close_all; simp add: collector_close_def collector_close_with_error_def
      sink_finish_eq sink_error_eq case_prod_unfold)+

lemma channels_ok_send_shutdown [simp]: "channels_ok (send_shutdown s) = channels_ok s"
  by (rule channels_ok_cong) (simp_all add: send_shutdown_def)

lemma channels_ok_listen: "channels_ok s \<Longrightarrow> channels_ok (listen_grpc env event s)"
proof -
  assume ok: "channels_ok s"
  have "channels_ok (listen_exit t) = channels_ok t" for t
    unfolding listen_exit_def by (subst channels_ok_cong [of _ "send_shutdown t"]) simp_all
  with ok show ?thesis
    by (simp add: listen_grpc_def channels_ok_collect channels_ok_collector_close split: grpc_event.splits)
qed

text \<open>A new channel, and queueing a request with a sink that is not held yet.\<close>

lemma channel_unused:
  assumes "channels_ok s"
  shows "received (next_channel s) s = []" "next_channel s \<notin> sink_channel ` set (sinks s)"
  using assms
  by (fastforce simp: channels_ok_def received_def filter_empty_conv list_all_iff sink_ok_def)+

lemma channels_ok_alloc:
  assumes "channels_ok s"
  shows "channels_ok (s\<lparr>next_channel := Suc (next_channel s), one_shots := next_channel s # one_shots s\<rparr>)"
    "channels_ok (s\<lparr>next_channel := Suc (next_channel s)\<rparr>)"
proof -
  let ?s = "\<lambda>os. s\<lparr>next_channel := Suc (next_channel s), one_shots := os\<rparr>"
  have same: "sinks (?s os) = sinks s" "received c (?s os) = received c s" for os c
    by (simp_all add: sinks_def queued_sinks_def received_def)
  have "sink_ok (?s os) k" if "os = next_channel s # one_shots s \<or> os = one_shots s" "sink_ok s k" for os k
    using that by (auto simp: sink_ok_def received_def)
  then have "channels_ok (?s os)" if "os = next_channel s # one_shots s \<or> os = one_shots s" for os
    using that assms channel_unused(1) [OF assms]
    by (auto simp: channels_ok_def same list_all_iff less_Suc_eq)
  from this [of "next_channel s # one_shots s"] this [of "one_shots s"]
  show "channels_ok (s\<lparr>next_channel := Suc (next_channel s), one_shots := next_channel s # one_shots s\<rparr>)"
    "channels_ok (s\<lparr>next_channel := Suc (next_channel s)\<rparr>)" by simp_all
qed

lemma channels_ok_enqueue:
  assumes "channels_ok s" "sink_ok s k" "sink_channel k \<notin> sink_channel ` set (sinks s)"
  shows "channels_ok (s\<lparr>tx_queue := tx_queue s @ [(req, Some k)]\<rparr>)" (is "channels_ok ?s")
proof -
  have "queued_sinks ?s = queued_sinks s @ [k]" by (simp add: queued_sinks_def map_filter_def)
  then have sinks': "sinks ?s = queued_sinks s @ k # map snd (callbacks s)" by (simp add: sinks_def)
  have rec: "received c ?s = received c s" for c by (simp add: received_def)
  then have ok: "sink_ok ?s = sink_ok s" by (simp add: sink_ok_def fun_eq_iff)
  have "distinct (map sink_channel (sinks ?s))" "list_all (sink_ok ?s) (sinks ?s)"
    unfolding sinks' ok using assms by (auto simp: channels_ok_def sinks_def)
  then show ?thesis using assms(1) by (simp add: channels_ok_def rec)
qed

lemma new_sink_ok:
  assumes "channels_ok s" "sink_channel k = next_channel s"
  shows "is_one_shot k \<Longrightarrow>
      sink_ok (s\<lparr>next_channel := Suc (next_channel s), one_shots := next_channel s # one_shots s\<rparr>) k"
    and "\<not> is_one_shot k \<Longrightarrow> sink_ok (s\<lparr>next_channel := Suc (next_channel s)\<rparr>) k"
  using assms channel_unused [OF assms(1)] by (auto simp: sink_ok_def received_def channels_ok_def)

lemma channels_ok_new_sink:
  assumes ok: "channels_ok s" and k: "sink_channel k = next_channel s"
  shows "is_one_shot k \<Longrightarrow> channels_ok (s\<lparr>next_channel := Suc (next_channel s),
      one_shots := next_channel s # one_shots s, tx_queue := tx_queue s @ [(req, Some k)]\<rparr>)"
    and "\<not> is_one_shot k \<Longrightarrow> channels_ok (s\<lparr>next_channel := Suc (next_channel s),
      tx_queue := tx_queue s @ [(req, Some k)]\<rparr>)"
  using channels_ok_enqueue [OF channels_ok_alloc(1) [OF ok] new_sink_ok(1) [OF ok k], of req]
    channels_ok_enqueue [OF channels_ok_alloc(2) [OF ok] new_sink_ok(2) [OF ok k], of req]
    channel_unused(2) [OF ok] k
  by (simp_all add: sinks_def queued_sinks_def)

lemma channels_ok_single: "channels_ok s \<Longrightarrow> channels_ok (snd (single env req s))"
  using channels_ok_new_sink(1) [of s "BlockingOneShot (next_channel s)" req]
    channels_ok_new_sink(1) [of s "AsyncOneShot (next_channel s)" req] channels_ok_alloc(1) [of s]
  by (auto simp: single_def tx_send_def Let_def is_one_shot_def)

lemma channels_ok_stream: "channels_ok s \<Longrightarrow> channels_ok (snd (stream req s))"
  using channels_ok_new_sink(2) [of s "Streamed (next_channel s)" req] channels_ok_alloc(2) [of s]
  by (auto simp: stream_def tx_send_def Let_def is_one_shot_def)

lemma channels_ok_enqueue_none:
  "channels_ok s \<Longrightarrow> channels_ok (s\<lparr>tx_queue := tx_queue s @ [(req, None)]\<rparr>)"
  by (rule channels_ok_fewer) (auto simp: sinks_def queued_sinks_def map_filter_def channels_ok_def)

lemma channels_ok_process: "channels_ok s \<Longrightarrow> channels_ok (snd (process_response response s))"
  by (simp add: process_response_def tx_send_def channels_ok_enqueue_none split: stream_response.splits)

lemma channels_ok_flush [simp]: "channels_ok (flush_requests s) = channels_ok s"
  by (rule channels_ok_cong) (simp_all add: flush_requests_def split: prod.splits)

lemma channels_ok_dispatch_end: "channels_ok s \<Longrightarrow> channels_ok (dispatch_end s)"
  by (rule channels_ok_fewer)
    (auto simp: dispatch_end_def sinks_def queued_sinks_def map_filter_def channels_ok_def)

text \<open>Moving a sink from the queue to the table, under an identifier that is not in use.\<close>

lemma channels_ok_register:
  assumes ok: "channels_ok s" and q: "tx_queue s = (req, Some k) # rest" and rid: "rid \<notin> fst ` set (callbacks s)"
    and s': "tx_queue s' = rest" "callbacks s' = hm_insert rid k (callbacks s)" "delivered s' = delivered s"
      "next_channel s' = next_channel s" "one_shots s' = one_shots s"
  shows "channels_ok s'"
proof (rule channels_ok_fewer [OF ok s'(3-5)])
  have "queued_sinks s = k # queued_sinks s'" using q s'(1) by (simp add: queued_sinks_def map_filter_def)
  moreover have "sinks s' = queued_sinks s' @ map snd (callbacks s) @ [k]"
    using s'(2) rid by (simp add: sinks_def hm_insert_absent)
  ultimately show "distinct (map sink_channel (sinks s'))" "set (sinks s') \<subseteq> set (sinks s)"
    using ok by (auto simp: channels_ok_def sinks_def)
qed

lemma channels_ok_dequeue:
  assumes ok: "channels_ok s" and q: "tx_queue s = (req, None) # rest"
    and s': "tx_queue s' = rest" "callbacks s' = callbacks s" "delivered s' = delivered s"
      "next_channel s' = next_channel s" "one_shots s' = one_shots s"
  shows "channels_ok s'"
proof (rule channels_ok_fewer [OF ok s'(3-5)])
  have "sinks s' = sinks s" using q s'(1,2) by (simp add: sinks_def queued_sinks_def map_filter_def)
  then show "distinct (map sink_channel (sinks s'))" "set (sinks s') \<subseteq> set (sinks s)"
    using ok by (auto simp: channels_ok_def)
qed

text \<open>What one turn of the dispatch loop does with a request that can be converted.\<close>

lemma converted_id:
  assumes "transaction_request_into_proto p chrono fresh req = Ok m"
  shows "ID (req_id m) = (case req of StreamMore i \<Rightarrow> i | _ \<Rightarrow> fresh)"
proof -
  have "ID (bytes_cloned i) = i" for i by (cases i) (simp add: bytes_cloned_def)
  then show ?thesis
    using transaction_request_cases [of req p chrono fresh] assms by (auto split: if_splits)
qed

lemma fresh_id:
  "transaction_request_into_proto p chrono fresh req = Ok m \<Longrightarrow> \<not> is_stream_more req \<Longrightarrow> ID (req_id m) = fresh"
  by (auto simp: converted_id is_stream_more_def split: transaction_request.splits)

lemma requests_made_all: "requests_made s = tb.all_requests (sent s, buffer s)"
  by (simp add: requests_made_def tb.all_requests_def)

lemma requests_made_flush [simp]: "requests_made (flush_requests s) = requests_made s"
  by (simp add: requests_made_all flush_requests_def flush_buffer_finish split: prod.splits)
    (metis tb.all_requests_finish)

lemma flush_empties [simp]: "reqs (buffer (flush_requests s)) = []"
  by (simp add: flush_requests_def flush_buffer_finish split: prod.splits) (metis snd_conv tb.finish_contents)

lemma buffer_request_made:
  "buffer_request len m (sent s, buffer s) = (sent', b) \<Longrightarrow>
   requests_made (t\<lparr>sent := sent', buffer := b\<rparr>) = requests_made s @ [m]"
  using tb.all_requests_feed [of len "over_limit len" "\<lambda>_. False" m "(sent s, buffer s)"]
  by (simp add: requests_made_all buffer_request_feed)

lemma dispatch_one_requests:
  assumes "tx_queue s = (req, cb) # rest"
    and "transaction_request_into_proto (env_proto env) (env_chrono env) fresh req = Ok m"
    and "cb = None \<or> listener s \<noteq> Deadlocked \<and> \<not> poisoned s"
  shows "requests_made (dispatch_one env fresh s) = requests_made s @ [m]"
    and "tx_queue (dispatch_one env fresh s) = rest"
    and "callbacks (dispatch_one env fresh s) =
      (case cb of Some k \<Rightarrow> hm_insert (ID (req_id m)) k (callbacks s) | None \<Rightarrow> callbacks s)"
    and "delivered (dispatch_one env fresh s) = delivered s"
    and "next_channel (dispatch_one env fresh s) = next_channel s"
    and "one_shots (dispatch_one env fresh s) = one_shots s"
    and "dispatcher (dispatch_one env fresh s) = dispatcher s"
proof -
  obtain sent' b where b: "buffer_request (env_encoded_len env) m (sent s, buffer s) = (sent', b)"
    by (cases "buffer_request (env_encoded_len env) m (sent s, buffer s)")
  have eq: "dispatch_one env fresh s =
      (s\<lparr>tx_queue := rest, callbacks := (case cb of Some k \<Rightarrow> hm_insert (ID (req_id m)) k (callbacks s)
          | None \<Rightarrow> callbacks s)\<rparr>)\<lparr>sent := sent', buffer := b\<rparr>"
    using assms b by (cases cb) (auto simp: dispatch_one_def register_def Let_def)
  show "requests_made (dispatch_one env fresh s) = requests_made s @ [m]"
    unfolding eq by (rule buffer_request_made [OF b])
qed (use assms in \<open>auto simp: dispatch_one_def register_def Let_def split: option.splits prod.splits\<close>)

lemma dispatch_one_cases:
  obtains (idle) "tx_queue s = []" "dispatch_one env fresh s = (flush_requests s)\<lparr>dispatcher := AtTop\<rparr>"
  | (blocked) "listener s = Deadlocked" "dispatch_one env fresh s = s\<lparr>dispatcher := Blocked\<rparr>"
  | (ended) "dispatch_one env fresh s = dispatch_end s"
  | (request) req cb rest m where "tx_queue s = (req, cb) # rest"
      "transaction_request_into_proto (env_proto env) (env_chrono env) fresh req = Ok m"
      "cb = None \<or> listener s \<noteq> Deadlocked \<and> \<not> poisoned s"
proof (cases "tx_queue s")
  case Nil
  then show ?thesis using idle by (simp add: dispatch_one_def)
next
  case (Cons q rest)
  obtain req cb where q: "q = (req, cb)" by (cases q)
  show ?thesis
  proof (cases "transaction_request_into_proto (env_proto env) (env_chrono env) fresh req")
    case (Ok m)
    show ?thesis
      using blocked ended request [OF _ Ok] Cons q Ok
      by (cases "cb \<noteq> None \<and> listener s = Deadlocked"; cases "cb \<noteq> None \<and> poisoned s")
        (auto simp: dispatch_one_def)
  qed (use ended Cons q in \<open>simp_all add: dispatch_one_def\<close>)
qed

lemma flush_requests_keeps [simp]:
  "tx_queue (flush_requests s) = tx_queue s" "callbacks (flush_requests s) = callbacks s"
  "dispatcher (flush_requests s) = dispatcher s" "shutdown_signals (flush_requests s) = shutdown_signals s"
  "tx_is_open (flush_requests s) = tx_is_open s" "listener (flush_requests s) = listener s"
  by (simp_all add: flush_requests_def split: prod.splits)

lemma used_ids_cong: "requests_made s' = requests_made s \<Longrightarrow> used_ids s' = used_ids s"
  by (simp add: used_ids_def)

lemma channels_ok_dispatch_one:
  assumes "channels_ok s" "requests_ok s" "fresh \<notin> used_ids s"
  shows "channels_ok (dispatch_one env fresh s)"
proof (cases rule: dispatch_one_cases [of s env fresh])
  case idle
  have "channels_ok (dispatch_one env fresh s) = channels_ok (flush_requests s)"
    unfolding idle(2) by (rule channels_ok_cong) simp_all
  then show ?thesis using assms(1) by simp
next
  case blocked
  have "channels_ok (dispatch_one env fresh s) = channels_ok s"
    unfolding blocked(2) by (rule channels_ok_cong) simp_all
  then show ?thesis using assms(1) by simp
next
  case ended
  then show ?thesis using assms(1) by (simp add: channels_ok_dispatch_end)
next
  case (request req cb rest m)
  note d = dispatch_one_requests [OF request]
  show ?thesis
  proof (cases cb)
    case None
    then show ?thesis using request d by (intro channels_ok_dequeue [OF assms(1)]) auto
  next
    case (Some k)
    have "\<not> is_stream_more req" using assms(2) request(1) Some by (auto simp: requests_ok_def)
    then have "ID (req_id m) = fresh" by (rule fresh_id [OF request(2)])
    then have "ID (req_id m) \<notin> fst ` set (callbacks s)" using assms(2,3) by (auto simp: requests_ok_def)
    then show ?thesis using request d Some by (intro channels_ok_register [OF assms(1)]) auto
  qed
qed

lemma requests_ok_dispatch_one:
  assumes "requests_ok s" "dispatcher s = Draining" "fresh \<notin> used_ids s"
  shows "requests_ok (dispatch_one env fresh s)"
proof (cases rule: dispatch_one_cases [of s env fresh])
  case idle
  have "requests_made (dispatch_one env fresh s) = requests_made s"
    using idle requests_made_flush [of s] by (simp add: requests_made_def)
  then show ?thesis using assms idle by (auto simp: requests_ok_def used_ids_def)
next
  case blocked
  then show ?thesis using assms by (auto simp: requests_ok_def used_ids_def requests_made_def)
next
  case ended
  then show ?thesis using assms by (auto simp: requests_ok_def used_ids_def requests_made_def dispatch_end_def)
next
  case (request req cb rest m)
  note d = dispatch_one_requests [OF request]
  have used: "used_ids (dispatch_one env fresh s) = insert (ID (req_id m)) (used_ids s)"
    by (simp add: used_ids_def d(1))
  have "fst ` set (callbacks (dispatch_one env fresh s)) \<subseteq> insert (ID (req_id m)) (fst ` set (callbacks s))"
    by (cases cb) (auto simp: d(3) hm_insert_def AList.dom_update)
  moreover have "hm_ok (callbacks (dispatch_one env fresh s))"
    using assms(1) by (cases cb) (auto simp: d(3) requests_ok_def hm.ok_insert)
  ultimately show ?thesis using assms request(1) d(2,7)
    by (auto simp: requests_ok_def used)
qed

subsection \<open>Every step keeps the requests\<close>

lemma requests_ok_cong:
  assumes "tx_queue s' = tx_queue s" "callbacks s' = callbacks s" "sent s' = sent s" "buffer s' = buffer s"
    "dispatcher s' = dispatcher s"
  shows "requests_ok s' = requests_ok s"
  using assms by (simp add: requests_ok_def used_ids_def requests_made_def)

lemma requests_ok_enqueue:
  assumes "requests_ok s" "tx_queue s' = tx_queue s @ [(req, sink)]" "sink \<noteq> None \<longrightarrow> \<not> is_stream_more req"
    "callbacks s' = callbacks s" "sent s' = sent s" "buffer s' = buffer s" "dispatcher s' = dispatcher s"
  shows "requests_ok s'"
  using assms by (auto simp: requests_ok_def used_ids_def requests_made_def)

lemma requests_ok_forget: "requests_ok s \<Longrightarrow> requests_ok (forget rid s)"
proof -
  have "fst ` set (callbacks (forget rid s)) \<subseteq> fst ` set (callbacks s)"
    by (auto simp: forget_def hm_remove_filter)
  moreover have "used_ids (forget rid s) = used_ids s"
    by (simp add: forget_def used_ids_def requests_made_def)
  moreover assume "requests_ok s"
  ultimately show ?thesis
    unfolding requests_ok_def by (auto simp: forget_def hm.ok_remove)
qed

lemma requests_ok_keeps [simp]:
  "requests_ok (deliver d s) = requests_ok s" "requests_ok (panic s) = requests_ok s"
  "requests_ok (deadlock s) = requests_ok s" "requests_ok (s\<lparr>poisoned := b\<rparr>) = requests_ok s"
  "requests_ok (send_shutdown s) = requests_ok s"
  by (rule requests_ok_cong; simp add: deliver_def panic_def deadlock_def send_shutdown_def)+

lemma requests_ok_collect: "requests_ok s \<Longrightarrow> requests_ok (collect env m s)"
  by (auto simp: collect_def collect_res_def collect_res_part_def collect_query_part_def
      collect_stream_state_def deliver_or_panic_def Let_def requests_ok_forget
      split: option.splits server_body.splits result.splits res_part_body.splits stream_state.splits)

lemma requests_ok_listen: "requests_ok s \<Longrightarrow> requests_ok (listen_grpc env event s)"
proof -
  assume ok: "requests_ok s"
  have exit: "requests_ok (listen_exit t) = requests_ok t" for t
    unfolding listen_exit_def by (subst requests_ok_cong [of _ "send_shutdown t"]) simp_all
  have "requests_ok (collector_close s)" "requests_ok (collector_close_with_error e s)" for e
    using ok by (auto simp: requests_ok_def collector_close_def collector_close_with_error_def used_ids_def
        requests_made_def hm.ok_empty)
  with ok exit show ?thesis by (simp add: listen_grpc_def requests_ok_collect split: grpc_event.splits)
qed

lemma requests_ok_dispatch_top: "requests_ok s \<Longrightarrow> requests_ok (dispatch_top s)"
proof -
  assume ok: "requests_ok s"
  have "requests_made (dispatch_end (flush_requests t)) = requests_made t" for t
    using requests_made_flush [of t] by (simp add: dispatch_end_def requests_made_def)
  then have "used_ids (dispatch_end (flush_requests (s\<lparr>shutdown_signals := n\<rparr>))) = used_ids s" for n
    by (simp add: used_ids_def requests_made_def)
  then have "requests_ok (dispatch_end (flush_requests (s\<lparr>shutdown_signals := n\<rparr>)))" for n
    using ok unfolding requests_ok_def by (simp add: dispatch_end_def)
  moreover have "requests_ok (s\<lparr>dispatcher := Draining\<rparr>)"
    using ok by (simp add: requests_ok_def used_ids_def requests_made_def)
  ultimately show ?thesis by (simp add: dispatch_top_def)
qed

lemma channels_ok_dispatch_top: "channels_ok s \<Longrightarrow> channels_ok (dispatch_top s)"
proof -
  assume ok: "channels_ok s"
  have "channels_ok (s\<lparr>shutdown_signals := n\<rparr>)" "channels_ok (s\<lparr>dispatcher := d\<rparr>)" for n d
    using ok by (subst channels_ok_cong [of _ s]; simp)+
  then show ?thesis by (simp add: dispatch_top_def channels_ok_dispatch_end)
qed

text \<open>The remaining steps change flags and lists the invariant does not mention.\<close>

lemma flag_steps:
  "channels_ok (register_on_close cb s) = channels_ok s" "requests_ok (register_on_close cb s) = requests_ok s"
  "channels_ok (snd (close_begin ro n s)) = channels_ok s" "requests_ok (snd (close_begin ro n s)) = requests_ok s"
  "channels_ok (close_commit s) = channels_ok s" "requests_ok (close_commit s) = requests_ok s"
  "channels_ok (submit_close s) = channels_ok s" "requests_ok (submit_close s) = requests_ok s"
  "channels_ok (listen_register s) = channels_ok s" "requests_ok (listen_register s) = requests_ok s"
  by ((rule channels_ok_cong | rule requests_ok_cong);
      simp add: register_on_close_def close_begin_def close_commit_def submit_close_def send_shutdown_def
        listen_register_def split: list.splits)+

lemma requests_ok_callers:
  assumes "requests_ok s"
  shows "\<not> is_stream_more req \<Longrightarrow> requests_ok (snd (single env req s))"
    and "\<not> is_stream_more req \<Longrightarrow> requests_ok (snd (stream req s))"
    and "requests_ok (snd (process_response response s))"
  using assms
  by (auto simp: single_def stream_def process_response_def tx_send_def Let_def requests_ok_def used_ids_def
      requests_made_def split: stream_response.splits)

lemma tx_invariant: "tx_reachable env s \<Longrightarrow> channels_ok s \<and> requests_ok s"
proof (induction rule: tx_reachable.induct)
  case Init
  show ?case
    by (simp add: tx_new_def channels_ok_def requests_ok_def sinks_def queued_sinks_def map_filter_def
        hm_ok_def buffer_default_def)
next
  case (Step s s')
  from Step.hyps(2) Step.IH show ?case
    by (cases rule: tx_step.cases)
      (simp_all add: channels_ok_single channels_ok_stream channels_ok_process requests_ok_callers flag_steps
        channels_ok_dispatch_top requests_ok_dispatch_top channels_ok_dispatch_one requests_ok_dispatch_one
        channels_ok_listen requests_ok_listen)
qed

section \<open>Life cycle\<close>

definition lifecycle_ok :: "tx_state \<Rightarrow> bool" where
  "lifecycle_ok s \<longleftrightarrow>
     (listener s = Closed \<longrightarrow> \<not> tx_is_open s \<and> (0 < shutdown_signals s \<or> dispatcher s = Stopped))
   \<and> (dispatcher s = Blocked \<longrightarrow> listener s = Deadlocked)
   \<and> (dispatcher s = Stopped \<longrightarrow> tx_queue s = [])"

lemma collect_keeps:
  "tx_queue (collect env m s) = tx_queue s" "dispatcher (collect env m s) = dispatcher s"
  "shutdown_signals (collect env m s) = shutdown_signals s" "tx_is_open (collect env m s) = tx_is_open s"
  "listener s = Listening \<Longrightarrow> listener (collect env m s) \<noteq> Closed"
  "requests_made (collect env m s) = requests_made s"
  by (auto simp: collect_def collect_res_def collect_res_part_def collect_query_part_def
      collect_stream_state_def deliver_or_panic_def deliver_def forget_def panic_def deadlock_def Let_def
      requests_made_def
      split: option.splits server_body.splits result.splits res_part_body.splits stream_state.splits)

lemma lifecycle_listen:
  "lifecycle_ok s \<Longrightarrow> listener s = Listening \<Longrightarrow> lifecycle_ok (listen_grpc env event s)"
  by (cases event)
    (auto simp: listen_grpc_def lifecycle_ok_def collect_keeps listen_exit_def send_shutdown_def
      collector_close_def collector_close_with_error_def)

lemma dispatch_one_life:
  "shutdown_signals (dispatch_one env fresh s) = shutdown_signals s"
  "tx_is_open (dispatch_one env fresh s) = tx_is_open s"
  "listener (dispatch_one env fresh s) = listener s"
  by (auto simp: dispatch_one_def dispatch_end_def register_def Let_def
      split: list.splits prod.splits result.splits option.splits)

lemma lifecycle_dispatch_one:
  assumes "lifecycle_ok s" "dispatcher s = Draining"
  shows "lifecycle_ok (dispatch_one env fresh s)"
proof (cases rule: dispatch_one_cases [of s env fresh])
  case blocked
  then show ?thesis using assms by (auto simp: lifecycle_ok_def)
next
  case (request req cb rest m)
  then show ?thesis using assms dispatch_one_requests [OF request]
    by (auto simp: lifecycle_ok_def dispatch_one_life)
qed (use assms in \<open>auto simp: lifecycle_ok_def dispatch_end_def\<close>)

lemma lifecycle_callers:
  assumes "lifecycle_ok s"
  shows "lifecycle_ok (snd (single env req s))" "lifecycle_ok (snd (stream req s))"
    "lifecycle_ok (snd (process_response response s))" "lifecycle_ok (register_on_close cb s)"
    "lifecycle_ok (snd (close_begin ro n s))" "lifecycle_ok (close_commit s)" "lifecycle_ok (submit_close s)"
    "lifecycle_ok (listen_register s)"
  using assms
  by (auto simp: lifecycle_ok_def single_def stream_def process_response_def tx_send_def register_on_close_def
      close_begin_def close_commit_def submit_close_def send_shutdown_def listen_register_def Let_def
      split: stream_response.splits list.splits)

lemma lifecycle_dispatch_top:
  "lifecycle_ok s \<Longrightarrow> dispatcher s = AtTop \<Longrightarrow> lifecycle_ok (dispatch_top s)"
  by (auto simp: lifecycle_ok_def dispatch_top_def dispatch_end_def)

lemma tx_lifecycle: "tx_reachable env s \<Longrightarrow> lifecycle_ok s"
proof (induction rule: tx_reachable.induct)
  case Init
  show ?case by (simp add: tx_new_def lifecycle_ok_def)
next
  case (Step s s')
  from Step.hyps(2) Step.IH show ?case
    by (cases rule: tx_step.cases)
      (simp_all add: lifecycle_callers lifecycle_dispatch_top lifecycle_dispatch_one lifecycle_listen)
qed

text \<open>One turn of the dispatch thread, wherever it is, and a number of turns.\<close>

definition dispatch_turn :: "tx_env \<Rightarrow> request_id \<Rightarrow> tx_state \<Rightarrow> tx_state" where
  "dispatch_turn env fresh s =
     (case dispatcher s of AtTop \<Rightarrow> dispatch_top s | Draining \<Rightarrow> dispatch_one env fresh s | _ \<Rightarrow> s)"

definition turns_left :: "tx_state \<Rightarrow> nat" where
  "turns_left s =
     (case dispatcher s of
        Stopped \<Rightarrow> 0 | AtTop \<Rightarrow> 1 | Draining \<Rightarrow> length (tx_queue s) + 2 | Blocked \<Rightarrow> 0)"

definition shutting_down :: "tx_state \<Rightarrow> bool" where
  "shutting_down s \<longleftrightarrow> dispatcher s \<noteq> Blocked \<and> listener s \<noteq> Deadlocked
     \<and> (dispatcher s = Stopped \<or> 0 < shutdown_signals s)"

lemma dispatch_turn_progress:
  assumes "shutting_down s"
  shows "shutting_down (dispatch_turn env fresh s)
    \<and> (dispatcher s = Stopped \<or> turns_left (dispatch_turn env fresh s) < turns_left s)"
proof (cases "dispatcher s")
  case Draining
  have sig: "0 < shutdown_signals s" "listener s \<noteq> Deadlocked" using assms Draining by (auto simp: shutting_down_def)
  show ?thesis
  proof (cases rule: dispatch_one_cases [of s env fresh])
    case blocked
    then show ?thesis using sig by simp
  next
    case (request req cb rest m)
    then show ?thesis using sig Draining dispatch_one_requests [OF request]
      by (simp add: dispatch_turn_def shutting_down_def turns_left_def dispatch_one_life)
  qed (use sig Draining in \<open>auto simp: dispatch_turn_def shutting_down_def turns_left_def dispatch_end_def\<close>)
qed (use assms in \<open>auto simp: dispatch_turn_def shutting_down_def turns_left_def dispatch_top_def dispatch_end_def\<close>)

lemma dispatch_turns_stop:
  assumes "shutting_down s" "turns_left s \<le> length ids"
  shows "dispatcher (fold (dispatch_turn env) ids s) = Stopped"
  using assms
proof (induction ids arbitrary: s)
  case Nil
  then show ?case by (auto simp: turns_left_def shutting_down_def split: dispatch_pc.splits)
next
  case (Cons i ids)
  have p: "shutting_down (dispatch_turn env i s)
      \<and> (dispatcher s = Stopped \<or> turns_left (dispatch_turn env i s) < turns_left s)"
    by (rule dispatch_turn_progress [OF Cons.prems(1)])
  then have "turns_left (dispatch_turn env i s) \<le> length ids"
    using Cons.prems(2) by (auto simp: dispatch_turn_def turns_left_def)
  with p Cons.IH show ?case by simp
qed

lemma dispatch_turns_keep:
  "listener (fold (dispatch_turn env) ids s) = listener s"
  by (induction ids arbitrary: s)
    (simp_all add: dispatch_turn_def dispatch_one_life dispatch_top_def dispatch_end_def split: dispatch_pc.splits)

lemma dispatch_turns_queue:
  assumes "lifecycle_ok s"
  shows "lifecycle_ok (fold (dispatch_turn env) ids s)"
  using assms
  by (induction ids arbitrary: s)
    (auto simp: dispatch_turn_def lifecycle_dispatch_top lifecycle_dispatch_one split: dispatch_pc.splits)

section \<open>The specification of the request stream\<close>

text \<open>
  Seen from outside, a transaction is a first-in first-out line: callers put requests at its end, the
  request at its head is transmitted in its wire form, and when the line is taken down the requests in
  it are lost.  What has been transmitted is never changed.
\<close>

type_synonym line = "transaction_request list \<times> transaction_req list"

inductive line_step :: "tx_env \<Rightarrow> line \<Rightarrow> line \<Rightarrow> bool" for env where
  Stay: "line_step env l l"
| Put: "line_step env (waiting, made) (waiting @ [req], made)"
| Transmit: "transaction_request_into_proto (env_proto env) (env_chrono env) fresh req = Ok m \<Longrightarrow>
    line_step env (req # waiting, made) (waiting, made @ [m])"
| TakeDown: "line_step env (waiting, made) ([], made)"

definition line_of :: "tx_state \<Rightarrow> line" where
  "line_of s = (map fst (tx_queue s), requests_made s)"

lemma line_cong:
  "tx_queue s' = tx_queue s \<Longrightarrow> sent s' = sent s \<Longrightarrow> buffer s' = buffer s \<Longrightarrow> line_of s' = line_of s"
  by (simp add: line_of_def requests_made_def)

lemma line_dispatch_end: "line_step env (line_of s) (line_of (dispatch_end s))"
  by (simp add: line_of_def dispatch_end_def requests_made_def TakeDown)

lemma line_flush [simp]: "line_of (flush_requests s) = line_of s"
  using requests_made_flush [of s] by (simp add: line_of_def)

lemma line_dispatch_one: "line_step env (line_of s) (line_of (dispatch_one env fresh s))"
proof (cases rule: dispatch_one_cases [of s env fresh])
  case idle
  have "line_of ((flush_requests s)\<lparr>dispatcher := AtTop\<rparr>) = line_of (flush_requests s)" by (rule line_cong) simp_all
  then show ?thesis using idle by (simp add: Stay)
next
  case blocked
  then show ?thesis using line_cong [of "s\<lparr>dispatcher := Blocked\<rparr>" s] by (simp add: Stay)
next
  case ended
  then show ?thesis by (simp add: line_dispatch_end)
next
  case (request req cb rest m)
  then show ?thesis using dispatch_one_requests(1,2) [OF request]
    by (simp add: line_of_def Transmit [OF request(2)])
qed

lemma line_dispatch_top: "line_step env (line_of s) (line_of (dispatch_top s))"
proof -
  have "line_of (s\<lparr>shutdown_signals := n\<rparr>) = line_of s" "line_of (s\<lparr>dispatcher := Draining\<rparr>) = line_of s" for n
    by (rule line_cong; simp)+
  then show ?thesis
    using line_dispatch_end [of env "flush_requests (s\<lparr>shutdown_signals := shutdown_signals s - 1\<rparr>)"]
    by (auto simp: dispatch_top_def Stay)
qed

lemma line_listen: "line_of (listen_grpc env event s) = line_of s"
proof (cases event)
  case (GrpcMessage m)
  then show ?thesis by (simp add: line_of_def listen_grpc_def collect_keeps)
qed (simp_all add: line_of_def listen_grpc_def listen_exit_def send_shutdown_def collector_close_def
    collector_close_with_error_def requests_made_def)

section \<open>Properties\<close>

text \<open>
  C1: the transmitter refines the line.  Whatever step its callers, its dispatch thread or its listener
  take, the queue and the requests sent or buffered change as the line allows: requests are
  transmitted in the order in which they were made, none twice.
\<close>

theorem transmitter_refines_line:
  assumes "tx_step env s s'"
  shows "line_step env (line_of s) (line_of s')"
  using assms
proof (cases rule: tx_step.cases)
  case (Single req)
  then show ?thesis
    by (auto simp: single_def tx_send_def Let_def line_of_def requests_made_def Put Stay)
next
  case (Stream req)
  then show ?thesis
    by (auto simp: stream_def tx_send_def Let_def line_of_def requests_made_def Put Stay)
next
  case (Process response)
  then show ?thesis
    by (auto simp: process_response_def tx_send_def line_of_def requests_made_def Put Stay
        split: stream_response.splits)
next
  case DispatchTop
  then show ?thesis by (simp add: line_dispatch_top)
next
  case (DispatchOne fresh)
  then show ?thesis by (simp add: line_dispatch_one)
next
  case (ListenGrpc event)
  then show ?thesis by (simp add: line_listen Stay)
qed (auto simp: line_of_def requests_made_def Stay register_on_close_def close_begin_def close_commit_def
    submit_close_def send_shutdown_def listen_register_def split: list.splits)

text \<open>A concrete run for the witnesses: a commit is asked for, and the server closes the stream.\<close>

definition sample_proto :: proto_lib where
  "sample_proto = \<lparr>protocol_version = 7, protocol_extension_version = 0,
     transaction_type_code = (\<lambda>t. case t of Read \<Rightarrow> 0 | Write \<Rightarrow> 1 | Schema \<Rightarrow> 2),
     request_debug = (\<lambda>_. ''Request''), uuid_from_slice = (\<lambda>b. if length b = 16 then Some b else None)\<rparr>"

definition sample_env :: tx_env where
  "sample_env = \<lparr>env_proto = sample_proto, env_chrono = sample_chrono, env_enums = sample_enums,
     env_overflow_checks = True, env_sync = False, env_encoded_len = (\<lambda>m. length (req_id m))\<rparr>"

definition sample_committing :: tx_state where
  "sample_committing = dispatch_one sample_env (ID [1])
     (dispatch_top (snd (single sample_env Commit tx_new)))"

lemma sample_committing_reachable: "tx_reachable sample_env sample_committing"
proof -
  let ?s1 = "snd (single sample_env Commit tx_new)" and ?s2 = "dispatch_top (snd (single sample_env Commit tx_new))"
  have "tx_reachable sample_env ?s1"
    by (rule tx_reachable.Step [OF Init]) (simp add: Single is_stream_more_def)
  then have "tx_reachable sample_env ?s2"
    by (rule tx_reachable.Step) (rule DispatchTop, simp add: single_def tx_send_def tx_new_def Let_def)
  then show ?thesis unfolding sample_committing_def
    by (rule tx_reachable.Step) (rule DispatchOne, simp_all add: single_def tx_send_def tx_new_def Let_def
        dispatch_top_def used_ids_def requests_made_def buffer_default_def)
qed

lemma sample_committing_state:
  "sample_committing = tx_new\<lparr>next_channel := 1, one_shots := [0], dispatcher := Draining,
     callbacks := [(ID [1], AsyncOneShot 0)],
     buffer := \<lparr>reqs = [\<lparr>req_id = [1], req_body = Some CommitReqP\<rparr>], buffered_len = 1\<rparr>\<rparr>"
  by (simp add: sample_committing_def single_def tx_send_def tx_new_def Let_def dispatch_top_def
      dispatch_one_def transaction_request_into_proto_def register_def hm_insert_def buffer_request_def
      buffer_default_def buffer_push_def max_grpc_message_len_def sample_env_def bytes_cloned_def)

theorem transmitter_refines_line_witness:
  "line_step sample_env (line_of sample_committing) (line_of (listen_grpc sample_env GrpcEnd sample_committing))"
  by (rule transmitter_refines_line, rule ListenGrpc) (simp add: sample_committing_state tx_new_def)

text \<open>
  C2: sinks are used linearly.  In every reachable state a channel for a single response has received at
  most one message, and none while a sending end of it is held; every sending end is held once.
\<close>

theorem single_response_at_most_once:
  assumes "tx_reachable env s" "c \<in> set (one_shots s)"
  shows "length (received c s) \<le> 1
    \<and> (c \<in> sink_channel ` set (held_sinks s) \<longrightarrow> received c s = [])
    \<and> distinct (map sink_channel (held_sinks s))"
proof -
  have ok: "channels_ok s" using tx_invariant [OF assms(1)] by simp
  have held: "set (held_sinks s) \<subseteq> set (sinks s)" by (auto simp: held_sinks_def sinks_def)
  have "received (sink_channel k) s = []" if "k \<in> set (held_sinks s)" "sink_channel k = c" for k
    using ok assms(2) held that by (auto simp: channels_ok_def list_all_iff sink_ok_def)
  moreover have "distinct (map sink_channel (held_sinks s))"
    using ok by (auto simp: channels_ok_def held_sinks_def sinks_def)
  ultimately show ?thesis using ok assms(2) by (auto simp: channels_ok_def)
qed

theorem single_response_at_most_once_witness:
  "received 0 sample_committing = [] \<and> length (received 0 sample_committing) \<le> 1"
  using single_response_at_most_once [OF sample_committing_reachable, of 0]
  by (simp add: sample_committing_state tx_new_def held_sinks_def table_alive_def)

lemma filter_distinct_map:
  "distinct (map f xs) \<Longrightarrow> length (filter (\<lambda>x. f x = c) xs) = (if c \<in> f ` set xs then 1 else 0)"
  by (induction xs) auto

definition last_message :: "grpc_event \<Rightarrow> (transaction_response, error) result" where
  "last_message event = (case event of GrpcStatus e \<Rightarrow> Err e | _ \<Rightarrow> Ok CloseRes)"

definition close_reason :: "grpc_event \<Rightarrow> error option" where
  "close_reason event = (case event of GrpcStatus e \<Rightarrow> Some e | _ \<Rightarrow> None)"





text \<open>
  C8: nobody waits for ever.  Once the listener has closed the transaction, the dispatch thread ends by
  its own turns, and then every caller of a single request has its outcome: its response, or an error
  because the sending end is gone.
\<close>

theorem no_caller_left_waiting:
  assumes "tx_reachable env s" "listener s = Closed" "length (tx_queue s) + 2 \<le> length ids"
  shows "dispatcher (fold (dispatch_turn env) ids s) = Stopped
    \<and> await_single c (fold (dispatch_turn env) ids s) \<noteq> None"
proof -
  let ?t = "fold (dispatch_turn env) ids s"
  have life: "lifecycle_ok s" by (rule tx_lifecycle [OF assms(1)])
  have "shutting_down s" using life assms(2) by (auto simp: lifecycle_ok_def shutting_down_def)
  moreover have "turns_left s \<le> length ids" using assms(3) by (cases "dispatcher s") (simp_all add: turns_left_def)
  ultimately have stop: "dispatcher ?t = Stopped" by (rule dispatch_turns_stop)
  have "tx_queue ?t = []" using dispatch_turns_queue [OF life] stop by (simp add: lifecycle_ok_def)
  moreover have "\<not> table_alive ?t" using stop assms(2) by (simp add: table_alive_def dispatch_turns_keep)
  ultimately have "held_sinks ?t = []" by (simp add: held_sinks_def queued_sinks_def map_filter_def)
  with stop show ?thesis by (simp add: await_single_def split: list.splits stream_response.splits)
qed

theorem no_caller_left_waiting_witness:
  "await_single 0 (fold (dispatch_turn sample_env) [ID [2], ID [3]]
     (listen_grpc sample_env GrpcEnd sample_committing)) \<noteq> None"
proof -
  have l: "listener sample_committing = Listening" by (simp add: sample_committing_state tx_new_def)
  have "tx_reachable sample_env (listen_grpc sample_env GrpcEnd sample_committing)"
    by (rule tx_reachable.Step [OF sample_committing_reachable], rule ListenGrpc [OF l])
  moreover have "listener (listen_grpc sample_env GrpcEnd sample_committing) = Closed"
    "tx_queue (listen_grpc sample_env GrpcEnd sample_committing) = []"
    by (simp_all add: listen_grpc_def listen_exit_def send_shutdown_def collector_close_def
        sample_committing_state tx_new_def)
  ultimately show ?thesis
    using no_caller_left_waiting [of sample_env "listen_grpc sample_env GrpcEnd sample_committing"
        "[ID [2], ID [3]]" 0] by simp
qed

lemma deadlocked_forever:
  assumes "tx_step env s t" "listener s = Deadlocked"
  shows "listener t = Deadlocked \<and> delivered t = delivered s"
  using assms
  by (cases rule: tx_step.cases)
    (auto simp: single_def stream_def process_response_def tx_send_def register_on_close_def close_begin_def
      close_commit_def submit_close_def send_shutdown_def dispatch_top_def dispatch_end_def dispatch_one_def
      register_def flush_requests_def Let_def
      split: stream_response.splits list.splits prod.splits result.splits option.splits)

text \<open>
  C40: a part of an answer that cannot be converted blocks the transaction for good.  The listener waits
  for a lock it holds, no message is delivered to anybody any more, and the transaction is never closed
  by it.
\<close>

theorem unreadable_part_blocks_listener:
  assumes "hm_get (callbacks s) (ID rid) = Some sink"
    and "query_res_from_proto (env_overflow_checks env) (env_chrono env) part = Err e"
    and "(tx_step env)\<^sup>*\<^sup>*
      (collect env (Some (ServerResPart \<lparr>part_req_id = rid, part_body = Some (PQueryRes part)\<rparr>)) s) t"
  shows "listener t = Deadlocked \<and> delivered t = delivered s"
  using assms(3)
proof (induction rule: rtranclp_induct)
  case base
  then show ?case using assms(1,2)
    by (simp add: collect_def collect_res_part_def collect_query_part_def deadlock_def)
next
  case (step t u)
  then show ?case using deadlocked_forever by metis
qed

definition list_row :: "query_res_part option" where
  "list_row = Some (PRowsRes [\<lparr>proto_row = [Some (EntryConceptList [])], involved_blocks = None\<rparr>])"

theorem unreadable_part_blocks_listener_witness:
  "listener (collect sample_env (Some (ServerResPart \<lparr>part_req_id = [1], part_body = Some (PQueryRes list_row)\<rparr>))
     (tx_new\<lparr>callbacks := [(ID [1], Streamed 0)]\<rparr>)) = Deadlocked"
  using unreadable_part_blocks_listener [of "tx_new\<lparr>callbacks := [(ID [1], Streamed 0)]\<rparr>" "[1]" "Streamed 0"
      sample_env list_row "Connection ListsNotImplemented", OF _ _ rtranclp.rtrancl_refl]
  by (simp add: hm_get_def list_row_def query_res_from_proto_def row_try_from_proto_def entry_from_proto_def)

end
