(* ===== verification/Transaction_Streams.thy ===== *)
theory Transaction_Streams
  imports Transaction_Safety
begin

text \<open>
  \<open>rust/src/connection/transaction_stream.rs\<close> and \<open>rust/src/transaction.rs\<close>: what a user of a
  transaction sees.  Requests go to the transmitter; its responses, a value or a stream of values, become
  the outcome of a commit, a rollback or an analysis, or the answer of a query.  A stream is the list of
  its elements; the \<open>Debug\<close> text of an unexpected response is a parameter.
\<close>

section \<open>Responses\<close>

record response_texts =
  debug_transaction_response :: "transaction_response \<Rightarrow> string"
  debug_query_response :: "query_response \<Rightarrow> string"
  debug_response :: "response \<Rightarrow> string"

definition unexpected_type :: "string \<Rightarrow> error" where
  "unexpected_type t = Internal (UnexpectedResponseType t)"

definition handle_unexpected_response ::
    "response_texts \<Rightarrow> (transaction_response, error) result \<Rightarrow> ('a, error) result" where
  "handle_unexpected_response dbg response =
     (case response of
        Ok CloseRes \<Rightarrow> Err transaction_is_closed
      | Ok other \<Rightarrow> Err (unexpected_type (debug_transaction_response dbg other))
      | Err e \<Rightarrow> Err e
      | Panic \<Rightarrow> Panic)"

text \<open>The macro \<open>require_transaction_response!\<close> at its three uses.\<close>

definition require_commit ::
    "response_texts \<Rightarrow> (transaction_response, error) result \<Rightarrow> (unit, error) result" where
  "require_commit dbg response =
     (case response of Ok CommitRes \<Rightarrow> Ok () | other \<Rightarrow> handle_unexpected_response dbg other)"

definition require_rollback ::
    "response_texts \<Rightarrow> (transaction_response, error) result \<Rightarrow> (unit, error) result" where
  "require_rollback dbg response =
     (case response of Ok RollbackRes \<Rightarrow> Ok () | other \<Rightarrow> handle_unexpected_response dbg other)"

definition require_query ::
    "response_texts \<Rightarrow> (transaction_response, error) result \<Rightarrow> (query_response, error) result" where
  "require_query dbg response =
     (case response of Ok (QueryRes inner) \<Rightarrow> Ok inner | other \<Rightarrow> handle_unexpected_response dbg other)"

section \<open>Requests and their outcomes\<close>

text \<open>
  A request is handed to the transmitter at once; its outcome is what the promise resolves to, from the
  result of handing it over and the state in which the caller looks.  None means that it still waits.
\<close>

definition single_outcome ::
    "(channel, error) result \<Rightarrow> tx_state \<Rightarrow> (transaction_response, error) result option" where
  "single_outcome sent_on s =
     (case sent_on of Ok c \<Rightarrow> await_single c s | Err e \<Rightarrow> Some (Err e) | Panic \<Rightarrow> Some Panic)"

definition commit :: "tx_env \<Rightarrow> tx_state \<Rightarrow> (channel, error) result \<times> tx_state" where
  "commit env s = single env Commit s"

text \<open>The stream is moved into the promise: it is dropped, and so closed, once the promise is resolved.\<close>

definition commit_resolved ::
    "response_texts \<Rightarrow> (channel, error) result \<Rightarrow> tx_state \<Rightarrow> ((unit, error) result \<times> tx_state) option" where
  "commit_resolved dbg promise s =
     map_option (\<lambda>r. (require_commit dbg r, submit_close s)) (single_outcome promise s)"

definition rollback :: "tx_env \<Rightarrow> tx_state \<Rightarrow> (channel, error) result \<times> tx_state" where
  "rollback env s = single env Rollback s"

definition rollback_outcome ::
    "response_texts \<Rightarrow> (channel, error) result \<Rightarrow> tx_state \<Rightarrow> (unit, error) result option" where
  "rollback_outcome dbg promise s = map_option (require_rollback dbg) (single_outcome promise s)"

text \<open>
  The stream of a request, seen through \<open>NetworkStream\<close> and \<open>process_response\<close>: signals to continue
  are answered with a request for more and do not reach the reader.
\<close>

fun read_stream ::
    "stream_response list \<Rightarrow> tx_state \<Rightarrow> (transaction_response, error) result list \<times> tx_state" where
  "read_stream [] s = ([], s)"
| "read_stream (r # rs) s =
     (let (item, s1) = process_response r s; (items, s2) = read_stream rs s1
      in (case item of Some i \<Rightarrow> i # items | None \<Rightarrow> items, s2))"

definition analyze :: "string \<Rightarrow> tx_state \<Rightarrow> (channel, error) result \<times> tx_state" where
  "analyze query s = stream (AnalyzeQuery query) s"

definition analyze_answer ::
    "response_texts \<Rightarrow> ((transaction_response, error) result list, error) result
     \<Rightarrow> (analyzed_query, error) result" where
  "analyze_answer dbg promise =
     and_then promise (\<lambda>items.
       case items of
         [] \<Rightarrow> Err (Connection AnalyzeNoResponse)
       | Ok (AnalyzeRes (AnalyzeOk analyzed)) # _ \<Rightarrow> Ok analyzed
       | Ok (AnalyzeRes (AnalyzeErr e)) # _ \<Rightarrow> Err (Server e)
       | Ok other # _ \<Rightarrow> Err (unexpected_type (debug_transaction_response dbg other))
       | Err e # _ \<Rightarrow> Err e
       | Panic # _ \<Rightarrow> Panic)"

definition query_stream ::
    "response_texts \<Rightarrow> ((transaction_response, error) result list, error) result
     \<Rightarrow> ((query_response, error) result list, error) result" where
  "query_stream dbg promise = map_ok (map (require_query dbg)) promise"

definition stream_documents ::
    "response_texts \<Rightarrow> concept_document_header \<Rightarrow> (query_response, error) result
     \<Rightarrow> (concept_document, error) result list" where
  "stream_documents dbg header result =
     (case result of
        Ok (StreamConceptDocuments documents) \<Rightarrow>
          map (\<lambda>document. Ok \<lparr>document_header = header, document_root = document\<rparr>) documents
      | Ok (QError e) \<Rightarrow> [Err (Server e)]
      | Ok other \<Rightarrow> [Err (unexpected_type (debug_query_response dbg other))]
      | Err e \<Rightarrow> [Err e]
      | Panic \<Rightarrow> [Panic])"

definition stream_rows ::
    "response_texts \<Rightarrow> concept_row_header \<Rightarrow> (query_response, error) result
     \<Rightarrow> (concept_row, error) result list" where
  "stream_rows dbg header result =
     (case result of
        Ok (StreamConceptRows rows) \<Rightarrow>
          map (\<lambda>(row, involved_blocks). Ok (concept_row_new header row involved_blocks)) rows
      | Ok (QError e) \<Rightarrow> [Err (Server e)]
      | Ok other \<Rightarrow> [Err (unexpected_type (debug_query_response dbg other))]
      | Err e \<Rightarrow> [Err e]
      | Panic \<Rightarrow> [Panic])"

definition send_query ::
    "string \<Rightarrow> query_options \<Rightarrow> given_rows option \<Rightarrow> tx_state \<Rightarrow> (channel, error) result \<times> tx_state" where
  "send_query q options rows s = stream (QueryReq (QueryRequest q options rows)) s"

definition answer_of_query ::
    "response_texts \<Rightarrow> ((transaction_response, error) result list, error) result
     \<Rightarrow> (query_answer, error) result" where
  "answer_of_query dbg promise =
     and_then (query_stream dbg promise) (\<lambda>items.
       case items of
         [] \<Rightarrow> Err (Connection QueryStreamNoResponse)
       | Err e # _ \<Rightarrow> Err e
       | Panic # _ \<Rightarrow> Panic
       | Ok header # rest \<Rightarrow>
           (case header of
              QOk t \<Rightarrow> Ok (AnswerOk t)
            | ConceptDocumentsHeader h \<Rightarrow>
                Ok (ConceptDocumentStream h (concat (map (stream_documents dbg h) rest)))
            | ConceptRowsHeader h \<Rightarrow> Ok (ConceptRowStream h (concat (map (stream_rows dbg h) rest)))
            | QError e \<Rightarrow> Err (Server e)
            | other \<Rightarrow> Err (unexpected_type (debug_query_response dbg other))))"

section \<open>The transaction\<close>

record transaction =
  tx_type :: transaction_type
  tx_options :: transaction_options
  tx_state_of :: tx_state

definition transaction_new :: "transaction_type \<Rightarrow> transaction_options \<Rightarrow> tx_state \<Rightarrow> transaction" where
  "transaction_new t o' s = \<lparr>tx_type = t, tx_options = o', tx_state_of = s\<rparr>"

definition transaction_is_open :: "transaction \<Rightarrow> bool" where
  "transaction_is_open t = tx_is_open (tx_state_of t)"

definition query_with_options_and_rows ::
    "transaction \<Rightarrow> string \<Rightarrow> query_options \<Rightarrow> given_rows option \<Rightarrow> (channel, error) result \<times> transaction" where
  "query_with_options_and_rows t q options rows =
     (let (promise, s) = send_query q options rows (tx_state_of t) in (promise, t\<lparr>tx_state_of := s\<rparr>))"

definition query :: "transaction \<Rightarrow> string \<Rightarrow> (channel, error) result \<times> transaction" where
  "query t q = query_with_options_and_rows t q query_options_new None"

definition query_with_options ::
    "transaction \<Rightarrow> string \<Rightarrow> query_options \<Rightarrow> (channel, error) result \<times> transaction" where
  "query_with_options t q options = query_with_options_and_rows t q options None"

definition query_with_rows :: "transaction \<Rightarrow> string \<Rightarrow> given_rows \<Rightarrow> (channel, error) result \<times> transaction" where
  "query_with_rows t q rows = query_with_options_and_rows t q query_options_new (Some rows)"

definition transaction_analyze :: "transaction \<Rightarrow> string \<Rightarrow> (channel, error) result \<times> transaction" where
  "transaction_analyze t q = (let (promise, s) = analyze q (tx_state_of t) in (promise, t\<lparr>tx_state_of := s\<rparr>))"

definition transaction_on_close :: "transaction \<Rightarrow> nat \<Rightarrow> transaction" where
  "transaction_on_close t callback = t\<lparr>tx_state_of := register_on_close callback (tx_state_of t)\<rparr>"

definition transaction_commit :: "tx_env \<Rightarrow> transaction \<Rightarrow> (channel, error) result \<times> transaction" where
  "transaction_commit env t =
     (let (promise, s) = commit env (tx_state_of t) in (promise, t\<lparr>tx_state_of := s\<rparr>))"

definition transaction_rollback :: "tx_env \<Rightarrow> transaction \<Rightarrow> (channel, error) result \<times> transaction" where
  "transaction_rollback env t =
     (let (promise, s) = rollback env (tx_state_of t) in (promise, t\<lparr>tx_state_of := s\<rparr>))"

section \<open>The answer of a query\<close>

text \<open>
  The messages of an answer of rows: a header, then batches of rows and signals that there is more, each
  carrying the identifier of the request.
\<close>

datatype answer_part = RowsPart "concept_row_proto list" | MorePart

definition answer_message :: "u8 list \<Rightarrow> answer_part \<Rightarrow> transaction_server" where
  "answer_message rid part = Some (ServerResPart \<lparr>part_req_id = rid, part_body = Some
     (case part of
        RowsPart rows \<Rightarrow> PQueryRes (Some (PRowsRes rows))
      | MorePart \<Rightarrow> PStreamRes (Some PContinue))\<rparr>)"

definition header_message :: "u8 list \<Rightarrow> string list \<Rightarrow> i32 \<Rightarrow> transaction_server" where
  "header_message rid names t = Some (ServerRes \<lparr>res_req_id = rid,
     res_body = Some (PQueryInitialRes (Some (PInitialOk (Some (PRowStream names t None)))))\<rparr>)"

definition message_id :: "transaction_server \<Rightarrow> u8 list option" where
  "message_id m =
     (case m of
        Some (ServerRes res) \<Rightarrow> Some (res_req_id res)
      | Some (ServerResPart part) \<Rightarrow> Some (part_req_id part)
      | None \<Rightarrow> None)"

definition listen_all :: "tx_env \<Rightarrow> transaction_server list \<Rightarrow> tx_state \<Rightarrow> tx_state" where
  "listen_all env ms s =
     fold (\<lambda>m s. if listener s = Listening then listen_grpc env (GrpcMessage m) s else s) ms s"

text \<open>What the reader gets for a part, and the rows in it.\<close>

definition part_response :: "tx_env \<Rightarrow> u8 list \<Rightarrow> answer_part \<Rightarrow> stream_response" where
  "part_response env rid part =
     (case part of
        RowsPart rows \<Rightarrow> StreamResult (query_res_from_proto (env_overflow_checks env) (env_chrono env)
          (Some (PRowsRes rows)))
      | MorePart \<Rightarrow> StreamContinue (ID rid))"

definition part_rows :: "tx_env \<Rightarrow> answer_part \<Rightarrow> (concept option list \<times> u8 list option) list" where
  "part_rows env part =
     (case part of
        RowsPart rows \<Rightarrow>
          (case try_map (row_try_from_proto (env_overflow_checks env) (env_chrono env)) rows of
             Ok rs \<Rightarrow> rs | _ \<Rightarrow> [])
      | MorePart \<Rightarrow> [])"

definition part_readable :: "tx_env \<Rightarrow> answer_part \<Rightarrow> bool" where
  "part_readable env part =
     (case part of
        RowsPart rows \<Rightarrow> (\<exists>rs. try_map (row_try_from_proto (env_overflow_checks env) (env_chrono env)) rows = Ok rs)
      | MorePart \<Rightarrow> True)"

lemma rows_part_Ok:
  "part_readable env (RowsPart rows) \<Longrightarrow>
   query_res_from_proto (env_overflow_checks env) (env_chrono env) (Some (PRowsRes rows))
     = Ok (QueryRes (StreamConceptRows (part_rows env (RowsPart rows))))"
  by (auto simp: part_readable_def part_rows_def query_res_from_proto_def)

subsection \<open>Messages of other requests\<close>

definition streams_to :: "u8 list \<Rightarrow> channel \<Rightarrow> tx_state \<Rightarrow> bool" where
  "streams_to rid c s \<longleftrightarrow> channels_ok s \<and> hm_get (callbacks s) (ID rid) = Some (Streamed c)"

lemma other_sink:
  assumes "streams_to rid c s" "hm_get (callbacks s) other = Some sink" "other \<noteq> ID rid"
  shows "sink_channel sink \<noteq> c"
proof
  assume c: "sink_channel sink = c"
  have d: "distinct (map (sink_channel \<circ> snd) (callbacks s))"
    using assms(1) by (simp add: streams_to_def channels_ok_def sinks_def)
  have "(other, sink) = (ID rid, Streamed c)"
    using assms c by (intro inj_onD [of "sink_channel \<circ> snd" "set (callbacks s)"])
      (use d in \<open>auto simp: distinct_map streams_to_def dest: hm_get_mem\<close>)
  then show False using assms(3) by simp
qed


lemma hm_get_remove_other: "k' \<noteq> k \<Longrightarrow> hm_get (hm_remove k m) k' = hm_get m k'"
  by (simp add: hm_get_def hm_remove_def delete_conv')

text \<open>One message of another request leaves the channel and the sink of this one alone.\<close>

lemma received_keeps [simp]:
  "received c (forget rid s) = received c s" "received c (panic s) = received c s"
  "received c (deadlock s) = received c s" "received c (s\<lparr>poisoned := b\<rparr>) = received c s"
  by (simp_all add: received_def forget_def panic_def deadlock_def)

lemma callbacks_keeps [simp]:
  "callbacks (deliver d s) = callbacks s" "callbacks (panic s) = callbacks s"
  "callbacks (deadlock s) = callbacks s" "callbacks (forget rid s) = hm_remove rid (callbacks s)"
  by (simp_all add: deliver_def panic_def deadlock_def forget_def)

lemma collect_res_other:
  assumes "streams_to rid c s" "res_req_id res \<noteq> rid"
  shows "received c (collect_res env res s) = received c s
    \<and> hm_get (callbacks (collect_res env res s)) (ID rid) = Some (Streamed c)"
proof (cases "hm_get (callbacks s) (ID (res_req_id res))")
  case None
  then show ?thesis using assms by (simp add: collect_res_def Let_def streams_to_def)
next
  case (Some sink)
  then have "sink_channel sink \<noteq> c" using other_sink assms by blast
  with Some assms show ?thesis
    by (simp add: collect_res_def Let_def streams_to_def hm_get_remove_other sink_finish_eq sink_error_eq
        split: result.split option.split) (auto simp: sink_send_result_eq)
qed

lemma collect_part_other:
  assumes "streams_to rid c s" "part_req_id part \<noteq> rid"
  shows "received c (collect_res_part env part s) = received c s
    \<and> hm_get (callbacks (collect_res_part env part s)) (ID rid) = Some (Streamed c)"
proof (cases "hm_get (callbacks s) (ID (part_req_id part))")
  case None
  then show ?thesis using assms
    by (simp add: collect_res_part_def collect_query_part_def collect_stream_state_def Let_def streams_to_def
        hm_get_remove_other split: option.split res_part_body.split stream_state.split)
next
  case (Some sink)
  then have sink: "sink_channel sink \<noteq> c" using other_sink assms by blast
  then have "sink_send_result sink r \<noteq> Some (c, b)" "sink_send_continuable sink i \<noteq> Some (c, b)" for r i b
    by (auto simp: sink_send_result_eq sink_send_continuable_eq)
  with Some assms show ?thesis
    by (simp add: collect_res_part_def collect_query_part_def collect_stream_state_def deliver_or_panic_def
        Let_def streams_to_def hm_get_remove_other
        split: result.split option.split res_part_body.split stream_state.split)
qed

lemma collect_other:
  assumes "streams_to rid c s" "message_id m \<noteq> Some rid"
  shows "received c (collect env m s) = received c s \<and> streams_to rid c (collect env m s)"
proof -
  have "received c (collect env m s) = received c s
      \<and> hm_get (callbacks (collect env m s)) (ID rid) = Some (Streamed c)"
  proof (cases m)
    case None
    then show ?thesis using assms by (simp add: collect_def streams_to_def)
  next
    case (Some b)
    then show ?thesis using assms collect_res_other [OF assms(1)] collect_part_other [OF assms(1)]
      by (cases b) (simp_all add: collect_def message_id_def)
  qed
  then show ?thesis using assms(1) channels_ok_collect by (simp add: streams_to_def)
qed

subsection \<open>Messages of the request\<close>

text \<open>A message of the request that only hands \<open>r\<close> to the reader.\<close>

definition hands_over :: "tx_env \<Rightarrow> u8 list \<Rightarrow> channel \<Rightarrow> transaction_server \<Rightarrow> stream_response \<Rightarrow> bool" where
  "hands_over env rid c m r \<longleftrightarrow> (\<forall>s. streams_to rid c s \<longrightarrow> collect env m s = deliver (c, r) s)"

lemma part_hands_over:
  "part_readable env part \<Longrightarrow> hands_over env rid c (answer_message rid part) (part_response env rid part)"
  by (cases part)
    (auto simp: hands_over_def answer_message_def collect_def collect_res_part_def streams_to_def Let_def
      collect_query_part_def collect_stream_state_def deliver_or_panic_def sink_send_result_def
      sink_send_continuable_def part_response_def rows_part_Ok)

lemma header_hands_over:
  "query_type_from_proto t = Ok qt \<Longrightarrow> hands_over env rid c (header_message rid names t)
     (StreamResult (Ok (QueryRes (ConceptRowsHeader
       \<lparr>column_names = names, row_query_type = qt, query_structure = None\<rparr>))))"
  by (simp add: hands_over_def header_message_def collect_def collect_res_def streams_to_def Let_def
      transaction_res_from_proto_def is_query_response_def sink_send_result_def)

lemma listen_all_stuck: "listener s \<noteq> Listening \<Longrightarrow> listen_all env ms s = s"
  by (induction ms) (simp_all add: listen_all_def)

lemma hands_over_collect:
  assumes "streams_to rid c s" "hands_over env rid c m r"
  shows "received c (collect env m s) = received c s @ [r] \<and> streams_to rid c (collect env m s)"
proof -
  have eq: "collect env m s = deliver (c, r) s" using assms by (simp add: hands_over_def)
  have "channels_ok (collect env m s)" using assms(1) channels_ok_collect by (simp add: streams_to_def)
  with assms(1) show ?thesis by (simp add: eq streams_to_def)
qed

lemma listen_all_received:
  assumes "streams_to rid c s" "listener (listen_all env ms s) = Listening"
    "list_all2 (hands_over env rid c) (filter (\<lambda>m. message_id m = Some rid) ms) rs"
  shows "received c (listen_all env ms s) = received c s @ rs"
  using assms
proof (induction ms arbitrary: s rs)
  case Nil
  then show ?case by (simp add: listen_all_def)
next
  case (Cons m ms)
  have up: "listener s = Listening"
    using Cons.prems(2) listen_all_stuck [of s env "m # ms"] by metis
  then have step: "listen_all env (m # ms) s = listen_all env ms (collect env m s)"
    by (simp add: listen_all_def listen_grpc_def)
  show ?case
  proof (cases "message_id m = Some rid")
    case True
    then obtain r rs' where rs: "rs = r # rs'" "hands_over env rid c m r"
      "list_all2 (hands_over env rid c) (filter (\<lambda>m. message_id m = Some rid) ms) rs'"
      using Cons.prems(3) by (auto simp: list_all2_Cons1)
    with hands_over_collect [OF Cons.prems(1)] Cons.IH [of "collect env m s" rs'] Cons.prems(2)
    show ?thesis by (simp add: step)
  next
    case False
    with collect_other [OF Cons.prems(1), of m env] Cons.IH [of "collect env m s" rs] Cons.prems(2,3)
    show ?thesis by (simp add: step)
  qed
qed

subsection \<open>Reading\<close>

lemma process_continue:
  "dispatcher s \<noteq> Stopped \<Longrightarrow>
   process_response (StreamContinue rid) s = (None, s\<lparr>tx_queue := tx_queue s @ [(StreamMore rid, None)]\<rparr>)"
  by (simp add: process_response_def tx_send_def)

fun results_of :: "stream_response list \<Rightarrow> (transaction_response, error) result list" where
  "results_of [] = []"
| "results_of (StreamResult r # rs) = r # results_of rs"
| "results_of (StreamContinue _ # rs) = results_of rs"

fun requests_for_more :: "stream_response list \<Rightarrow> (transaction_request \<times> response_sink option) list" where
  "requests_for_more [] = []"
| "requests_for_more (StreamResult _ # rs) = requests_for_more rs"
| "requests_for_more (StreamContinue rid # rs) = (StreamMore rid, None) # requests_for_more rs"

lemma read_stream_open:
  "dispatcher s \<noteq> Stopped \<Longrightarrow>
   read_stream rs s = (results_of rs, s\<lparr>tx_queue := tx_queue s @ requests_for_more rs\<rparr>)"
proof (induction rs arbitrary: s)
  case (Cons r rs)
  then show ?case by (cases r) (simp_all add: process_continue, simp add: process_response_def)
qed simp

lemma results_of_parts:
  "list_all (part_readable env) parts \<Longrightarrow>
   concat (map (stream_rows dbg h) (map (require_query dbg) (results_of (map (part_response env rid) parts))))
     = map (\<lambda>(row, involved). Ok (concept_row_new h row involved)) (concat (map (part_rows env) parts))"
proof (induction parts)
  case (Cons p ps)
  then show ?case
    by (cases p) (simp_all add: part_response_def part_rows_def rows_part_Ok stream_rows_def
        require_query_def)
qed simp

lemma requests_of_parts:
  "requests_for_more (map (part_response env rid) parts)
     = replicate (count_list parts MorePart) (StreamMore (ID rid), None)"
  by (induction parts) (auto simp: part_response_def split: answer_part.split)

lemma rows_reach_reader:
  assumes "tx_reachable env s" "hm_get (callbacks s) (ID rid) = Some (Streamed c)" "received c s = []"
    and "filter (\<lambda>m. message_id m = Some rid) ms
      = header_message rid names t # map (answer_message rid) parts"
    and "query_type_from_proto t = Ok qt" "list_all (part_readable env) parts"
    and "listener (listen_all env ms s) = Listening" "dispatcher s' \<noteq> Stopped"
  shows "let (items, s'') = read_stream (received c (listen_all env ms s)) s';
      h = \<lparr>column_names = names, row_query_type = qt, query_structure = None\<rparr>
    in answer_of_query dbg (Ok items) = Ok (ConceptRowStream h
        (map (\<lambda>(row, involved). Ok (concept_row_new h row involved)) (concat (map (part_rows env) parts))))
     \<and> tx_queue s'' = tx_queue s' @ replicate (count_list parts MorePart) (StreamMore (ID rid), None)"
proof -
  let ?h = "\<lparr>column_names = names, row_query_type = qt, query_structure = None\<rparr>"
  let ?rs = "StreamResult (Ok (QueryRes (ConceptRowsHeader ?h))) # map (part_response env rid) parts"
  have "streams_to rid c s" using tx_invariant [OF assms(1)] assms(2) by (simp add: streams_to_def)
  moreover have "list_all2 (hands_over env rid c) (filter (\<lambda>m. message_id m = Some rid) ms) ?rs"
    using header_hands_over [OF assms(5)] part_hands_over assms(6)
    by (simp add: assms(4) list_all2_map1 list_all2_map2 list_all_iff list.rel_refl_strong)
  ultimately have "received c (listen_all env ms s) = ?rs"
    using listen_all_received [OF _ assms(7)] assms(3) by simp
  then show ?thesis
    using results_of_parts [OF assms(6)] assms(8)
    by (simp add: read_stream_open requests_of_parts answer_of_query_def query_stream_def require_query_def
        del: read_stream.simps)
qed

section \<open>Properties\<close>


definition sample_reading :: tx_state where
  "sample_reading = dispatch_one sample_env (ID [2])
     (dispatch_top (snd (send_query ''match $x isa t;'' query_options_new None tx_new)))"

lemma sample_reading_reachable: "tx_reachable sample_env sample_reading"
proof -
  let ?s1 = "snd (send_query ''match $x isa t;'' query_options_new None tx_new)"
  have "tx_reachable sample_env ?s1"
    unfolding send_query_def by (rule tx_reachable.Step [OF Init]) (simp add: Stream is_stream_more_def)
  then have "tx_reachable sample_env (dispatch_top ?s1)"
    by (rule tx_reachable.Step)
      (rule DispatchTop, simp add: send_query_def stream_def tx_send_def tx_new_def Let_def)
  then show ?thesis unfolding sample_reading_def
    by (rule tx_reachable.Step) (rule DispatchOne, simp_all add: send_query_def stream_def tx_send_def
        tx_new_def Let_def dispatch_top_def used_ids_def requests_made_def buffer_default_def)
qed

lemma sample_reading_state:
  "hm_get (callbacks sample_reading) (ID [2]) = Some (Streamed 0)" "delivered sample_reading = []"
  "listener sample_reading = Listening" "dispatcher sample_reading = Draining"
  by (simp_all add: sample_reading_def send_query_def stream_def tx_send_def tx_new_def Let_def
      dispatch_top_def dispatch_one_def transaction_request_into_proto_def
      register_def hm_insert_def hm_get_def buffer_request_def bytes_cloned_def
      buffer_default_def buffer_push_def max_grpc_message_len_def sample_env_def)

definition sample_texts :: response_texts where
  "sample_texts = \<lparr>debug_transaction_response = (\<lambda>_. ''response''), debug_query_response = (\<lambda>_. ''response''),
     debug_response = (\<lambda>_. ''response'')\<rparr>"

definition sample_answer :: "answer_part list" where
  "sample_answer = [RowsPart [\<lparr>proto_row = [Some EntryEmpty], involved_blocks = None\<rparr>], MorePart]"



text \<open>
  a commit closes the transaction.  Whatever its outcome is, the transaction is closed once the
  promise is resolved and takes no more requests; the commit succeeded exactly when the server answered
  it as a commit, and a transaction that the server closed meanwhile is reported as closed.
\<close>

theorem commit_closes_transaction:
  assumes "commit_resolved dbg promise s = Some (r, s')"
  shows "\<not> tx_is_open s' \<and> send_query q options rows s' = (Err (tx_current_error s'), s')
    \<and> (r = Ok () \<longleftrightarrow> single_outcome promise s = Some (Ok CommitRes))
    \<and> (single_outcome promise s = Some (Ok CloseRes) \<longrightarrow> r = Err (Connection TransactionIsClosed))
    \<and> (\<forall>e. single_outcome promise s = Some (Err e) \<longrightarrow> r = Err e)"
proof -
  obtain x where x: "single_outcome promise s = Some x" "r = require_commit dbg x" "s' = submit_close s"
    using assms by (auto simp: commit_resolved_def)
  have "\<not> tx_is_open s'" by (simp add: x(3) submit_close_def send_shutdown_def)
  moreover have "require_commit dbg x = Ok () \<longleftrightarrow> x = Ok CommitRes"
    by (auto simp: require_commit_def handle_unexpected_response_def
        split: result.split transaction_response.split)
  ultimately show ?thesis using x
    by (simp add: send_query_def stream_def require_commit_def handle_unexpected_response_def
        transaction_is_closed_def)
qed

theorem commit_closes_transaction_witness:
  "\<exists>s'. commit_resolved sample_texts (Ok 0)
      (sample_committing\<lparr>delivered := [(0, StreamResult (Ok CommitRes))]\<rparr>) = Some (Ok (), s')
    \<and> \<not> tx_is_open s'"
proof -
  let ?s = "sample_committing\<lparr>delivered := [(0, StreamResult (Ok CommitRes))]\<rparr>"
  have o: "single_outcome (Ok 0) ?s = Some (Ok CommitRes)"
    by (simp add: single_outcome_def await_single_def received_def)
  then have "commit_resolved sample_texts (Ok 0) ?s = Some (Ok (), submit_close ?s)"
    by (simp add: commit_resolved_def require_commit_def)
  with commit_closes_transaction [OF this] show ?thesis by blast
qed

end
