(* ===== verification/Rpc_Stub.thy ===== *)
theory Rpc_Stub
  imports Effects Transaction_Streams
begin

text \<open>
  \<open>rust/src/connection/network/stub.rs\<close> and \<open>channel.rs\<close>: the calls of the protocol as the driver makes
  them, with the token of the connection in the header, one renewal of the token when the server rejects
  it, and a deadline for calls with a single response.

  The generated client of the protocol is a parameter (\<open>grpc\<close>), a function per call from the request, the
  authorization header and the state of the network to the reply, the time it took in nanoseconds and the
  new state; \<open>g_elapse\<close> is what happens to the network while the driver sleeps.  A stream of the network library is its number.  \<open>clock\<close> is the time, in nanoseconds.
\<close>

section \<open>The generated client\<close>

type_synonym ('w, 'q, 'a) grpc_method = "'q \<Rightarrow> string option \<Rightarrow> 'w \<Rightarrow> ('a, status) result \<times> nat \<times> 'w"

record 'w grpc =
  g_header_valid :: "string \<Rightarrow> bool"
  g_authentication_token_create :: "('w, token_create_req, string) grpc_method"
  g_connection_open :: "('w, connection_open_req, connection_open_res \<times> string option) grpc_method"
  g_servers_all :: "('w, unit_req, servers_all_res) grpc_method"
  g_servers_get :: "('w, unit_req, servers_get_res) grpc_method"
  g_server_version :: "('w, unit_req, version_proto) grpc_method"
  g_databases_all :: "('w, unit_req, databases_all_res) grpc_method"
  g_databases_get :: "('w, name_req, database_res) grpc_method"
  g_databases_contains :: "('w, name_req, bool) grpc_method"
  g_databases_create :: "('w, name_req, database_res) grpc_method"
  g_databases_import :: "('w, import_req, channel \<times> channel) grpc_method"
  g_database_delete :: "('w, name_req, unit_req) grpc_method"
  g_database_schema :: "('w, name_req, string) grpc_method"
  g_database_type_schema :: "('w, name_req, string) grpc_method"
  g_database_export :: "('w, export_req, channel) grpc_method"
  g_transaction :: "('w, transaction_client, channel \<times> channel) grpc_method"
  g_users_all :: "('w, unit_req, users_all_res) grpc_method"
  g_users_get :: "('w, name_req, users_get_res) grpc_method"
  g_users_contains :: "('w, name_req, bool) grpc_method"
  g_users_create :: "('w, user_create_req, unit_req) grpc_method"
  g_users_update :: "('w, user_update_req, unit_req) grpc_method"
  g_users_delete :: "('w, name_req, unit_req) grpc_method"
  g_next :: "channel \<Rightarrow> 'w \<Rightarrow> (transaction_server, status) result option \<times> nat \<times> 'w"
  g_new_request_id :: "'w \<Rightarrow> request_id \<times> 'w"
  g_elapse :: "nat \<Rightarrow> 'w \<Rightarrow> 'w"

section \<open>Credentials of calls\<close>

record call_credentials =
  call_credentials_of :: credentials
  token :: "string option"

definition call_credentials_new :: "credentials \<Rightarrow> call_credentials" where
  "call_credentials_new c = \<lparr>call_credentials_of = c, token = None\<rparr>"

definition set_token :: "string \<Rightarrow> call_credentials \<Rightarrow> call_credentials" where
  "set_token t c = c\<lparr>token := Some t\<rparr>"

definition reset_token :: "call_credentials \<Rightarrow> call_credentials" where
  "reset_token c = c\<lparr>token := None\<rparr>"

text \<open>The authorization header; a token that is no header value panics.\<close>

definition inject :: "(string \<Rightarrow> bool) \<Rightarrow> call_credentials \<Rightarrow> (string option, error) result" where
  "inject valid c =
     (case token c of
        Some t \<Rightarrow> if valid (''Bearer '' @ t) then Ok (Some (''Bearer '' @ t)) else Panic
      | None \<Rightarrow> Ok None)"

section \<open>The stub\<close>

record 'w stub =
  stub_credentials :: "call_credentials option"
  request_timeout_of :: std_duration
  clock :: nat
  grpc_state :: 'w

definition grpc_max_message_size :: nat where
  "grpc_max_message_size = 1024 * 1024 * 1024"

definition stub_new :: "call_credentials option \<Rightarrow> std_duration \<Rightarrow> nat \<Rightarrow> 'w \<Rightarrow> 'w stub" where
  "stub_new c timeout t w = \<lparr>stub_credentials = c, request_timeout_of = timeout, clock = t, grpc_state = w\<rparr>"

text \<open>
  A call with a deadline: None when the deadline passes first; then the call is dropped and the time is
  that of the deadline.
\<close>

type_synonym ('w, 'a) call = "nat option \<Rightarrow> 'w stub \<Rightarrow> ('a, error) result option \<times> 'w stub"

definition stub_header :: "'w grpc \<Rightarrow> 'w stub \<Rightarrow> (string option, error) result" where
  "stub_header g s =
     (case stub_credentials s of Some c \<Rightarrow> inject (g_header_valid g) c | None \<Rightarrow> Ok None)"

definition passed :: "nat option \<Rightarrow> nat \<Rightarrow> bool" where
  "passed deadline t = (case deadline of Some d \<Rightarrow> d < t | None \<Rightarrow> False)"

definition invoke :: "http_lib \<Rightarrow> 'w grpc \<Rightarrow> ('w, 'q, 'a) grpc_method \<Rightarrow> 'q \<Rightarrow> ('w, 'a) call" where
  "invoke http g method req deadline s =
     (case stub_header g s of
        Ok header \<Rightarrow>
          (let (reply, took, w) = method req header (grpc_state s) in
           if passed deadline (clock s + took)
           then (None, s\<lparr>clock := the deadline, grpc_state := w\<rparr>)
           else (Some (map_err (error_from_status http) reply),
                 s\<lparr>clock := clock s + took, grpc_state := w\<rparr>))
      | _ \<Rightarrow> (Some Panic, s))"

definition update_credentials :: "(call_credentials \<Rightarrow> call_credentials) \<Rightarrow> 'w stub \<Rightarrow> 'w stub" where
  "update_credentials f s = s\<lparr>stub_credentials := map_option f (stub_credentials s)\<rparr>"

definition renew_token :: "http_lib \<Rightarrow> 'w grpc \<Rightarrow> ('w, unit) call" where
  "renew_token http g deadline s =
     (case stub_credentials s of
        None \<Rightarrow> (Some (Ok ()), s)
      | Some c \<Rightarrow>
          (let s1 = update_credentials reset_token s in
           case credentials_into_proto (call_credentials_of c) of
             Ok req \<Rightarrow>
               (case invoke http g (g_authentication_token_create g) req deadline s1 of
                  (Some (Ok t), s2) \<Rightarrow> (Some (Ok ()), update_credentials (set_token t) s2)
                | (Some (Err e), s2) \<Rightarrow> (Some (Err e), s2)
                | (Some Panic, s2) \<Rightarrow> (Some Panic, s2)
                | (None, s2) \<Rightarrow> (None, s2))
           | Err e \<Rightarrow> (Some (Err e), s1)
           | Panic \<Rightarrow> (Some Panic, s1)))"

definition call_with_auto_renew_token :: "http_lib \<Rightarrow> 'w grpc \<Rightarrow> ('w, 'a) call \<Rightarrow> ('w, 'a) call" where
  "call_with_auto_renew_token http g call deadline s =
     (case call deadline s of
        (Some (Err (Connection TokenCredentialInvalid)), s1) \<Rightarrow>
          (case renew_token http g deadline s1 of
             (Some (Ok _), s2) \<Rightarrow> call deadline s2
           | (Some (Err e), s2) \<Rightarrow> (Some (Err e), s2)
           | (Some Panic, s2) \<Rightarrow> (Some Panic, s2)
           | (None, s2) \<Rightarrow> (None, s2))
      | res \<Rightarrow> res)"

text \<open>\<open>tokio::time::timeout\<close> around a call.\<close>

definition with_timeout :: "('w, 'a) call \<Rightarrow> ('w stub, 'a) io" where
  "with_timeout call s =
     (case call (Some (clock s + as_nanos (request_timeout_of s))) s of
        (Some r, s1) \<Rightarrow> (r, s1)
      | (None, s1) \<Rightarrow> (Err (Connection (request_timeout (request_timeout_of s))), s1))"

definition without_timeout :: "('w, 'a) call \<Rightarrow> ('w stub, 'a) io" where
  "without_timeout call s =
     (case call None s of (Some r, s1) \<Rightarrow> (r, s1) | (None, s1) \<Rightarrow> (Panic, s1))"

definition stub_single :: "http_lib \<Rightarrow> 'w grpc \<Rightarrow> ('w, 'q, 'a) grpc_method \<Rightarrow> 'q \<Rightarrow> ('w stub, 'a) io" where
  "stub_single http g method req s =
     with_timeout (call_with_auto_renew_token http g (invoke http g method req)) s"

section \<open>The calls\<close>

definition connection_open :: "http_lib \<Rightarrow> 'w grpc \<Rightarrow> connection_open_req \<Rightarrow> ('w stub, connection_open_res) io" where
  "connection_open http g req s =
     io_then (stub_single http g (g_connection_open g) req s) (\<lambda>(res, authentication) s1.
       if stub_credentials s1 = None then (Ok res, s1)
       else case authentication of
         Some t \<Rightarrow> (Ok res, update_credentials (set_token t) s1)
       | None \<Rightarrow> (Panic, s1))"

definition servers_all :: "http_lib \<Rightarrow> 'w grpc \<Rightarrow> unit_req \<Rightarrow> ('w stub, servers_all_res) io" where
  "servers_all http g = stub_single http g (g_servers_all g)"

definition servers_get :: "http_lib \<Rightarrow> 'w grpc \<Rightarrow> unit_req \<Rightarrow> ('w stub, servers_get_res) io" where
  "servers_get http g = stub_single http g (g_servers_get g)"

definition server_version_call :: "http_lib \<Rightarrow> 'w grpc \<Rightarrow> unit_req \<Rightarrow> ('w stub, version_proto) io" where
  "server_version_call http g = stub_single http g (g_server_version g)"

definition databases_all :: "http_lib \<Rightarrow> 'w grpc \<Rightarrow> unit_req \<Rightarrow> ('w stub, databases_all_res) io" where
  "databases_all http g = stub_single http g (g_databases_all g)"

definition databases_get :: "http_lib \<Rightarrow> 'w grpc \<Rightarrow> name_req \<Rightarrow> ('w stub, database_res) io" where
  "databases_get http g = stub_single http g (g_databases_get g)"

definition databases_contains :: "http_lib \<Rightarrow> 'w grpc \<Rightarrow> name_req \<Rightarrow> ('w stub, bool) io" where
  "databases_contains http g = stub_single http g (g_databases_contains g)"

definition databases_create :: "http_lib \<Rightarrow> 'w grpc \<Rightarrow> name_req \<Rightarrow> ('w stub, database_res) io" where
  "databases_create http g = stub_single http g (g_databases_create g)"

definition databases_import ::
    "http_lib \<Rightarrow> 'w grpc \<Rightarrow> import_client_msg \<Rightarrow> ('w stub, channel \<times> channel) io" where
  "databases_import http g client s =
     without_timeout (call_with_auto_renew_token http g
       (invoke http g (g_databases_import g) (ImportReq (Some client)))) s"

definition database_delete :: "http_lib \<Rightarrow> 'w grpc \<Rightarrow> name_req \<Rightarrow> ('w stub, unit_req) io" where
  "database_delete http g = stub_single http g (g_database_delete g)"

definition database_schema_call :: "http_lib \<Rightarrow> 'w grpc \<Rightarrow> name_req \<Rightarrow> ('w stub, string) io" where
  "database_schema_call http g = stub_single http g (g_database_schema g)"

definition database_type_schema_call :: "http_lib \<Rightarrow> 'w grpc \<Rightarrow> name_req \<Rightarrow> ('w stub, string) io" where
  "database_type_schema_call http g = stub_single http g (g_database_type_schema g)"

definition database_export_call :: "http_lib \<Rightarrow> 'w grpc \<Rightarrow> export_req \<Rightarrow> ('w stub, channel) io" where
  "database_export_call http g req s =
     without_timeout (call_with_auto_renew_token http g (invoke http g (g_database_export g) req)) s"

text \<open>A transaction is opened under the deadline of its caller.\<close>

definition transaction_call :: "http_lib \<Rightarrow> 'w grpc \<Rightarrow> transaction_req \<Rightarrow> ('w, channel \<times> channel) call" where
  "transaction_call http g open_req =
     call_with_auto_renew_token http g (invoke http g (g_transaction g) [open_req])"

definition users_all :: "http_lib \<Rightarrow> 'w grpc \<Rightarrow> unit_req \<Rightarrow> ('w stub, users_all_res) io" where
  "users_all http g = stub_single http g (g_users_all g)"

definition users_get :: "http_lib \<Rightarrow> 'w grpc \<Rightarrow> name_req \<Rightarrow> ('w stub, users_get_res) io" where
  "users_get http g = stub_single http g (g_users_get g)"

definition users_contains :: "http_lib \<Rightarrow> 'w grpc \<Rightarrow> name_req \<Rightarrow> ('w stub, bool) io" where
  "users_contains http g = stub_single http g (g_users_contains g)"

definition users_create :: "http_lib \<Rightarrow> 'w grpc \<Rightarrow> user_create_req \<Rightarrow> ('w stub, unit_req) io" where
  "users_create http g = stub_single http g (g_users_create g)"

definition users_update :: "http_lib \<Rightarrow> 'w grpc \<Rightarrow> user_update_req \<Rightarrow> ('w stub, unit_req) io" where
  "users_update http g = stub_single http g (g_users_update g)"

definition users_delete :: "http_lib \<Rightarrow> 'w grpc \<Rightarrow> name_req \<Rightarrow> ('w stub, unit_req) io" where
  "users_delete http g = stub_single http g (g_users_delete g)"

end
