(* ===== verification/Rpc_Transmitter.thy ===== *)
theory Rpc_Transmitter
  imports Rpc_Stub
begin

text \<open>
  \<open>rust/src/connection/network/transmitter/rpc.rs\<close>: every request of the driver becomes the call of the
  protocol that belongs to it, and the reply becomes a response.  Requests are carried out by tasks of the
  runtime; each is one step here, since a task shares nothing with the others but the token.
\<close>

record rpc_env =
  rpc_http :: http_lib
  rpc_proto :: proto_lib
  rpc_chrono :: chrono_lib
  rpc_enums :: enum_lib
  rpc_overflow_checks :: bool
  rpc_texts :: response_texts
  rpc_server_text :: "transaction_server \<Rightarrow> string"

definition unexpected_response :: "string \<Rightarrow> error" where
  "unexpected_response t = Connection (UnexpectedResponse t)"

text \<open>The first message of a new transaction.\<close>

definition opened ::
    "rpc_env \<Rightarrow> request_id \<Rightarrow> channel \<Rightarrow> channel \<Rightarrow> (transaction_server, status) result option
     \<Rightarrow> (response, error) result" where
  "opened env open_id sink source item =
     (case item of
        Some (Ok (Some (ServerRes res))) \<Rightarrow>
          (case transaction_res_from_proto (rpc_overflow_checks env) (rpc_chrono env) (rpc_enums env) res of
             Ok (OpenRes millis) \<Rightarrow> Ok (TransactionStreamRes open_id sink source millis)
           | Err e \<Rightarrow> Err e
           | Ok other \<Rightarrow> Err (unexpected_response (debug_transaction_response (rpc_texts env) other))
           | Panic \<Rightarrow> Panic)
      | Some (Ok other) \<Rightarrow> Err (unexpected_response (rpc_server_text env other))
      | Some (Err st) \<Rightarrow> Err (error_from_status (rpc_http env) st)
      | Some Panic \<Rightarrow> Panic
      | None \<Rightarrow> Err (Connection UnexpectedConnectionClose))"

definition open_transaction_rpc :: "rpc_env \<Rightarrow> 'w grpc \<Rightarrow> transaction_request \<Rightarrow> ('w, response) call" where
  "open_transaction_rpc env g transaction_req deadline s =
     (let (fresh, w) = g_new_request_id g (grpc_state s); s0 = s\<lparr>grpc_state := w\<rparr> in
      case transaction_request_into_proto (rpc_proto env) (rpc_chrono env) fresh transaction_req of
        Ok req \<Rightarrow>
          (case transaction_call (rpc_http env) g req deadline s0 of
             (Some (Ok (sink, source)), s1) \<Rightarrow>
               (let (item, took, w) = g_next g source (grpc_state s1) in
                if passed deadline (clock s1 + took)
                then (None, s1\<lparr>clock := the deadline, grpc_state := w\<rparr>)
                else (Some (opened env (ID (req_id req)) sink source item),
                      s1\<lparr>clock := clock s1 + took, grpc_state := w\<rparr>))
           | (Some (Err e), s1) \<Rightarrow> (Some (Err e), s1)
           | (Some Panic, s1) \<Rightarrow> (Some Panic, s1)
           | (None, s1) \<Rightarrow> (None, s1))
      | Err e \<Rightarrow> (Some (Err e), s0)
      | Panic \<Rightarrow> (Some Panic, s0))"

text \<open>A request whose message is built first: \<open>rpc.call(request.try_into_proto()?)\<close>.\<close>

definition call_with :: "('q, error) result \<Rightarrow> ('q \<Rightarrow> ('s, 'a) io) \<Rightarrow> ('s, 'a) io" where
  "call_with message call s = io_then (message, s) call"

definition send_request :: "rpc_env \<Rightarrow> 'w grpc \<Rightarrow> request \<Rightarrow> ('w stub, response) io" where
  "send_request env g request s =
     (let p = rpc_proto env; http = rpc_http env in
      case request of
        ConnectionOpen _ _ _ \<Rightarrow>
          io_and_then (call_with (connection_open_into_proto p request) (connection_open http g) s)
            (connection_open_from_proto p http)
      | ServersAll \<Rightarrow>
          io_and_then (call_with (servers_all_into_proto p request) (servers_all http g) s)
            (servers_all_from_proto http)
      | ServersGet \<Rightarrow>
          io_and_then (call_with (servers_get_into_proto p request) (servers_get http g) s)
            (servers_get_from_proto http)
      | ServerVersion \<Rightarrow>
          io_and_then (call_with (server_version_into_proto p request) (server_version_call http g) s)
            version_response_from_proto
      | DatabasesAll \<Rightarrow>
          io_and_then (call_with (databases_all_into_proto p request) (databases_all http g) s)
            databases_all_from_proto
      | DatabaseGet _ \<Rightarrow>
          io_and_then (call_with (database_get_into_proto p request) (databases_get http g) s)
            database_get_from_proto
      | DatabasesContains _ \<Rightarrow>
          io_map databases_contains_from_proto
            (call_with (databases_contains_into_proto p request) (databases_contains http g) s)
      | DatabaseCreate _ \<Rightarrow>
          io_and_then (call_with (database_create_into_proto p request) (databases_create http g) s)
            database_create_from_proto
      | DatabaseImport import_request \<Rightarrow>
          io_map (\<lambda>(sink, source). DatabaseImportRes sink source)
            (databases_import http g (import_request_into_proto import_request) s)
      | DatabaseDelete _ \<Rightarrow>
          io_map database_delete_from_proto
            (call_with (database_delete_into_proto p request) (database_delete http g) s)
      | DatabaseSchema _ \<Rightarrow>
          io_map database_schema_from_proto
            (call_with (database_schema_into_proto p request) (database_schema_call http g) s)
      | DatabaseTypeSchema _ \<Rightarrow>
          io_map database_type_schema_from_proto
            (call_with (database_type_schema_into_proto p request) (database_type_schema_call http g) s)
      | DatabaseExport _ \<Rightarrow>
          io_map DatabaseExportStreamRes
            (call_with (database_export_into_proto p request) (database_export_call http g) s)
      | Transaction transaction_request \<Rightarrow> with_timeout (open_transaction_rpc env g transaction_request) s
      | UsersAll \<Rightarrow>
          io_map users_all_from_proto (call_with (users_all_into_proto p request) (users_all http g) s)
      | UsersContains _ \<Rightarrow>
          io_map users_contains_from_proto
            (call_with (users_contains_into_proto p request) (users_contains http g) s)
      | UsersCreate _ \<Rightarrow>
          io_map users_create_from_proto
            (call_with (users_create_into_proto p request) (users_create http g) s)
      | UsersUpdate _ _ \<Rightarrow>
          io_map users_update_from_proto
            (call_with (users_update_into_proto p request) (users_update http g) s)
      | UsersDelete _ \<Rightarrow>
          io_map users_delete_from_proto
            (call_with (users_delete_into_proto p request) (users_delete http g) s)
      | UsersGet _ \<Rightarrow>
          io_map users_get_from_proto (call_with (users_get_into_proto p request) (users_get http g) s))"

section \<open>Deadlines and tokens\<close>

text \<open>A call that starts before its deadline \<open>d\<close> ends by it, and time does not run backwards.\<close>

definition timely :: "nat \<Rightarrow> 'w stub \<Rightarrow> 'w stub \<Rightarrow> bool" where
  "timely d s s' \<longleftrightarrow> request_timeout_of s' = request_timeout_of s
     \<and> (clock s \<le> d \<longrightarrow> clock s \<le> clock s' \<and> clock s' \<le> d)"

lemma timely_refl: "timely d s s"
  by (simp add: timely_def)

lemma timely_trans: "timely d s s1 \<Longrightarrow> timely d s1 s2 \<Longrightarrow> timely d s s2"
  by (auto simp: timely_def)

lemma timely_cong:
  "timely d s s1 \<Longrightarrow> request_timeout_of s2 = request_timeout_of s1 \<Longrightarrow> clock s2 = clock s1 \<Longrightarrow> timely d s s2"
  by (simp add: timely_def)

lemma update_credentials_keeps [simp]:
  "clock (update_credentials f s) = clock s" "request_timeout_of (update_credentials f s) = request_timeout_of s"
  "grpc_state (update_credentials f s) = grpc_state s"
  "stub_credentials (update_credentials f s) = map_option f (stub_credentials s)"
  by (simp_all add: update_credentials_def)

lemma invoke_timely: "timely d s (snd (invoke http g method req (Some d) s))"
  by (auto simp: invoke_def timely_def passed_def Let_def split: result.split prod.split)

lemma renew_token_timely: "timely d s (snd (renew_token http g (Some d) s))"
proof (cases "stub_credentials s")
  case (Some c)
  let ?s1 = "update_credentials reset_token s"
  show ?thesis
  proof (cases "credentials_into_proto (call_credentials_of c)")
    case (Ok req)
    obtain r s2 where r: "invoke http g (g_authentication_token_create g) req (Some d) ?s1 = (r, s2)" by fastforce
    then have "timely d ?s1 s2" using invoke_timely [of d ?s1 http g "g_authentication_token_create g" req] by simp
    then have "timely d s s2" by (simp add: timely_def)
    moreover then have "timely d s (update_credentials f s2)" for f by (rule timely_cong) simp_all
    ultimately show ?thesis using Some Ok r
      by (auto simp: renew_token_def Let_def split: option.split result.split)
  qed (use Some in \<open>simp_all add: renew_token_def timely_def\<close>)
qed (simp add: renew_token_def timely_refl)

lemma auto_renew_timely:
  assumes "\<And>s. timely d s (snd (call (Some d) s))"
  shows "timely d s (snd (call_with_auto_renew_token http g call (Some d) s))"
proof -
  obtain r s1 where call: "call (Some d) s = (r, s1)" by fastforce
  obtain t s2 where renew: "renew_token http g (Some d) s1 = (t, s2)" by fastforce
  have 1: "timely d s s1" using assms [of s] call by simp
  have 2: "timely d s s2" using timely_trans [OF 1] renew_token_timely [of d s1 http g] renew by simp
  have 3: "timely d s (snd (call (Some d) s2))" by (rule timely_trans [OF 2 assms])
  show ?thesis
    using 1 2 3 call renew
    by (auto simp: call_with_auto_renew_token_def
        split: option.split result.split error.split connection_error.split unit.split)
qed

definition in_time :: "'w stub \<Rightarrow> 'w stub \<Rightarrow> bool" where
  "in_time s s' \<longleftrightarrow> clock s \<le> clock s' \<and> clock s' \<le> clock s + as_nanos (request_timeout_of s)"

lemma with_timeout_in_time:
  assumes "\<And>d s. timely d s (snd (call (Some d) s))"
  shows "in_time s (snd (with_timeout call s))"
  using assms [of "clock s + as_nanos (request_timeout_of s)" s]
  by (auto simp: with_timeout_def in_time_def timely_def split: option.splits prod.splits)

lemma stub_single_in_time: "in_time s (snd (stub_single http g method req s))"
  unfolding stub_single_def by (rule with_timeout_in_time, rule auto_renew_timely, rule invoke_timely)

lemma in_time_refl: "in_time s s"
  by (simp add: in_time_def)

lemma connection_open_in_time: "in_time s (snd (connection_open http g req s))"
  unfolding connection_open_def
proof (rule io_then_keeps [of in_time])
  show "in_time s (snd (stub_single http g (g_connection_open g) req s))" by (rule stub_single_in_time)
qed (auto simp: in_time_def split: option.split)

lemma call_with_in_time: "(\<And>req. in_time s (snd (call req s))) \<Longrightarrow> in_time s (snd (call_with message call s))"
  by (cases message) (simp_all add: call_with_def in_time_refl)

lemma open_transaction_timely: "timely d s (snd (open_transaction_rpc env g treq (Some d) s))"
proof -
  obtain fresh w where w: "g_new_request_id g (grpc_state s) = (fresh, w)" by fastforce
  let ?s0 = "s\<lparr>grpc_state := w\<rparr>"
  have s0: "timely d s ?s0" by (simp add: timely_def)
  show ?thesis
  proof (cases "transaction_request_into_proto (rpc_proto env) (rpc_chrono env) fresh treq")
    case (Ok req)
    obtain r s1 where r: "transaction_call (rpc_http env) g req (Some d) ?s0 = (r, s1)" by fastforce
    have "timely d ?s0 s1"
      using auto_renew_timely [of d "invoke (rpc_http env) g (g_transaction g) [req]" ?s0 "rpc_http env" g]
        invoke_timely r unfolding transaction_call_def by (metis snd_conv)
    then have 1: "timely d s s1" by (rule timely_trans [OF s0])
    then have "timely d s (s1\<lparr>clock := clock s1 + took, grpc_state := w'\<rparr>)" if "\<not> d < clock s1 + took" for took w'
      using that by (auto simp: timely_def)
    with 1 w Ok r show ?thesis
      by (auto simp: open_transaction_rpc_def Let_def passed_def timely_def
          split: option.splits result.splits prod.splits)
  qed (use w s0 in \<open>simp_all add: open_transaction_rpc_def\<close>)
qed

lemmas stub_calls = servers_all_def servers_get_def server_version_call_def databases_all_def
  databases_get_def databases_contains_def databases_create_def database_delete_def database_schema_call_def
  database_type_schema_call_def users_all_def users_get_def users_contains_def users_create_def
  users_update_def users_delete_def

section \<open>Properties\<close>

text \<open>
  C25: requests with a single response end in time.  Apart from an import and an export, which wait for
  their server without limit, a request ends at the latest when the configured timeout has passed, the
  renewal of a token and the repeated call included; the first message of a new transaction counts as well.
\<close>

theorem request_ends_in_time:
  "(\<exists>r. request = DatabaseImport r) \<or> (\<exists>n. request = DatabaseExport n)
   \<or> (clock s \<le> clock (snd (send_request env g request s))
      \<and> clock (snd (send_request env g request s)) \<le> clock s + as_nanos (request_timeout_of s))"
proof -
  have "in_time s (snd (send_request env g request s))"
    if "\<nexists>r. request = DatabaseImport r" "\<nexists>n. request = DatabaseExport n"
    using that
    by (cases request)
      (simp_all add: send_request_def Let_def io_and_then_def io_map_def stub_calls call_with_in_time
        stub_single_in_time connection_open_in_time with_timeout_in_time open_transaction_timely)
  then show ?thesis by (auto simp: in_time_def)
qed


text \<open>
  C11: a rejected token is renewed once.  When the server rejects the token of a call, the driver asks
  for a new token with the user's credentials and without the rejected token, then makes the same call
  again with the new token and returns its outcome, also when that is another rejection.  Any other outcome
  of the first call is returned as it is.
\<close>

theorem rejected_token_renewed_once:
  assumes "invoke http g method req d s = (r, s1)" "stub_credentials s1 = Some c"
    and "g_authentication_token_create g (TokenCreateReq (username (call_credentials_of c))
        (password (call_credentials_of c))) None (grpc_state s1) = (Ok t, took, w)"
    and "\<not> passed d (clock s1 + took)"
  shows "call_with_auto_renew_token http g (invoke http g method req) d s =
    (if r = Some (Err (Connection TokenCredentialInvalid))
     then invoke http g method req d (s1\<lparr>stub_credentials := Some (c\<lparr>token := Some t\<rparr>),
            clock := clock s1 + took, grpc_state := w\<rparr>)
     else (r, s1))"
proof (cases "r = Some (Err (Connection TokenCredentialInvalid))")
  case True
  have "renew_token http g d s1 = (Some (Ok ()), s1\<lparr>stub_credentials := Some (c\<lparr>token := Some t\<rparr>),
      clock := clock s1 + took, grpc_state := w\<rparr>)"
    using assms(2-4)
    by (simp add: renew_token_def credentials_into_proto_def invoke_def stub_header_def inject_def
        update_credentials_def reset_token_def set_token_def)
  with True assms(1) show ?thesis by (simp add: call_with_auto_renew_token_def)
next
  case False
  with assms(1) show ?thesis
    by (simp add: call_with_auto_renew_token_def split: option.split result.split error.split connection_error.split)
qed

text \<open>A server that accepts the token \<open>t2\<close> only and gives it out; its state counts the calls.\<close>

definition rejecting_status :: status where
  "rejecting_status = \<lparr>status_code = Unauthenticated, status_message = [], status_sources = [],
     status_details = Some \<lparr>bad_request = None,
       details_error_info = Some \<lparr>info_reason = ''AUT2'', info_domain = [], info_metadata = []\<rparr>,
       debug_info = None\<rparr>\<rparr>"

definition guarded :: "'a \<Rightarrow> (nat, 'q, 'a) grpc_method" where
  "guarded reply req header w =
     (if header = Some ''Bearer t2'' then Ok reply else Err rejecting_status, 5, Suc w)"

definition issuing :: "(nat, token_create_req, string) grpc_method" where
  "issuing req header w = (Ok ''t2'', 7, Suc w)"

theorem rejected_token_renewed_once_witness:
  "\<forall>http timeout. \<exists>g s'. call_with_auto_renew_token http g (invoke http g (guarded True) (NameReq ''db'')) None
      (stub_new (Some \<lparr>call_credentials_of = credentials_new ''u'' ''p'', token = Some ''t1''\<rparr>) timeout 0 0)
      = (Some (Ok True), s') \<and> token (the (stub_credentials s')) = Some ''t2'' \<and> grpc_state s' = (3 :: nat)"
proof (intro allI)
  fix http timeout
  define g :: "nat grpc" where "g = (undefined :: nat grpc)\<lparr>g_header_valid := \<lambda>_. True,
    g_authentication_token_create := issuing\<rparr>"
  define c where "c = \<lparr>call_credentials_of = credentials_new ''u'' ''p'', token = Some ''t1''\<rparr>"
  let ?s = "stub_new (Some c) timeout 0 (0 :: nat)"
  let ?s1 = "?s\<lparr>clock := 5, grpc_state := 1\<rparr>"
  have rejected: "error_from_status http rejecting_status = Connection TokenCredentialInvalid"
    by (simp add: error_from_status_def rejecting_status_def concat_source_messages_def
        try_extracting_connection_error_message_def is_rst_stream_def is_tcp_connect_error_def
        is_connection_error_def is_reading_body_from_connection_error_def starts_with_def
        try_extracting_connection_error_from_info_def)
  have first: "invoke http g (guarded True) (NameReq ''db'') None ?s
      = (Some (Err (Connection TokenCredentialInvalid)), ?s1)"
    by (simp add: invoke_def stub_header_def stub_new_def c_def inject_def g_def guarded_def passed_def rejected)
  have "call_with_auto_renew_token http g (invoke http g (guarded True) (NameReq ''db'')) None ?s
      = invoke http g (guarded True) (NameReq ''db'') None
          (?s1\<lparr>stub_credentials := Some (c\<lparr>token := Some ''t2''\<rparr>), clock := 12, grpc_state := 2\<rparr>)"
    using rejected_token_renewed_once [OF first, of c "''t2''" 7 2]
    by (simp add: stub_new_def g_def issuing_def passed_def)
  then show "\<exists>g s'. call_with_auto_renew_token http g (invoke http g (guarded True) (NameReq ''db'')) None
      (stub_new (Some \<lparr>call_credentials_of = credentials_new ''u'' ''p'', token = Some ''t1''\<rparr>) timeout 0 0)
      = (Some (Ok True), s') \<and> token (the (stub_credentials s')) = Some ''t2'' \<and> grpc_state s' = (3 :: nat)"
    unfolding c_def [symmetric]
    by (intro exI [of _ g])
      (simp add: invoke_def stub_header_def inject_def g_def guarded_def passed_def)
qed

end
