(* ===== verification/Driver_Options.thy ===== *)
theory Driver_Options
  imports Addresses
begin

text \<open>
  \<open>rust/src/connection/driver_options.rs\<close> and \<open>driver_tls_config.rs\<close>, and the choice of scheme for a
  channel in \<open>network/channel.rs\<close>.  The TLS configuration of the network library is represented by where
  its trust roots come from; reading a certificate file and the library's check of a configuration are
  parameters.
\<close>

section \<open>TLS\<close>

datatype network_tls_config = NativeRoots | CaCertificate string

record driver_tls_config =
  network_config :: "network_tls_config option"
  root_ca_path :: "string option"

definition tls_disabled :: driver_tls_config where
  "tls_disabled = \<lparr>network_config = None, root_ca_path = None\<rparr>"

definition enabled_with_native_root_ca :: driver_tls_config where
  "enabled_with_native_root_ca = \<lparr>network_config = Some NativeRoots, root_ca_path = None\<rparr>"

text \<open>\<open>read_file\<close> is \<open>fs::read_to_string\<close> with the text of its error.\<close>

definition enabled_with_root_ca ::
    "(string \<Rightarrow> (string, string) result) \<Rightarrow> string \<Rightarrow> (driver_tls_config, error) result" where
  "enabled_with_root_ca read_file path =
     map_ok (\<lambda>pem. \<lparr>network_config = Some (CaCertificate pem), root_ca_path = Some path\<rparr>)
       (map_err Other (read_file path))"

definition tls_is_enabled :: "driver_tls_config \<Rightarrow> bool" where
  "tls_is_enabled c \<longleftrightarrow> network_config c \<noteq> None"

definition tls_default :: driver_tls_config where
  "tls_default = enabled_with_native_root_ca"

section \<open>Options\<close>

record driver_options =
  tls_config :: driver_tls_config
  options_timeout :: std_duration
  options_retries :: nat

definition default_request_timeout :: std_duration where
  "default_request_timeout = \<lparr>as_secs = 2 * 60 * 60, subsec_nanos = 0\<rparr>"

definition default_primary_failover_retries :: nat where
  "default_primary_failover_retries = 1"

definition driver_options_default :: driver_options where
  "driver_options_default = \<lparr>tls_config = tls_default, options_timeout = default_request_timeout,
     options_retries = default_primary_failover_retries\<rparr>"

definition driver_options_new :: "driver_tls_config \<Rightarrow> driver_options" where
  "driver_options_new c = driver_options_default\<lparr>tls_config := c\<rparr>"

definition set_tls_config :: "driver_options \<Rightarrow> driver_tls_config \<Rightarrow> driver_options" where
  "set_tls_config o' c = o'\<lparr>tls_config := c\<rparr>"

definition set_request_timeout :: "driver_options \<Rightarrow> std_duration \<Rightarrow> driver_options" where
  "set_request_timeout o' t = o'\<lparr>options_timeout := t\<rparr>"

definition set_primary_failover_retries :: "driver_options \<Rightarrow> nat \<Rightarrow> driver_options" where
  "set_primary_failover_retries o' n = o'\<lparr>options_retries := n\<rparr>"

section \<open>Opening a channel\<close>

text \<open>
  \<open>open_callcred_channel\<close>, up to the credentials: the address of the channel.  \<open>tls_rejects\<close> gives the
  text of the error when the library rejects a configuration.
\<close>

definition channel_to ::
    "http_lib \<Rightarrow> (network_tls_config \<Rightarrow> string option) \<Rightarrow> address \<Rightarrow> string \<Rightarrow> driver_options \<Rightarrow> (address, error) result" where
  "channel_to http tls_rejects a connection_scheme options =
     and_then (with_scheme http a connection_scheme) (\<lambda>target.
       case network_config (tls_config options) of
         Some c \<Rightarrow> (case tls_rejects c of Some e \<Rightarrow> Err (Other e) | None \<Rightarrow> Ok target)
       | None \<Rightarrow> Ok target)"

definition open_channel ::
    "http_lib \<Rightarrow> (network_tls_config \<Rightarrow> string option) \<Rightarrow> address \<Rightarrow> driver_options \<Rightarrow> (address, error) result" where
  "open_channel http tls_rejects a options =
     (let enabled = tls_is_enabled (tls_config options);
          connection_scheme = (if enabled then ''https'' else ''http'')
      in case uri_scheme a of
           Some s \<Rightarrow>
             if s \<noteq> connection_scheme then Err (Connection (SchemeTlsSettingsMismatch s enabled))
             else channel_to http tls_rejects a connection_scheme options
         | None \<Rightarrow> channel_to http tls_rejects a connection_scheme options)"

end
