(* ===== verification/Server_Connections.thy ===== *)
theory Server_Connections
  imports Rpc_Transmitter Driver_Options
begin

text \<open>
  \<open>rust/src/connection/server/server_connection.rs\<close> and \<open>runtime.rs\<close>: a connection to one server, its
  requests with the response each of them expects, the tracking of the latency, and the runtime that the
  connections share.  Connections are shared by reference in the code: a connection is the index of its
  state in the list of all connections.
\<close>

section \<open>State\<close>

record connection =
  connection_address :: address
  connection_user :: string
  connection_uuid :: uuid
  connection_credentials :: call_credentials
  connection_timeout :: std_duration
  rpc_running :: bool
  shutdown_senders :: "channel list"
  latency_millis :: u64

text \<open>
  The runtime is open until it is closed or dropped; its worker takes the shutdown signal and ends.
  \<open>shut_down\<close> logs the transmitters that were told to shut down.
\<close>

record 'w driver_world =
  runtime_open :: bool
  worker_alive :: bool
  connections :: "connection list"
  world_clock :: nat
  world_grpc :: 'w
  shut_down :: "channel list"

record driver_params =
  params_env :: rpc_env
  params_tls_rejects :: "network_tls_config \<Rightarrow> string option"
  params_options :: driver_options
  params_credentials :: credentials
  params_lang :: string
  params_version :: string

section \<open>The runtime\<close>

definition runtime_is_open :: "'w driver_world \<Rightarrow> bool" where
  "runtime_is_open w = runtime_open w"

definition runtime_force_close :: "('w driver_world, unit) io" where
  "runtime_force_close w =
     (if worker_alive w then (Ok (), w\<lparr>runtime_open := False, worker_alive := False\<rparr>)
      else (Err (Internal SendError), w\<lparr>runtime_open := False\<rparr>))"

text \<open>\<open>run_blocking\<close> unwraps the answer of the task, which never comes when the worker has ended.\<close>

definition run_blocking :: "('w driver_world, 'a) io \<Rightarrow> ('w driver_world, 'a) io" where
  "run_blocking f w = (if worker_alive w then f w else (Panic, w))"

section \<open>Latency\<close>

definition latency_of :: "std_duration \<Rightarrow> u64" where
  "latency_of d = of_nat (as_millis d)"

definition update_latency :: "bool \<Rightarrow> u64 \<Rightarrow> u64 \<Rightarrow> (u64, error) result" where
  "update_latency oc latency previous = map_ok (\<lambda>total. total div 2) (uadd oc latency previous)"

definition duration_from_millis :: "u64 \<Rightarrow> std_duration" where
  "duration_from_millis m = \<lparr>as_secs = unat m div 1000, subsec_nanos = unat m mod 1000 * 1000000\<rparr>"

definition duration_from_nanos :: "nat \<Rightarrow> std_duration" where
  "duration_from_nanos n = \<lparr>as_secs = n div 1000000000, subsec_nanos = n mod 1000000000\<rparr>"

text \<open>The time since the request, less the time the server reports for itself, not below zero.\<close>

definition network_latency :: "nat \<Rightarrow> nat \<Rightarrow> u64 \<Rightarrow> std_duration" where
  "network_latency start now server_millis =
     duration_from_nanos ((now - start) - as_nanos (duration_from_millis server_millis))"

section \<open>Requests\<close>

definition stub_of :: "connection \<Rightarrow> 'w driver_world \<Rightarrow> 'w stub" where
  "stub_of c w = stub_new (Some (connection_credentials c)) (connection_timeout c) (world_clock w) (world_grpc w)"

text \<open>The state after a call: the token of the connection, the time and the network.\<close>

definition after_call :: "nat \<Rightarrow> 'w stub \<Rightarrow> 'w driver_world \<Rightarrow> 'w driver_world" where
  "after_call h s w =
     w\<lparr>connections := (connections w)[h := (connections w ! h)\<lparr>connection_credentials := the (stub_credentials s)\<rparr>],
       world_clock := clock s, world_grpc := grpc_state s\<rparr>"

text \<open>
  A request through the transmitter.  The dispatcher takes no request after it was shut down; a task that
  panics drops the sender of its response.
\<close>

definition rpc_request :: "driver_params \<Rightarrow> 'w grpc \<Rightarrow> nat \<Rightarrow> request \<Rightarrow> ('w driver_world, response) io" where
  "rpc_request p g h req w =
     (if rpc_running (connections w ! h)
      then (let (r, s) = send_request (params_env p) g req (stub_of (connections w ! h) w)
            in (if r = Panic then Err (Internal RecvError) else r, after_call h s w))
      else (Err (Internal SendError), w))"

definition connection_request :: "driver_params \<Rightarrow> 'w grpc \<Rightarrow> nat \<Rightarrow> request \<Rightarrow> ('w driver_world, response) io" where
  "connection_request p g h req w =
     (if \<not> runtime_is_open w then (Err (Connection ServerConnectionIsClosed), w)
      else rpc_request p g h req w)"

definition unexpected :: "driver_params \<Rightarrow> response \<Rightarrow> ('a, error) result" where
  "unexpected p other = Err (unexpected_type (debug_response (rpc_texts (params_env p)) other))"

text \<open>The response of the expected kind, or \<open>UnexpectedResponseType\<close>.\<close>

definition expecting ::
    "driver_params \<Rightarrow> 'w grpc \<Rightarrow> nat \<Rightarrow> request \<Rightarrow> (response \<Rightarrow> 'a option) \<Rightarrow> ('w driver_world, 'a) io" where
  "expecting p g h req select w =
     io_and_then (connection_request p g h req w) (\<lambda>r.
       case select r of Some a \<Rightarrow> Ok a | None \<Rightarrow> unexpected p r)"

section \<open>Opening a connection\<close>

definition open_connection ::
    "driver_params \<Rightarrow> 'w grpc \<Rightarrow> nat \<Rightarrow> ('w driver_world, uuid \<times> std_duration \<times> server list) io" where
  "open_connection p g h w =
     (let start = world_clock w in
      io_then (rpc_request p g h
          (ConnectionOpen (params_lang p) (params_version p) (params_credentials p)) w) (\<lambda>r w1.
        (case r of
           ConnectionOpenRes u millis servers \<Rightarrow> Ok (u, network_latency start (world_clock w1) millis, servers)
         | other \<Rightarrow> Err (unexpected_response (debug_response (rpc_texts (params_env p)) other)), w1)))"

text \<open>
  \<open>ServerConnection::new\<close>: the transmitter is started on the worker of the runtime, the connection is
  opened, and the latency of that request starts the tracker.  A connection that could not be opened is
  dropped; its place in the list stays unused.
\<close>

definition start_transmitter :: "driver_params \<Rightarrow> address \<Rightarrow> ('w driver_world, nat) io" where
  "start_transmitter p a = run_blocking (\<lambda>w.
     (map_ok (\<lambda>_. length (connections w))
        (open_channel (rpc_http (params_env p)) (params_tls_rejects p) a (params_options p)),
      w\<lparr>connections := connections w @ [\<lparr>connection_address = a, connection_user = username (params_credentials p),
        connection_uuid = [], connection_credentials = call_credentials_new (params_credentials p),
        connection_timeout = options_timeout (params_options p), rpc_running = True, shutdown_senders = [],
        latency_millis = 0\<rparr>]\<rparr>))"

definition update_connection :: "nat \<Rightarrow> (connection \<Rightarrow> connection) \<Rightarrow> 'w driver_world \<Rightarrow> 'w driver_world" where
  "update_connection h f w = w\<lparr>connections := (connections w)[h := f (connections w ! h)]\<rparr>"

definition server_connection_new ::
    "driver_params \<Rightarrow> 'w grpc \<Rightarrow> address \<Rightarrow> ('w driver_world, nat \<times> server list) io" where
  "server_connection_new p g a w =
     io_then (start_transmitter p a w) (\<lambda>h w1.
     io_then (open_connection p g h w1) (\<lambda>(u, latency, servers) w2.
       (Ok (h, servers),
        update_connection h (\<lambda>c. c\<lparr>connection_uuid := u, latency_millis := latency_of latency\<rparr>) w2)))"

section \<open>The operations of a connection\<close>

definition connection_servers_all :: "driver_params \<Rightarrow> 'w grpc \<Rightarrow> nat \<Rightarrow> ('w driver_world, server list) io" where
  "connection_servers_all p g h =
     expecting p g h ServersAll (\<lambda>r. case r of ServersAllRes servers \<Rightarrow> Some servers | _ \<Rightarrow> None)"

definition connection_servers_get :: "driver_params \<Rightarrow> 'w grpc \<Rightarrow> nat \<Rightarrow> ('w driver_world, server) io" where
  "connection_servers_get p g h =
     expecting p g h ServersGet (\<lambda>r. case r of ServersGetRes s \<Rightarrow> Some s | _ \<Rightarrow> None)"

definition connection_version :: "driver_params \<Rightarrow> 'w grpc \<Rightarrow> nat \<Rightarrow> ('w driver_world, server_version) io" where
  "connection_version p g h =
     expecting p g h ServerVersion (\<lambda>r. case r of ServerVersionRes v \<Rightarrow> Some v | _ \<Rightarrow> None)"

definition all_databases :: "driver_params \<Rightarrow> 'w grpc \<Rightarrow> nat \<Rightarrow> ('w driver_world, database_info list) io" where
  "all_databases p g h =
     expecting p g h DatabasesAll (\<lambda>r. case r of DatabasesAllRes ds \<Rightarrow> Some ds | _ \<Rightarrow> None)"

definition contains_database :: "driver_params \<Rightarrow> 'w grpc \<Rightarrow> string \<Rightarrow> nat \<Rightarrow> ('w driver_world, bool) io" where
  "contains_database p g name h =
     expecting p g h (DatabasesContains name) (\<lambda>r. case r of DatabasesContainsRes b \<Rightarrow> Some b | _ \<Rightarrow> None)"

definition get_database :: "driver_params \<Rightarrow> 'w grpc \<Rightarrow> string \<Rightarrow> nat \<Rightarrow> ('w driver_world, database_info) io" where
  "get_database p g name h =
     expecting p g h (DatabaseGet name) (\<lambda>r. case r of DatabaseGetRes d \<Rightarrow> Some d | _ \<Rightarrow> None)"

definition create_database :: "driver_params \<Rightarrow> 'w grpc \<Rightarrow> string \<Rightarrow> nat \<Rightarrow> ('w driver_world, unit) io" where
  "create_database p g name h =
     expecting p g h (DatabaseCreate name) (\<lambda>r. case r of DatabaseCreateRes _ \<Rightarrow> Some () | _ \<Rightarrow> None)"

text \<open>The response to a deletion is not looked at.\<close>

definition delete_database :: "driver_params \<Rightarrow> 'w grpc \<Rightarrow> string \<Rightarrow> nat \<Rightarrow> ('w driver_world, unit) io" where
  "delete_database p g name h w = io_map (\<lambda>_. ()) (connection_request p g h (DatabaseDelete name) w)"

definition connection_database_schema :: "driver_params \<Rightarrow> 'w grpc \<Rightarrow> string \<Rightarrow> nat \<Rightarrow> ('w driver_world, string) io" where
  "connection_database_schema p g name h =
     expecting p g h (DatabaseSchema name) (\<lambda>r. case r of DatabaseSchemaRes s \<Rightarrow> Some s | _ \<Rightarrow> None)"

definition connection_database_type_schema ::
    "driver_params \<Rightarrow> 'w grpc \<Rightarrow> string \<Rightarrow> nat \<Rightarrow> ('w driver_world, string) io" where
  "connection_database_type_schema p g name h =
     expecting p g h (DatabaseTypeSchema name) (\<lambda>r. case r of DatabaseTypeSchemaRes s \<Rightarrow> Some s | _ \<Rightarrow> None)"

text \<open>
  Streams: the transmitter of an import, an export or a transaction is known by its channels; its shutdown
  sink is registered with the connection under the channel of its responses.
\<close>

definition register_sender :: "nat \<Rightarrow> channel \<Rightarrow> 'w driver_world \<Rightarrow> 'w driver_world" where
  "register_sender h source w =
     update_connection h (\<lambda>c. c\<lparr>shutdown_senders := shutdown_senders c @ [source]\<rparr>) w"

definition import_database ::
    "driver_params \<Rightarrow> 'w grpc \<Rightarrow> string \<Rightarrow> string \<Rightarrow> nat \<Rightarrow> ('w driver_world, channel \<times> channel) io" where
  "import_database p g name schema h w =
     io_then (expecting p g h (DatabaseImport (ImportInitial name schema))
         (\<lambda>r. case r of DatabaseImportRes sink source \<Rightarrow> Some (sink, source) | _ \<Rightarrow> None) w)
       (\<lambda>(sink, source) w1. (Ok (sink, source), register_sender h source w1))"

definition connection_database_export :: "driver_params \<Rightarrow> 'w grpc \<Rightarrow> string \<Rightarrow> nat \<Rightarrow> ('w driver_world, channel) io" where
  "connection_database_export p g name h w =
     io_then (expecting p g h (DatabaseExport name)
         (\<lambda>r. case r of DatabaseExportStreamRes source \<Rightarrow> Some source | _ \<Rightarrow> None) w)
       (\<lambda>source w1. (Ok source, register_sender h source w1))"

text \<open>A transaction with the channels of its transmitter.\<close>

definition open_transaction ::
    "driver_params \<Rightarrow> 'w grpc \<Rightarrow> string \<Rightarrow> transaction_type \<Rightarrow> transaction_options \<Rightarrow> nat
     \<Rightarrow> ('w driver_world, transaction \<times> channel \<times> channel) io" where
  "open_transaction p g database t options h w =
     (let network = duration_from_millis (latency_millis (connections w ! h)); start = world_clock w in
      io_then (expecting p g h (Transaction (Open database t options network))
          (\<lambda>r. case r of TransactionStreamRes _ sink source millis \<Rightarrow> Some (sink, source, millis) | _ \<Rightarrow> None) w)
        (\<lambda>(sink, source, millis) w1.
           case update_latency (rpc_overflow_checks (params_env p))
               (latency_of (network_latency start (world_clock w1) millis)) (latency_millis (connections w1 ! h)) of
             Ok latency \<Rightarrow>
               (Ok (transaction_new t options tx_new, sink, source),
                register_sender h source (update_connection h (\<lambda>c. c\<lparr>latency_millis := latency\<rparr>) w1))
           | Err e \<Rightarrow> (Err e, w1)
           | Panic \<Rightarrow> (Panic, w1)))"

definition all_users :: "driver_params \<Rightarrow> 'w grpc \<Rightarrow> nat \<Rightarrow> ('w driver_world, user_info list) io" where
  "all_users p g h = expecting p g h UsersAll (\<lambda>r. case r of UsersAllRes us \<Rightarrow> Some us | _ \<Rightarrow> None)"

definition get_user :: "driver_params \<Rightarrow> 'w grpc \<Rightarrow> string \<Rightarrow> nat \<Rightarrow> ('w driver_world, user_info option) io" where
  "get_user p g name h = expecting p g h (UsersGet name) (\<lambda>r. case r of UsersGetRes u \<Rightarrow> Some u | _ \<Rightarrow> None)"

definition contains_user :: "driver_params \<Rightarrow> 'w grpc \<Rightarrow> string \<Rightarrow> nat \<Rightarrow> ('w driver_world, bool) io" where
  "contains_user p g name h =
     expecting p g h (UsersContains name) (\<lambda>r. case r of UsersContainRes b \<Rightarrow> Some b | _ \<Rightarrow> None)"

definition create_user :: "driver_params \<Rightarrow> 'w grpc \<Rightarrow> string \<Rightarrow> string \<Rightarrow> nat \<Rightarrow> ('w driver_world, unit) io" where
  "create_user p g name pw h =
     expecting p g h (UsersCreate \<lparr>user_info_name = name, user_info_password = Some pw\<rparr>)
       (\<lambda>r. case r of UsersCreateRes \<Rightarrow> Some () | _ \<Rightarrow> None)"

definition update_password :: "driver_params \<Rightarrow> 'w grpc \<Rightarrow> string \<Rightarrow> string \<Rightarrow> nat \<Rightarrow> ('w driver_world, unit) io" where
  "update_password p g name pw h =
     expecting p g h (UsersUpdate name \<lparr>user_info_name = [], user_info_password = Some pw\<rparr>)
       (\<lambda>r. case r of UsersUpdateRes \<Rightarrow> Some () | _ \<Rightarrow> None)"

definition delete_user :: "driver_params \<Rightarrow> 'w grpc \<Rightarrow> string \<Rightarrow> nat \<Rightarrow> ('w driver_world, unit) io" where
  "delete_user p g name h =
     expecting p g h (UsersDelete name) (\<lambda>r. case r of UsersDeleteRes \<Rightarrow> Some () | _ \<Rightarrow> None)"

text \<open>Closing: the transmitters are told to shut down, then the dispatcher of requests.\<close>

definition connection_force_close :: "nat \<Rightarrow> ('w driver_world, unit) io" where
  "connection_force_close h w =
     (let c = connections w ! h;
          w1 = update_connection h (\<lambda>c. c\<lparr>shutdown_senders := [], rpc_running := False\<rparr>)
            (w\<lparr>shut_down := shut_down w @ shutdown_senders c\<rparr>)
      in (if rpc_running c then Ok () else Err (Internal SendError), w1))"

end
