(* ===== verification/Server_Manager.thy ===== *)
theory Server_Manager
  imports Effects Servers
begin

text \<open>
  \<open>rust/src/connection/server/server_manager.rs\<close>: the servers the driver knows, the connections it holds
  to them, and the routing of every task to the primary server, with retries when it fails over.

  The network is a parameter: opening a connection to an address, asking a server for the list of all
  servers, waiting for an election, and the address and user of a connection; each changes the state of
  the network.  \<open>Driver\<close> instantiates it with the connections of \<open>Server_Connections\<close>.  A \<open>HashSet\<close> is a
  list without repetitions, in the order in which the set happens to iterate: the order of the message it
  came from, which is arbitrary.
\<close>

section \<open>State\<close>

record ('c, 'w) network =
  net_connect :: "address \<Rightarrow> ('w, 'c \<times> server list) io"
  net_servers_all :: "'c \<Rightarrow> ('w, server list) io"
  net_wait :: "'w \<Rightarrow> 'w"
  net_force_close :: "'c \<Rightarrow> ('w, unit) io"
  conn_address :: "'c \<Rightarrow> address"
  conn_username :: "'c \<Rightarrow> string"

record ('c, 'w) manager =
  configured_addresses :: addresses
  replicas :: "available_server list"
  replica_connections :: "(address \<times> 'c) list"
  manager_translation :: address_translation
  primary_failover_retries :: nat
  network_state :: 'w

type_synonym ('c, 'w, 'r) task = "'c \<Rightarrow> (('c, 'w) manager, 'r) io"

definition on_network :: "('w, 'a) io \<Rightarrow> (('c, 'w) manager, 'a) io" where
  "on_network f m = (let (r, w) = f (network_state m) in (r, m\<lparr>network_state := w\<rparr>))"

section \<open>Primary replicas\<close>

definition filter_available_replicas :: "server list \<Rightarrow> available_server list" where
  "filter_available_replicas servers =
     List.map_filter (\<lambda>s. case s of Available a \<Rightarrow> Some a | Unavailable _ \<Rightarrow> None) servers"

text \<open>\<open>Iterator::max_by_key\<close>: the last of the elements with the greatest key.\<close>

fun max_by_key :: "('a \<Rightarrow> 'k::linorder) \<Rightarrow> 'a list \<Rightarrow> 'a option" where
  "max_by_key f [] = None"
| "max_by_key f (x # xs) =
     (case max_by_key f xs of
        None \<Rightarrow> Some x
      | Some y \<Rightarrow> if f y < f x then Some x else Some y)"

definition find_primary_replica :: "available_server list \<Rightarrow> available_server option" where
  "find_primary_replica rs =
     max_by_key (\<lambda>r. case available_term r of Some t \<Rightarrow> t | None \<Rightarrow> 0) (filter available_is_primary rs)"

definition read_primary_replica :: "('c, 'w) manager \<Rightarrow> available_server option" where
  "read_primary_replica m = find_primary_replica (replicas m)"

definition find_replica_by_private_address :: "('c, 'w) manager \<Rightarrow> address \<Rightarrow> available_server option" where
  "find_replica_by_private_address m a = List.find (\<lambda>r. private_address r = a) (replicas m)"

definition is_not_primary :: "connection_error \<Rightarrow> bool" where
  "is_not_primary e = (case e of ClusterServerNotPrimary _ \<Rightarrow> True | _ \<Rightarrow> False)"

definition failover_candidates ::
    "('c, 'w) manager \<Rightarrow> address \<Rightarrow> connection_error \<Rightarrow> available_server list" where
  "failover_candidates m failed e =
     (if is_not_primary e then replicas m else filter (\<lambda>r. private_address r \<noteq> failed) (replicas m))"

definition translate_replicas ::
    "address_translation \<Rightarrow> address \<Rightarrow> server list \<Rightarrow> server list" where
  "translate_replicas t source servers =
     remdups (map (server_translated t)
       (map (\<lambda>s. case s of
            Unavailable None \<Rightarrow> server_available_from_private source None
          | other \<Rightarrow> other) servers))"

text \<open>The error that collects the errors of all attempts.\<close>

definition accessed_addresses :: "('c, 'w) manager \<Rightarrow> addresses" where
  "accessed_addresses m = from_addresses (map available_address (replicas m))"

definition connection_error_details :: "http_lib \<Rightarrow> (address \<times> error) list \<Rightarrow> (string, error) result" where
  "connection_error_details http errors =
     (if errors = [] then Ok ''none''
      else map_ok (join ('';'' @ newline)) (try_map (\<lambda>(a, e).
        and_then (address_display a) (\<lambda>at. map_ok (\<lambda>et. quoted at @ '': '' @ quoted et) (error_display http e))) errors))"

definition server_connection_failed_err ::
    "http_lib \<Rightarrow> (address \<times> error) list \<Rightarrow> (('c, 'w) manager, 'r) io" where
  "server_connection_failed_err http errors m =
     (and_then (connection_error_details http errors) (\<lambda>details.
        Err (Connection (ServerConnectionFailed (configured_addresses m) (accessed_addresses m) details))), m)"

section \<open>Connections\<close>

definition new_replica_connection :: "('c, 'w) network \<Rightarrow> address \<Rightarrow> (('c, 'w) manager, 'c) io" where
  "new_replica_connection net a m = io_map fst (on_network (net_connect net a) m)"

definition record_new_replica_connection ::
    "('c, 'w) network \<Rightarrow> address \<Rightarrow> address \<Rightarrow> (('c, 'w) manager, 'c) io" where
  "record_new_replica_connection net public private m =
     io_then (new_replica_connection net public m) (\<lambda>c m.
       (Ok c, m\<lparr>replica_connections := hm_insert private c (replica_connections m)\<rparr>))"

text \<open>Connecting to the replicas that have no connection yet; \<open>known\<close> are the addresses with one.\<close>

fun connect_missing ::
    "('c, 'w) network \<Rightarrow> address list \<Rightarrow> available_server list \<Rightarrow> (address \<times> 'c) list \<Rightarrow> (address \<times> error) list
     \<Rightarrow> (('c, 'w) manager, (address \<times> 'c) list \<times> (address \<times> error) list) io" where
  "connect_missing net known [] new errors m = (Ok (new, errors), m)"
| "connect_missing net known (r # rs) new errors m =
     (if private_address r \<in> set known then connect_missing net known rs new errors m
      else case new_replica_connection net (available_address r) m of
        (Ok c, m1) \<Rightarrow> connect_missing net known rs (hm_insert (private_address r) c new) errors m1
      | (Err e, m1) \<Rightarrow> connect_missing net known rs new (hm_insert (available_address r) e errors) m1
      | (Panic, m1) \<Rightarrow> (Panic, m1))"

definition refresh_replica_connections :: "http_lib \<Rightarrow> ('c, 'w) network \<Rightarrow> (('c, 'w) manager, unit) io" where
  "refresh_replica_connections http net m =
     io_then (connect_missing net (map fst (replica_connections m)) (replicas m) [] [] m) (\<lambda>(new, errors) m1.
       let conns = foldl (\<lambda>cs (a, c). hm_insert a c cs)
             (hm_retain (\<lambda>a _. a \<in> private_address ` set (replicas m)) (replica_connections m1)) new;
           m2 = m1\<lparr>replica_connections := conns\<rparr>
       in if conns = [] then server_connection_failed_err http errors m2 else (Ok (), m2))"

definition username_of_manager :: "('c, 'w) network \<Rightarrow> ('c, 'w) manager \<Rightarrow> (string, error) result" where
  "username_of_manager net m =
     (case replica_connections m of
        (_, c) # _ \<Rightarrow> Ok (conn_username net c)
      | [] \<Rightarrow> Err (Connection ServerConnectionIsClosed))"

text \<open>Closing stops at the first connection that reports an error.\<close>

fun force_close_connections :: "('c, 'w) network \<Rightarrow> 'c list \<Rightarrow> ('w, unit) io" where
  "force_close_connections net [] w = (Ok (), w)"
| "force_close_connections net (c # cs) w =
     io_then (net_force_close net c w) (\<lambda>_ w1. force_close_connections net cs w1)"

definition manager_force_close :: "('c, 'w) network \<Rightarrow> (('c, 'w) manager, unit) io" where
  "manager_force_close net m = on_network (force_close_connections net (map snd (replica_connections m))) m"

section \<open>Executing a task\<close>

definition execute_on ::
    "('c, 'w) network \<Rightarrow> ('c, 'w, 'r) task \<Rightarrow> address \<Rightarrow> address \<Rightarrow> (('c, 'w) manager, 'r) io" where
  "execute_on net task public private m =
     (case hm_get (replica_connections m) private of
        Some c \<Rightarrow> task c m
      | None \<Rightarrow> io_then (record_new_replica_connection net public private m) task)"

fun execute_on_any ::
    "http_lib \<Rightarrow> ('c, 'w) network \<Rightarrow> ('c, 'w, 'r) task \<Rightarrow> available_server list \<Rightarrow> (address \<times> error) list
     \<Rightarrow> (('c, 'w) manager, 'r) io" where
  "execute_on_any http net task [] errors m = server_connection_failed_err http errors m"
| "execute_on_any http net task (r # rs) errors m =
     (case execute_on net task (available_address r) (private_address r) m of
        (Err (Connection e), m1) \<Rightarrow>
          execute_on_any http net task rs (hm_insert (available_address r) (Connection e) errors) m1
      | res \<Rightarrow> res)"

definition fetch_servers_from_connection :: "('c, 'w) network \<Rightarrow> ('c, 'w, server list) task" where
  "fetch_servers_from_connection net c m =
     io_map (translate_replicas (manager_translation m) (conn_address net c)) (on_network (net_servers_all net c) m)"

definition seek_primary_replica :: "http_lib \<Rightarrow> ('c, 'w) network \<Rightarrow> ('c, 'w, available_server) task" where
  "seek_primary_replica http net c m =
     io_then (fetch_servers_from_connection net c m) (\<lambda>servers m1.
       let m2 = m1\<lparr>replicas := filter_available_replicas servers\<rparr>
       in case read_primary_replica m2 of
            Some replica \<Rightarrow> io_then (refresh_replica_connections http net m2) (\<lambda>_ m3. (Ok replica, m3))
          | None \<Rightarrow> (Err (Connection NoPrimaryServer), m2))"

definition try_seek_primary_replica_in ::
    "http_lib \<Rightarrow> ('c, 'w) network \<Rightarrow> available_server list \<Rightarrow> (('c, 'w) manager, available_server) io" where
  "try_seek_primary_replica_in http net sources m =
     execute_on_any http net (seek_primary_replica http net) sources [] m"

definition wait_for_primary_replica_selection ::
    "('c, 'w) network \<Rightarrow> ('c, 'w) manager \<Rightarrow> ('c, 'w) manager" where
  "wait_for_primary_replica_selection net m = m\<lparr>network_state := net_wait net (network_state m)\<rparr>"

text \<open>The loop over the attempts \<open>0..=retries\<close>, with the last error so far.\<close>

fun seek_attempts ::
    "http_lib \<Rightarrow> ('c, 'w) network \<Rightarrow> available_server list \<Rightarrow> nat \<Rightarrow> address option \<Rightarrow> nat list \<Rightarrow> error option
     \<Rightarrow> (('c, 'w) manager, available_server) io" where
  "seek_attempts http net sources retries stale [] last_error m =
     (case last_error of Some e \<Rightarrow> (Err e, m) | None \<Rightarrow> (Panic, m))"
| "seek_attempts http net sources retries stale (attempt # rest) last_error m =
     (case try_seek_primary_replica_in http net sources m of
        (Ok replica, m1) \<Rightarrow>
          if stale = Some (private_address replica) \<and> attempt < retries
          then seek_attempts http net sources retries stale rest last_error
                 (wait_for_primary_replica_selection net m1)
          else (Ok replica, m1)
      | (Err e, m1) \<Rightarrow>
          seek_attempts http net sources retries stale rest (Some e)
            (if attempt < retries then wait_for_primary_replica_selection net m1 else m1)
      | (Panic, m1) \<Rightarrow> (Panic, m1))"

definition seek_primary_replica_in ::
    "http_lib \<Rightarrow> ('c, 'w) network \<Rightarrow> available_server list \<Rightarrow> nat \<Rightarrow> address option
     \<Rightarrow> (('c, 'w) manager, available_server) io" where
  "seek_primary_replica_in http net sources retries stale m =
     seek_attempts http net sources retries stale [0..<Suc retries] None m"

definition get_or_seek_primary_replica ::
    "http_lib \<Rightarrow> ('c, 'w) network \<Rightarrow> nat \<Rightarrow> (('c, 'w) manager, available_server) io" where
  "get_or_seek_primary_replica http net retries m =
     (case read_primary_replica m of
        Some replica \<Rightarrow> (Ok replica, m)
      | None \<Rightarrow>
          (case replicas m of
             [r] \<Rightarrow> if available_status r = None then (Ok r, m)
                    else seek_primary_replica_in http net [r] retries None m
           | rs \<Rightarrow> seek_primary_replica_in http net rs retries None m))"

definition hinted_replica :: "('c, 'w) manager \<Rightarrow> connection_error \<Rightarrow> available_server option" where
  "hinted_replica m e =
     (case e of
        ClusterServerNotPrimary (Some hint) \<Rightarrow> find_replica_by_private_address m hint
      | _ \<Rightarrow> None)"

text \<open>The loop \<open>for _ in 0..=retries\<close>: \<open>n\<close> is the number of its turns that are left.\<close>

fun consistent_attempts ::
    "http_lib \<Rightarrow> ('c, 'w) network \<Rightarrow> ('c, 'w, 'r) task \<Rightarrow> nat \<Rightarrow> nat \<Rightarrow> available_server
     \<Rightarrow> (address \<times> error) list \<Rightarrow> (('c, 'w) manager, 'r) io" where
  "consistent_attempts http net task retries 0 primary errors m = server_connection_failed_err http errors m"
| "consistent_attempts http net task retries (Suc n) primary errors m =
     (case execute_on net task (available_address primary) (private_address primary) m of
        (Err (Connection e), m1) \<Rightarrow>
          (let errors' = hm_insert (available_address primary) (Connection e) errors in
           case hinted_replica m1 e of
             Some hinted \<Rightarrow> consistent_attempts http net task retries n hinted errors' m1
           | None \<Rightarrow>
               (case seek_primary_replica_in http net (failover_candidates m1 (private_address primary) e) retries
                   (Some (private_address primary)) m1 of
                  (Ok replica, m2) \<Rightarrow> consistent_attempts http net task retries n replica errors' m2
                | (Err _, m2) \<Rightarrow> server_connection_failed_err http errors' m2
                | (Panic, m2) \<Rightarrow> (Panic, m2)))
      | res \<Rightarrow> res)"

definition execute_strongly_consistent ::
    "http_lib \<Rightarrow> ('c, 'w) network \<Rightarrow> ('c, 'w, 'r) task \<Rightarrow> (('c, 'w) manager, 'r) io" where
  "execute_strongly_consistent http net task m =
     (let retries = primary_failover_retries m in
      io_then (get_or_seek_primary_replica http net retries m) (\<lambda>primary m1.
        consistent_attempts http net task retries (Suc retries) primary [] m1))"

definition execute ::
    "http_lib \<Rightarrow> ('c, 'w) network \<Rightarrow> server_routing \<Rightarrow> ('c, 'w, 'r) task \<Rightarrow> (('c, 'w) manager, 'r) io" where
  "execute http net routing task m =
     (case routing of
        Auto \<Rightarrow> execute_strongly_consistent http net task m
      | DirectTo a \<Rightarrow>
          if List.find (\<lambda>r. available_address r = a) (replicas m) = None
          then (Err (Connection (UnknownDirectServerRouting a (accessed_addresses m))), m)
          else execute_on net task a
                 (case to_private (manager_translation m) a of Some p \<Rightarrow> p | None \<Rightarrow> a) m)"

section \<open>Fetching servers\<close>

definition fetch_servers ::
    "http_lib \<Rightarrow> ('c, 'w) network \<Rightarrow> server_routing \<Rightarrow> (('c, 'w) manager, server list) io" where
  "fetch_servers http net routing m =
     io_then (execute http net routing (fetch_servers_from_connection net) m) (\<lambda>servers m1.
       (Ok servers, if routing = Auto then m1\<lparr>replicas := filter_available_replicas servers\<rparr> else m1))"

definition fetch_primary_server ::
    "http_lib \<Rightarrow> ('c, 'w) network \<Rightarrow> server_routing \<Rightarrow> (('c, 'w) manager, available_server option) io" where
  "fetch_primary_server http net routing m =
     io_map (\<lambda>servers. find_primary_replica (filter_available_replicas servers)) (fetch_servers http net routing m)"

definition refresh_replicas :: "http_lib \<Rightarrow> ('c, 'w) network \<Rightarrow> (('c, 'w) manager, unit) io" where
  "refresh_replicas http net m = io_map (\<lambda>_. ()) (fetch_servers http net Auto m)"

fun fetch_servers_from_addresses ::
    "http_lib \<Rightarrow> ('c, 'w) network \<Rightarrow> addresses \<Rightarrow> address list \<Rightarrow> connection_error list
     \<Rightarrow> ('w, (address \<times> 'c) list \<times> server list) io" where
  "fetch_servers_from_addresses http net configured [] errors w =
     (and_then (try_map (\<lambda>e. error_display http (Connection e)) errors) (\<lambda>ts.
        Err (Connection (ServerConnectionFailed configured configured (join ('';'' @ newline) ts)))), w)"
| "fetch_servers_from_addresses http net configured (a # as) errors w =
     (case net_connect net a w of
        (Ok (c, servers), w1) \<Rightarrow>
          (Ok ([(a, c)], translate_replicas (to_address_translation configured) (conn_address net c) servers), w1)
      | (Err (Connection e), w1) \<Rightarrow> fetch_servers_from_addresses http net configured as (errors @ [e]) w1
      | (Err e, w1) \<Rightarrow> (Err e, w1)
      | (Panic, w1) \<Rightarrow> (Panic, w1))"

text \<open>\<open>ServerManager::new\<close>: the manager, or the error, and the network afterwards.\<close>

definition manager_new ::
    "http_lib \<Rightarrow> ('c, 'w) network \<Rightarrow> addresses \<Rightarrow> nat \<Rightarrow> 'w \<Rightarrow> (('c, 'w) manager, error) result \<times> 'w" where
  "manager_new http net configured retries w =
     io_then (fetch_servers_from_addresses http net configured (addresses_iter configured) [] w)
       (\<lambda>(connections, servers) w1.
         let m = \<lparr>configured_addresses = configured, replicas = filter_available_replicas servers,
               replica_connections = connections, manager_translation = to_address_translation configured,
               primary_failover_retries = retries, network_state = w1\<rparr>;
             (r, m1) = refresh_replica_connections http net m
         in (map_ok (\<lambda>_. m1) r, network_state m1))"

end
