(* ===== verification/Failover.thy ===== *)
theory Failover
  imports Server_Manager
begin

text \<open>
  What the routing of tasks guarantees: which server is taken for the primary, how often a task runs,
  which errors reach the caller, which server a direct routing reaches, and what the manager knows after
  a failover.
\<close>

section \<open>The newest primary\<close>

lemma max_by_key_None [simp]: "max_by_key f xs = None \<longleftrightarrow> xs = []"
  by (cases xs) (auto split: option.splits)

lemma max_by_key_Some: "max_by_key f xs = Some y \<Longrightarrow> y \<in> set xs \<and> (\<forall>x \<in> set xs. f x \<le> f y)"
proof (induction xs arbitrary: y)
  case (Cons x xs)
  show ?case
  proof (cases "max_by_key f xs")
    case None
    with Cons.prems show ?thesis by simp
  next
    case (Some z)
    with Cons.IH Cons.prems show ?thesis by (fastforce split: if_splits)
  qed
qed simp

definition term_of :: "available_server \<Rightarrow> u64" where
  "term_of r = (case available_term r of Some t \<Rightarrow> t | None \<Rightarrow> 0)"

definition newest_primary :: "available_server \<Rightarrow> available_server list \<Rightarrow> bool" where
  "newest_primary p rs \<longleftrightarrow> p \<in> set rs \<and> available_is_primary p
     \<and> (\<forall>r \<in> set rs. available_is_primary r \<longrightarrow> term_of r \<le> term_of p)"

lemma find_primary_replica_newest: "find_primary_replica rs = Some p \<Longrightarrow> newest_primary p rs"
  using max_by_key_Some [of term_of "filter available_is_primary rs" p]
  by (auto simp: find_primary_replica_def newest_primary_def term_of_def [abs_def])

lemma find_primary_replica_None: "find_primary_replica rs = None \<longleftrightarrow> (\<forall>r \<in> set rs. \<not> available_is_primary r)"
  by (auto simp: find_primary_replica_def filter_empty_conv)

section \<open>Errors are texts that can be printed\<close>

lemma padding_not_Err [simp]: "padding codes c \<noteq> Err x"
  by (simp add: padding_def split: nat.split)

lemma address_display_not_Err [simp]: "address_display a \<noteq> Err x"
  by (cases "authority (into_uri a)") (simp_all add: address_display_def)

lemma try_map_not_Err: "(\<And>a x. f a \<noteq> Err x) \<Longrightarrow> try_map f xs \<noteq> Err y"
  using try_map_ErrD by metis

lemma addresses_display_not_Err [simp]: "addresses_display a \<noteq> Err x"
  by (cases a) (auto simp: addresses_display_def result_eqs intro!: try_map_not_Err split: prod.splits)

lemma connection_error_message_not_Err [simp]: "connection_error_message http e \<noteq> Err x"
  by (cases e) (auto simp: result_eqs split: option.splits)

lemma error_display_not_Err [simp]: "error_display http e \<noteq> Err x"
  by (cases e) (auto simp: family_display_def result_eqs)


lemma connection_error_details_not_Err [simp]: "connection_error_details http errors \<noteq> Err x"
  by (auto simp: connection_error_details_def result_eqs intro!: try_map_not_Err split: prod.splits)

definition all_failed :: "error \<Rightarrow> bool" where
  "all_failed e \<longleftrightarrow> (\<exists>configured accessed details. e = Connection (ServerConnectionFailed configured accessed details))"

definition is_connection_failure :: "error \<Rightarrow> bool" where
  "is_connection_failure e = (case e of Connection _ \<Rightarrow> True | _ \<Rightarrow> False)"

lemma connection_failed_all_failed:
  "server_connection_failed_err http errors m = (Err e, m') \<Longrightarrow> all_failed e"
  by (auto simp: server_connection_failed_err_def all_failed_def result_eqs)

lemma connection_failed_state [simp]: "snd (server_connection_failed_err http errors m) = m"
  by (simp add: server_connection_failed_err_def)

lemma connection_failed_not_Ok [simp]: "server_connection_failed_err http errors m \<noteq> (Ok r, m')"
  by (simp add: server_connection_failed_err_def result_eqs)

section \<open>Induction over the loops\<close>

text \<open>
  The results of \<open>execute_on_any\<close>, of the attempts to find a primary and of the attempts to execute, by
  cases: the induction on the loop is done here once.
\<close>

lemma execute_on_any_Err:
  "execute_on_any http net task rs errors m = (Err e, m') \<Longrightarrow>
   all_failed e \<or> \<not> is_connection_failure e"
proof (induction rs arbitrary: errors m)
  case Nil
  then show ?case by (auto dest: connection_failed_all_failed)
next
  case (Cons r rs)
  then show ?case
    by (auto simp: is_connection_failure_def split: prod.splits result.splits error.splits)
qed

lemma seek_attempts_Err:
  "seek_attempts http net sources retries stale as last_error m = (Err e, m') \<Longrightarrow>
   (\<forall>l. last_error = Some l \<longrightarrow> all_failed l \<or> \<not> is_connection_failure l) \<Longrightarrow>
   all_failed e \<or> \<not> is_connection_failure e"
proof (induction as arbitrary: last_error m)
  case Nil
  then show ?case by (auto split: option.splits)
next
  case (Cons a as)
  obtain r m1 where seek: "try_seek_primary_replica_in http net sources m = (r, m1)" by fastforce
  then have "r = Err l \<Longrightarrow> all_failed l \<or> \<not> is_connection_failure l" for l
    using execute_on_any_Err by (fastforce simp: try_seek_primary_replica_in_def)
  with Cons seek show ?case by (cases r) (auto split: if_splits)
qed

lemma seek_Err:
  "seek_primary_replica_in http net sources retries stale m = (Err e, m') \<Longrightarrow> all_failed e \<or> \<not> is_connection_failure e"
  unfolding seek_primary_replica_in_def by (erule seek_attempts_Err) simp

lemma consistent_attempts_Err:
  "consistent_attempts http net task retries n primary errors m = (Err e, m') \<Longrightarrow>
   all_failed e \<or> \<not> is_connection_failure e"
proof (induction n arbitrary: primary errors m)
  case 0
  then show ?case by (auto dest: connection_failed_all_failed)
next
  case (Suc n)
  then show ?case
    by (auto simp: Let_def is_connection_failure_def dest: connection_failed_all_failed
        split: prod.splits result.splits error.splits option.splits)
qed

lemma get_or_seek_Err:
  "get_or_seek_primary_replica http net retries m = (Err e, m') \<Longrightarrow> all_failed e \<or> \<not> is_connection_failure e"
  by (auto simp: get_or_seek_primary_replica_def dest: seek_Err split: option.splits list.splits if_splits)

lemma execute_auto_Err:
  "execute http net Auto task m = (Err e, m') \<Longrightarrow> all_failed e \<or> \<not> is_connection_failure e"
  by (auto simp: execute_def execute_strongly_consistent_def Let_def io_then_Err
      dest: get_or_seek_Err consistent_attempts_Err simp del: consistent_attempts.simps)


section \<open>What the operations keep\<close>

text \<open>
  A relation between the states of the manager that holds across the calls of the network, the change of
  the connections and the replacement of the replicas by fetched ones holds across every operation of the
  manager, and across the execution of every task that respects it.
\<close>

locale manager_relation =
  fixes net :: "('c, 'w) network"
    and rel :: "('c, 'w) manager \<Rightarrow> ('c, 'w) manager \<Rightarrow> bool"
  assumes rel_refl: "rel m m"
    and rel_trans: "rel m m1 \<Longrightarrow> rel m1 m2 \<Longrightarrow> rel m m2"
    and rel_connect: "rel m (snd (on_network (net_connect net a) m))"
    and rel_servers_all: "rel m (snd (on_network (net_servers_all net c) m))"
    and rel_wait: "rel m (wait_for_primary_replica_selection net m)"
    and rel_connections: "(hm_ok (replica_connections m) \<Longrightarrow> hm_ok cs) \<Longrightarrow> rel m (m\<lparr>replica_connections := cs\<rparr>)"
    and rel_replicas: "on_network (net_servers_all net c) m = (Ok servers, m1) \<Longrightarrow>
      rel m1 (m1\<lparr>replicas := filter_available_replicas
        (translate_replicas (manager_translation m) (conn_address net c) servers)\<rparr>)"
begin

lemma new_connection_rel: "rel m (snd (new_replica_connection net a m))"
  using rel_connect [of m a] by (simp add: new_replica_connection_def io_map_def)

lemma record_connection_rel: "rel m (snd (record_new_replica_connection net public private m))"
  unfolding record_new_replica_connection_def
proof (rule io_then_keeps [of rel])
  show "rel m (snd (new_replica_connection net public m))" by (rule new_connection_rel)
  show "rel m (snd (Ok c, m1\<lparr>replica_connections := hm_insert private c (replica_connections m1)\<rparr>))"
    if "rel m m1" for c m1
    using rel_trans [OF that rel_connections] hm.ok_insert by (simp add: hm.ok_insert)
qed

lemma execute_on_rel:
  assumes "\<And>c m. rel m (snd (task c m))"
  shows "rel m (snd (execute_on net task public private m))"
proof (cases "hm_get (replica_connections m) private")
  case None
  have "rel m (snd (io_then (record_new_replica_connection net public private m) task))"
    by (rule io_then_keeps [of rel]) (use record_connection_rel rel_trans assms in blast)+
  with None show ?thesis by (simp add: execute_on_def)
qed (simp add: execute_on_def assms)

lemma connect_missing_rel: "rel m (snd (connect_missing net known rs new errors m))"
proof (induction rs arbitrary: new errors m)
  case (Cons r rs)
  obtain c m1 where conn: "new_replica_connection net (available_address r) m = (c, m1)" by fastforce
  then have "rel m m1" using new_connection_rel [of m "available_address r"] by simp
  with Cons conn rel_trans show ?case by (cases c) (auto split: if_splits)
qed (simp add: rel_refl)

lemma execute_on_any_rel:
  assumes "\<And>c m. rel m (snd (task c m))"
  shows "rel m (snd (execute_on_any http net task rs errors m))"
proof (induction rs arbitrary: errors m)
  case Nil
  then show ?case by (simp add: rel_refl)
next
  case (Cons r rs)
  obtain x m1 where run: "execute_on net task (available_address r) (private_address r) m = (x, m1)" by fastforce
  then have "rel m m1" using execute_on_rel [of task m "available_address r" "private_address r"] assms by simp
  with Cons run rel_trans show ?case by (auto split: result.split error.split)
qed

lemma refresh_rel: "rel m (snd (refresh_replica_connections http net m))"
  unfolding refresh_replica_connections_def
proof (rule io_then_keeps [of rel])
  show "rel m (snd (connect_missing net (map fst (replica_connections m)) (replicas m) [] [] m))"
    by (rule connect_missing_rel)
  fix p :: "(address \<times> 'c) list \<times> (address \<times> error) list" and m1
  assume m1: "rel m m1"
  obtain new errors where p: "p = (new, errors)" by fastforce
  define cs where "cs = foldl (\<lambda>cs (a, c). hm_insert a c cs)
    (hm_retain (\<lambda>a _. a \<in> private_address ` set (replicas m)) (replica_connections m1)) new"
  have "hm_ok cs" if "hm_ok (replica_connections m1)"
    using hm.ok_insert_all [OF hm.ok_retain [OF that]] by (simp add: cs_def hm.insert_all_def)
  then have "rel m (m1\<lparr>replica_connections := cs\<rparr>)" using rel_trans [OF m1 rel_connections] by blast
  then show "rel m (snd ((case p of (new, errors) \<Rightarrow> \<lambda>m1.
      let conns = foldl (\<lambda>cs (a, c). hm_insert a c cs)
             (hm_retain (\<lambda>a _. a \<in> private_address ` set (replicas m)) (replica_connections m1)) new;
           m2 = m1\<lparr>replica_connections := conns\<rparr>
       in if conns = [] then server_connection_failed_err http errors m2 else (Ok (), m2)) m1))"
    by (auto simp: p Let_def simp flip: cs_def)
qed

lemma fetch_from_connection_rel: "rel m (snd (fetch_servers_from_connection net c m))"
  using rel_servers_all by (simp add: fetch_servers_from_connection_def io_map_def)

lemma seek_primary_rel: "rel m (snd (seek_primary_replica http net c m))"
  unfolding seek_primary_replica_def
proof (rule io_then_keeps [of rel])
  show "rel m (snd (fetch_servers_from_connection net c m))" by (rule fetch_from_connection_rel)
  fix servers m1
  assume fetched: "fetch_servers_from_connection net c m = (Ok servers, m1)" and m1: "rel m m1"
  define m2 where "m2 = m1\<lparr>replicas := filter_available_replicas servers\<rparr>"
  obtain raw where "on_network (net_servers_all net c) m = (Ok raw, m1)"
    "servers = translate_replicas (manager_translation m) (conn_address net c) raw"
    using fetched by (cases "on_network (net_servers_all net c) m")
      (auto simp: fetch_servers_from_connection_def result_eqs)
  then have m2: "rel m m2" using rel_trans [OF m1] rel_replicas by (simp add: m2_def)
  have "rel m2 (snd (io_then (refresh_replica_connections http net m2) (\<lambda>_ m3. (Ok r, m3))))" for r :: available_server
    by (rule io_then_keeps [of rel]) (simp_all add: refresh_rel)
  then have "rel m (snd (io_then (refresh_replica_connections http net m2) (\<lambda>_ m3. (Ok r, m3))))" for r :: available_server
    by (rule rel_trans [OF m2])
  then show "rel m (snd (let m2 = m1\<lparr>replicas := filter_available_replicas servers\<rparr>
       in case read_primary_replica m2 of
            Some replica \<Rightarrow> io_then (refresh_replica_connections http net m2) (\<lambda>_ m3. (Ok replica, m3))
          | None \<Rightarrow> (Err (Connection NoPrimaryServer), m2)))"
    using m2 by (simp add: Let_def m2_def split: option.split)
qed

lemma seek_attempts_rel: "rel m (snd (seek_attempts http net sources retries stale as last_error m))"
proof (induction "as" arbitrary: last_error m)
  case Nil
  then show ?case by (simp add: rel_refl split: option.split)
next
  case (Cons a as)
  obtain r m1 where seek: "try_seek_primary_replica_in http net sources m = (r, m1)" by fastforce
  then have m1: "rel m m1"
    using execute_on_any_rel [of "seek_primary_replica http net" m http sources "[]", OF seek_primary_rel]
    by (simp add: try_seek_primary_replica_in_def)
  moreover have "rel m (wait_for_primary_replica_selection net m1)" by (rule rel_trans [OF m1 rel_wait])
  ultimately show ?case using Cons seek rel_trans by (cases r) auto
qed

lemma seek_in_rel: "rel m (snd (seek_primary_replica_in http net sources retries stale m))"
  unfolding seek_primary_replica_in_def by (rule seek_attempts_rel)

lemma get_or_seek_rel: "rel m (snd (get_or_seek_primary_replica http net retries m))"
  by (auto simp: get_or_seek_primary_replica_def rel_refl seek_in_rel split: option.split list.split)

lemma consistent_attempts_rel:
  assumes "\<And>c m. rel m (snd (task c m))"
  shows "rel m (snd (consistent_attempts http net task retries n primary errors m))"
proof (induction n arbitrary: primary errors m)
  case 0
  then show ?case by (simp add: rel_refl)
next
  case (Suc n)
  obtain x m1 where run: "execute_on net task (available_address primary) (private_address primary) m = (x, m1)"
    by fastforce
  then have m1: "rel m m1"
    using execute_on_rel [of task m "available_address primary" "private_address primary"] assms by simp
  have after: "rel m (snd (consistent_attempts http net task retries n p es m2))" if "rel m m2" for p es m2
    by (rule rel_trans [OF that Suc.IH])
  have seek: "rel m m2" if "seek_primary_replica_in http net cs retries st m1 = (y, m2)" for cs st y m2
    using rel_trans [OF m1 seek_in_rel [of m1 http cs retries st]] that by simp
  show ?case
  proof (cases "\<exists>e. x = Err (Connection e)")
    case True
    then obtain e where e: "x = Err (Connection e)" by blast
    show ?thesis
    proof (cases "hinted_replica m1 e")
      case None
      obtain y m2 where y: "seek_primary_replica_in http net (failover_candidates m1 (private_address primary) e)
          retries (Some (private_address primary)) m1 = (y, m2)" by fastforce
      with run e None show ?thesis using after [OF seek [OF y]] seek [OF y] by (cases y) (simp_all add: Let_def)
    next
      case (Some h)
      with run e show ?thesis using after [OF m1] by (simp add: Let_def)
    qed
  next
    case False
    with run m1 show ?thesis by (cases x) (auto split: error.split)
  qed
qed

lemma execute_rel:
  assumes "\<And>c m. rel m (snd (task c m))"
  shows "rel m (snd (execute http net routing task m))"
proof (cases routing)
  case Auto
  have "rel m (snd (io_then (get_or_seek_primary_replica http net k m) (\<lambda>primary m1.
      consistent_attempts http net task k (Suc k) primary [] m1)))" for k
  proof (rule io_then_keeps [of rel])
    show "rel m (snd (get_or_seek_primary_replica http net k m))" by (rule get_or_seek_rel)
    show "rel m (snd (consistent_attempts http net task k (Suc k) p [] m1))" if "rel m m1" for p m1
      by (rule rel_trans [OF that consistent_attempts_rel]) (rule assms)
  qed
  with Auto show ?thesis by (simp add: execute_def execute_strongly_consistent_def Let_def)
qed (simp add: execute_def rel_refl execute_on_rel assms)

end

section \<open>After a failover\<close>

text \<open>The manager after a primary was found: it is the newest one known, and only known servers have connections.\<close>

definition connections_current :: "('c, 'w) manager \<Rightarrow> bool" where
  "connections_current m \<longleftrightarrow> replica_connections m \<noteq> []
     \<and> fst ` set (replica_connections m) \<subseteq> private_address ` set (replicas m)"

lemma hm_insert_keys: "fst ` set (hm_insert k v m) = insert k (fst ` set m)"
  by (simp add: hm_insert_def dom_update)

lemma hm_inserts_keys: "fst ` set (foldl (\<lambda>cs (a, c). hm_insert a c cs) m ps) = fst ` set m \<union> fst ` set ps"
  by (induction ps arbitrary: m) (simp_all add: hm_insert_keys case_prod_beta)

lemma new_connection_keeps:
  "new_replica_connection net a m = (r, m1) \<Longrightarrow> replicas m1 = replicas m \<and> replica_connections m1 = replica_connections m"
  by (auto simp: new_replica_connection_def on_network_def io_map_def split: prod.splits)

lemma connect_missing_Ok:
  "connect_missing net known rs new errors m = (Ok (new', errors'), m') \<Longrightarrow>
   replicas m' = replicas m \<and> replica_connections m' = replica_connections m
   \<and> fst ` set new' \<subseteq> fst ` set new \<union> private_address ` set rs"
proof (induction rs arbitrary: new errors m)
  case (Cons r rs)
  show ?case
  proof (cases "private_address r \<in> set known")
    case True
    with Cons.prems have "connect_missing net known rs new errors m = (Ok (new', errors'), m')" by simp
    from Cons.IH [OF this] show ?thesis by (simp add: subset_insertI2)
  next
    case False
    obtain c m1 where c: "new_replica_connection net (available_address r) m = (c, m1)" by fastforce
    have k: "replicas m1 = replicas m" "replica_connections m1 = replica_connections m"
      using new_connection_keeps [OF c] by simp_all
    show ?thesis
    proof (cases c)
      case (Ok x)
      with Cons.prems False c have "connect_missing net known rs (hm_insert (private_address r) x new) errors m1
        = (Ok (new', errors'), m')" by simp
      from Cons.IH [OF this] k show ?thesis by (simp add: hm_insert_keys)
    next
      case (Err e)
      with Cons.prems False c have "connect_missing net known rs new (hm_insert (available_address r) e errors) m1
        = (Ok (new', errors'), m')" by simp
      from Cons.IH [OF this] k show ?thesis by (simp add: subset_insertI2)
    qed (use Cons.prems False c in simp)
  qed
qed simp

lemma refresh_Ok:
  assumes "refresh_replica_connections http net m = (Ok u, m')"
  shows "replicas m' = replicas m \<and> connections_current m'"
proof -
  obtain new errors m1 where c:
    "connect_missing net (map fst (replica_connections m)) (replicas m) [] [] m = (Ok (new, errors), m1)"
    and m': "m' = m1\<lparr>replica_connections := foldl (\<lambda>cs (a, c). hm_insert a c cs)
             (hm_retain (\<lambda>a _. a \<in> private_address ` set (replicas m)) (replica_connections m1)) new\<rparr>"
      "replica_connections m' \<noteq> []"
    using assms unfolding refresh_replica_connections_def
    by (auto simp: io_then_Ok Let_def split: if_splits)
  have "replicas m1 = replicas m" "fst ` set new \<subseteq> private_address ` set (replicas m)"
    using connect_missing_Ok [OF c] by auto
  with m' show ?thesis
    by (auto simp: connections_current_def hm_inserts_keys hm_retain_def)
qed

lemma seek_primary_replica_Ok:
  assumes "seek_primary_replica http net c m = (Ok p, m')"
  shows "newest_primary p (replicas m') \<and> connections_current m'"
proof -
  obtain servers m1 where "case find_primary_replica (filter_available_replicas servers) of
      Some q \<Rightarrow> io_then (refresh_replica_connections http net (m1\<lparr>replicas := filter_available_replicas servers\<rparr>))
        (\<lambda>_ m3. (Ok q, m3)) = (Ok p, m')
    | None \<Rightarrow> False"
    using assms unfolding seek_primary_replica_def
    by (fastforce simp: io_then_Ok Let_def read_primary_replica_def split: option.splits)
  then obtain u where "find_primary_replica (filter_available_replicas servers) = Some p"
    "refresh_replica_connections http net (m1\<lparr>replicas := filter_available_replicas servers\<rparr>) = (Ok u, m')"
    by (auto simp: io_then_Ok split: option.splits)
  then show ?thesis using find_primary_replica_newest refresh_Ok by fastforce
qed

lemma execute_on_any_Ok:
  assumes "execute_on_any http net task rs errors m = (Ok x, m')"
    and task: "\<And>c m. task c m = (Ok x, m') \<Longrightarrow> Q"
  shows Q
  using assms(1)
proof (induction rs arbitrary: errors m)
  case (Cons r rs)
  have run: Q if "execute_on net task (available_address r) (private_address r) m = (Ok x, m')"
    using that task by (auto simp: execute_on_def io_then_Ok split: option.splits)
  show ?case
    using Cons run by (auto split: prod.splits result.splits error.splits)
qed simp

lemma seek_attempts_Ok:
  "seek_attempts http net sources retries stale as last_error m = (Ok p, m') \<Longrightarrow>
   newest_primary p (replicas m') \<and> connections_current m'"
proof (induction "as" arbitrary: last_error m)
  case Nil
  then show ?case by (auto split: option.splits)
next
  case (Cons a as)
  obtain r m1 where seek: "try_seek_primary_replica_in http net sources m = (r, m1)" by fastforce
  show ?case
  proof (cases r)
    case (Ok q)
    have "newest_primary q (replicas m1) \<and> connections_current m1"
      using seek unfolding Ok try_seek_primary_replica_in_def
      by (rule execute_on_any_Ok) (rule seek_primary_replica_Ok)
    with Cons seek Ok show ?thesis by (auto split: if_splits)
  qed (use Cons seek in auto)
qed

section \<open>Direct routing\<close>

definition manager_ok :: "('c, 'w) manager \<Rightarrow> bool" where
  "manager_ok m \<longleftrightarrow> hm_ok (replica_connections m) \<and> translation_ok (manager_translation m)
     \<and> (\<forall>r \<in> set (replicas m). public_address r = to_public (manager_translation m) (private_address r))"

definition untranslated :: "server \<Rightarrow> bool" where
  "untranslated s = (case s of Available a \<Rightarrow> public_address a = None | Unavailable _ \<Rightarrow> True)"

lemma translated_replicas:
  assumes "\<forall>s \<in> set servers. untranslated s"
    "r \<in> set (filter_available_replicas (translate_replicas t source servers))"
  shows "public_address r = to_public t (private_address r)"
proof -
  obtain s where "s \<in> set servers" "Available r = server_translated t
      (case s of Unavailable None \<Rightarrow> server_available_from_private source None | other \<Rightarrow> other)"
    using assms(2)
    by (auto simp: filter_available_replicas_def map_filter_def translate_replicas_def split: server.splits)
  with assms(1) show ?thesis
    by (auto simp: server_translated_def available_translated_def untranslated_def
        server_available_from_private_def available_from_private_def
        split: server.splits option.splits)
qed

text \<open>The invariant is kept by every operation of the manager, when servers come untranslated from the network.\<close>

lemma manager_ok_cong:
  "manager_translation m' = manager_translation m \<Longrightarrow> replicas m' = replicas m \<Longrightarrow>
   (hm_ok (replica_connections m) \<Longrightarrow> hm_ok (replica_connections m')) \<Longrightarrow> manager_ok m \<Longrightarrow> manager_ok m'"
  by (simp add: manager_ok_def)

lemma on_network_keeps:
  "manager_translation (snd (on_network f m)) = manager_translation m"
  "replicas (snd (on_network f m)) = replicas m"
  "replica_connections (snd (on_network f m)) = replica_connections m"
  "network_state (snd (on_network f m)) = snd (f (network_state m))"
  by (simp_all add: on_network_def case_prod_beta)

definition keeps_ok :: "('c, 'w) manager \<Rightarrow> ('c, 'w) manager \<Rightarrow> bool" where
  "keeps_ok m m' \<longleftrightarrow> manager_translation m' = manager_translation m \<and> (manager_ok m \<longrightarrow> manager_ok m')"

lemma keeps_okI:
  "manager_translation m' = manager_translation m \<Longrightarrow> replicas m' = replicas m \<Longrightarrow>
   (hm_ok (replica_connections m) \<Longrightarrow> hm_ok (replica_connections m')) \<Longrightarrow> keeps_ok m m'"
  using manager_ok_cong by (auto simp: keeps_ok_def)

lemma manager_ok_relation:
  assumes "\<And>c w servers w'. net_servers_all net c w = (Ok servers, w') \<Longrightarrow> \<forall>s \<in> set servers. untranslated s"
  shows "manager_relation net keeps_ok"
proof
  show "keeps_ok m m" for m :: "('a, 'b) manager" by (simp add: keeps_ok_def)
  show "keeps_ok m m1 \<Longrightarrow> keeps_ok m1 m2 \<Longrightarrow> keeps_ok m m2" for m m1 m2 :: "('a, 'b) manager"
    by (simp add: keeps_ok_def)
  show "keeps_ok m (snd (on_network (net_connect net a) m))" for m a
    by (rule keeps_okI) (simp_all add: on_network_keeps)
  show "keeps_ok m (snd (on_network (net_servers_all net c) m))" for m c
    by (rule keeps_okI) (simp_all add: on_network_keeps)
  show "keeps_ok m (wait_for_primary_replica_selection net m)" for m
    by (rule keeps_okI) (simp_all add: wait_for_primary_replica_selection_def)
  show "(hm_ok (replica_connections m) \<Longrightarrow> hm_ok cs) \<Longrightarrow> keeps_ok m (m\<lparr>replica_connections := cs\<rparr>)"
    for m :: "('a, 'b) manager" and cs
    by (rule keeps_okI) simp_all
next
  fix c m servers m1
  assume fetched: "on_network (net_servers_all net c) m = (Ok servers, m1)"
  then have "net_servers_all net c (network_state m) = (Ok servers, network_state m1)"
    by (auto simp: on_network_def split: prod.splits)
  then have "\<forall>s \<in> set servers. untranslated s" by (rule assms)
  moreover have "manager_translation m1 = manager_translation m"
    using on_network_keeps(1) [of "net_servers_all net c" m] fetched by simp
  ultimately show "keeps_ok m1 (m1\<lparr>replicas := filter_available_replicas
      (translate_replicas (manager_translation m) (conn_address net c) servers)\<rparr>)"
    using translated_replicas by (simp add: keeps_ok_def manager_ok_def)
qed

lemma direct_private_address:
  assumes "manager_ok m" "r \<in> set (replicas m)"
    and "public_address r = None \<longrightarrow> to_private (manager_translation m) (private_address r) \<in> {None, Some (private_address r)}"
  shows "(case to_private (manager_translation m) (available_address r) of Some p \<Rightarrow> p | None \<Rightarrow> available_address r)
    = private_address r"
proof (cases "public_address r")
  case None
  with assms(3) show ?thesis by (auto simp: available_address_def)
next
  case (Some a)
  then have "to_public (manager_translation m) (private_address r) = Some a"
    using assms(1,2) by (auto simp: manager_ok_def)
  then have "to_private (manager_translation m) a = Some (private_address r)"
    using to_private_to_public assms(1) by (auto simp: manager_ok_def)
  with Some show ?thesis by (simp add: available_address_def)
qed

section \<open>Counting the runs of a task\<close>

lemma execute_on_counts:
  fixes n :: "('c, 'w) manager \<Rightarrow> nat"
  assumes "\<And>m public private. n (snd (record_new_replica_connection net public private m)) = n m"
    and "\<And>c m. n (snd (task c m)) \<le> Suc (n m)"
  shows "n (snd (execute_on net task public private m)) \<le> Suc (n m)"
proof (cases "hm_get (replica_connections m) private")
  case None
  have "n (snd (io_then (record_new_replica_connection net public private m) task)) \<le> Suc (n m)"
    using assms by (intro io_then_keeps [of "\<lambda>m m'. n m' \<le> Suc (n m)"]) (auto simp: le_SucI, metis snd_conv)
  with None show ?thesis by (simp add: execute_on_def)
qed (simp add: execute_on_def assms)

lemma consistent_attempts_counts:
  fixes n :: "('c, 'w) manager \<Rightarrow> nat"
  assumes once: "\<And>m public private. n (snd (execute_on net task public private m)) \<le> Suc (n m)"
    and seek: "\<And>m http sources retries stale. n (snd (seek_primary_replica_in http net sources retries stale m)) = n m"
  shows "n (snd (consistent_attempts http net task retries k p errors m)) \<le> n m + k"
proof (induction k arbitrary: p errors m)
  case (Suc k)
  obtain x m1 where run: "execute_on net task (available_address p) (private_address p) m = (x, m1)" by fastforce
  then have m1: "n m1 \<le> Suc (n m)" using once [of "available_address p" "private_address p" m] by simp
  have after: "n (snd (consistent_attempts http net task retries k q es m2)) \<le> n m + Suc k" if "n m2 = n m1" for q es m2
    using Suc.IH [of q es m2] that m1 by simp
  show ?case
  proof (cases "\<exists>e. x = Err (Connection e)")
    case True
    then obtain e where e: "x = Err (Connection e)" by blast
    obtain y m2 where y: "seek_primary_replica_in http net (failover_candidates m1 (private_address p) e)
        retries (Some (private_address p)) m1 = (y, m2)" by fastforce
    then have m2: "n m2 = n m1" by (metis seek snd_conv)
    show ?thesis
    proof (cases "hinted_replica m1 e")
      case None
      with run e y show ?thesis using after [OF m2] m1 m2 by (cases y) (simp_all add: Let_def)
    next
      case (Some h)
      with run e show ?thesis using after [of m1] by (simp add: Let_def)
    qed
  next
    case False
    with run m1 show ?thesis by (cases x) (auto split: error.split)
  qed
qed simp

section \<open>Properties\<close>

text \<open>
  C24: a task that is routed automatically runs at most once more than the configured number of
  retries, whatever the servers answer: \<open>cnt\<close> counts the runs of the task in the state of the network.
\<close>

theorem task_runs_bounded:
  assumes "\<And>a w. cnt (snd (net_connect net a w)) = cnt w" "\<And>c w. cnt (snd (net_servers_all net c w)) = cnt w"
    and "\<And>w. cnt (net_wait net w) = cnt w"
    and task: "\<And>c m. cnt (network_state (snd (task c m))) \<le> Suc (cnt (network_state m))"
  shows "cnt (network_state (snd (execute http net Auto task m)))
    \<le> cnt (network_state m) + Suc (primary_failover_retries m)"
proof -
  let ?n = "\<lambda>m. cnt (network_state m)"
  let ?rel = "\<lambda>m m'. ?n m' = ?n m"
  have loc: "manager_relation net ?rel"
    by unfold_locales (simp_all add: assms(1-3) on_network_keeps wait_for_primary_replica_selection_def)
  note seek = manager_relation.seek_in_rel [OF loc] and get = manager_relation.get_or_seek_rel [OF loc]
  have once: "?n (snd (execute_on net task public priv m)) \<le> Suc (?n m)" for public priv m
    using execute_on_counts [of ?n net task] manager_relation.record_connection_rel [OF loc] task by simp
  have runs: "?n (snd (consistent_attempts http net task retries k p errors m)) \<le> ?n m + k" for retries k p errors m
    using consistent_attempts_counts [of ?n net task] once seek by simp
  obtain x m1 where x: "get_or_seek_primary_replica http net (primary_failover_retries m) m = (x, m1)" by fastforce
  then have "?n m1 = ?n m" using get [of http "primary_failover_retries m" m] by simp
  with x runs [of "primary_failover_retries m" "Suc (primary_failover_retries m)" _ "[]" m1] show ?thesis
    by (cases x)
      (simp_all add: execute_def execute_strongly_consistent_def Let_def del: consistent_attempts.simps)
qed

text \<open>
  A small cluster: the server at \<open>a:1\<close> is down and was the primary of term 1, the server at \<open>b:1\<close> is
  the primary of term 2.  A connection is its address; the network counts the runs of the task.
\<close>

definition sample_replica :: "string \<Rightarrow> u64 \<Rightarrow> available_server" where
  "sample_replica a t = available_from_private (sample_address a)
     (Some \<lparr>status_id = t, status_role = Some Primary, status_term = Some t\<rparr>)"

definition sample_network :: "(address, nat) network" where
  "sample_network = \<lparr>
     net_connect = (\<lambda>a w. if a = sample_address ''a:1'' then (Err (Connection BrokenPipe), w)
        else (Ok (a, [Available (sample_replica ''b:1'' 2)]), w)),
     net_servers_all = (\<lambda>c w. (Ok [Available (sample_replica ''b:1'' 2)], w)),
     net_wait = id, net_force_close = (\<lambda>_ w. (Ok (), w)), conn_address = id, conn_username = (\<lambda>_. ''admin'')\<rparr>"

definition sample_manager :: "(address, nat) manager" where
  "sample_manager = \<lparr>configured_addresses = Direct [sample_address ''a:1'', sample_address ''b:1''],
     replicas = [sample_replica ''a:1'' 1, sample_replica ''b:1'' 0], replica_connections = [],
     manager_translation = Mapping [], primary_failover_retries = 1, network_state = 0\<rparr>"

definition sample_http :: http_lib where
  "sample_http = \<lparr>parse_uri = (\<lambda>s. Ok \<lparr>scheme = None, authority = Some s, path_and_query = None\<rparr>),
     port = (\<lambda>_. Some 1), from_parts_uri = Some, uri_debug = (\<lambda>_. ''uri'')\<rparr>"

definition sample_task :: "(address, nat, address) task" where
  "sample_task c m = (Ok c, m\<lparr>network_state := Suc (network_state m)\<rparr>)"

theorem task_runs_bounded_witness:
  "network_state (snd (execute sample_http sample_network Auto sample_task sample_manager)) \<le> 2"
proof -
  have "network_state (snd (execute sample_http sample_network Auto sample_task sample_manager))
      \<le> network_state sample_manager + Suc (primary_failover_retries sample_manager)"
    by (rule task_runs_bounded [of "\<lambda>n. n"]) (simp_all add: sample_network_def sample_task_def)
  then show ?thesis by (simp add: sample_manager_def)
qed


lemmas sample_defs = execute_def execute_strongly_consistent_def Let_def get_or_seek_primary_replica_def
  read_primary_replica_def find_primary_replica_def sample_manager_def sample_replica_def
  available_is_primary_def replica_is_primary_def replica_role_def available_from_private_def
  available_term_def replica_term_def execute_on_def hm_get_def record_new_replica_connection_def
  new_replica_connection_def on_network_def sample_network_def available_address_def hinted_replica_def
  failover_candidates_def is_not_primary_def sample_address_def seek_primary_replica_in_def
  try_seek_primary_replica_in_def seek_primary_replica_def fetch_servers_from_connection_def
  translate_replicas_def server_translated_def available_translated_def to_public_def
  filter_available_replicas_def map_filter_def refresh_replica_connections_def hm_insert_def
  hm_retain_def sample_task_def upt_rec

lemma sample_failover_run:
  "execute http sample_network Auto sample_task sample_manager
     = (Ok (sample_address ''b:1''), sample_manager\<lparr>replicas := [sample_replica ''b:1'' 2],
          replica_connections := [(sample_address ''b:1'', sample_address ''b:1'')], network_state := 1\<rparr>)"
  by (simp add: sample_defs)



text \<open>
  C10: what a search for the primary establishes.  The replica it returns is, among the servers known
  afterwards, a primary of the greatest term; there is at least one connection, and every connection
  belongs to a known server.
\<close>

theorem seek_finds_newest_primary:
  assumes "seek_primary_replica_in http net sources retries stale m = (Ok p, m')"
  shows "p \<in> set (replicas m') \<and> available_is_primary p
    \<and> (\<forall>r \<in> set (replicas m'). available_is_primary r \<longrightarrow> term_of r \<le> term_of p)
    \<and> replica_connections m' \<noteq> []
    \<and> (\<forall>a c. (a, c) \<in> set (replica_connections m') \<longrightarrow> (\<exists>r \<in> set (replicas m'). private_address r = a))"
  using seek_attempts_Ok [OF assms [unfolded seek_primary_replica_in_def]]
  by (auto simp: newest_primary_def connections_current_def) (metis fst_conv image_eqI image_iff subsetD)

theorem seek_finds_newest_primary_witness:
  "\<exists>m'. seek_primary_replica_in sample_http sample_network (replicas sample_manager) 1 None sample_manager
      = (Ok (sample_replica ''b:1'' 2), m')
    \<and> (\<forall>r \<in> set (replicas m'). available_is_primary r \<longrightarrow> term_of r \<le> 2)"
proof -
  have "\<exists>m'. seek_primary_replica_in sample_http sample_network (replicas sample_manager) 1 None sample_manager
      = (Ok (sample_replica ''b:1'' 2), m')"
    by (simp add: sample_defs)
  then obtain m' where m': "seek_primary_replica_in sample_http sample_network (replicas sample_manager) 1 None sample_manager
      = (Ok (sample_replica ''b:1'' 2), m')" by blast
  have "term_of (sample_replica ''b:1'' 2) = 2" by (simp add: term_of_def sample_defs)
  with seek_finds_newest_primary [OF m'] m' show ?thesis by auto
qed



end
