(* ===== verification/Driver.thy ===== *)
theory Driver
  imports Server_Connections Failover
begin

text \<open>
  \<open>rust/src/driver.rs\<close>, \<open>database/database_manager.rs\<close>, \<open>database/database.rs\<close> (all but the export to
  files, see \<open>Migration\<close>), \<open>user/user_manager.rs\<close> and \<open>user/user.rs\<close>: the driver and its managers.  Their
  operations are tasks for the server manager, whose network are the connections of
  \<open>Server_Connections\<close>.
\<close>

section \<open>The network of the server manager\<close>

datatype server_connection =
  ServerConnection (conn_handle: nat) (conn_address_of: address) (conn_username_of: string)

text \<open>\<open>PRIMARY_REPLICA_SELECTION_TIMEOUT\<close> in nanoseconds.\<close>

definition primary_replica_selection_timeout :: nat where
  "primary_replica_selection_timeout = 2 * 1000000000"

definition driver_network ::
    "driver_params \<Rightarrow> 'w grpc \<Rightarrow> (server_connection, 'w driver_world) network" where
  "driver_network p g = \<lparr>
     net_connect = (\<lambda>a w. io_map (\<lambda>(h, servers). (ServerConnection h a (username (params_credentials p)), servers))
        (server_connection_new p g a w)),
     net_servers_all = (\<lambda>c. connection_servers_all p g (conn_handle c)),
     net_wait = (\<lambda>w. w\<lparr>world_clock := world_clock w + primary_replica_selection_timeout,
        world_grpc := g_elapse g primary_replica_selection_timeout (world_grpc w)\<rparr>),
     net_force_close = (\<lambda>c. connection_force_close (conn_handle c)),
     conn_address = conn_address_of,
     conn_username = conn_username_of\<rparr>"

type_synonym 'w driver = "(server_connection, 'w driver_world) manager"

text \<open>An operation of a connection as a task.\<close>

definition on_connection ::
    "(nat \<Rightarrow> ('w driver_world, 'a) io) \<Rightarrow> (server_connection, 'w driver_world, 'a) task" where
  "on_connection f c m = on_network (f (conn_handle c)) m"

definition run :: "driver_params \<Rightarrow> 'w grpc \<Rightarrow> server_routing \<Rightarrow> (nat \<Rightarrow> ('w driver_world, 'a) io) \<Rightarrow> ('w driver, 'a) io" where
  "run p g routing f d = execute (rpc_http (params_env p)) (driver_network p g) routing (on_connection f) d"

section \<open>The driver\<close>

definition driver_lang :: string where
  "driver_lang = ''rust''"

definition default_address :: string where
  "default_address = ''127.0.0.1:1729''"

text \<open>The driver is made on a new runtime, which the operating system may refuse to start.\<close>

definition new_with_description ::
    "driver_params \<Rightarrow> 'w grpc \<Rightarrow> string option \<Rightarrow> addresses \<Rightarrow> 'w driver_world \<Rightarrow> ('w driver, error) result \<times> 'w driver_world" where
  "new_with_description p g runtime_error configured w =
     (case runtime_error of
        Some e \<Rightarrow> (Err (Other e), w)
      | None \<Rightarrow>
          manager_new (rpc_http (params_env p)) (driver_network p g) configured (options_retries (params_options p))
            (w\<lparr>runtime_open := True, worker_alive := True\<rparr>))"

definition driver_new ::
    "driver_params \<Rightarrow> 'w grpc \<Rightarrow> string option \<Rightarrow> addresses \<Rightarrow> 'w driver_world \<Rightarrow> ('w driver, error) result \<times> 'w driver_world" where
  "driver_new p g = new_with_description (p\<lparr>params_lang := driver_lang\<rparr>) g"

definition driver_is_open :: "'w driver \<Rightarrow> bool" where
  "driver_is_open d = runtime_is_open (network_state d)"

definition server_version_with_routing ::
    "driver_params \<Rightarrow> 'w grpc \<Rightarrow> server_routing \<Rightarrow> ('w driver, server_version) io" where
  "server_version_with_routing p g routing d = run p g routing (connection_version p g) d"

definition driver_server_version :: "driver_params \<Rightarrow> 'w grpc \<Rightarrow> ('w driver, server_version) io" where
  "driver_server_version p g d = server_version_with_routing p g Auto d"

definition servers_with_routing :: "driver_params \<Rightarrow> 'w grpc \<Rightarrow> server_routing \<Rightarrow> ('w driver, server list) io" where
  "servers_with_routing p g routing d = fetch_servers (rpc_http (params_env p)) (driver_network p g) routing d"

definition driver_servers :: "driver_params \<Rightarrow> 'w grpc \<Rightarrow> ('w driver, server list) io" where
  "driver_servers p g d = servers_with_routing p g Auto d"

definition primary_server_with_routing ::
    "driver_params \<Rightarrow> 'w grpc \<Rightarrow> server_routing \<Rightarrow> ('w driver, available_server option) io" where
  "primary_server_with_routing p g routing d =
     fetch_primary_server (rpc_http (params_env p)) (driver_network p g) routing d"

definition driver_primary_server :: "driver_params \<Rightarrow> 'w grpc \<Rightarrow> ('w driver, available_server option) io" where
  "driver_primary_server p g d = primary_server_with_routing p g Auto d"

definition transaction_with_options ::
    "driver_params \<Rightarrow> 'w grpc \<Rightarrow> string \<Rightarrow> transaction_type \<Rightarrow> transaction_options
     \<Rightarrow> ('w driver, transaction \<times> channel \<times> channel) io" where
  "transaction_with_options p g database t options d = run p g Auto (open_transaction p g database t options) d"

definition driver_transaction ::
    "driver_params \<Rightarrow> 'w grpc \<Rightarrow> string \<Rightarrow> transaction_type \<Rightarrow> ('w driver, transaction \<times> channel \<times> channel) io" where
  "driver_transaction p g database t d = transaction_with_options p g database t transaction_options_new d"

text \<open>Closing: the connections first, then the runtime in any case; the first error is reported.\<close>

definition driver_force_close :: "driver_params \<Rightarrow> 'w grpc \<Rightarrow> ('w driver, unit) io" where
  "driver_force_close p g d =
     (if \<not> driver_is_open d then (Ok (), d)
      else
        let (r1, d1) = manager_force_close (driver_network p g) d;
            (r2, d2) = on_network runtime_force_close d1
        in (and_then r1 (\<lambda>_. r2), d2))"

section \<open>Databases\<close>

record database =
  database_name :: string

definition database_new :: "database_info \<Rightarrow> (database, error) result" where
  "database_new info = Ok \<lparr>database_name = database_info_name info\<rparr>"

definition database_get :: "string \<Rightarrow> (database, error) result" where
  "database_get name = Ok \<lparr>database_name = name\<rparr>"

definition try_build_database :: "database_info \<Rightarrow> (database, error) result" where
  "try_build_database info = database_new info"

definition databases_all_of :: "driver_params \<Rightarrow> 'w grpc \<Rightarrow> ('w driver, database list) io" where
  "databases_all_of p g d =
     run p g Auto (\<lambda>h w. io_and_then (all_databases p g h w) (try_map try_build_database)) d"

definition databases_get_of :: "driver_params \<Rightarrow> 'w grpc \<Rightarrow> string \<Rightarrow> ('w driver, database) io" where
  "databases_get_of p g name d = io_and_then (run p g Auto (get_database p g name) d) try_build_database"

definition databases_contain :: "driver_params \<Rightarrow> 'w grpc \<Rightarrow> string \<Rightarrow> ('w driver, bool) io" where
  "databases_contain p g name d = run p g Auto (contains_database p g name) d"

definition create_database_of :: "driver_params \<Rightarrow> 'w grpc \<Rightarrow> string \<Rightarrow> ('w driver, unit) io" where
  "create_database_of p g name d = run p g Auto (create_database p g name) d"

definition import_stream_of :: "driver_params \<Rightarrow> 'w grpc \<Rightarrow> string \<Rightarrow> string \<Rightarrow> ('w driver, channel \<times> channel) io" where
  "import_stream_of p g name schema d = run p g Auto (import_database p g name schema) d"

definition database_delete_of :: "driver_params \<Rightarrow> 'w grpc \<Rightarrow> database \<Rightarrow> ('w driver, unit) io" where
  "database_delete_of p g db d = run p g Auto (delete_database p g (database_name db)) d"

definition database_schema_of :: "driver_params \<Rightarrow> 'w grpc \<Rightarrow> database \<Rightarrow> ('w driver, string) io" where
  "database_schema_of p g db d = run p g Auto (connection_database_schema p g (database_name db)) d"

definition database_type_schema_of :: "driver_params \<Rightarrow> 'w grpc \<Rightarrow> database \<Rightarrow> ('w driver, string) io" where
  "database_type_schema_of p g db d = run p g Auto (connection_database_type_schema p g (database_name db)) d"

section \<open>Users\<close>

record user =
  user_name :: string
  user_password :: "string option"

definition user_from_info :: "user_info \<Rightarrow> user" where
  "user_from_info i = \<lparr>user_name = user_info_name i, user_password = user_info_password i\<rparr>"

definition users_contain :: "driver_params \<Rightarrow> 'w grpc \<Rightarrow> string \<Rightarrow> ('w driver, bool) io" where
  "users_contain p g name d = run p g Auto (contains_user p g name) d"

definition users_get_of :: "driver_params \<Rightarrow> 'w grpc \<Rightarrow> string \<Rightarrow> ('w driver, user option) io" where
  "users_get_of p g name d =
     run p g Auto (\<lambda>h w. io_map (map_option user_from_info) (get_user p g name h w)) d"

definition get_current :: "driver_params \<Rightarrow> 'w grpc \<Rightarrow> ('w driver, user option) io" where
  "get_current p g d =
     io_then (username_of_manager (driver_network p g) d, d) (\<lambda>name d1. users_get_of p g name d1)"

definition users_all_of :: "driver_params \<Rightarrow> 'w grpc \<Rightarrow> ('w driver, user list) io" where
  "users_all_of p g d = run p g Auto (\<lambda>h w. io_map (map user_from_info) (all_users p g h w)) d"

definition create_user_of :: "driver_params \<Rightarrow> 'w grpc \<Rightarrow> string \<Rightarrow> string \<Rightarrow> ('w driver, unit) io" where
  "create_user_of p g name pw d = run p g Auto (create_user p g name pw) d"

definition update_password_of :: "driver_params \<Rightarrow> 'w grpc \<Rightarrow> user \<Rightarrow> string \<Rightarrow> ('w driver, unit) io" where
  "update_password_of p g u pw d = run p g Auto (update_password p g (user_name u) pw) d"

definition delete_user_of :: "driver_params \<Rightarrow> 'w grpc \<Rightarrow> user \<Rightarrow> ('w driver, unit) io" where
  "delete_user_of p g u d = run p g Auto (delete_user p g (user_name u)) d"

section \<open>The servers a connection reports\<close>

lemma unexpected_not_Ok [simp]: "unexpected p r \<noteq> Ok a"
  by (simp add: unexpected_def)

lemma expecting_Ok:
  assumes "expecting p g h req select w = (Ok a, w')"
  shows "\<exists>r s s'. send_request (params_env p) g req s = (Ok r, s') \<and> select r = Some a"
proof -
  obtain r where r: "connection_request p g h req w = (Ok r, w')" "select r = Some a"
    using assms by (cases "connection_request p g h req w")
      (auto simp: expecting_def result_eqs split: option.splits)
  from r(1) have "\<exists>s s'. send_request (params_env p) g req s = (Ok r, s')"
    by (auto simp: connection_request_def rpc_request_def Let_def split: if_splits prod.splits)
  with r(2) show ?thesis by blast
qed

lemma server_from_proto_untranslated: "server_from_proto http m = Ok s \<Longrightarrow> untranslated s"
  by (cases m)
    (auto simp: untranslated_def server_available_from_private_def available_from_private_def result_eqs
      split: option.splits)

lemma servers_all_untranslated:
  assumes "connection_servers_all p g h w = (Ok servers, w')"
  shows "\<forall>s \<in> set servers. untranslated s"
proof -
  obtain r s s' where "send_request (params_env p) g ServersAll s = (Ok r, s')"
    "(case r of ServersAllRes servers \<Rightarrow> Some servers | _ \<Rightarrow> None) = Some servers"
    using expecting_Ok [OF assms [unfolded connection_servers_all_def]] by blast
  then obtain res where "servers_all_from_proto (rpc_http (params_env p)) res = Ok (ServersAllRes servers)"
    by (auto simp: send_request_def Let_def io_and_then_def result_eqs split: response.splits)
  then obtain protos where "try_map (server_from_proto (rpc_http (params_env p))) protos = Ok servers"
    by (cases res) (auto simp: result_eqs)
  then show ?thesis using try_map_mem server_from_proto_untranslated by metis
qed

interpretation routed: manager_relation "driver_network p g" keeps_ok for p g
  by (rule manager_ok_relation) (simp add: driver_network_def servers_all_untranslated)


section \<open>A closed driver\<close>

definition closed_world :: "'w driver_world \<Rightarrow> bool" where
  "closed_world w \<longleftrightarrow> \<not> runtime_open w \<and> \<not> worker_alive w"

definition stays_closed :: "'w driver \<Rightarrow> 'w driver \<Rightarrow> bool" where
  "stays_closed d d' \<longleftrightarrow> (closed_world (network_state d) \<longrightarrow>
     closed_world (network_state d') \<and> connections (network_state d') = connections (network_state d))"

text \<open>An operation that a closed connection refuses.\<close>

definition refused :: "(nat \<Rightarrow> ('w driver_world, 'a) io) \<Rightarrow> bool" where
  "refused f \<longleftrightarrow> (\<forall>h w. closed_world w \<longrightarrow> f h w = (Err (Connection ServerConnectionIsClosed), w))"

lemma expecting_closed:
  "closed_world w \<Longrightarrow> expecting p g h req select w = (Err (Connection ServerConnectionIsClosed), w)"
  by (simp add: expecting_def connection_request_def runtime_is_open_def closed_world_def)

lemma connect_closed: "closed_world w \<Longrightarrow> net_connect (driver_network p g) a w = (Panic, w)"
  by (simp add: driver_network_def server_connection_new_def start_transmitter_def run_blocking_def
      closed_world_def)

interpretation closing: manager_relation "driver_network p g" stays_closed for p and g :: "'w grpc"
proof
  fix d d1 d2 :: "'w driver" and a c cs servers
  show "stays_closed d d" by (simp add: stays_closed_def)
  show "stays_closed d d1 \<Longrightarrow> stays_closed d1 d2 \<Longrightarrow> stays_closed d d2" by (simp add: stays_closed_def)
  show "stays_closed d (snd (on_network (net_connect (driver_network p g) a) d))"
    by (simp add: stays_closed_def on_network_keeps connect_closed)
  show "stays_closed d (snd (on_network (net_servers_all (driver_network p g) c) d))"
    by (simp add: stays_closed_def on_network_keeps driver_network_def connection_servers_all_def expecting_closed)
  show "stays_closed d (wait_for_primary_replica_selection (driver_network p g) d)"
    by (simp add: stays_closed_def wait_for_primary_replica_selection_def driver_network_def closed_world_def)
  show "stays_closed d (d\<lparr>replica_connections := cs\<rparr>)" "stays_closed d1 (d1\<lparr>replicas := filter_available_replicas
        (translate_replicas (manager_translation d) (conn_address (driver_network p g) c) servers)\<rparr>)"
    by (simp_all add: stays_closed_def)
qed

lemma execute_on_closed:
  assumes "closed_world (network_state d)" "\<And>c d r d'. closed_world (network_state d) \<Longrightarrow> task c d \<noteq> (Ok r, d')"
  shows "execute_on (driver_network p g) task public priv d \<noteq> (Ok r, d')"
  using assms connect_closed [OF assms(1)]
  by (auto simp: execute_on_def io_then_Ok record_new_replica_connection_def new_replica_connection_def
      on_network_def split: option.splits)

lemma execute_on_any_closed:
  assumes "closed_world (network_state d)" "\<And>c d r d'. closed_world (network_state d) \<Longrightarrow> task c d \<noteq> (Ok r, d')"
    and keeps: "\<And>c d. stays_closed d (snd (task c d))"
  shows "execute_on_any http (driver_network p g) task rs errors d \<noteq> (Ok r, d')"
  using assms(1)
proof (induction rs arbitrary: errors d)
  case (Cons q rs)
  obtain x d1 where x: "execute_on (driver_network p g) task (available_address q) (private_address q) d = (x, d1)"
    by fastforce
  then have "closed_world (network_state d1)"
    using closing.execute_on_rel [of task d p g "available_address q" "private_address q"] keeps Cons.prems
    by (simp add: stays_closed_def)
  moreover have "\<forall>r. x \<noteq> Ok r" using execute_on_closed [of d task p g] Cons.prems assms(2) x by metis
  ultimately show ?case using Cons x by (cases x) (auto split: error.split)
qed simp

lemma seek_closed:
  assumes "closed_world (network_state d)"
  shows "seek_primary_replica_in http (driver_network p g) sources retries stale d \<noteq> (Ok r, d')"
proof -
  have task: "seek_primary_replica http (driver_network p g) c d \<noteq> (Ok q, d')"
    if "closed_world (network_state d)" for c d q d'
    using that by (simp add: seek_primary_replica_def fetch_servers_from_connection_def on_network_def
        driver_network_def connection_servers_all_def expecting_closed)
  have "seek_attempts http (driver_network p g) sources retries stale as last_error d \<noteq> (Ok r, d')" for "as" last_error
    using assms
  proof (induction "as" arbitrary: last_error d)
    case Nil
    then show ?case by (simp split: option.split)
  next
    case (Cons a as)
    obtain x d1 where x: "try_seek_primary_replica_in http (driver_network p g) sources d = (x, d1)" by fastforce
    have "\<forall>q. x \<noteq> Ok q"
      using execute_on_any_closed [of d "seek_primary_replica http (driver_network p g)" http p g sources "[]"]
        Cons.prems task closing.seek_primary_rel x unfolding try_seek_primary_replica_in_def by metis
    moreover have "stays_closed d (snd (try_seek_primary_replica_in http (driver_network p g) sources d))"
      unfolding try_seek_primary_replica_in_def
      by (rule closing.execute_on_any_rel, rule closing.seek_primary_rel)
    then have "closed_world (network_state d1)" using x Cons.prems by (simp add: stays_closed_def)
    moreover have "closed_world (network_state (wait_for_primary_replica_selection (driver_network p g) d1))"
      using closing.rel_wait [of d1 p g] \<open>closed_world (network_state d1)\<close> by (simp add: stays_closed_def)
    ultimately show ?case using Cons.IH x \<open>closed_world (network_state d1)\<close> by (cases x) auto
  qed
  then show ?thesis by (simp add: seek_primary_replica_in_def)
qed

lemma consistent_attempts_closed:
  assumes "closed_world (network_state d)" "\<And>c d r d'. closed_world (network_state d) \<Longrightarrow> task c d \<noteq> (Ok r, d')"
    and keeps: "\<And>c d. stays_closed d (snd (task c d))"
  shows "consistent_attempts http (driver_network p g) task retries n primary errors d \<noteq> (Ok r, d')"
  using assms(1)
proof (induction n arbitrary: primary errors d)
  case (Suc n)
  obtain x d1 where x: "execute_on (driver_network p g) task (available_address primary) (private_address primary) d
      = (x, d1)" by fastforce
  then have d1: "closed_world (network_state d1)"
    using closing.execute_on_rel [of task d p g "available_address primary" "private_address primary"] keeps Suc.prems
    by (simp add: stays_closed_def)
  have "\<forall>r. x \<noteq> Ok r" using execute_on_closed [of d task p g] Suc.prems assms(2) x by metis
  then show ?case using Suc.IH [OF d1] seek_closed [OF d1] x
    by (auto simp: Let_def split: prod.splits result.splits error.splits option.splits)
qed simp

lemma execute_closed_task:
  assumes "closed_world (network_state d)"
    and task: "\<And>c d r d'. closed_world (network_state d) \<Longrightarrow> task c d \<noteq> (Ok r, d')"
    and keeps: "\<And>c d. stays_closed d (snd (task c d))"
  shows "execute http (driver_network p g) routing task d \<noteq> (Ok r, d')"
proof -
  obtain x d1 where x: "get_or_seek_primary_replica http (driver_network p g) (primary_failover_retries d) d
      = (x, d1)" by fastforce
  then have "closed_world (network_state d1)"
    using closing.get_or_seek_rel [of d http p g "primary_failover_retries d"] assms(1)
    by (simp add: stays_closed_def)
  then show ?thesis
    using x execute_on_closed [of d task p g] assms(1) task keeps consistent_attempts_closed [of d1 task]
    by (cases routing; cases x)
      (auto simp: execute_def execute_strongly_consistent_def Let_def simp del: consistent_attempts.simps)
qed

lemma execute_closed:
  assumes "closed_world (network_state d)" "refused f"
  shows "run p g routing f d \<noteq> (Ok r, d')"
  unfolding run_def
proof (rule execute_closed_task [OF assms(1)])
  show "on_connection f c d \<noteq> (Ok r, d')" if "closed_world (network_state d)" for c d r d'
    using assms(2) that by (simp add: refused_def on_connection_def on_network_def)
  show "stays_closed d (snd (on_connection f c d))" for c d
    using assms(2) by (simp add: refused_def on_connection_def on_network_keeps stays_closed_def)
qed

lemma fetch_servers_closed:
  assumes "closed_world (network_state d)"
  shows "fetch_servers http (driver_network p g) routing d \<noteq> (Ok servers, d')"
proof -
  have task: "fetch_servers_from_connection (driver_network p g) c d \<noteq> (Ok r, d')"
    if "closed_world (network_state d)" for c d r d'
    using that by (simp add: fetch_servers_from_connection_def on_network_def driver_network_def
        connection_servers_all_def expecting_closed)
  show ?thesis
    using execute_closed_task [OF assms task closing.fetch_from_connection_rel]
    by (simp add: fetch_servers_def io_then_Ok)
qed

lemma force_close_connections_keeps:
  "runtime_open (snd (force_close_connections (driver_network p g) cs w)) = runtime_open w
   \<and> worker_alive (snd (force_close_connections (driver_network p g) cs w)) = worker_alive w"
proof (induction cs arbitrary: w)
  case (Cons c cs)
  obtain r w1 where r: "net_force_close (driver_network p g) c w = (r, w1)" by fastforce
  then have "runtime_open w1 = runtime_open w" "worker_alive w1 = worker_alive w"
    by (auto simp: driver_network_def connection_force_close_def Let_def update_connection_def)
  with Cons r show ?case by (cases r) simp_all
qed simp

lemma force_close_closed:
  assumes "driver_is_open d" "worker_alive (network_state d)"
  shows "closed_world (network_state (snd (driver_force_close p g d)))"
proof -
  obtain r1 d1 where d1: "manager_force_close (driver_network p g) d = (r1, d1)" by fastforce
  then have "worker_alive (network_state d1)"
    using assms(2) force_close_connections_keeps [of p g "map snd (replica_connections d)" "network_state d"]
    by (auto simp: manager_force_close_def on_network_def split: prod.splits)
  with d1 assms(1) show ?thesis
    by (simp add: driver_force_close_def runtime_force_close_def on_network_def closed_world_def Let_def)
qed

section \<open>Properties\<close>

text \<open>
  C12: a closed driver stays closed.  After \<open>force_close\<close> the driver is not open, closing it again does
  nothing and succeeds, and no request, transaction or list of servers is ever answered any more, however
  it is routed and whatever the servers would say.
\<close>

theorem closed_driver_answers_nothing:
  assumes "driver_is_open d" "worker_alive (network_state d)"
  shows "let d' = snd (driver_force_close p g d) in
      \<not> driver_is_open d' \<and> driver_force_close p g d' = (Ok (), d')
    \<and> (\<forall>routing req select a d''. run p g routing (\<lambda>h. expecting p g h req select) d' \<noteq> (Ok a, d''))
    \<and> (\<forall>database t options a d''. transaction_with_options p g database t options d' \<noteq> (Ok a, d''))
    \<and> (\<forall>routing servers d''. servers_with_routing p g routing d' \<noteq> (Ok servers, d''))"
proof -
  define d' where "d' = snd (driver_force_close p g d)"
  have closed: "closed_world (network_state d')" unfolding d'_def by (rule force_close_closed [OF assms])
  then have shut: "\<not> driver_is_open d'" by (simp add: driver_is_open_def runtime_is_open_def closed_world_def)
  have "refused (\<lambda>h. expecting p g h req select)" for req and select :: "response \<Rightarrow> 'b option"
    by (simp add: refused_def expecting_closed)
  from execute_closed [OF closed this]
  have requests: "\<forall>routing req (select :: response \<Rightarrow> 'b option) a d''.
      run p g routing (\<lambda>h. expecting p g h req select) d' \<noteq> (Ok a, d'')" by blast
  have "refused (open_transaction p g database t options)" for database t options
    by (simp add: refused_def open_transaction_def expecting_closed Let_def)
  from execute_closed [OF closed this]
  have "\<forall>database t options a d''. transaction_with_options p g database t options d' \<noteq> (Ok a, d'')"
    unfolding transaction_with_options_def by blast
  with requests shut fetch_servers_closed [OF closed] show ?thesis
    unfolding d'_def [symmetric] Let_def servers_with_routing_def by (simp add: driver_force_close_def)
qed


definition sample_params :: driver_params where
  "sample_params = \<lparr>params_env = \<lparr>rpc_http = sample_http, rpc_proto = sample_proto, rpc_chrono = sample_chrono,
       rpc_enums = sample_enums, rpc_overflow_checks = True, rpc_texts = sample_texts,
       rpc_server_text = (\<lambda>_. ''message'')\<rparr>,
     params_tls_rejects = (\<lambda>_. None), params_options = driver_options_default,
     params_credentials = credentials_new ''admin'' ''password'', params_lang = driver_lang, params_version = ''3''\<rparr>"

definition sample_driver :: "unit driver" where
  "sample_driver = \<lparr>configured_addresses = Direct [sample_address ''a:1''],
     replicas = [available_from_private (sample_address ''a:1'') None], replica_connections = [],
     manager_translation = Mapping [], primary_failover_retries = 1,
     network_state = \<lparr>runtime_open = True, worker_alive = True, connections = [], world_clock = 0,
       world_grpc = (), shut_down = []\<rparr>\<rparr>"

theorem closed_driver_answers_nothing_witness:
  "\<forall>g d''. run sample_params g Auto (create_database sample_params g ''db'')
      (snd (driver_force_close sample_params g sample_driver)) \<noteq> (Ok (), d'')"
proof (intro allI)
  fix g :: "unit grpc" and d''
  have "driver_is_open sample_driver" "worker_alive (network_state sample_driver)"
    by (simp_all add: sample_driver_def driver_is_open_def runtime_is_open_def)
  then have "\<forall>routing req (select :: response \<Rightarrow> unit option) a d''.
      run sample_params g routing (\<lambda>h. expecting sample_params g h req select)
        (snd (driver_force_close sample_params g sample_driver)) \<noteq> (Ok a, d'')"
    using closed_driver_answers_nothing [where 'b = unit, of sample_driver sample_params g]
    by (simp add: Let_def)
  then show "run sample_params g Auto (create_database sample_params g ''db'')
      (snd (driver_force_close sample_params g sample_driver)) \<noteq> (Ok (), d'')"
    by (simp add: create_database_def [abs_def])
qed

end
