(* ===== verification/Migration.thy ===== *)
theory Migration
  imports Driver
begin

text \<open>
  \<open>rust/src/database/migration.rs\<close>, the import of \<open>database_manager.rs\<close>, the export of \<open>database.rs\<close>,
  \<open>connection/database/import_stream.rs\<close>, \<open>export_stream.rs\<close> and the transmitters
  \<open>network/transmitter/import.rs\<close>, \<open>export.rs\<close>: moving the contents of a database into a file and back.

  A data file is a sequence of messages, each after its length.  The protobuf library's coding of lengths
  and messages is a parameter (\<open>codec\<close>); a reader may deliver its bytes in pieces of any size, and may
  fail.
\<close>

section \<open>Reading messages from a file\<close>

record codec =
  encode_len :: "nat \<Rightarrow> u8 list"
  decode_len :: "u8 list \<Rightarrow> (nat \<times> nat) option"
  decode_item :: "u8 list \<Rightarrow> migration_item option"
  encode_item :: "migration_item \<Rightarrow> u8 list"

datatype read_event = ReadUpTo nat | ReadFails

record reader =
  unread :: "u8 list"
  read_events :: "read_event list"

text \<open>\<open>Read::read\<close>: at most \<open>n\<close> bytes, none only at the end of the file or for \<open>n = 0\<close>.\<close>

definition read_bytes :: "nat \<Rightarrow> reader \<Rightarrow> u8 list option \<times> reader" where
  "read_bytes n r =
     (case read_events r of
        [] \<Rightarrow> (Some (take n (unread r)), r\<lparr>unread := drop n (unread r)\<rparr>)
      | ReadUpTo k # es \<Rightarrow>
          (let m = min n (max 1 k)
           in (Some (take m (unread r)), r\<lparr>unread := drop m (unread r), read_events := es\<rparr>))
      | ReadFails # es \<Rightarrow> (None, r\<lparr>read_events := es\<rparr>))"

record message_iterator =
  it_reader :: reader
  it_buffer :: "u8 list"

definition buf_capacity :: nat where
  "buf_capacity = 8 * 1024"

definition max_length_delimiter_len :: nat where
  "max_length_delimiter_len = 10"

definition iterator_new :: "reader \<Rightarrow> message_iterator" where
  "iterator_new r = \<lparr>it_reader = r, it_buffer = []\<rparr>"

text \<open>The number of bytes read, or None for an error of the reader.\<close>

definition read_more :: "nat \<Rightarrow> message_iterator \<Rightarrow> nat option \<times> message_iterator" where
  "read_more n it =
     (case read_bytes (max n 1) (it_reader it) of
        (Some bytes, r) \<Rightarrow> (Some (length bytes), it\<lparr>it_reader := r, it_buffer := it_buffer it @ bytes\<rparr>)
      | (None, r) \<Rightarrow> (None, it\<lparr>it_reader := r\<rparr>))"

lemma read_more_grows:
  "read_more n it = (Some k, it') \<Longrightarrow> length (it_buffer it') = length (it_buffer it) + k"
  by (auto simp: read_more_def split: prod.splits option.splits)

definition bad_length :: error where
  "bad_length = Migration CannotDecodeImportedConceptLength"

definition bad_concept :: error where
  "bad_concept = Migration CannotDecodeImportedConcept"

function decode_next_len :: "codec \<Rightarrow> (message_iterator, (nat \<times> nat) option) io" where
  "decode_next_len c it =
     (case decode_len c (it_buffer it) of
        Some (len, consumed) \<Rightarrow> (Ok (Some (len, consumed)), it)
      | None \<Rightarrow>
          if max_length_delimiter_len \<le> length (it_buffer it) then (Err bad_length, it)
          else
            (case read_more (max_length_delimiter_len - length (it_buffer it)) it of
               (None, it1) \<Rightarrow> (Err bad_length, it1)
             | (Some 0, it1) \<Rightarrow> (if it_buffer it1 = [] then Ok None else Err bad_length, it1)
             | (Some (Suc k), it1) \<Rightarrow> decode_next_len c it1))"
  by pat_completeness auto

termination decode_next_len
proof (relation "measure (\<lambda>(c, it). max_length_delimiter_len - length (it_buffer it))")
  fix c it x x2 it1 xa nat
  assume "\<not> max_length_delimiter_len \<le> length (it_buffer it)"
    "(x, it1) = read_more (max_length_delimiter_len - length (it_buffer it)) it" "x = Some xa" "xa = Suc nat"
  then show "((c, it1), c, it) \<in> measure (\<lambda>(c, it). max_length_delimiter_len - length (it_buffer it))"
    using read_more_grows [of "max_length_delimiter_len - length (it_buffer it)" it "Suc nat" it1] by auto
qed simp

declare decode_next_len.simps [simp del]

text \<open>The loop that reads until the buffer holds \<open>required\<close> bytes; False when it cannot.\<close>

function read_required :: "nat \<Rightarrow> message_iterator \<Rightarrow> bool \<times> message_iterator" where
  "read_required required it =
     (if required \<le> length (it_buffer it) then (True, it)
      else
        (case read_more (max (required - length (it_buffer it)) buf_capacity) it of
           (None, it1) \<Rightarrow> (False, it1)
         | (Some 0, it1) \<Rightarrow> (False, it1)
         | (Some (Suc k), it1) \<Rightarrow> read_required required it1))"
  by pat_completeness auto

termination read_required
proof (relation "measure (\<lambda>(required, it). required - length (it_buffer it))")
  fix required it x it1 xa nat
  assume "\<not> required \<le> length (it_buffer it)"
    "(x, it1) = read_more (max (required - length (it_buffer it)) buf_capacity) it" "x = Some xa" "xa = Suc nat"
  then show "((required, it1), required, it) \<in> measure (\<lambda>(required, it). required - length (it_buffer it))"
    using read_more_grows [of "max (required - length (it_buffer it)) buf_capacity" it "Suc nat" it1] by auto
qed simp

declare read_required.simps [simp del]

text \<open>
  The next message; None at the end of the file.  The sum of the two lengths is 64 bits wide; taking more
  bytes than the buffer holds panics.
\<close>

definition iterator_next ::
    "bool \<Rightarrow> codec \<Rightarrow> message_iterator \<Rightarrow> (migration_item, error) result option \<times> message_iterator" where
  "iterator_next oc c it =
     (case decode_next_len c it of
        (Ok None, it1) \<Rightarrow> (None, it1)
      | (Err e, it1) \<Rightarrow> (Some (Err e), it1)
      | (Panic, it1) \<Rightarrow> (Some Panic, it1)
      | (Ok (Some (len, consumed)), it1) \<Rightarrow>
          (case (uadd oc (of_nat consumed) (of_nat len) :: (u64, error) result) of
             Ok required \<Rightarrow>
               (case read_required (unat required) it1 of
                  (False, it2) \<Rightarrow> (Some (Err bad_concept), it2)
                | (True, it2) \<Rightarrow>
                    if length (it_buffer it2) < consumed + len then (Some Panic, it2)
                    else (Some (ok_or (decode_item c (take len (drop consumed (it_buffer it2)))) bad_concept),
                          it2\<lparr>it_buffer := drop (consumed + len) (it_buffer it2)\<rparr>))
           | _ \<Rightarrow> (Some Panic, it1)))"

section \<open>The import stream\<close>

text \<open>
  The transmitter of an import: requests are queued for the dispatch thread, which sends one at a time in
  order; the server answers once, and its answer is kept until somebody looks at it.
\<close>

record import_tx =
  import_queue :: "database_import_request list"
  import_sent :: "import_req list"
  import_result :: "(unit, error) result option"
  result_closed :: bool
  import_dispatching :: bool
  import_shutdowns :: nat

definition import_tx_new :: import_tx where
  "import_tx_new = \<lparr>import_queue = [], import_sent = [], import_result = None, result_closed = False,
     import_dispatching = True, import_shutdowns = 0\<rparr>"

text \<open>An answer before the import is done is an error, also when it says that all is well.\<close>

definition check_early_result :: "(import_tx, unit) io" where
  "check_early_result t =
     (case import_result t of
        Some (Ok ()) \<Rightarrow> (Err (Connection DatabaseImportStreamUnexpectedResponse), t\<lparr>import_result := None\<rparr>)
      | Some (Err e) \<Rightarrow> (Err e, t\<lparr>import_result := None\<rparr>)
      | Some Panic \<Rightarrow> (Panic, t)
      | None \<Rightarrow> if result_closed t then (Err (Connection DatabaseImportChannelIsClosed), t) else (Ok (), t))"

definition import_single :: "database_import_request \<Rightarrow> (import_tx, unit) io" where
  "import_single req t =
     io_then (check_early_result t) (\<lambda>_ t1.
       if import_dispatching t1 then (Ok (), t1\<lparr>import_queue := import_queue t1 @ [req]\<rparr>)
       else (Err (Connection DatabaseImportChannelIsClosed), t1))"

text \<open>A turn of the dispatch loop; on a shutdown signal the loop ends and drops what is queued.\<close>

definition import_dispatch :: "import_tx \<Rightarrow> import_tx" where
  "import_dispatch t =
     (if \<not> import_dispatching t then t
      else if 0 < import_shutdowns t
      then t\<lparr>import_shutdowns := import_shutdowns t - 1, import_dispatching := False, import_queue := []\<rparr>
      else case import_queue t of
        [] \<Rightarrow> t
      | req # rest \<Rightarrow>
          t\<lparr>import_queue := rest, import_sent := import_sent t @ [ImportReq (Some (import_request_into_proto req))]\<rparr>)"

datatype import_event = ImportAnswered | ImportStatus error | ImportEnded

definition import_listen :: "import_event \<Rightarrow> import_tx \<Rightarrow> import_tx" where
  "import_listen event t =
     t\<lparr>import_result := Some
         (case event of
            ImportAnswered \<Rightarrow> Ok ()
          | ImportStatus e \<Rightarrow> Err e
          | ImportEnded \<Rightarrow> Err (Connection DatabaseImportChannelIsClosed)),
       result_closed := True,
       import_shutdowns := import_shutdowns t + (if import_dispatching t then 1 else 0)\<rparr>"

text \<open>What the caller of \<open>wait_done\<close> gets; None while the server has not answered.\<close>

definition wait_done :: "import_tx \<Rightarrow> (unit, error) result option" where
  "wait_done t =
     (case import_result t of
        Some r \<Rightarrow> Some r
      | None \<Rightarrow> if result_closed t then Some (Err (Connection DatabaseImportChannelIsClosed)) else None)"

definition send_items :: "migration_item list \<Rightarrow> (import_tx, unit) io" where
  "send_items items t = import_single (ImportItemPart items) t"

definition import_done :: "(import_tx, unit) io" where
  "import_done t = import_single ImportDone t"

section \<open>Importing a file\<close>

definition item_batch_size :: nat where
  "item_batch_size = 250"

text \<open>
  The loop over the messages of the file, with fuel for its turns; it returns the items that are left in
  the buffer.
\<close>

fun import_loop ::
    "bool \<Rightarrow> codec \<Rightarrow> nat \<Rightarrow> message_iterator \<Rightarrow> migration_item list \<Rightarrow> import_tx
     \<Rightarrow> ((migration_item list, error) result \<times> import_tx) option" where
  "import_loop oc c 0 it buf t = None"
| "import_loop oc c (Suc fuel) it buf t =
     (case iterator_next oc c it of
        (None, it1) \<Rightarrow> Some (Ok buf, t)
      | (Some (Err e), it1) \<Rightarrow> Some (Err e, t)
      | (Some Panic, it1) \<Rightarrow> Some (Panic, t)
      | (Some (Ok item), it1) \<Rightarrow>
          (let buf1 = buf @ [item] in
           if item_batch_size \<le> length buf1 then
             (case send_items buf1 t of
                (Ok _, t1) \<Rightarrow> import_loop oc c fuel it1 [] t1
              | (Err e, t1) \<Rightarrow> Some (Err e, t1)
              | (Panic, t1) \<Rightarrow> Some (Panic, t1))
           else import_loop oc c fuel it1 buf1 t))"

text \<open>The whole import of an opened file over a new stream, up to waiting for the server.\<close>

definition import_items :: "bool \<Rightarrow> codec \<Rightarrow> nat \<Rightarrow> reader \<Rightarrow> ((unit, error) result \<times> import_tx) option" where
  "import_items oc c fuel r =
     map_option (\<lambda>x. io_then x (\<lambda>buf t.
         io_then (if buf = [] then (Ok (), t) else send_items buf t) (\<lambda>_ t1. import_done t1)))
       (import_loop oc c fuel (iterator_new r) [] import_tx_new)"

text \<open>\<open>try_open_import_file\<close>, with the result of the operating system.\<close>

definition try_open_import_file :: "(string \<Rightarrow> ('f, string) result) \<Rightarrow> string \<Rightarrow> ('f, error) result" where
  "try_open_import_file open_file path =
     map_err (\<lambda>reason. Migration (CannotOpenImportFile path reason)) (open_file path)"

section \<open>Exporting to a file\<close>

text \<open>
  A file opened for writing: its contents and the position.  A file that exists is opened without cutting
  it off.
\<close>

record out_file =
  contents :: "u8 list"
  position :: nat

definition write_all :: "u8 list \<Rightarrow> out_file \<Rightarrow> out_file" where
  "write_all bytes f =
     f\<lparr>contents := take (position f) (contents f) @ bytes @ drop (position f + length bytes) (contents f),
       position := position f + length bytes\<rparr>"

definition open_existing :: "u8 list \<Rightarrow> out_file" where
  "open_existing bytes = \<lparr>contents = bytes, position = 0\<rparr>"

definition encode_length_delimited :: "codec \<Rightarrow> migration_item \<Rightarrow> u8 list" where
  "encode_length_delimited c item = encode_len c (length (encode_item c item)) @ encode_item c item"

datatype database_export_answer =
    AnswerSchema string
  | AnswerItems "migration_item list"
  | AnswerDone

definition export_next :: "(database_export_response, error) result option \<Rightarrow> (database_export_answer, error) result" where
  "export_next response =
     (case response of
        None \<Rightarrow> Err (Connection DatabaseExportStreamNoResponse)
      | Some (Err e) \<Rightarrow> Err e
      | Some Panic \<Rightarrow> Panic
      | Some (Ok (ExportSchema schema)) \<Rightarrow> Ok (AnswerSchema schema)
      | Some (Ok (ExportItems items)) \<Rightarrow> Ok (AnswerItems items)
      | Some (Ok ExportDone) \<Rightarrow> Ok AnswerDone)"

definition utf8_bytes :: "string \<Rightarrow> u8 list" where
  "utf8_bytes s = map of_char s"

text \<open>
  The loop over the responses of the server, which are given as a list: after the last one the stream
  yields nothing.  The writer of the data is flushed at the end.
\<close>

fun export_loop ::
    "codec \<Rightarrow> (database_export_response, error) result list \<Rightarrow> out_file \<Rightarrow> out_file
     \<Rightarrow> (unit, error) result \<times> out_file \<times> out_file" where
  "export_loop c [] schema_file data_file =
     (case export_next None of Err e \<Rightarrow> (Err e, schema_file, data_file) | _ \<Rightarrow> (Panic, schema_file, data_file))"
| "export_loop c (r # rs) schema_file data_file =
     (case export_next (Some r) of
        Ok AnswerDone \<Rightarrow> (Ok (), schema_file, data_file)
      | Ok (AnswerSchema schema) \<Rightarrow> export_loop c rs (write_all (utf8_bytes schema) schema_file) data_file
      | Ok (AnswerItems items) \<Rightarrow>
          export_loop c rs schema_file (foldl (\<lambda>f item. write_all (encode_length_delimited c item) f) data_file items)
      | Err e \<Rightarrow> (Err e, schema_file, data_file)
      | Panic \<Rightarrow> (Panic, schema_file, data_file))"

text \<open>
  The listener of an export.  A turn of its loop finds a shutdown signal or not and the receiving end of
  the channel open or dropped, and reads what the server sends next; it stops after an error of the
  stream or at its end.  Sending to a dropped channel panics.
\<close>

record export_turn =
  turn_shutdown :: bool
  turn_receiver_open :: bool
  turn_received :: "(export_res, error) result option"

fun export_listen :: "export_turn list \<Rightarrow> (unit, error) result \<times> (database_export_response, error) result list" where
  "export_listen [] = (Ok (), [])"
| "export_listen (turn # later) =
     (if turn_shutdown turn then (Ok (), [])
      else case turn_received turn of
        None \<Rightarrow> (Ok (), [])
      | Some (Ok message) \<Rightarrow>
          (if turn_receiver_open turn
           then (let (r, responses) = export_listen later in (r, export_from_proto message # responses))
           else (Panic, []))
      | Some (Err e) \<Rightarrow> (if turn_receiver_open turn then (Ok (), [Err e]) else (Panic, []))
      | Some Panic \<Rightarrow> (Panic, []))"

text \<open>While the receiver is there, it gets every message of the server.\<close>

lemma export_listen_delivers:
  "export_listen (map (\<lambda>m. \<lparr>turn_shutdown = False, turn_receiver_open = True, turn_received = Some (Ok m)\<rparr>) messages)
     = (Ok (), map export_from_proto messages)"
  by (induction messages) simp_all

lemma export_listen_dropped:
  "\<not> turn_shutdown turn \<Longrightarrow> \<not> turn_receiver_open turn \<Longrightarrow> turn_received turn = Some m
    \<Longrightarrow> export_listen (turn # later) = (Panic, [])"
  by (cases m) simp_all

text \<open>
  Exporting to two files.  \<open>files\<close> is the file system; creating a file fails when it exists.  The task of
  the export may run more than once: each attempt opens the files and writes from their start.
\<close>

definition try_create_export_file ::
    "string \<Rightarrow> string \<Rightarrow> (string \<Rightarrow> u8 list option) \<Rightarrow> (unit, error) result \<times> (string \<Rightarrow> u8 list option)" where
  "try_create_export_file exists_text path files =
     (if files path \<noteq> None then (Err (Migration (CannotCreateExportFile path exists_text)), files)
      else (Ok (), files(path := Some [])))"

definition export_attempt ::
    "codec \<Rightarrow> (database_export_response, error) result list \<Rightarrow> u8 list \<times> u8 list
     \<Rightarrow> (unit, error) result \<times> u8 list \<times> u8 list" where
  "export_attempt c responses old =
     (let (r, schema_file, data_file) = export_loop c responses (open_existing (fst old)) (open_existing (snd old))
      in (r, contents schema_file, contents data_file))"

text \<open>The attempts of one execution: all but the last end with an error of their connection.\<close>

fun export_attempts ::
    "codec \<Rightarrow> (database_export_response, error) result list list \<Rightarrow> u8 list \<times> u8 list
     \<Rightarrow> (unit, error) result \<times> u8 list \<times> u8 list" where
  "export_attempts c [] old = (Err (Connection DatabaseExportStreamNoResponse), old)"
| "export_attempts c [responses] old = export_attempt c responses old"
| "export_attempts c (responses # later) old = export_attempts c later (snd (export_attempt c responses old))"

definition export_to_file ::
    "string \<Rightarrow> codec \<Rightarrow> (database_export_response, error) result list list \<Rightarrow> string \<Rightarrow> string
     \<Rightarrow> (string \<Rightarrow> u8 list option) \<Rightarrow> (unit, error) result \<times> (string \<Rightarrow> u8 list option)" where
  "export_to_file exists_text c attempts schema_path data_path files =
     (if schema_path = data_path then (Err (Migration CannotExportToTheSameFile), files)
      else io_then (try_create_export_file exists_text schema_path files) (\<lambda>_ files1.
        case try_create_export_file exists_text data_path files1 of
          (Ok _, files2) \<Rightarrow>
            (let (r, schema, data) = export_attempts c attempts ([], [])
             in (r, case r of
                      Ok _ \<Rightarrow> files2(schema_path := Some schema, data_path := Some data)
                    | Err _ \<Rightarrow> files2(schema_path := None, data_path := None)
                    | Panic \<Rightarrow> files2(schema_path := Some schema, data_path := Some data)))
        | (Err e, files2) \<Rightarrow> (Err e, files2(schema_path := None))
        | (Panic, files2) \<Rightarrow> (Panic, files2)))"

section \<open>Batches of items\<close>

text \<open>The second buffer that collects elements into batches.\<close>

interpretation ib: batch_buffer "\<lambda>b :: migration_item list. b = []" length "\<lambda>i b. b @ [i]" "\<lambda>b. (b, [])" id
  "\<lambda>_. 1" "\<lambda>_. True" "[]"
  by unfold_locales (simp_all add: sum_list_triv)

section \<open>A file is read back\<close>

definition codec_ok :: "codec \<Rightarrow> bool" where
  "codec_ok c \<longleftrightarrow>
     (\<forall>n rest. n < 2 ^ 64 \<longrightarrow> decode_len c (encode_len c n @ rest) = Some (n, length (encode_len c n)))
   \<and> (\<forall>n p q. n < 2 ^ 64 \<longrightarrow> encode_len c n = p @ q \<longrightarrow> q \<noteq> [] \<longrightarrow> decode_len c p = None)
   \<and> (\<forall>n. n < 2 ^ 64 \<longrightarrow> encode_len c n \<noteq> [] \<and> length (encode_len c n) \<le> max_length_delimiter_len)
   \<and> (\<forall>i. decode_item c (encode_item c i) = Some i)"

definition item_fits :: "codec \<Rightarrow> migration_item \<Rightarrow> bool" where
  "item_fits c i \<longleftrightarrow> length (encode_item c i) + max_length_delimiter_len < 2 ^ 64"

text \<open>The bytes still to come: those in the buffer and those not read yet; the reader does not fail.\<close>

definition pending :: "message_iterator \<Rightarrow> u8 list" where
  "pending it = it_buffer it @ unread (it_reader it)"

definition reliable :: "message_iterator \<Rightarrow> bool" where
  "reliable it \<longleftrightarrow> ReadFails \<notin> set (read_events (it_reader it))"

lemma read_more_reliable:
  assumes "reliable it" "read_more n it = (x, it')"
  shows "reliable it' \<and> pending it' = pending it \<and> (\<exists>bytes. it_buffer it' = it_buffer it @ bytes \<and> x = Some (length bytes)
    \<and> (bytes = [] \<longleftrightarrow> unread (it_reader it) = []))"
  using assms
  by (cases "read_events (it_reader it)")
    (auto simp: read_more_def read_bytes_def reliable_def pending_def Let_def min_def
      split: read_event.splits prod.splits option.splits if_splits)

lemma read_moreE:
  assumes "reliable it" "read_more n it = (x, it')"
  obtains (end_of_file) "x = Some 0" "unread (it_reader it) = []" "it_buffer it' = it_buffer it" "reliable it'"
      "pending it' = pending it"
    | (bytes) k where "x = Some (Suc k)" "unread (it_reader it) \<noteq> []" "reliable it'" "pending it' = pending it"
proof -
  from read_more_reliable [OF assms] obtain bytes where b: "it_buffer it' = it_buffer it @ bytes" "x = Some (length bytes)"
    "bytes = [] \<longleftrightarrow> unread (it_reader it) = []" "reliable it'" "pending it' = pending it" by (elim conjE exE)
  show thesis using b that by (cases bytes) auto
qed

text \<open>A prefix of the bytes that come decides whether a length can be read.\<close>

lemma codec_okD:
  assumes "codec_ok c" "n < 2 ^ 64"
  shows "decode_len c (encode_len c n @ rest) = Some (n, length (encode_len c n))"
    and "encode_len c n = p @ q \<Longrightarrow> q \<noteq> [] \<Longrightarrow> decode_len c p = None"
    and "encode_len c n \<noteq> []" "length (encode_len c n) \<le> max_length_delimiter_len"
  using assms unfolding codec_ok_def by blast+

lemma decode_len_Nil: "codec_ok c \<Longrightarrow> decode_len c [] = None"
  using codec_okD(2) [of c 0 "[]" "encode_len c 0"] codec_okD(3) [of c 0] by simp

lemma decode_next_len_reads:
  assumes "codec_ok c" "n < 2 ^ 64" "reliable it" "pending it = encode_len c n @ rest"
  shows "\<exists>it'. decode_next_len c it = (Ok (Some (n, length (encode_len c n))), it') \<and> reliable it' \<and> pending it' = pending it"
  using assms
proof (induction c it rule: decode_next_len.induct)
  case (1 c it)
  note len = codec_okD [OF "1.prems"(1,2)]
  obtain us where us: "it_buffer it = encode_len c n @ us
      \<or> it_buffer it @ us = encode_len c n \<and> unread (it_reader it) = us @ rest"
    using "1.prems"(4) by (auto simp: pending_def append_eq_append_conv2)
  then consider (whole) vs where "it_buffer it = encode_len c n @ vs"
    | (part) "encode_len c n = it_buffer it @ us" "us \<noteq> []" "unread (it_reader it) = us @ rest"
    by (cases "us = []") auto
  then show ?case
  proof cases
    case whole
    then show ?thesis using len(1) [of vs] "1.prems"(3) by (subst decode_next_len.simps) simp
  next
    case part
    obtain x it1 where x: "read_more (max_length_delimiter_len - length (it_buffer it)) it = (x, it1)" by fastforce
    from "1.prems"(3) x obtain k where it1: "reliable it1" "pending it1 = pending it" "x = Some (Suc k)"
      by (rule read_moreE) (use part(2,3) in auto)
    have short: "\<not> max_length_delimiter_len \<le> length (it_buffer it)" "decode_len c (it_buffer it) = None"
      using len(4) part(1,2) len(2) [OF part(1)] by (cases us; auto)+
    have "decode_next_len c it = decode_next_len c it1"
      using short x it1(3) by (subst decode_next_len.simps) simp
    moreover have "\<exists>it'. decode_next_len c it1 = (Ok (Some (n, length (encode_len c n))), it')
        \<and> reliable it' \<and> pending it' = pending it1"
      using "1.IH" [OF short(2) short(1) x [symmetric] it1(3) refl] "1.prems" it1 by simp
    ultimately show ?thesis using it1(2) by simp
  qed
qed

lemma decode_next_len_ends:
  assumes "codec_ok c" "reliable it" "pending it = []"
  shows "\<exists>it'. decode_next_len c it = (Ok None, it')"
proof -
  obtain x it1 where x: "read_more (max_length_delimiter_len - length (it_buffer it)) it = (x, it1)" by fastforce
  have "x = Some 0" "it_buffer it1 = []"
    using read_more_reliable [OF assms(2) x] assms(3) by (auto simp: pending_def)
  with x assms(3) decode_len_Nil [OF assms(1)] show ?thesis
    by (subst decode_next_len.simps) (simp add: pending_def max_length_delimiter_len_def)
qed

lemma read_required_reads:
  assumes "reliable it" "required \<le> length (pending it)"
  shows "\<exists>it'. read_required required it = (True, it') \<and> reliable it' \<and> pending it' = pending it
    \<and> required \<le> length (it_buffer it')"
  using assms
proof (induction required it rule: read_required.induct)
  case (1 required it)
  show ?case
  proof (cases "required \<le> length (it_buffer it)")
    case True
    then show ?thesis using "1.prems" by (subst read_required.simps) simp
  next
    case False
    obtain x it1 where x: "read_more (max (required - length (it_buffer it)) buf_capacity) it = (x, it1)" by fastforce
    have more_bytes: "unread (it_reader it) \<noteq> []" using False "1.prems"(2) by (auto simp: pending_def)
    from "1.prems"(1) x obtain k where it1: "reliable it1" "pending it1 = pending it" "x = Some (Suc k)"
      by (rule read_moreE) (use more_bytes in auto)
    have "read_required required it = read_required required it1"
      using False x it1(3) by (subst read_required.simps) simp
    then show ?thesis using "1.IH" [OF False x [symmetric] it1(3) refl] "1.prems" it1 by simp
  qed
qed

lemma read_required_short:
  assumes "reliable it" "length (pending it) < required"
  shows "\<exists>it'. read_required required it = (False, it')"
  using assms
proof (induction required it rule: read_required.induct)
  case (1 required it)
  have False': "\<not> required \<le> length (it_buffer it)" using "1.prems"(2) by (simp add: pending_def)
  obtain x it1 where x: "read_more (max (required - length (it_buffer it)) buf_capacity) it = (x, it1)" by fastforce
  from "1.prems"(1) x show ?case
  proof (cases rule: read_moreE)
    case end_of_file
    then show ?thesis using False' x by (subst read_required.simps) simp
  next
    case (bytes k)
    then have "read_required required it = read_required required it1"
      using False' x by (subst read_required.simps) simp
    then show ?thesis using "1.IH" [OF False' x [symmetric] bytes(1) refl] "1.prems" bytes by simp
  qed
qed

lemma split_prefix:
  assumes "xs @ ys = zs @ rest" "length zs \<le> length xs"
  obtains us where "xs = zs @ us" "us @ ys = rest"
  using assms by (auto simp: append_eq_append_conv2)

lemma iterator_next_item:
  assumes "codec_ok c" "item_fits c i" "reliable it" "pending it = encode_length_delimited c i @ rest"
  shows "\<exists>it'. iterator_next oc c it = (Some (Ok i), it') \<and> reliable it' \<and> pending it' = rest"
proof -
  let ?n = "length (encode_item c i)" and ?k = "length (encode_len c (length (encode_item c i)))"
  have n: "?n < 2 ^ 64" using assms(2) by (simp add: item_fits_def)
  have fits: "?k + ?n < 2 ^ 64" using assms(2) codec_okD(4) [OF assms(1) n] by (simp add: item_fits_def)
  have pend: "pending it = encode_len c ?n @ encode_item c i @ rest"
    using assms(4) by (simp add: encode_length_delimited_def)
  obtain it1 where it1: "decode_next_len c it = (Ok (Some (?n, ?k)), it1)" "reliable it1" "pending it1 = pending it"
    using decode_next_len_reads [OF assms(1) n assms(3) pend] by blast
  have sum: "(uadd oc (of_nat ?k) (of_nat ?n) :: (u64, error) result) = Ok (of_nat (?k + ?n))"
    by (rule uadd_of_nat) (use fits in simp)
  have un: "unat (of_nat (?k + ?n) :: u64) = ?k + ?n" by (rule unat_small_nat) (use fits in simp)
  have "?k + ?n \<le> length (pending it1)" using it1(3) pend by simp
  from read_required_reads [OF it1(2) this] obtain it2 where it2: "read_required (?k + ?n) it1 = (True, it2)"
    "reliable it2" "pending it2 = pending it" "?k + ?n \<le> length (it_buffer it2)"
    using it1(3) by auto
  then obtain us where us: "it_buffer it2 = encode_len c ?n @ encode_item c i @ us" "us @ unread (it_reader it2) = rest"
    using split_prefix [of "it_buffer it2" "unread (it_reader it2)" "encode_len c ?n @ encode_item c i" rest] pend
    by (auto simp: pending_def)
  have "decode_item c (encode_item c i) = Some i" using assms(1) by (simp add: codec_ok_def)
  with it1(1) it2 us sum un show ?thesis
    by (simp add: iterator_next_def reliable_def pending_def del: of_nat_add)
qed


lemma iterator_next_ends:
  assumes "codec_ok c" "reliable it" "pending it = []"
  shows "\<exists>it'. iterator_next oc c it = (None, it')"
  using decode_next_len_ends [OF assms] by (auto simp: iterator_next_def)

text \<open>A length that is cut off is reported, and so is a message that is.\<close>

lemma decode_next_len_cut:
  assumes "codec_ok c" "n < 2 ^ 64" "reliable it" "encode_len c n = pending it @ absent" "absent \<noteq> []" "pending it \<noteq> []"
  shows "\<exists>it'. decode_next_len c it = (Err bad_length, it')"
  using assms
proof (induction c it rule: decode_next_len.induct)
  case (1 c it)
  note len = codec_okD [OF "1.prems"(1,2)]
  have part: "encode_len c n = it_buffer it @ unread (it_reader it) @ absent" "unread (it_reader it) @ absent \<noteq> []"
    using "1.prems"(4,5) by (simp_all add: pending_def)
  have short: "\<not> max_length_delimiter_len \<le> length (it_buffer it)" "decode_len c (it_buffer it) = None"
    using len(4) part(1) len(2) [OF part] "1.prems"(5) by (cases absent; auto)+
  obtain x it1 where x: "read_more (max_length_delimiter_len - length (it_buffer it)) it = (x, it1)" by fastforce
  from "1.prems"(3) x show ?case
  proof (cases rule: read_moreE)
    case end_of_file
    then have "it_buffer it1 \<noteq> []" using "1.prems"(6) by (simp add: pending_def)
    with end_of_file short x show ?thesis by (subst decode_next_len.simps) simp
  next
    case (bytes k)
    then have "decode_next_len c it = decode_next_len c it1"
      using short x by (subst decode_next_len.simps) simp
    with "1.IH" [OF short(2) short(1) x [symmetric] bytes(1) refl] "1.prems" bytes show ?thesis by simp
  qed
qed

lemma iterator_next_cut:
  assumes "codec_ok c" "item_fits c i" "reliable it" "encode_length_delimited c i = pending it @ absent"
    "absent \<noteq> []" "pending it \<noteq> []"
  shows "\<exists>e it'. iterator_next oc c it = (Some (Err e), it') \<and> e \<in> {bad_length, bad_concept}"
proof -
  let ?n = "length (encode_item c i)" and ?k = "length (encode_len c (length (encode_item c i)))"
  have n: "?n < 2 ^ 64" using assms(2) by (simp add: item_fits_def)
  have fits: "?k + ?n < 2 ^ 64" using assms(2) codec_okD(4) [OF assms(1) n] by (simp add: item_fits_def)
  have all: "pending it @ absent = encode_len c ?n @ encode_item c i"
    using assms(4) by (simp add: encode_length_delimited_def)
  show ?thesis
  proof (cases "?k \<le> length (pending it)")
    case True
    then obtain us where us: "pending it = encode_len c ?n @ us" "us @ absent = encode_item c i"
      using split_prefix [OF all] by blast
    obtain it1 where it1: "decode_next_len c it = (Ok (Some (?n, ?k)), it1)" "reliable it1" "pending it1 = pending it"
      using decode_next_len_reads [OF assms(1) n assms(3) us(1)] by blast
    have "length (pending it1) < ?k + ?n"
      using it1(3) us(1) arg_cong [OF us(2), of length] assms(5) by (cases absent) auto
    from read_required_short [OF it1(2) this] obtain it2 where it2: "read_required (?k + ?n) it1 = (False, it2)" by blast
    have "(uadd oc (of_nat ?k) (of_nat ?n) :: (u64, error) result) = Ok (of_nat (?k + ?n))"
      "unat (of_nat (?k + ?n) :: u64) = ?k + ?n"
      by (rule uadd_of_nat unat_small_nat; use fits in simp)+
    with it1(1) it2 show ?thesis by (simp add: iterator_next_def del: of_nat_add)
  next
    case False
    then obtain us where us: "encode_len c ?n = pending it @ us" "us \<noteq> []"
      using split_prefix [OF all [symmetric]] by (metis append_Nil2 le_cases le_refl)
    from decode_next_len_cut [OF assms(1) n assms(3) us assms(6)] show ?thesis by (auto simp: iterator_next_def)
  qed
qed

section \<open>Importing\<close>

text \<open>The contents of a data file.\<close>

definition data_of :: "codec \<Rightarrow> migration_item list \<Rightarrow> u8 list" where
  "data_of c items = concat (map (encode_length_delimited c) items)"

definition full_batch :: "migration_item list \<Rightarrow> bool" where
  "full_batch b \<longleftrightarrow> item_batch_size \<le> length b"

text \<open>The server has not answered yet and the dispatch loop runs.\<close>

definition import_open :: "import_tx \<Rightarrow> bool" where
  "import_open t \<longleftrightarrow> import_result t = None \<and> \<not> result_closed t \<and> import_dispatching t"

definition queued :: "database_import_request list \<Rightarrow> import_tx \<Rightarrow> import_tx" where
  "queued rs t = t\<lparr>import_queue := import_queue t @ rs\<rparr>"

lemma import_single_open: "import_open t \<Longrightarrow> import_single req t = (Ok (), queued [req] t)"
  by (simp add: import_open_def import_single_def check_early_result_def queued_def)

lemma queued_open [simp]: "import_open (queued rs t) = import_open t"
  by (simp add: queued_def import_open_def)

lemma queued_queued [simp]: "queued rs' (queued rs t) = queued (rs @ rs') t" "queued [] t = t"
  by (simp_all add: queued_def)

lemma import_loop_step:
  assumes "iterator_next oc c it = (Some (Ok i), it')" "import_open t"
  shows "import_loop oc c (Suc fuel) it buf t =
     (let s = ib.feed (\<lambda>_ _. False) full_batch i ([], buf)
      in import_loop oc c fuel it' (snd s) (queued (map ImportItemPart (fst s)) t))"
  using assms
  by (simp add: ib.feed_def ib.flush_def full_batch_def send_items_def import_single_open Let_def)

lemma feeds_append:
  "fold (ib.feed before after) items (bs, buf) =
     (let s = fold (ib.feed before after) items ([], buf) in (bs @ fst s, snd s))"
proof (induction items arbitrary: bs buf)
  case (Cons i items)
  have step: "ib.feed before after i (bs, buf) =
      (let s = ib.feed before after i ([], buf) in (bs @ fst s, snd s))" for bs buf
    by (simp add: ib.feed_def ib.flush_def Let_def)
  obtain b1 buf1 where f: "ib.feed before after i ([], buf) = (b1, buf1)" by fastforce
  show ?case
    using Cons.IH [of b1 buf1] Cons.IH [of "bs @ b1" buf1] step [of bs buf] f by (simp add: Let_def)
qed simp

lemma import_loop_reads:
  assumes "codec_ok c" "list_all (item_fits c) items" "reliable it" "pending it = data_of c items @ rest" "import_open t"
  shows "\<exists>it'. reliable it' \<and> pending it' = rest
    \<and> import_loop oc c (length items + fuel) it buf t =
      (let s = fold (ib.feed (\<lambda>_ _. False) full_batch) items ([], buf)
       in import_loop oc c fuel it' (snd s) (queued (map ImportItemPart (fst s)) t))"
  using assms(2-5)
proof (induction items arbitrary: it buf t)
  case Nil
  then show ?case by (auto simp: data_of_def)
next
  case (Cons i items)
  obtain it1 where it1: "iterator_next oc c it = (Some (Ok i), it1)" "reliable it1" "pending it1 = data_of c items @ rest"
    using iterator_next_item [OF assms(1), of i it "data_of c items @ rest" oc] Cons.prems by (auto simp: data_of_def)
  obtain bs buf1 where f: "ib.feed (\<lambda>_ _. False) full_batch i ([], buf) = (bs, buf1)" by fastforce
  have step: "import_loop oc c (length (i # items) + fuel) it buf t =
      import_loop oc c (length items + fuel) it1 buf1 (queued (map ImportItemPart bs) t)"
    using import_loop_step [OF it1(1) Cons.prems(4), of "length items + fuel" buf] f by simp
  show ?case
    using Cons.IH [of it1 "queued (map ImportItemPart bs) t" buf1] Cons.prems it1(2,3) step
      feeds_append [of "\<lambda>_ _. False" full_batch items bs buf1] f
    by (simp add: Let_def)
qed

lemma batches_full:
  assumes "length buf < item_batch_size" "list_all (\<lambda>b. length b = item_batch_size) bs"
  shows "let s = fold (ib.feed (\<lambda>_ _. False) full_batch) items (bs, buf)
    in list_all (\<lambda>b. length b = item_batch_size) (fst s) \<and> length (snd s) < item_batch_size"
  using assms
proof (induction items arbitrary: bs buf)
  case (Cons i items)
  show ?case
  proof (cases "full_batch (buf @ [i])")
    case True
    then have "length buf + 1 = item_batch_size" using Cons.prems(1) by (simp add: full_batch_def)
    with True Cons.IH [of "[]" "bs @ [buf @ [i]]"] Cons.prems show ?thesis
      by (simp add: ib.feed_def ib.flush_def item_batch_size_def)
  next
    case False
    with Cons.IH [of "buf @ [i]" bs] Cons.prems show ?thesis
      by (simp add: ib.feed_def full_batch_def)
  qed
qed simp

text \<open>The batches in which the items of a file are sent.\<close>

definition import_batches :: "migration_item list \<Rightarrow> migration_item list list" where
  "import_batches items = fst (ib.finish_batches (fold (ib.feed (\<lambda>_ _. False) full_batch) items ([], [])))"

lemma import_batches_contents: "concat (import_batches items) = items"
  by (simp add: import_batches_def ib.feeds_from_empty)

lemma import_batches_sizes: "list_all (\<lambda>b. 1 \<le> length b \<and> length b \<le> item_batch_size) (import_batches items)"
proof -
  obtain bs buf where f: "fold (ib.feed (\<lambda>_ _. False) full_batch) items ([], []) = (bs, buf)" by fastforce
  have "list_all (\<lambda>b. length b = item_batch_size) bs" "length buf < item_batch_size"
    using batches_full [of "[]" "[]" items] f by (simp_all add: item_batch_size_def)
  then show ?thesis
    by (auto simp: import_batches_def f ib.finish_batches_def ib.flush_def list_all_iff item_batch_size_def Suc_le_eq)
qed

lemma import_items_reads:
  assumes "codec_ok c" "list_all (item_fits c) items" "ReadFails \<notin> set events" "length items < fuel"
  shows "import_items oc c fuel \<lparr>unread = data_of c items, read_events = events\<rparr>
    = Some (Ok (), queued (map ImportItemPart (import_batches items) @ [ImportDone]) import_tx_new)"
proof -
  let ?it = "iterator_new \<lparr>unread = data_of c items, read_events = events\<rparr>"
  obtain k where k: "fuel = length items + Suc k" using assms(4) by (metis less_imp_add_positive less_imp_Suc_add add_Suc_right)
  have new: "import_open import_tx_new" by (simp add: import_open_def import_tx_new_def)
  have it: "reliable ?it" "pending ?it = data_of c items @ []"
    using assms(3) by (simp_all add: reliable_def pending_def iterator_new_def)
  obtain bs buf where f: "fold (ib.feed (\<lambda>_ _. False) full_batch) items ([], []) = (bs, buf)" by fastforce
  obtain it' where it': "reliable it'" "pending it' = []" "import_loop oc c fuel ?it [] import_tx_new =
      import_loop oc c (Suc k) it' buf (queued (map ImportItemPart bs) import_tx_new)"
    using import_loop_reads [OF assms(1,2) it new, of oc "Suc k" "[]"] f unfolding k
    by (auto simp: Let_def simp del: import_loop.simps)
  obtain it2 where it2: "iterator_next oc c it' = (None, it2)"
    using iterator_next_ends [OF assms(1) it'(1,2)] by blast
  show ?thesis
    by (simp add: import_items_def it'(3) it2 import_batches_def f ib.finish_batches_def ib.flush_def
        send_items_def import_done_def import_single_open new)
qed

text \<open>Every request that was queued reaches the server in order, whatever turns the dispatch loop takes.\<close>

lemma import_dispatch_turn:
  assumes "import_shutdowns t = 0" "import_dispatching t"
  shows "import_queue t = [] \<Longrightarrow> import_dispatch t = t"
    and "import_queue t = req # rest \<Longrightarrow> import_dispatch t = t\<lparr>import_queue := rest,
      import_sent := import_sent t @ [ImportReq (Some (import_request_into_proto req))]\<rparr>"
  using assms by (simp_all add: import_dispatch_def)

lemma import_dispatch_idle:
  assumes "import_dispatch t = t"
  shows "(import_dispatch ^^ n) t = t"
  using assms by (induction n) simp_all

lemma import_dispatches:
  assumes "import_shutdowns t = 0" "import_dispatching t" "length (import_queue t) \<le> n"
  shows "(import_dispatch ^^ n) t = t\<lparr>import_queue := [], import_sent := import_sent t
    @ map (\<lambda>req. ImportReq (Some (import_request_into_proto req))) (import_queue t)\<rparr>"
  using assms
proof (induction "import_queue t" arbitrary: t n)
  case Nil
  then have "import_dispatch t = t" by (intro import_dispatch_turn) simp_all
  with Nil show ?case by (cases t) (simp add: import_dispatch_idle)
next
  case (Cons req rest)
  then obtain m where n: "n = Suc m" by (cases n) auto
  have turn: "import_dispatch t = t\<lparr>import_queue := rest,
      import_sent := import_sent t @ [ImportReq (Some (import_request_into_proto req))]\<rparr>"
    using Cons.prems Cons.hyps(2) by (intro import_dispatch_turn) simp_all
  then show ?case
    using Cons.hyps(1) [of "import_dispatch t" m] Cons.prems Cons.hyps(2) [symmetric]
    by (simp add: n funpow_swap1)
qed

section \<open>Exporting\<close>

definition file_ok :: "out_file \<Rightarrow> bool" where
  "file_ok f \<longleftrightarrow> position f \<le> length (contents f)"

lemma write_all_ok [simp]: "file_ok f \<Longrightarrow> file_ok (write_all bytes f)"
  by (simp add: file_ok_def write_all_def)

lemma write_all_Nil [simp]: "write_all [] f = f"
  by (simp add: write_all_def)

lemma write_all_append: "file_ok f \<Longrightarrow> write_all b (write_all a f) = write_all (a @ b) f"
  by (simp add: file_ok_def write_all_def ac_simps)

lemma write_items:
  "file_ok f \<Longrightarrow> foldl (\<lambda>f item. write_all (encode_length_delimited c item) f) f items = write_all (data_of c items) f"
  by (induction items arbitrary: f) (simp_all add: data_of_def write_all_append)

text \<open>The answers of a server that exports a schema and items, in batches of its choice.\<close>

definition export_answers :: "string \<Rightarrow> migration_item list list \<Rightarrow> (database_export_response, error) result list" where
  "export_answers schema batches = map Ok (ExportSchema schema # map ExportItems batches @ [ExportDone])"

lemma export_loop_items:
  "file_ok data \<Longrightarrow> export_loop c (map (\<lambda>b. Ok (ExportItems b)) batches @ rest) schema data
     = export_loop c rest schema (write_all (data_of c (concat batches)) data)"
  by (induction batches arbitrary: data) (simp_all add: export_next_def write_items write_all_append, simp_all add: data_of_def)

lemma export_loop_answers:
  assumes "file_ok data"
  shows "export_loop c (export_answers text batches) schema data
     = (Ok (), write_all (utf8_bytes text) schema, write_all (data_of c (concat batches)) data)"
  using export_loop_items [OF assms, of c batches "[Ok ExportDone]"] assms
  by (simp add: export_answers_def export_next_def comp_def)

lemma export_attempt_answers:
  "export_attempt c (export_answers text batches) (old_schema, old_data)
     = (Ok (), utf8_bytes text @ drop (length (utf8_bytes text)) old_schema,
        data_of c (concat batches) @ drop (length (data_of c (concat batches))) old_data)"
  by (simp add: export_attempt_def export_loop_answers open_existing_def file_ok_def write_all_def)

text \<open>A later attempt that writes less than an earlier one leaves the end of the earlier one in the file.\<close>

lemma export_retry_keeps_old_end:
  "export_attempts c [map Ok [ExportSchema text, ExportItems items] @ [Err e], export_answers text batches] ([], [])
    = (Ok (), utf8_bytes text, data_of c (concat batches) @ drop (length (data_of c (concat batches))) (data_of c items))"
  using export_loop_items [of "open_existing []" c "[items]" "[Err e]"]
  by (simp add: export_attempt_answers export_attempt_def [of _ "_ # _"] export_next_def open_existing_def file_ok_def
      write_items) (simp add: write_all_def)

section \<open>A coding\<close>

text \<open>
  Lengths in base 128, the least significant digit first, all but the last digit with the highest bit
  set; messages of bytes stand for themselves.  The theorems hold for every coding that is \<open>codec_ok\<close>;
  this one shows that there is one.
\<close>

fun leb_encode :: "nat \<Rightarrow> u8 list" where
  "leb_encode n = (if n < 128 then [of_nat n] else of_nat (128 + n mod 128) # leb_encode (n div 128))"

fun leb_decode :: "u8 list \<Rightarrow> (nat \<times> nat) option" where
  "leb_decode [] = None"
| "leb_decode (b # bs) =
     (if unat b < 128 then Some (unat b, 1)
      else map_option (\<lambda>(n, k). (unat b - 128 + 128 * n, Suc k)) (leb_decode bs))"

declare leb_encode.simps [simp del]

definition leb_codec :: codec where
  "leb_codec = \<lparr>encode_len = leb_encode, decode_len = leb_decode, decode_item = Some, encode_item = id\<rparr>"

lemma unat_byte: "n < 256 \<Longrightarrow> unat (of_nat n :: u8) = n"
  by (rule unat_small_nat) simp

lemma leb_first: "unat (of_nat (128 + n mod 128) :: u8) = 128 + n mod 128"
  by (rule unat_byte) (use mod_less_divisor [of 128 n] in linarith)

lemma leb_round_trip: "leb_decode (leb_encode n @ rest) = Some (n, length (leb_encode n))"
proof (induction n rule: leb_encode.induct)
  case (1 n)
  show ?case
  proof (cases "n < 128")
    case True
    then show ?thesis by (simp add: leb_encode.simps [of n] unat_byte)
  next
    case False
    then show ?thesis using 1
      by (simp add: leb_encode.simps [of n] leb_first del: of_nat_add)
  qed
qed

lemma leb_prefix: "leb_encode n = p @ q \<Longrightarrow> q \<noteq> [] \<Longrightarrow> leb_decode p = None"
proof (induction n arbitrary: p rule: leb_encode.induct)
  case (1 n)
  show ?case
  proof (cases "n < 128 \<or> p = []")
    case True
    then show ?thesis using "1.prems" by (cases p) (auto simp: leb_encode.simps [of n])
  next
    case False
    then obtain p' where p: "p = of_nat (128 + n mod 128) # p'" "leb_encode (n div 128) = p' @ q"
      using "1.prems" by (cases p) (auto simp: leb_encode.simps [of n] simp del: of_nat_add)
    with "1.IH" [OF _ p(2)] False "1.prems"(2) show ?thesis by (simp add: leb_first del: of_nat_add)
  qed
qed

lemma leb_length: "n < 128 ^ Suc k \<Longrightarrow> length (leb_encode n) \<le> Suc k"
proof (induction k arbitrary: n)
  case (Suc k)
  then have "n div 128 < 128 ^ Suc k" by (simp add: less_mult_imp_div_less mult.commute)
  then show ?case using Suc.IH [of "n div 128"] by (simp add: leb_encode.simps [of n])
qed (simp add: leb_encode.simps)

lemma leb_codec_ok: "codec_ok leb_codec"
proof -
  have "length (leb_encode n) \<le> 10" if "n < 2 ^ 64" for n
    using leb_length [of n 9] that by simp
  moreover have "leb_encode n \<noteq> []" for n by (simp add: leb_encode.simps)
  ultimately show ?thesis
    by (simp add: codec_ok_def leb_codec_def leb_round_trip leb_prefix max_length_delimiter_len_def)
qed

text \<open>
  A length near the maximum: the sum of the lengths overflows, or wraps around and more bytes are taken
  than there are.
\<close>

lemma huge_length_panics:
  "fst (iterator_next oc leb_codec (iterator_new \<lparr>unread = [255, 255, 255, 255, 255, 255, 255, 255, 255, 1], read_events = []\<rparr>)) = Some Panic"
proof -
  let ?bytes = "[255, 255, 255, 255, 255, 255, 255, 255, 255, 1] :: u8 list"
  let ?it = "\<lparr>it_reader = \<lparr>unread = [], read_events = []\<rparr>, it_buffer = ?bytes\<rparr>"
  have "leb_decode ?bytes = Some (2 ^ 64 - 1, 10)" by simp
  then have "decode_next_len leb_codec ?it = (Ok (Some (2 ^ 64 - 1, 10)), ?it)"
    by (subst decode_next_len.simps) (simp add: leb_codec_def)
  moreover have "read_more 10 (iterator_new \<lparr>unread = ?bytes, read_events = []\<rparr>) = (Some (Suc 9), ?it)"
    by (simp add: read_more_def read_bytes_def iterator_new_def)
  ultimately have "decode_next_len leb_codec (iterator_new \<lparr>unread = ?bytes, read_events = []\<rparr>)
      = (Ok (Some (2 ^ 64 - 1, 10)), ?it)"
    by (subst decode_next_len.simps) (simp add: leb_codec_def iterator_new_def max_length_delimiter_len_def)
  moreover have "read_required 9 ?it = (True, ?it)"
    by (subst read_required.simps) simp
  ultimately show ?thesis by (cases oc) (simp_all add: iterator_next_def uadd_def checked_def)
qed

section \<open>Properties\<close>

text \<open>
  C6: a database that is exported to two new files is imported from them completely.  The schema file
  holds the schema; and however the file is read in pieces, the import of the data file sends exactly the
  exported items to the server, in their order, in batches of 1 to 250 items, and then that it is done.
\<close>

theorem exported_data_imported:
  assumes "codec_ok c" "list_all (item_fits c) (concat parts)"
    and "schema_path \<noteq> data_path" "files schema_path = None" "files data_path = None"
    and "ReadFails \<notin> set events" "length (concat parts) < fuel"
  shows "\<exists>files' bytes batches t. export_to_file et c [export_answers text parts] schema_path data_path files = (Ok (), files')
    \<and> files' schema_path = Some (utf8_bytes text) \<and> files' data_path = Some bytes
    \<and> import_items oc c fuel \<lparr>unread = bytes, read_events = events\<rparr> = Some (Ok (), t)
    \<and> import_sent ((import_dispatch ^^ length (import_queue t)) t)
      = map (\<lambda>b. ImportReq (Some (import_request_into_proto (ImportItemPart b)))) batches
        @ [ImportReq (Some (import_request_into_proto ImportDone))]
    \<and> concat batches = concat parts \<and> list_all (\<lambda>b. 1 \<le> length b \<and> length b \<le> 250) batches"
proof -
  let ?t = "queued (map ImportItemPart (import_batches (concat parts)) @ [ImportDone]) import_tx_new"
  have "export_to_file et c [export_answers text parts] schema_path data_path files =
      (Ok (), files(schema_path := Some (utf8_bytes text), data_path := Some (data_of c (concat parts))))"
    using assms(3-5) by (auto simp: export_to_file_def try_create_export_file_def export_attempt_answers)
  moreover have "import_sent ((import_dispatch ^^ length (import_queue ?t)) ?t)
      = map (\<lambda>b. ImportReq (Some (import_request_into_proto (ImportItemPart b)))) (import_batches (concat parts))
        @ [ImportReq (Some (import_request_into_proto ImportDone))]"
    by (subst import_dispatches) (simp_all add: queued_def import_tx_new_def)
  ultimately show ?thesis
    using import_items_reads [OF assms(1,2,6,7), of oc] import_batches_contents [of "concat parts"]
      import_batches_sizes [of "concat parts"] assms(3)
    by (auto simp: item_batch_size_def)
qed

theorem exported_data_imported_witness:
  "\<exists>files' bytes batches t. export_to_file ''exists'' leb_codec [export_answers ''define'' [[[1, 2], []], [[3]]]] ''s'' ''d'' (\<lambda>_. None)
      = (Ok (), files')
    \<and> files' ''s'' = Some (utf8_bytes ''define'') \<and> files' ''d'' = Some bytes
    \<and> import_items True leb_codec 10 \<lparr>unread = bytes, read_events = [ReadUpTo 1, ReadUpTo 2]\<rparr> = Some (Ok (), t)
    \<and> import_sent ((import_dispatch ^^ length (import_queue t)) t)
      = map (\<lambda>b. ImportReq (Some (import_request_into_proto (ImportItemPart b)))) batches
        @ [ImportReq (Some (import_request_into_proto ImportDone))]
    \<and> concat batches = concat [[[1, 2], []], [[3]]] \<and> list_all (\<lambda>b. 1 \<le> length b \<and> length b \<le> 250) batches"
  by (rule exported_data_imported [OF leb_codec_ok])
    (simp_all add: item_fits_def leb_codec_def max_length_delimiter_len_def)

text \<open>
  C14: a data file that ends within a message is never imported as if it were complete.  The import fails
  with an error about the message or its length; the server is never told that the import is done, and
  what it is sent before are items of the file in their order.
\<close>

theorem cut_file_not_imported:
  assumes "codec_ok c" "list_all (item_fits c) items" "item_fits c i"
    and "encode_length_delimited c i = start @ lost" "start \<noteq> []" "lost \<noteq> []"
    and "ReadFails \<notin> set events" "length items < fuel"
  shows "\<exists>e batches. import_items oc c fuel \<lparr>unread = data_of c items @ start, read_events = events\<rparr>
        = Some (Err e, queued (map ImportItemPart batches) import_tx_new)
    \<and> e \<in> {bad_length, bad_concept} \<and> (\<exists>later. items = concat batches @ later)"
proof -
  let ?it = "iterator_new \<lparr>unread = data_of c items @ start, read_events = events\<rparr>"
  obtain k where k: "fuel = length items + Suc k"
    using assms(8) by (metis less_imp_add_positive less_imp_Suc_add add_Suc_right)
  have new: "import_open import_tx_new" by (simp add: import_open_def import_tx_new_def)
  have it: "reliable ?it" "pending ?it = data_of c items @ start"
    using assms(7) by (simp_all add: reliable_def pending_def iterator_new_def)
  obtain bs buf where f: "fold (ib.feed (\<lambda>_ _. False) full_batch) items ([], []) = (bs, buf)" by fastforce
  obtain it' where it': "reliable it'" "pending it' = start" "import_loop oc c fuel ?it [] import_tx_new =
      import_loop oc c (Suc k) it' buf (queued (map ImportItemPart bs) import_tx_new)"
    using import_loop_reads [OF assms(1,2) it new, of oc "Suc k" "[]"] f unfolding k
    by (auto simp: Let_def simp del: import_loop.simps)
  obtain e it2 where e: "iterator_next oc c it' = (Some (Err e), it2)" "e \<in> {bad_length, bad_concept}"
    using iterator_next_cut [OF assms(1,3) it'(1) _ assms(6)] assms(4,5) it'(2) by metis
  have "concat bs @ buf = items"
    using ib.all_requests_feeds [of "\<lambda>_ _. False" full_batch items "([], [])"] f by (simp add: ib.all_requests_def)
  then show ?thesis using e by (auto simp: import_items_def it'(3))
qed

theorem cut_file_not_imported_witness:
  "\<exists>e batches. import_items True leb_codec 3 \<lparr>unread = data_of leb_codec [[7], []] @ [2, 1], read_events = [ReadUpTo 1]\<rparr>
      = Some (Err e, queued (map ImportItemPart batches) import_tx_new)
    \<and> e \<in> {bad_length, bad_concept} \<and> (\<exists>later. [[7], []] = concat batches @ later)"
  by (rule cut_file_not_imported [OF leb_codec_ok, where i = "[1, 5]" and lost = "[5]"])
    (simp_all add: item_fits_def leb_codec_def max_length_delimiter_len_def encode_length_delimited_def leb_encode.simps)

end
