(* ===== verification/Json_Serde.thy ===== *)
theory Json_Serde
  imports Json
begin

text \<open>
  \<open>rust/src/answer/json.rs\<close>: JSON values through the \<open>serde\<close> crate.  A value is told to a serializer, and
  made from what a deserializer tells its visitor, call by call; \<open>serde_data\<close> has a constructor for each
  of the calls that the visitor answers, and one for the others, to which \<open>serde\<close> itself replies with an error.
  Casts of integers to doubles are parameters.
\<close>

section \<open>Serialization and deserialization\<close>

datatype serde_data =
    SerdeBool bool
  | SerdeI64 i64
  | SerdeI128 "128 word"
  | SerdeU64 u64
  | SerdeU128 "128 word"
  | SerdeF64 f64
  | SerdeStr string
  | SerdeString string
  | SerdeNone
  | SerdeSome serde_data
  | SerdeUnit
  | SerdeSeq "serde_data list"
  | SerdeMap "(serde_data \<times> serde_data) list"
  | SerdeOther

datatype serde_error = InvalidType string

record f64_casts =
  cast_i64 :: "i64 \<Rightarrow> f64"
  cast_i128 :: "128 word \<Rightarrow> f64"
  cast_u64 :: "u64 \<Rightarrow> f64"
  cast_u128 :: "128 word \<Rightarrow> f64"

fun json_serialize :: "json \<Rightarrow> serde_data" where
  "json_serialize (JObject kvs) = SerdeMap (map (\<lambda>(k, v). (SerdeStr k, json_serialize v)) kvs)"
| "json_serialize (JArray vs) = SerdeSeq (map json_serialize vs)"
| "json_serialize (JString s) = SerdeStr s"
| "json_serialize (JNumber n) = SerdeF64 n"
| "json_serialize (JBoolean b) = SerdeBool b"
| "json_serialize JNull = SerdeUnit"

definition expecting_json :: string where
  "expecting_json = ''a valid JSON value''"

text \<open>The key of an entry is a text.\<close>

definition key_deserialize :: "serde_data \<Rightarrow> (string, serde_error) result" where
  "key_deserialize d =
     (case d of SerdeStr s \<Rightarrow> Ok s | SerdeString s \<Rightarrow> Ok s | _ \<Rightarrow> Err (InvalidType ''a string''))"

fun json_deserialize :: "f64_casts \<Rightarrow> serde_data \<Rightarrow> (json, serde_error) result" where
  "json_deserialize f (SerdeBool b) = Ok (JBoolean b)"
| "json_deserialize f (SerdeI64 n) = Ok (JNumber (cast_i64 f n))"
| "json_deserialize f (SerdeI128 n) = Ok (JNumber (cast_i128 f n))"
| "json_deserialize f (SerdeU64 n) = Ok (JNumber (cast_u64 f n))"
| "json_deserialize f (SerdeU128 n) = Ok (JNumber (cast_u128 f n))"
| "json_deserialize f (SerdeF64 n) = Ok (JNumber n)"
| "json_deserialize f (SerdeStr s) = Ok (JString s)"
| "json_deserialize f (SerdeString s) = Ok (JString s)"
| "json_deserialize f SerdeNone = Ok JNull"
| "json_deserialize f (SerdeSome d) = json_deserialize f d"
| "json_deserialize f SerdeUnit = Ok JNull"
| "json_deserialize f (SerdeSeq ds) = map_ok JArray (try_map (json_deserialize f) ds)"
| "json_deserialize f (SerdeMap es) =
     map_ok (\<lambda>kvs. JObject (hm_collect kvs))
       (try_map (\<lambda>(k, v). and_then (key_deserialize k) (\<lambda>key. map_ok (Pair key) (json_deserialize f v))) es)"
| "json_deserialize f SerdeOther = Err (InvalidType expecting_json)"

text \<open>An object has one value for each key.\<close>

fun json_ok :: "json \<Rightarrow> bool" where
  "json_ok (JObject kvs) \<longleftrightarrow> hm_ok kvs \<and> list_all (\<lambda>(k, v). json_ok v) kvs"
| "json_ok (JArray vs) \<longleftrightarrow> list_all json_ok vs"
| "json_ok _ \<longleftrightarrow> True"

section \<open>Round trip\<close>

lemma hm_insert_new: "k \<notin> fst ` set m \<Longrightarrow> hm_insert k v m = m @ [(k, v)]"
  unfolding hm_insert_def by (induction m) auto

lemma hm_collect_distinct: "hm_ok m \<Longrightarrow> hm_collect m = m"
proof -
  have "foldl (\<lambda>m (k, v). hm_insert k v m) acc ps = acc @ ps" if "distinct (map fst (acc @ ps))" for acc ps :: "('a \<times> 'b) list"
    using that
  proof (induction ps arbitrary: acc)
    case (Cons p ps)
    obtain k v where p: "p = (k, v)" by fastforce
    have "k \<notin> fst ` set acc" using Cons.prems p by auto
    then have "hm_insert k v acc = acc @ [p]" by (simp add: hm_insert_new p)
    with Cons.IH [of "acc @ [p]"] Cons.prems show ?case by (simp add: p)
  qed simp
  from this [of "[]" m] show "hm_ok m \<Longrightarrow> hm_collect m = m" by (simp add: hm_collect_def hm_ok_def)
qed

lemma try_map_map: "try_map f (map g xs) = try_map (\<lambda>x. f (g x)) xs"
  by (induction xs) simp_all

lemma json_read_back: "json_ok j \<Longrightarrow> json_deserialize f (json_serialize j) = Ok j"
proof (induction j rule: json_serialize.induct)
  case (1 kvs)
  let ?read = "\<lambda>(k, v). and_then (key_deserialize k) (\<lambda>key. map_ok (Pair key) (json_deserialize f v))"
  have "try_map (\<lambda>e. ?read ((\<lambda>(k, v). (SerdeStr k, json_serialize v)) e)) kvs = Ok (map (\<lambda>e. e) kvs)"
    by (rule try_map_Ok_map) (use 1 in \<open>auto simp: key_deserialize_def list_all_iff\<close>)
  then show ?case using 1(2) by (simp add: try_map_map comp_def hm_collect_distinct)
next
  case (2 vs)
  have "try_map (\<lambda>v. json_deserialize f (json_serialize v)) vs = Ok (map (\<lambda>v. v) vs)"
    by (rule try_map_Ok_map) (use 2 in \<open>auto simp: list_all_iff\<close>)
  then show ?case by (simp add: try_map_map comp_def)
qed simp_all

text \<open>Whatever is read has one value for each key, so it is read back from what it is serialized to.\<close>

lemma json_read_ok: "json_deserialize f d = Ok j \<Longrightarrow> json_ok j"
proof (induction f d arbitrary: j rule: json_deserialize.induct)
  case (12 f ds)
  obtain js where js: "try_map (json_deserialize f) ds = Ok js" "j = JArray js" using 12(2) by (auto simp: result_eqs)
  show ?case by (simp add: js(2) list_all_iff) (metis 12(1) js(1) try_map_mem)
next
  case (13 f es)
  let ?read = "\<lambda>(k, v). and_then (key_deserialize k) (\<lambda>key. map_ok (Pair key) (json_deserialize f v))"
  obtain kvs where kvs: "try_map ?read es = Ok kvs" "j = JObject (hm_collect kvs)" using 13(2) by (auto simp: result_eqs)
  have "json_ok v" if "(k, v) \<in> set (hm_collect kvs)" for k v
  proof -
    have "(k, v) \<in> set kvs" using that hm_collect_subset by fastforce
    then obtain k' v' where "(k', v') \<in> set es" "?read (k', v') = Ok (k, v)" using try_map_mem [OF kvs(1)] by fastforce
    then show ?thesis using 13(1) by (fastforce simp: result_eqs)
  qed
  then show ?case using kvs(2) hm_ok_collect by (auto simp: list_all_iff)
qed (auto simp: result_eqs)

lemma json_serde_stable: "json_deserialize f d = Ok j \<Longrightarrow> json_deserialize g (json_serialize j) = Ok j"
  by (rule json_read_back) (rule json_read_ok)

end
