(* ===== verification/Conversions.thy ===== *)
theory Conversions
  imports Given_Rows Json_Serde
begin

text \<open>
  The \<open>From\<close> implementations of \<open>rust/src/common/error.rs\<close>, \<open>concept/value.rs\<close> and \<open>given.rs\<close>, and the
  implementation of \<open>chrono\<close>'s \<open>TimeZone\<close> for the zones of the driver.  Errors of other crates are
  represented by their texts.
\<close>

section \<open>Errors\<close>

definition error_from_invalid_uri :: "string \<Rightarrow> error" where
  "error_from_invalid_uri t = Other t"

definition error_from_tonic :: "string \<Rightarrow> error" where
  "error_from_tonic t = Other t"

definition error_from_mpsc_send :: error where
  "error_from_mpsc_send = Internal SendError"

definition error_from_oneshot_recv :: error where
  "error_from_oneshot_recv = Internal RecvError"

definition error_from_crossbeam_recv :: error where
  "error_from_crossbeam_recv = Internal RecvError"

definition error_from_crossbeam_send :: error where
  "error_from_crossbeam_send = Internal SendError"

definition error_from_string :: "string \<Rightarrow> error" where
  "error_from_string t = Other t"

definition error_from_io :: "string \<Rightarrow> error" where
  "error_from_io t = Other t"

section \<open>Values\<close>

definition value_from_bool :: "bool \<Rightarrow> cvalue" where
  "value_from_bool b = VBoolean b"

definition value_from_i64 :: "i64 \<Rightarrow> cvalue" where
  "value_from_i64 i = VInteger i"

definition value_from_f64 :: "f64 \<Rightarrow> cvalue" where
  "value_from_f64 d = VDouble d"

definition value_from_decimal :: "decimal \<Rightarrow> cvalue" where
  "value_from_decimal d = VDecimal d"

definition value_from_string :: "string \<Rightarrow> cvalue" where
  "value_from_string t = VString t"

definition value_from_date :: "naive_date \<Rightarrow> cvalue" where
  "value_from_date d = VDate d"

definition value_from_datetime :: "naive_datetime \<Rightarrow> cvalue" where
  "value_from_datetime d = VDatetime d"

definition value_from_datetime_tz :: "datetime_tz \<Rightarrow> cvalue" where
  "value_from_datetime_tz d = VDatetimeTZ d"

definition value_from_duration :: "duration \<Rightarrow> cvalue" where
  "value_from_duration d = VDuration d"

section \<open>Entries of given rows\<close>

definition entry_from_native :: "('a \<Rightarrow> cvalue) \<Rightarrow> 'a \<Rightarrow> given_row_entry" where
  "entry_from_native conversion a = GivenValue (conversion a)"

section \<open>Time zones\<close>

text \<open>
  An offset knows its zone.  What a zone of the \<open>chrono_tz\<close> crate answers is a parameter; a fixed offset is
  its own answer, for dates and for moments.
\<close>

datatype 'o offset = OffsetIANA 'o | OffsetFixed int

datatype 'a local_time = NoTime | SingleTime 'a | AmbiguousTime 'a 'a

record 'o tz_lib =
  tz_from_offset :: "'o \<Rightarrow> string"
  tz_of_local_date :: "string \<Rightarrow> naive_date \<Rightarrow> 'o local_time"
  tz_of_local_datetime :: "string \<Rightarrow> naive_datetime \<Rightarrow> 'o local_time"
  tz_of_utc_date :: "string \<Rightarrow> naive_date \<Rightarrow> 'o"
  tz_of_utc_datetime :: "string \<Rightarrow> naive_datetime \<Rightarrow> 'o"
  tz_fix :: "'o \<Rightarrow> int"
  tz_default :: string

definition offset_fix :: "'o tz_lib \<Rightarrow> 'o offset \<Rightarrow> int" where
  "offset_fix l f = (case f of OffsetIANA inner \<Rightarrow> tz_fix l inner | OffsetFixed inner \<Rightarrow> inner)"

definition time_zone_default :: "'o tz_lib \<Rightarrow> time_zone" where
  "time_zone_default l = IANA (tz_default l)"

definition zone_from_offset :: "'o tz_lib \<Rightarrow> 'o offset \<Rightarrow> time_zone" where
  "zone_from_offset l f = (case f of OffsetIANA inner \<Rightarrow> IANA (tz_from_offset l inner) | OffsetFixed inner \<Rightarrow> Fixed inner)"

definition offset_from_local_date :: "'o tz_lib \<Rightarrow> time_zone \<Rightarrow> naive_date \<Rightarrow> 'o offset local_time" where
  "offset_from_local_date l z local =
     (case z of
        IANA inner \<Rightarrow> map_local_time OffsetIANA (tz_of_local_date l inner local)
      | Fixed inner \<Rightarrow> map_local_time OffsetFixed (SingleTime inner))"

definition offset_from_local_datetime :: "'o tz_lib \<Rightarrow> time_zone \<Rightarrow> naive_datetime \<Rightarrow> 'o offset local_time" where
  "offset_from_local_datetime l z local =
     (case z of
        IANA inner \<Rightarrow> map_local_time OffsetIANA (tz_of_local_datetime l inner local)
      | Fixed inner \<Rightarrow> map_local_time OffsetFixed (SingleTime inner))"

definition offset_from_utc_date :: "'o tz_lib \<Rightarrow> time_zone \<Rightarrow> naive_date \<Rightarrow> 'o offset" where
  "offset_from_utc_date l z utc =
     (case z of IANA inner \<Rightarrow> OffsetIANA (tz_of_utc_date l inner utc) | Fixed inner \<Rightarrow> OffsetFixed inner)"

definition offset_from_utc_datetime :: "'o tz_lib \<Rightarrow> time_zone \<Rightarrow> naive_datetime \<Rightarrow> 'o offset" where
  "offset_from_utc_datetime l z utc =
     (case z of IANA inner \<Rightarrow> OffsetIANA (tz_of_utc_datetime l inner utc) | Fixed inner \<Rightarrow> OffsetFixed inner)"

text \<open>A zone is found again from its offset at any time.\<close>

lemma zone_of_offset:
  assumes "\<And>z utc. tz_from_offset l (tz_of_utc_datetime l z utc) = z" "\<And>z utc. tz_from_offset l (tz_of_utc_date l z utc) = z"
  shows "zone_from_offset l (offset_from_utc_datetime l z utc) = z" "zone_from_offset l (offset_from_utc_date l z day) = z"
  using assms by (simp_all add: zone_from_offset_def offset_from_utc_datetime_def offset_from_utc_date_def split: time_zone.split)

end
