(* ===== verification/Runtime.thy ===== *)
theory Runtime
  imports Effects "HOL-Library.Sublist"
begin

text \<open>
  \<open>rust/src/connection/runtime.rs\<close>: the background runtime.  A worker thread runs the tasks of the network until
  it is told to shut down; a second thread calls the callbacks that the listeners of transactions hand to
  it, one after the other.  The listeners hold clones of the sending end of its queue.  Dropping the runtime waits for
  the second thread, which ends when every sending end is gone.
\<close>

section \<open>State\<close>

text \<open>Callbacks and the channels for their answers are numbered; \<open>submitted\<close>, \<open>called\<close> and \<open>answered\<close> are logs.\<close>

datatype handler_pc = Receiving | Calling nat nat | HandlerEnded | HandlerPanicked

record background_runtime =
  rt_open :: bool
  rt_shutdowns :: nat
  rt_worker :: bool
  own_sink :: bool
  sink_clones :: nat
  callback_queue :: "(nat \<times> nat) list"
  handler :: handler_pc
  submitted :: "nat list"
  called :: "nat list"
  answered :: "nat list"

text \<open>The results of building the runtime and of starting the two threads.\<close>

definition background_runtime_new :: "string option \<Rightarrow> string option \<Rightarrow> string option \<Rightarrow> (background_runtime, error) result" where
  "background_runtime_new build_error worker_error handler_error =
     (case build_error of
        Some e \<Rightarrow> Err (Other e)
      | None \<Rightarrow>
          (case worker_error of
             Some e \<Rightarrow> Err (Other e)
           | None \<Rightarrow>
               (case handler_error of
                  Some e \<Rightarrow> Err (Other e)
                | None \<Rightarrow> Ok \<lparr>rt_open = True, rt_shutdowns = 0, rt_worker = True, own_sink = True, sink_clones = 0,
                    callback_queue = [], handler = Receiving, submitted = [], called = [], answered = []\<rparr>)))"

definition background_is_open :: "background_runtime \<Rightarrow> bool" where
  "background_is_open r = rt_open r"

definition send_worker_shutdown :: "(background_runtime, unit) io" where
  "send_worker_shutdown r =
     (if rt_worker r then (Ok (), r\<lparr>rt_shutdowns := Suc (rt_shutdowns r)\<rparr>) else (Err (Internal SendError), r))"

definition background_force_close :: "(background_runtime, unit) io" where
  "background_force_close r = send_worker_shutdown (r\<lparr>rt_open := False\<rparr>)"

definition clone_callback_sink :: "(background_runtime, unit) io" where
  "clone_callback_sink r = (if own_sink r then (Ok (), r\<lparr>sink_clones := Suc (sink_clones r)\<rparr>) else (Panic, r))"

text \<open>\<open>send(..).unwrap()\<close> by a listener: it panics when the thread has ended.\<close>

definition submit_callback :: "nat \<Rightarrow> nat \<Rightarrow> (background_runtime, unit) io" where
  "submit_callback callback response r =
     (if handler r \<in> {HandlerEnded, HandlerPanicked} then (Panic, r)
      else (Ok (), r\<lparr>callback_queue := callback_queue r @ [(callback, response)], submitted := submitted r @ [callback]\<rparr>))"

section \<open>The threads\<close>

definition worker_turn :: "background_runtime \<Rightarrow> background_runtime" where
  "worker_turn r = (if rt_worker r \<and> 0 < rt_shutdowns r then r\<lparr>rt_worker := False\<rparr> else r)"

text \<open>A callback that panics ends the thread, and the queue with it.\<close>

definition handler_turn :: "(nat \<Rightarrow> bool) \<Rightarrow> background_runtime \<Rightarrow> background_runtime" where
  "handler_turn panics r =
     (case handler r of
        Receiving \<Rightarrow>
          (case callback_queue r of
             (callback, response) # rest \<Rightarrow> r\<lparr>callback_queue := rest, handler := Calling callback response\<rparr>
           | [] \<Rightarrow> if own_sink r \<or> 0 < sink_clones r then r else r\<lparr>handler := HandlerEnded\<rparr>)
      | Calling callback response \<Rightarrow>
          if panics callback then r\<lparr>handler := HandlerPanicked, callback_queue := []\<rparr>
          else r\<lparr>handler := Receiving, called := called r @ [callback], answered := answered r @ [response]\<rparr>
      | _ \<Rightarrow> r)"

text \<open>Dropping: the beginning, and whether the thread can be joined.\<close>

definition runtime_drop :: "background_runtime \<Rightarrow> background_runtime" where
  "runtime_drop r = (snd (send_worker_shutdown (r\<lparr>rt_open := False\<rparr>)))\<lparr>own_sink := False\<rparr>"

definition handler_joined :: "background_runtime \<Rightarrow> bool" where
  "handler_joined r \<longleftrightarrow> handler r \<in> {HandlerEnded, HandlerPanicked}"

inductive runtime_step :: "(nat \<Rightarrow> bool) \<Rightarrow> background_runtime \<Rightarrow> background_runtime \<Rightarrow> bool" for panics where
  force_close: "runtime_step panics r (snd (background_force_close r))"
| clone: "runtime_step panics r (snd (clone_callback_sink r))"
| release_clone: "0 < sink_clones r \<Longrightarrow> runtime_step panics r (r\<lparr>sink_clones := sink_clones r - 1\<rparr>)"
| submit: "0 < sink_clones r \<Longrightarrow> runtime_step panics r (snd (submit_callback callback response r))"
| worker: "runtime_step panics r (worker_turn r)"
| handle: "runtime_step panics r (handler_turn panics r)"
| drop_runtime: "own_sink r \<Longrightarrow> runtime_step panics r (runtime_drop r)"

inductive runtime_reachable :: "(nat \<Rightarrow> bool) \<Rightarrow> background_runtime \<Rightarrow> bool" for panics where
  start: "background_runtime_new None None None = Ok r \<Longrightarrow> runtime_reachable panics r"
| step: "runtime_reachable panics r \<Longrightarrow> runtime_step panics r r' \<Longrightarrow> runtime_reachable panics r'"

section \<open>Invariants\<close>

definition in_call :: "background_runtime \<Rightarrow> nat list" where
  "in_call r = (case handler r of Calling c _ \<Rightarrow> [c] | _ \<Rightarrow> [])"

text \<open>
  What was submitted was called, is being called, or is waiting; after a panic, the callbacks that were called
  are the first that were submitted, and they did not panic.
\<close>

definition runtime_ok :: "(nat \<Rightarrow> bool) \<Rightarrow> background_runtime \<Rightarrow> bool" where
  "runtime_ok panics r \<longleftrightarrow>
     (if handler r = HandlerPanicked then (\<exists>c rest. submitted r = called r @ c # rest \<and> panics c) \<and> callback_queue r = []
      else submitted r = called r @ in_call r @ map fst (callback_queue r))
     \<and> (handler r = HandlerEnded \<longrightarrow> \<not> own_sink r \<and> sink_clones r = 0 \<and> callback_queue r = [])
     \<and> list_all (\<lambda>c. \<not> panics c) (called r)
     \<and> length (answered r) = length (called r)"

lemmas runtime_defs = background_force_close_def send_worker_shutdown_def clone_callback_sink_def submit_callback_def
  worker_turn_def handler_turn_def runtime_drop_def

lemma runtime_ok_step: "runtime_step panics r r' \<Longrightarrow> runtime_ok panics r \<Longrightarrow> runtime_ok panics r'"
proof (induction rule: runtime_step.induct)
  case (handle r)
  then show ?case
    by (cases "handler r"; cases "callback_queue r") (auto simp: runtime_ok_def runtime_defs in_call_def)
qed (auto simp: runtime_ok_def runtime_defs in_call_def split: handler_pc.splits if_splits)

lemma runtime_invariant: "runtime_reachable panics r \<Longrightarrow> runtime_ok panics r"
proof (induction rule: runtime_reachable.induct)
  case (start r)
  then show ?case by (auto simp: background_runtime_new_def runtime_ok_def in_call_def)
qed (rule runtime_ok_step)

text \<open>The number of turns that the thread needs for what is left to do.\<close>

definition handler_work :: "background_runtime \<Rightarrow> nat" where
  "handler_work r = 2 * length (callback_queue r) + (case handler r of Receiving \<Rightarrow> 1 | Calling _ _ \<Rightarrow> 2 | _ \<Rightarrow> 0)"

definition all_sinks_gone :: "background_runtime \<Rightarrow> bool" where
  "all_sinks_gone r \<longleftrightarrow> \<not> own_sink r \<and> sink_clones r = 0"

lemma handler_turns_end:
  assumes "all_sinks_gone r" "runtime_ok panics r" "handler_work r \<le> n"
  shows "handler_joined ((handler_turn panics ^^ n) r) \<and> runtime_ok panics ((handler_turn panics ^^ n) r)
    \<and> submitted ((handler_turn panics ^^ n) r) = submitted r"
  using assms
proof (induction n arbitrary: r)
  case 0
  then show ?case by (auto simp: handler_work_def handler_joined_def split: handler_pc.splits)
next
  case (Suc n)
  have ok: "runtime_ok panics (handler_turn panics r)" using Suc.prems(2) runtime_ok_step runtime_step.handle by blast
  have "all_sinks_gone (handler_turn panics r)" "submitted (handler_turn panics r) = submitted r"
    "handler_work (handler_turn panics r) \<le> n"
    using Suc.prems
    by (auto simp: all_sinks_gone_def handler_turn_def handler_work_def runtime_ok_def split: handler_pc.splits list.splits)
  with Suc.IH ok show ?case by (simp add: funpow_Suc_right del: funpow.simps)
qed

text \<open>A panic is for good: nothing is called any more, and what is submitted later panics where it is submitted.\<close>

lemma panicked_step: "runtime_step panics r r' \<Longrightarrow> handler r = HandlerPanicked \<Longrightarrow> handler r' = HandlerPanicked \<and> called r' = called r"
  by (induction rule: runtime_step.induct) (auto simp: runtime_defs)

lemma panicked_forever:
  assumes "(runtime_step panics)\<^sup>*\<^sup>* r r'" "handler r = HandlerPanicked"
  shows "handler r' = HandlerPanicked \<and> called r' = called r \<and> submit_callback c a r' = (Panic, r')"
proof -
  have "handler r' = HandlerPanicked \<and> called r' = called r"
    using assms by (induction rule: rtranclp_induct) (auto dest: panicked_step)
  then show ?thesis by (simp add: submit_callback_def)
qed

section \<open>Properties\<close>

text \<open>
  C22: however callers, listeners and the two threads interleave, the callbacks for the end of transactions are
  called in the order in which they were submitted, each at most once.  When the runtime is dropped and the
  listeners have let go of its queue, the thread ends within two turns for each callback left and at most
  two more, so that the drop returns; unless a callback has panicked, every callback was called by then.
\<close>

theorem callbacks_called_before_drop_returns:
  assumes "runtime_reachable panics r"
  shows "prefix (called r) (submitted r)
    \<and> (all_sinks_gone r \<and> handler_work r \<le> n \<longrightarrow>
        handler_joined ((handler_turn panics ^^ n) r)
        \<and> (list_all (\<lambda>c. \<not> panics c) (submitted r) \<longrightarrow> called ((handler_turn panics ^^ n) r) = submitted r))"
proof -
  let ?final = "(handler_turn panics ^^ n) r"
  have ok: "runtime_ok panics r" by (rule runtime_invariant [OF assms])
  have "handler_joined ?final \<and> (list_all (\<lambda>c. \<not> panics c) (submitted r) \<longrightarrow> called ?final = submitted r)"
    if gone: "all_sinks_gone r" "handler_work r \<le> n"
  proof -
    have e: "handler_joined ?final" "runtime_ok panics ?final" "submitted ?final = submitted r"
      using handler_turns_end [OF gone(1) ok gone(2)] by simp_all
    then show ?thesis by (auto simp: runtime_ok_def handler_joined_def in_call_def list_all_iff split: if_splits)
  qed
  moreover have "prefix (called r) (submitted r)" using ok by (auto simp: runtime_ok_def split: if_splits)
  ultimately show ?thesis by blast
qed

definition sample_runtime :: background_runtime where
  "sample_runtime = \<lparr>rt_open = True, rt_shutdowns = 0, rt_worker = True, own_sink = True, sink_clones = 0,
     callback_queue = [], handler = Receiving, submitted = [], called = [], answered = []\<rparr>"

definition sample_dropped :: background_runtime where
  "sample_dropped = (let r = runtime_drop (snd (submit_callback 6 1 (snd (submit_callback 5 0 (snd (clone_callback_sink sample_runtime))))))
     in r\<lparr>sink_clones := sink_clones r - 1\<rparr>)"

theorem callbacks_called_before_drop_returns_witness:
  "handler_joined ((handler_turn (\<lambda>_. False) ^^ 5) sample_dropped)
    \<and> called ((handler_turn (\<lambda>_. False) ^^ 5) sample_dropped) = [5, 6]"
proof -
  let ?step = "runtime_step (\<lambda>_. False)" and ?r1 = "snd (clone_callback_sink sample_runtime)"
  let ?r2 = "snd (submit_callback 5 0 ?r1)"
  let ?r3 = "snd (submit_callback 6 1 ?r2)"
  let ?r4 = "runtime_drop ?r3"
  have clones: "0 < sink_clones ?r1" "0 < sink_clones ?r2" "0 < sink_clones ?r4" "own_sink ?r3"
    by (simp_all add: sample_runtime_def runtime_defs)
  have "?step sample_runtime ?r1" "?step ?r1 ?r2" "?step ?r2 ?r3" "?step ?r3 ?r4" "?step ?r4 sample_dropped"
    unfolding sample_dropped_def Let_def by (rule runtime_step.intros clones)+
  moreover have "runtime_reachable (\<lambda>_. False) sample_runtime"
    by (rule runtime_reachable.start) (simp add: background_runtime_new_def sample_runtime_def)
  ultimately have "runtime_reachable (\<lambda>_. False) sample_dropped"
    by (meson runtime_reachable.step)
  moreover have "all_sinks_gone sample_dropped" "handler_work sample_dropped = 5" "submitted sample_dropped = [5, 6]"
    by (simp_all add: sample_dropped_def sample_runtime_def runtime_defs all_sinks_gone_def handler_work_def)
  ultimately show ?thesis
    using callbacks_called_before_drop_returns [of "\<lambda>_. False" sample_dropped 5] by simp
qed

end
