(* ===== verification/C_Memory.thy ===== *)
theory C_Memory
  imports Effects
begin

text \<open>
  \<open>c/src/common\<close>: how the C library hands Rust values to its callers.  A value is moved to the heap and
  its address is returned; the caller lends the address to other functions and gives it back at the end.
  The heap maps addresses to objects; 0 is the null pointer, and an address is never used again after it
  was freed, so that a dangling pointer is one that the heap does not know.  An operation can also abort
  the process (a panic does not cross \<open>extern "C"\<close>) or have undefined behaviour (a dangling pointer, or
  one of another type).  Errors are kept in a variable of the thread until the caller asks for them.  The rest of
  the state, which the values on the heap refer to, is the \<open>world\<close>.
\<close>

section \<open>Operations\<close>

type_synonym ptr = nat

datatype 'a outcome = Done 'a | Abort | Undefined

record ('w, 'o) c_state =
  heap :: "ptr \<Rightarrow> 'o option"
  next_free :: ptr
  last_error :: "error option"
  world :: 'w

type_synonym ('w, 'o, 'a) c_op = "('w, 'o) c_state \<Rightarrow> ('a \<times> ('w, 'o) c_state) outcome"

definition c_return :: "'a \<Rightarrow> ('w, 'o, 'a) c_op" where
  "c_return a s = Done (a, s)"

definition c_abort :: "('w, 'o, 'a) c_op" where
  "c_abort s = Abort"

definition c_bind :: "('w, 'o, 'a) c_op \<Rightarrow> ('a \<Rightarrow> ('w, 'o, 'b) c_op) \<Rightarrow> ('w, 'o, 'b) c_op" where
  "c_bind m f s =
     (case m s of
        Done (a, s1) \<Rightarrow> f a s1
      | Abort \<Rightarrow> Abort
      | Undefined \<Rightarrow> Undefined)"

definition c_map :: "('a \<Rightarrow> 'b) \<Rightarrow> ('w, 'o, 'a) c_op \<Rightarrow> ('w, 'o, 'b) c_op" where
  "c_map f m = c_bind m (\<lambda>a. c_return (f a))"

text \<open>The Rust type of a pointer: how its values are put into an object and taken out of it.\<close>

record ('o, 'a) c_type =
  boxed :: "'a \<Rightarrow> 'o"
  unboxed :: "'o \<Rightarrow> 'a option"

definition null :: ptr where
  "null = 0"

section \<open>Ownership\<close>

definition release :: "('o, 'a) c_type \<Rightarrow> 'a \<Rightarrow> ('w, 'o, ptr) c_op" where
  "release T x s = Done (next_free s, s\<lparr>heap := (heap s)(next_free s := Some (boxed T x)), next_free := Suc (next_free s)\<rparr>)"

definition release_optional :: "('o, 'a) c_type \<Rightarrow> 'a option \<Rightarrow> ('w, 'o, ptr) c_op" where
  "release_optional T x = (case x of Some v \<Rightarrow> release T v | None \<Rightarrow> c_return null)"

text \<open>\<open>assert!(!raw.is_null())\<close>, then the dereference.\<close>

definition borrow :: "('o, 'a) c_type \<Rightarrow> ptr \<Rightarrow> ('w, 'o, 'a) c_op" where
  "borrow T p s =
     (if p = null then Abort
      else case heap s p of
        None \<Rightarrow> Undefined
      | Some obj \<Rightarrow> (case unboxed T obj of None \<Rightarrow> Undefined | Some x \<Rightarrow> Done (x, s)))"

text \<open>An update through a mutable reference.\<close>

definition borrow_mut :: "('o, 'a) c_type \<Rightarrow> ptr \<Rightarrow> ('a \<Rightarrow> 'b \<times> 'a) \<Rightarrow> ('w, 'o, 'b) c_op" where
  "borrow_mut T p f =
     c_bind (borrow T p) (\<lambda>x s. (let (b, y) = f x in Done (b, s\<lparr>heap := (heap s)(p := Some (boxed T y))\<rparr>)))"

definition borrow_optional :: "('o, 'a) c_type \<Rightarrow> ptr \<Rightarrow> ('w, 'o, 'a option) c_op" where
  "borrow_optional T p = (if p = null then c_return None else c_map Some (borrow T p))"

definition take_ownership :: "('o, 'a) c_type \<Rightarrow> ptr \<Rightarrow> ('w, 'o, 'a) c_op" where
  "take_ownership T p = c_bind (borrow T p) (\<lambda>x s. Done (x, s\<lparr>heap := (heap s)(p := None)\<rparr>))"

text \<open>Dropping a value frees what it owns, which the last argument does.\<close>

definition free_with :: "('a \<Rightarrow> ('w, 'o, unit) c_op) \<Rightarrow> ('o, 'a) c_type \<Rightarrow> ptr \<Rightarrow> ('w, 'o, unit) c_op" where
  "free_with drop_value T p = (if p = null then c_return () else c_bind (take_ownership T p) drop_value)"

definition free :: "('o, 'a) c_type \<Rightarrow> ptr \<Rightarrow> ('w, 'o, unit) c_op" where
  "free = free_with (\<lambda>_. c_return ())"

text \<open>Arcs: the library shares a value with its caller only once, so the last count is always its own.\<close>

definition decrement_arc :: "('o, 'a) c_type \<Rightarrow> ptr \<Rightarrow> ('w, 'o, unit) c_op" where
  "decrement_arc T p = (if p = null then c_abort else c_bind (take_ownership T p) (\<lambda>_. c_return ()))"

section \<open>Strings\<close>

definition continuation :: "char \<Rightarrow> nat \<Rightarrow> nat \<Rightarrow> bool" where
  "continuation c lo hi \<longleftrightarrow> lo \<le> of_char c \<and> of_char c \<le> hi"

text \<open>Valid UTF-8, as \<open>CStr::to_str\<close> requires.\<close>

fun valid_utf8 :: "string \<Rightarrow> bool" where
  "valid_utf8 [] \<longleftrightarrow> True"
| "valid_utf8 (b # bs) \<longleftrightarrow>
     (let n = (of_char b :: nat) in
      if n < 128 then valid_utf8 bs
      else if 194 \<le> n \<and> n \<le> 223 then
        (case bs of c # cs \<Rightarrow> continuation c 128 191 \<and> valid_utf8 cs | _ \<Rightarrow> False)
      else if 224 \<le> n \<and> n \<le> 239 then
        (case bs of
           c # d # ds \<Rightarrow> continuation c (if n = 224 then 160 else 128) (if n = 237 then 159 else 191)
             \<and> continuation d 128 191 \<and> valid_utf8 ds
         | _ \<Rightarrow> False)
      else if 240 \<le> n \<and> n \<le> 244 then
        (case bs of
           c # d # e # es \<Rightarrow> continuation c (if n = 240 then 144 else 128) (if n = 244 then 143 else 191)
             \<and> continuation d 128 191 \<and> continuation e 128 191 \<and> valid_utf8 es
         | _ \<Rightarrow> False)
      else False)"

definition nul :: char where
  "nul = CHR 0x00"

text \<open>\<open>CString::new\<close> refuses a text with a zero byte, and \<open>unwrap\<close> panics.\<close>

definition release_string :: "('o, string) c_type \<Rightarrow> string \<Rightarrow> ('w, 'o, ptr) c_op" where
  "release_string T s = (if nul \<in> set s then c_abort else release T s)"

definition release_optional_string :: "('o, string) c_type \<Rightarrow> string option \<Rightarrow> ('w, 'o, ptr) c_op" where
  "release_optional_string T s = (case s of Some v \<Rightarrow> release_string T v | None \<Rightarrow> c_return null)"

definition string_view :: "('o, string) c_type \<Rightarrow> ptr \<Rightarrow> ('w, 'o, string) c_op" where
  "string_view T p = c_bind (borrow T p) (\<lambda>s. if valid_utf8 s then c_return s else c_abort)"

definition string_free :: "('o, string) c_type \<Rightarrow> ptr \<Rightarrow> ('w, 'o, unit) c_op" where
  "string_free T p = free T p"

section \<open>Errors\<close>

definition record_error :: "error \<Rightarrow> ('w, 'o, unit) c_op" where
  "record_error e s = Done ((), s\<lparr>last_error := Some e\<rparr>)"

definition ok_record :: "('a, error) result \<Rightarrow> ('w, 'o, 'a option) c_op" where
  "ok_record r =
     (case r of
        Ok v \<Rightarrow> c_return (Some v)
      | Err e \<Rightarrow> c_bind (record_error e) (\<lambda>_. c_return None)
      | Panic \<Rightarrow> c_abort)"

definition ok_record_flatten :: "('a, error) result option \<Rightarrow> ('w, 'o, 'a option) c_op" where
  "ok_record_flatten r = (case r of None \<Rightarrow> c_return None | Some x \<Rightarrow> ok_record x)"

definition try_release :: "('o, 'a) c_type \<Rightarrow> ('a, error) result \<Rightarrow> ('w, 'o, ptr) c_op" where
  "try_release T r = c_bind (ok_record r) (release_optional T)"

definition try_release_optional :: "('o, 'a) c_type \<Rightarrow> ('a, error) result option \<Rightarrow> ('w, 'o, ptr) c_op" where
  "try_release_optional T r = c_bind (ok_record_flatten r) (release_optional T)"

definition try_release_string :: "('o, string) c_type \<Rightarrow> (string, error) result \<Rightarrow> ('w, 'o, ptr) c_op" where
  "try_release_string T r = c_bind (ok_record r) (release_optional_string T)"

definition try_release_optional_string :: "('o, string) c_type \<Rightarrow> (string, error) result option \<Rightarrow> ('w, 'o, ptr) c_op" where
  "try_release_optional_string T r = c_bind (ok_record_flatten r) (release_optional_string T)"

definition unwrap_or_default :: "'a \<Rightarrow> ('a, error) result \<Rightarrow> ('w, 'o, 'a) c_op" where
  "unwrap_or_default d r = c_map (\<lambda>x. case x of Some v \<Rightarrow> v | None \<Rightarrow> d) (ok_record r)"

definition unwrap_void :: "(unit, error) result \<Rightarrow> ('w, 'o, unit) c_op" where
  "unwrap_void r = c_map (\<lambda>_. ()) (ok_record r)"

definition check_error :: "('w, 'o, bool) c_op" where
  "check_error s = Done (last_error s \<noteq> None, s)"

definition get_last_error :: "('o, error) c_type \<Rightarrow> ('w, 'o, ptr) c_op" where
  "get_last_error T s = release_optional T (last_error s) (s\<lparr>last_error := None\<rparr>)"

definition error_drop :: "('o, error) c_type \<Rightarrow> ptr \<Rightarrow> ('w, 'o, unit) c_op" where
  "error_drop T p = free T p"

text \<open>These dereference the pointer without looking at it.\<close>

definition deref :: "('o, 'a) c_type \<Rightarrow> ptr \<Rightarrow> ('w, 'o, 'a) c_op" where
  "deref T p s = (if p = null then Undefined else borrow T p s)"

definition lift_result :: "('a, error) result \<Rightarrow> ('w, 'o, 'a) c_op" where
  "lift_result r = (case r of Ok v \<Rightarrow> c_return v | _ \<Rightarrow> c_abort)"

definition c_error_code :: "('o, error) c_type \<Rightarrow> ('o, string) c_type \<Rightarrow> ptr \<Rightarrow> ('w, 'o, ptr) c_op" where
  "c_error_code E T p = c_bind (deref E p) (\<lambda>e. c_bind (lift_result (error_code_text e)) (release_string T))"

definition c_error_message :: "http_lib \<Rightarrow> ('o, error) c_type \<Rightarrow> ('o, string) c_type \<Rightarrow> ptr \<Rightarrow> ('w, 'o, ptr) c_op" where
  "c_error_message http E T p =
     c_bind (deref E p) (\<lambda>e. c_bind (lift_result (error_message http e)) (release_string T))"

section \<open>Iterators and promises\<close>

text \<open>An iterator is the list of the elements it has not returned yet.\<close>

definition pop :: "'a list \<Rightarrow> 'a option \<times> 'a list" where
  "pop xs = (case xs of [] \<Rightarrow> (None, []) | x # rest \<Rightarrow> (Some x, rest))"

definition c_iterator_next :: "('o, 'a list) c_type \<Rightarrow> ('o, 'a) c_type \<Rightarrow> ptr \<Rightarrow> ('w, 'o, ptr) c_op" where
  "c_iterator_next I T p = c_bind (borrow_mut I p pop) (release_optional T)"

definition iterator_try_next ::
    "('o, ('a, error) result list) c_type \<Rightarrow> ('o, 'a) c_type \<Rightarrow> ptr \<Rightarrow> ('w, 'o, ptr) c_op" where
  "iterator_try_next I T p = c_bind (borrow_mut I p pop) (try_release_optional T)"

definition string_iterator_next ::
    "('o, (string, error) result list) c_type \<Rightarrow> ('o, string) c_type \<Rightarrow> ptr \<Rightarrow> ('w, 'o, ptr) c_op" where
  "string_iterator_next I T p =
     c_bind (borrow_mut I p pop) (\<lambda>x. case x of Some r \<Rightarrow> try_release_string T r | None \<Rightarrow> c_return null)"

text \<open>A promise is the outcome it will resolve to.  It is gone once it was resolved.\<close>

definition void_promise_resolve :: "('o, (unit, error) result) c_type \<Rightarrow> ptr \<Rightarrow> ('w, 'o, unit) c_op" where
  "void_promise_resolve P p = c_bind (take_ownership P p) unwrap_void"

definition bool_promise_resolve :: "('o, (bool, error) result) c_type \<Rightarrow> ptr \<Rightarrow> ('w, 'o, bool) c_op" where
  "bool_promise_resolve P p = c_bind (take_ownership P p) (unwrap_or_default False)"

definition transpose :: "('a option, error) result \<Rightarrow> ('a, error) result option" where
  "transpose r =
     (case r of Ok None \<Rightarrow> None | Ok (Some v) \<Rightarrow> Some (Ok v) | Err e \<Rightarrow> Some (Err e) | Panic \<Rightarrow> Some Panic)"

definition string_promise_resolve ::
    "('o, (string option, error) result) c_type \<Rightarrow> ('o, string) c_type \<Rightarrow> ptr \<Rightarrow> ('w, 'o, ptr) c_op" where
  "string_promise_resolve P T p = c_bind (take_ownership P p) (\<lambda>r. try_release_optional_string T (transpose r))"

definition promise_drop :: "('o, 'a) c_type \<Rightarrow> ptr \<Rightarrow> ('w, 'o, unit) c_op" where
  "promise_drop P p = c_bind (take_ownership P p) (\<lambda>_. c_return ())"

end
