(* ===== verification/C_Objects.thy ===== *)
theory C_Objects
  imports C_Memory Driver Concept_Rows
begin

text \<open>
  The objects that the C library puts on the heap, grouped by the file of \<open>c/src\<close> that releases them, and
  the type of the pointers to each of them.  An iterator over values that are there is their list; the
  handles that hold strings of their own hold their addresses.  A driver, and what refers to one, is
  known by its number in the world.
\<close>

section \<open>Objects\<close>

text \<open>\<open>analyze.rs\<close>: the parts of an analyzed query, and iterators over them.\<close>

datatype analyze_object =
    AQueryPromise "(analyzed_query, error) result"
  | AQuery analyzed_query
  | APipeline pipeline
  | AFunction function_t
  | AGiven given
  | AFetch fetch
  | AReturn return_operation
  | AStage pipeline_stage
  | AConjunction conjunction
  | AConjunctionID conjunction_id
  | AConstraint constraint_with_span
  | AVertex constraint_vertex
  | ANamedRole named_role
  | AVariable variable
  | AAnnotations variable_annotations
  | AReducer reducer
  | AAssignment reduce_assignment
  | ASort sort_variable

datatype analyze_iterator =
    IFunctions "function_t list"
  | IVariables "variable list"
  | IReducers "reducer list"
  | IStages "pipeline_stage list"
  | ISorts "sort_variable list"
  | IAssignments "reduce_assignment list"
  | IConstraints "constraint_with_span list"
  | IVertices "constraint_vertex list"
  | IConjunctionIDs "conjunction_id list"
  | IAnnotations "variable_annotations list"

text \<open>\<open>concept.rs\<close>, \<open>answer.rs\<close>: structures that cross the boundary by value or hold strings.\<close>

record c_datetime =
  c_seconds :: i64
  c_subsec_nanos :: u32

record c_datetime_tz =
  c_datetime_in_nanos :: c_datetime
  c_zone_name :: ptr
  c_local_minus_utc :: i32
  c_is_fixed_offset :: bool

record c_field =
  c_field_name :: ptr
  c_field_value :: ptr

datatype answer_object =
    BConcept concept
  | BConcepts "(concept, error) result list"
  | BRow concept_row
  | BRows "(concept_row, error) result list"
  | BAnswerPromise "(query_answer, error) result"
  | BAnswer query_answer
  | BFields "(string \<times> cvalue option) list"
  | BField c_field
  | BDatetimeTZ c_datetime_tz

text \<open>The remaining files: options, servers, databases and users.\<close>

datatype c_routing_type = RoutingAuto | RoutingDirect

record c_routing =
  c_routing_type :: c_routing_type
  c_routing_address :: ptr

record c_version =
  c_distribution :: ptr
  c_version :: ptr

datatype connection_object =
    OCredentials credentials
  | OTlsConfig driver_tls_config
  | ODriverOptions driver_options
  | OTransactionOptions transaction_options
  | OQueryOptions query_options
  | ORouting c_routing
  | OVersion c_version
  | OServer server
  | OServers "server list"
  | ODatabase "nat \<times> database"
  | ODatabases "(nat \<times> database) list"
  | OUser "nat \<times> user"
  | OUsers "(nat \<times> user) list"
  | OGivenRows given_rows

text \<open>
  \<open>transaction.rs\<close>: promises that have not run yet, with what their closures hold: the number of the
  stream, what became of the request, the number of a callback, and how far the closure has come.
\<close>

datatype void_task =
    VoidReady "(unit, error) result"
  | CommitTask nat "(channel, error) result"
  | RollbackTask nat "(channel, error) result"
  | CloseTask nat
  | CloseRegistering nat nat
  | CloseWaiting nat nat
  | OnCloseTask nat nat
  | OnCloseRegistering nat nat

datatype 'a reading_task =
    ReadReady "('a, error) result"
  | ReadTask nat "(channel, error) result"
  | Reading nat channel nat "(transaction_response, error) result list"

datatype transaction_object =
    TTransaction nat
  | TVoid void_task
  | TQuery "query_answer reading_task"
  | TAnalyze "analyzed_query reading_task"

text \<open>Strings are the bytes before the terminating zero; an array of pointers ends with null.\<close>

datatype c_object =
    CString string
  | CPointers "ptr list"
  | CError error
  | CStrings "(string, error) result list"
  | CVoidPromise "(unit, error) result"
  | CBoolPromise "(bool, error) result"
  | CStringPromise "(string option, error) result"
  | CAnalyze analyze_object
  | CIterator analyze_iterator
  | CAnswer answer_object
  | CConnection connection_object
  | CDriver nat
  | CTransaction transaction_object

section \<open>Types of pointers\<close>

type_synonym ('w, 'a) c = "('w, c_object, 'a) c_op"

definition string_c :: "(c_object, string) c_type" where
  "string_c = \<lparr>boxed = \<lambda>x. CString x, unboxed = \<lambda>obj. case obj of CString x \<Rightarrow> Some x | _ \<Rightarrow> None\<rparr>"

definition pointers_c :: "(c_object, ptr list) c_type" where
  "pointers_c = \<lparr>boxed = \<lambda>x. CPointers x, unboxed = \<lambda>obj. case obj of CPointers x \<Rightarrow> Some x | _ \<Rightarrow> None\<rparr>"

definition error_c :: "(c_object, error) c_type" where
  "error_c = \<lparr>boxed = \<lambda>x. CError x, unboxed = \<lambda>obj. case obj of CError x \<Rightarrow> Some x | _ \<Rightarrow> None\<rparr>"

definition string_iterator_c :: "(c_object, (string, error) result list) c_type" where
  "string_iterator_c = \<lparr>boxed = \<lambda>x. CStrings x, unboxed = \<lambda>obj. case obj of CStrings x \<Rightarrow> Some x | _ \<Rightarrow> None\<rparr>"

definition void_promise_c :: "(c_object, (unit, error) result) c_type" where
  "void_promise_c = \<lparr>boxed = \<lambda>x. CVoidPromise x, unboxed = \<lambda>obj. case obj of CVoidPromise x \<Rightarrow> Some x | _ \<Rightarrow> None\<rparr>"

definition bool_promise_c :: "(c_object, (bool, error) result) c_type" where
  "bool_promise_c = \<lparr>boxed = \<lambda>x. CBoolPromise x, unboxed = \<lambda>obj. case obj of CBoolPromise x \<Rightarrow> Some x | _ \<Rightarrow> None\<rparr>"

definition string_promise_c :: "(c_object, (string option, error) result) c_type" where
  "string_promise_c = \<lparr>boxed = \<lambda>x. CStringPromise x, unboxed = \<lambda>obj. case obj of CStringPromise x \<Rightarrow> Some x | _ \<Rightarrow> None\<rparr>"

definition analyzed_query_promise_c :: "(c_object, (analyzed_query, error) result) c_type" where
  "analyzed_query_promise_c = \<lparr>boxed = \<lambda>x. CAnalyze (AQueryPromise x), unboxed = \<lambda>obj. case obj of CAnalyze (AQueryPromise x) \<Rightarrow> Some x | _ \<Rightarrow> None\<rparr>"

definition analyzed_query_c :: "(c_object, analyzed_query) c_type" where
  "analyzed_query_c = \<lparr>boxed = \<lambda>x. CAnalyze (AQuery x), unboxed = \<lambda>obj. case obj of CAnalyze (AQuery x) \<Rightarrow> Some x | _ \<Rightarrow> None\<rparr>"

definition pipeline_c :: "(c_object, pipeline) c_type" where
  "pipeline_c = \<lparr>boxed = \<lambda>x. CAnalyze (APipeline x), unboxed = \<lambda>obj. case obj of CAnalyze (APipeline x) \<Rightarrow> Some x | _ \<Rightarrow> None\<rparr>"

definition function_c :: "(c_object, function_t) c_type" where
  "function_c = \<lparr>boxed = \<lambda>x. CAnalyze (AFunction x), unboxed = \<lambda>obj. case obj of CAnalyze (AFunction x) \<Rightarrow> Some x | _ \<Rightarrow> None\<rparr>"

definition given_c :: "(c_object, given) c_type" where
  "given_c = \<lparr>boxed = \<lambda>x. CAnalyze (AGiven x), unboxed = \<lambda>obj. case obj of CAnalyze (AGiven x) \<Rightarrow> Some x | _ \<Rightarrow> None\<rparr>"

definition fetch_c :: "(c_object, fetch) c_type" where
  "fetch_c = \<lparr>boxed = \<lambda>x. CAnalyze (AFetch x), unboxed = \<lambda>obj. case obj of CAnalyze (AFetch x) \<Rightarrow> Some x | _ \<Rightarrow> None\<rparr>"

definition return_operation_c :: "(c_object, return_operation) c_type" where
  "return_operation_c = \<lparr>boxed = \<lambda>x. CAnalyze (AReturn x), unboxed = \<lambda>obj. case obj of CAnalyze (AReturn x) \<Rightarrow> Some x | _ \<Rightarrow> None\<rparr>"

definition pipeline_stage_c :: "(c_object, pipeline_stage) c_type" where
  "pipeline_stage_c = \<lparr>boxed = \<lambda>x. CAnalyze (AStage x), unboxed = \<lambda>obj. case obj of CAnalyze (AStage x) \<Rightarrow> Some x | _ \<Rightarrow> None\<rparr>"

definition conjunction_c :: "(c_object, conjunction) c_type" where
  "conjunction_c = \<lparr>boxed = \<lambda>x. CAnalyze (AConjunction x), unboxed = \<lambda>obj. case obj of CAnalyze (AConjunction x) \<Rightarrow> Some x | _ \<Rightarrow> None\<rparr>"

definition conjunction_id_c :: "(c_object, conjunction_id) c_type" where
  "conjunction_id_c = \<lparr>boxed = \<lambda>x. CAnalyze (AConjunctionID x), unboxed = \<lambda>obj. case obj of CAnalyze (AConjunctionID x) \<Rightarrow> Some x | _ \<Rightarrow> None\<rparr>"

definition constraint_with_span_c :: "(c_object, constraint_with_span) c_type" where
  "constraint_with_span_c = \<lparr>boxed = \<lambda>x. CAnalyze (AConstraint x), unboxed = \<lambda>obj. case obj of CAnalyze (AConstraint x) \<Rightarrow> Some x | _ \<Rightarrow> None\<rparr>"

definition constraint_vertex_c :: "(c_object, constraint_vertex) c_type" where
  "constraint_vertex_c = \<lparr>boxed = \<lambda>x. CAnalyze (AVertex x), unboxed = \<lambda>obj. case obj of CAnalyze (AVertex x) \<Rightarrow> Some x | _ \<Rightarrow> None\<rparr>"

definition named_role_c :: "(c_object, named_role) c_type" where
  "named_role_c = \<lparr>boxed = \<lambda>x. CAnalyze (ANamedRole x), unboxed = \<lambda>obj. case obj of CAnalyze (ANamedRole x) \<Rightarrow> Some x | _ \<Rightarrow> None\<rparr>"

definition variable_c :: "(c_object, variable) c_type" where
  "variable_c = \<lparr>boxed = \<lambda>x. CAnalyze (AVariable x), unboxed = \<lambda>obj. case obj of CAnalyze (AVariable x) \<Rightarrow> Some x | _ \<Rightarrow> None\<rparr>"

definition variable_annotations_c :: "(c_object, variable_annotations) c_type" where
  "variable_annotations_c = \<lparr>boxed = \<lambda>x. CAnalyze (AAnnotations x), unboxed = \<lambda>obj. case obj of CAnalyze (AAnnotations x) \<Rightarrow> Some x | _ \<Rightarrow> None\<rparr>"

definition reducer_c :: "(c_object, reducer) c_type" where
  "reducer_c = \<lparr>boxed = \<lambda>x. CAnalyze (AReducer x), unboxed = \<lambda>obj. case obj of CAnalyze (AReducer x) \<Rightarrow> Some x | _ \<Rightarrow> None\<rparr>"

definition reduce_assignment_c :: "(c_object, reduce_assignment) c_type" where
  "reduce_assignment_c = \<lparr>boxed = \<lambda>x. CAnalyze (AAssignment x), unboxed = \<lambda>obj. case obj of CAnalyze (AAssignment x) \<Rightarrow> Some x | _ \<Rightarrow> None\<rparr>"

definition sort_variable_c :: "(c_object, sort_variable) c_type" where
  "sort_variable_c = \<lparr>boxed = \<lambda>x. CAnalyze (ASort x), unboxed = \<lambda>obj. case obj of CAnalyze (ASort x) \<Rightarrow> Some x | _ \<Rightarrow> None\<rparr>"

definition function_iterator_c :: "(c_object, function_t list) c_type" where
  "function_iterator_c = \<lparr>boxed = \<lambda>x. CIterator (IFunctions x), unboxed = \<lambda>obj. case obj of CIterator (IFunctions x) \<Rightarrow> Some x | _ \<Rightarrow> None\<rparr>"

definition variable_iterator_c :: "(c_object, variable list) c_type" where
  "variable_iterator_c = \<lparr>boxed = \<lambda>x. CIterator (IVariables x), unboxed = \<lambda>obj. case obj of CIterator (IVariables x) \<Rightarrow> Some x | _ \<Rightarrow> None\<rparr>"

definition reducer_iterator_c :: "(c_object, reducer list) c_type" where
  "reducer_iterator_c = \<lparr>boxed = \<lambda>x. CIterator (IReducers x), unboxed = \<lambda>obj. case obj of CIterator (IReducers x) \<Rightarrow> Some x | _ \<Rightarrow> None\<rparr>"

definition pipeline_stage_iterator_c :: "(c_object, pipeline_stage list) c_type" where
  "pipeline_stage_iterator_c = \<lparr>boxed = \<lambda>x. CIterator (IStages x), unboxed = \<lambda>obj. case obj of CIterator (IStages x) \<Rightarrow> Some x | _ \<Rightarrow> None\<rparr>"

definition sort_variable_iterator_c :: "(c_object, sort_variable list) c_type" where
  "sort_variable_iterator_c = \<lparr>boxed = \<lambda>x. CIterator (ISorts x), unboxed = \<lambda>obj. case obj of CIterator (ISorts x) \<Rightarrow> Some x | _ \<Rightarrow> None\<rparr>"

definition reduce_assignment_iterator_c :: "(c_object, reduce_assignment list) c_type" where
  "reduce_assignment_iterator_c = \<lparr>boxed = \<lambda>x. CIterator (IAssignments x), unboxed = \<lambda>obj. case obj of CIterator (IAssignments x) \<Rightarrow> Some x | _ \<Rightarrow> None\<rparr>"

definition constraint_with_span_iterator_c :: "(c_object, constraint_with_span list) c_type" where
  "constraint_with_span_iterator_c = \<lparr>boxed = \<lambda>x. CIterator (IConstraints x), unboxed = \<lambda>obj. case obj of CIterator (IConstraints x) \<Rightarrow> Some x | _ \<Rightarrow> None\<rparr>"

definition constraint_vertex_iterator_c :: "(c_object, constraint_vertex list) c_type" where
  "constraint_vertex_iterator_c = \<lparr>boxed = \<lambda>x. CIterator (IVertices x), unboxed = \<lambda>obj. case obj of CIterator (IVertices x) \<Rightarrow> Some x | _ \<Rightarrow> None\<rparr>"

definition conjunction_id_iterator_c :: "(c_object, conjunction_id list) c_type" where
  "conjunction_id_iterator_c = \<lparr>boxed = \<lambda>x. CIterator (IConjunctionIDs x), unboxed = \<lambda>obj. case obj of CIterator (IConjunctionIDs x) \<Rightarrow> Some x | _ \<Rightarrow> None\<rparr>"

definition variable_annotations_iterator_c :: "(c_object, variable_annotations list) c_type" where
  "variable_annotations_iterator_c = \<lparr>boxed = \<lambda>x. CIterator (IAnnotations x), unboxed = \<lambda>obj. case obj of CIterator (IAnnotations x) \<Rightarrow> Some x | _ \<Rightarrow> None\<rparr>"

definition concept_c :: "(c_object, concept) c_type" where
  "concept_c = \<lparr>boxed = \<lambda>x. CAnswer (BConcept x), unboxed = \<lambda>obj. case obj of CAnswer (BConcept x) \<Rightarrow> Some x | _ \<Rightarrow> None\<rparr>"

definition concept_iterator_c :: "(c_object, (concept, error) result list) c_type" where
  "concept_iterator_c = \<lparr>boxed = \<lambda>x. CAnswer (BConcepts x), unboxed = \<lambda>obj. case obj of CAnswer (BConcepts x) \<Rightarrow> Some x | _ \<Rightarrow> None\<rparr>"

definition concept_row_c :: "(c_object, concept_row) c_type" where
  "concept_row_c = \<lparr>boxed = \<lambda>x. CAnswer (BRow x), unboxed = \<lambda>obj. case obj of CAnswer (BRow x) \<Rightarrow> Some x | _ \<Rightarrow> None\<rparr>"

definition concept_row_iterator_c :: "(c_object, (concept_row, error) result list) c_type" where
  "concept_row_iterator_c = \<lparr>boxed = \<lambda>x. CAnswer (BRows x), unboxed = \<lambda>obj. case obj of CAnswer (BRows x) \<Rightarrow> Some x | _ \<Rightarrow> None\<rparr>"

definition query_answer_promise_c :: "(c_object, (query_answer, error) result) c_type" where
  "query_answer_promise_c = \<lparr>boxed = \<lambda>x. CAnswer (BAnswerPromise x), unboxed = \<lambda>obj. case obj of CAnswer (BAnswerPromise x) \<Rightarrow> Some x | _ \<Rightarrow> None\<rparr>"

definition query_answer_c :: "(c_object, query_answer) c_type" where
  "query_answer_c = \<lparr>boxed = \<lambda>x. CAnswer (BAnswer x), unboxed = \<lambda>obj. case obj of CAnswer (BAnswer x) \<Rightarrow> Some x | _ \<Rightarrow> None\<rparr>"

definition field_iterator_c :: "(c_object, (string \<times> cvalue option) list) c_type" where
  "field_iterator_c = \<lparr>boxed = \<lambda>x. CAnswer (BFields x), unboxed = \<lambda>obj. case obj of CAnswer (BFields x) \<Rightarrow> Some x | _ \<Rightarrow> None\<rparr>"

definition field_c :: "(c_object, c_field) c_type" where
  "field_c = \<lparr>boxed = \<lambda>x. CAnswer (BField x), unboxed = \<lambda>obj. case obj of CAnswer (BField x) \<Rightarrow> Some x | _ \<Rightarrow> None\<rparr>"

definition zoned_datetime_c :: "(c_object, c_datetime_tz) c_type" where
  "zoned_datetime_c = \<lparr>boxed = \<lambda>x. CAnswer (BDatetimeTZ x), unboxed = \<lambda>obj. case obj of CAnswer (BDatetimeTZ x) \<Rightarrow> Some x | _ \<Rightarrow> None\<rparr>"

definition credentials_c :: "(c_object, credentials) c_type" where
  "credentials_c = \<lparr>boxed = \<lambda>x. CConnection (OCredentials x), unboxed = \<lambda>obj. case obj of CConnection (OCredentials x) \<Rightarrow> Some x | _ \<Rightarrow> None\<rparr>"

definition tls_config_c :: "(c_object, driver_tls_config) c_type" where
  "tls_config_c = \<lparr>boxed = \<lambda>x. CConnection (OTlsConfig x), unboxed = \<lambda>obj. case obj of CConnection (OTlsConfig x) \<Rightarrow> Some x | _ \<Rightarrow> None\<rparr>"

definition driver_options_c :: "(c_object, driver_options) c_type" where
  "driver_options_c = \<lparr>boxed = \<lambda>x. CConnection (ODriverOptions x), unboxed = \<lambda>obj. case obj of CConnection (ODriverOptions x) \<Rightarrow> Some x | _ \<Rightarrow> None\<rparr>"

definition transaction_options_c :: "(c_object, transaction_options) c_type" where
  "transaction_options_c = \<lparr>boxed = \<lambda>x. CConnection (OTransactionOptions x), unboxed = \<lambda>obj. case obj of CConnection (OTransactionOptions x) \<Rightarrow> Some x | _ \<Rightarrow> None\<rparr>"

definition query_options_c :: "(c_object, query_options) c_type" where
  "query_options_c = \<lparr>boxed = \<lambda>x. CConnection (OQueryOptions x), unboxed = \<lambda>obj. case obj of CConnection (OQueryOptions x) \<Rightarrow> Some x | _ \<Rightarrow> None\<rparr>"

definition routing_c :: "(c_object, c_routing) c_type" where
  "routing_c = \<lparr>boxed = \<lambda>x. CConnection (ORouting x), unboxed = \<lambda>obj. case obj of CConnection (ORouting x) \<Rightarrow> Some x | _ \<Rightarrow> None\<rparr>"

definition version_c :: "(c_object, c_version) c_type" where
  "version_c = \<lparr>boxed = \<lambda>x. CConnection (OVersion x), unboxed = \<lambda>obj. case obj of CConnection (OVersion x) \<Rightarrow> Some x | _ \<Rightarrow> None\<rparr>"

definition server_c :: "(c_object, server) c_type" where
  "server_c = \<lparr>boxed = \<lambda>x. CConnection (OServer x), unboxed = \<lambda>obj. case obj of CConnection (OServer x) \<Rightarrow> Some x | _ \<Rightarrow> None\<rparr>"

definition server_iterator_c :: "(c_object, server list) c_type" where
  "server_iterator_c = \<lparr>boxed = \<lambda>x. CConnection (OServers x), unboxed = \<lambda>obj. case obj of CConnection (OServers x) \<Rightarrow> Some x | _ \<Rightarrow> None\<rparr>"

definition database_c :: "(c_object, nat \<times> database) c_type" where
  "database_c = \<lparr>boxed = \<lambda>x. CConnection (ODatabase x), unboxed = \<lambda>obj. case obj of CConnection (ODatabase x) \<Rightarrow> Some x | _ \<Rightarrow> None\<rparr>"

definition database_iterator_c :: "(c_object, (nat \<times> database) list) c_type" where
  "database_iterator_c = \<lparr>boxed = \<lambda>x. CConnection (ODatabases x), unboxed = \<lambda>obj. case obj of CConnection (ODatabases x) \<Rightarrow> Some x | _ \<Rightarrow> None\<rparr>"

definition user_c :: "(c_object, nat \<times> user) c_type" where
  "user_c = \<lparr>boxed = \<lambda>x. CConnection (OUser x), unboxed = \<lambda>obj. case obj of CConnection (OUser x) \<Rightarrow> Some x | _ \<Rightarrow> None\<rparr>"

definition user_iterator_c :: "(c_object, (nat \<times> user) list) c_type" where
  "user_iterator_c = \<lparr>boxed = \<lambda>x. CConnection (OUsers x), unboxed = \<lambda>obj. case obj of CConnection (OUsers x) \<Rightarrow> Some x | _ \<Rightarrow> None\<rparr>"

definition driver_c :: "(c_object, nat) c_type" where
  "driver_c = \<lparr>boxed = \<lambda>x. CDriver x, unboxed = \<lambda>obj. case obj of CDriver x \<Rightarrow> Some x | _ \<Rightarrow> None\<rparr>"

definition given_rows_c :: "(c_object, given_rows) c_type" where
  "given_rows_c = \<lparr>boxed = \<lambda>x. CConnection (OGivenRows x), unboxed = \<lambda>obj. case obj of CConnection (OGivenRows x) \<Rightarrow> Some x | _ \<Rightarrow> None\<rparr>"

definition transaction_c :: "(c_object, nat) c_type" where
  "transaction_c = \<lparr>boxed = \<lambda>x. CTransaction (TTransaction x), unboxed = \<lambda>obj. case obj of CTransaction (TTransaction x) \<Rightarrow> Some x | _ \<Rightarrow> None\<rparr>"

definition void_task_c :: "(c_object, void_task) c_type" where
  "void_task_c = \<lparr>boxed = \<lambda>x. CTransaction (TVoid x), unboxed = \<lambda>obj. case obj of CTransaction (TVoid x) \<Rightarrow> Some x | _ \<Rightarrow> None\<rparr>"

definition query_task_c :: "(c_object, query_answer reading_task) c_type" where
  "query_task_c = \<lparr>boxed = \<lambda>x. CTransaction (TQuery x), unboxed = \<lambda>obj. case obj of CTransaction (TQuery x) \<Rightarrow> Some x | _ \<Rightarrow> None\<rparr>"

definition analyze_task_c :: "(c_object, analyzed_query reading_task) c_type" where
  "analyze_task_c = \<lparr>boxed = \<lambda>x. CTransaction (TAnalyze x), unboxed = \<lambda>obj. case obj of CTransaction (TAnalyze x) \<Rightarrow> Some x | _ \<Rightarrow> None\<rparr>"

text \<open>What was put into an object is taken out of it again.\<close>

lemma unboxed_boxed [simp]:
  "unboxed string_c (boxed string_c x0) = Some x0"
  "unboxed pointers_c (boxed pointers_c x1) = Some x1"
  "unboxed error_c (boxed error_c x2) = Some x2"
  "unboxed string_iterator_c (boxed string_iterator_c x3) = Some x3"
  "unboxed void_promise_c (boxed void_promise_c x4) = Some x4"
  "unboxed bool_promise_c (boxed bool_promise_c x5) = Some x5"
  "unboxed string_promise_c (boxed string_promise_c x6) = Some x6"
  "unboxed analyzed_query_promise_c (boxed analyzed_query_promise_c x7) = Some x7"
  "unboxed analyzed_query_c (boxed analyzed_query_c x8) = Some x8"
  "unboxed pipeline_c (boxed pipeline_c x9) = Some x9"
  "unboxed function_c (boxed function_c x10) = Some x10"
  "unboxed given_c (boxed given_c x11) = Some x11"
  "unboxed fetch_c (boxed fetch_c x12) = Some x12"
  "unboxed return_operation_c (boxed return_operation_c x13) = Some x13"
  "unboxed pipeline_stage_c (boxed pipeline_stage_c x14) = Some x14"
  "unboxed conjunction_c (boxed conjunction_c x15) = Some x15"
  "unboxed conjunction_id_c (boxed conjunction_id_c x16) = Some x16"
  "unboxed constraint_with_span_c (boxed constraint_with_span_c x17) = Some x17"
  "unboxed constraint_vertex_c (boxed constraint_vertex_c x18) = Some x18"
  "unboxed named_role_c (boxed named_role_c x19) = Some x19"
  "unboxed variable_c (boxed variable_c x20) = Some x20"
  "unboxed variable_annotations_c (boxed variable_annotations_c x21) = Some x21"
  "unboxed reducer_c (boxed reducer_c x22) = Some x22"
  "unboxed reduce_assignment_c (boxed reduce_assignment_c x23) = Some x23"
  "unboxed sort_variable_c (boxed sort_variable_c x24) = Some x24"
  "unboxed function_iterator_c (boxed function_iterator_c x25) = Some x25"
  "unboxed variable_iterator_c (boxed variable_iterator_c x26) = Some x26"
  "unboxed reducer_iterator_c (boxed reducer_iterator_c x27) = Some x27"
  "unboxed pipeline_stage_iterator_c (boxed pipeline_stage_iterator_c x28) = Some x28"
  "unboxed sort_variable_iterator_c (boxed sort_variable_iterator_c x29) = Some x29"
  "unboxed reduce_assignment_iterator_c (boxed reduce_assignment_iterator_c x30) = Some x30"
  "unboxed constraint_with_span_iterator_c (boxed constraint_with_span_iterator_c x31) = Some x31"
  "unboxed constraint_vertex_iterator_c (boxed constraint_vertex_iterator_c x32) = Some x32"
  "unboxed conjunction_id_iterator_c (boxed conjunction_id_iterator_c x33) = Some x33"
  "unboxed variable_annotations_iterator_c (boxed variable_annotations_iterator_c x34) = Some x34"
  "unboxed concept_c (boxed concept_c x35) = Some x35"
  "unboxed concept_iterator_c (boxed concept_iterator_c x36) = Some x36"
  "unboxed concept_row_c (boxed concept_row_c x37) = Some x37"
  "unboxed concept_row_iterator_c (boxed concept_row_iterator_c x38) = Some x38"
  "unboxed query_answer_promise_c (boxed query_answer_promise_c x39) = Some x39"
  "unboxed query_answer_c (boxed query_answer_c x40) = Some x40"
  "unboxed field_iterator_c (boxed field_iterator_c x41) = Some x41"
  "unboxed field_c (boxed field_c x42) = Some x42"
  "unboxed zoned_datetime_c (boxed zoned_datetime_c x43) = Some x43"
  "unboxed credentials_c (boxed credentials_c x44) = Some x44"
  "unboxed tls_config_c (boxed tls_config_c x45) = Some x45"
  "unboxed driver_options_c (boxed driver_options_c x46) = Some x46"
  "unboxed transaction_options_c (boxed transaction_options_c x47) = Some x47"
  "unboxed query_options_c (boxed query_options_c x48) = Some x48"
  "unboxed routing_c (boxed routing_c x49) = Some x49"
  "unboxed version_c (boxed version_c x50) = Some x50"
  "unboxed server_c (boxed server_c x51) = Some x51"
  "unboxed server_iterator_c (boxed server_iterator_c x52) = Some x52"
  "unboxed database_c (boxed database_c x53) = Some x53"
  "unboxed database_iterator_c (boxed database_iterator_c x54) = Some x54"
  "unboxed user_c (boxed user_c x55) = Some x55"
  "unboxed user_iterator_c (boxed user_iterator_c x56) = Some x56"
  "unboxed driver_c (boxed driver_c x57) = Some x57"
  "unboxed given_rows_c (boxed given_rows_c x58) = Some x58"
  "unboxed transaction_c (boxed transaction_c x59) = Some x59"
  "unboxed void_task_c (boxed void_task_c x60) = Some x60"
  "unboxed query_task_c (boxed query_task_c x61) = Some x61"
  "unboxed analyze_task_c (boxed analyze_task_c x62) = Some x62"
  by (simp_all add: string_c_def pointers_c_def error_c_def string_iterator_c_def void_promise_c_def
    bool_promise_c_def string_promise_c_def analyzed_query_promise_c_def analyzed_query_c_def
    pipeline_c_def function_c_def given_c_def fetch_c_def return_operation_c_def pipeline_stage_c_def
    conjunction_c_def conjunction_id_c_def constraint_with_span_c_def constraint_vertex_c_def
    named_role_c_def variable_c_def variable_annotations_c_def reducer_c_def reduce_assignment_c_def
    sort_variable_c_def function_iterator_c_def variable_iterator_c_def reducer_iterator_c_def
    pipeline_stage_iterator_c_def sort_variable_iterator_c_def reduce_assignment_iterator_c_def
    constraint_with_span_iterator_c_def constraint_vertex_iterator_c_def conjunction_id_iterator_c_def
    variable_annotations_iterator_c_def concept_c_def concept_iterator_c_def concept_row_c_def
    concept_row_iterator_c_def query_answer_promise_c_def query_answer_c_def field_iterator_c_def
    field_c_def zoned_datetime_c_def credentials_c_def tls_config_c_def driver_options_c_def
    transaction_options_c_def query_options_c_def routing_c_def version_c_def server_c_def
    server_iterator_c_def database_c_def database_iterator_c_def user_c_def user_iterator_c_def
    driver_c_def given_rows_c_def transaction_c_def void_task_c_def query_task_c_def analyze_task_c_def)

end
