(* ===== verification/C_Analyze.thy ===== *)
theory C_Analyze
  imports C_Objects
begin

text \<open>
  \<open>c/src/analyze.rs\<close>: an analyzed query through the C interface.  Every function lends an object and
  releases a copy of a part of it; a function for one kind of stage, constraint, vertex or document aborts
  on another (\<open>unreachable!\<close>).  Functions whose name is that of a part of the query have the prefix \<open>c_\<close>.
\<close>

section \<open>Kinds\<close>

text \<open>The enums that tell a caller which functions it may call.\<close>

datatype return_operation_variant = StreamVariant | SingleVariant | CheckVariant | ReduceVariant

datatype pipeline_stage_variant = MatchVariant | InsertVariant | PutVariant | UpdateVariant | DeleteVariant | SelectVariant | SortVariant | RequireVariant | OffsetVariant | LimitVariant | DistinctVariant | ReduceStageVariant

datatype constraint_variant = IsaVariant | HasVariant | LinksVariant | SubVariant | OwnsVariant | RelatesVariant | PlaysVariant | FunctionCallVariant | ExpressionVariant | IsVariant | IidVariant | ComparisonVariant | KindOfVariant | LabelVariant | ValueVariant | OrVariant | NotVariant | TryVariant

datatype constraint_vertex_variant = VariableVertexVariant | LabelVertexVariant | ValueVertexVariant | NamedRoleVertexVariant

datatype variable_annotations_variant = InstanceVariant | TypeVariant | ValueAnnotationVariant

datatype fetch_variant = LeafDocument | ListDocument | ObjectDocument

text \<open>The derived \<open>Debug\<close> texts.\<close>

record debug_lib =
  debug_stage :: "pipeline_stage \<Rightarrow> string"
  debug_variable :: "variable \<Rightarrow> string"
  debug_constraint :: "constraint \<Rightarrow> string"
  debug_named_role :: "named_role \<Rightarrow> string"

section \<open>Queries\<close>

definition analyzed_query_promise_resolve :: "ptr \<Rightarrow> ('w, ptr) c" where
  "analyzed_query_promise_resolve p = c_bind (take_ownership analyzed_query_promise_c p) (try_release analyzed_query_c)"

definition analyzed_query_promise_drop :: "ptr \<Rightarrow> ('w, unit) c" where
  "analyzed_query_promise_drop p = promise_drop analyzed_query_promise_c p"

definition analyzed_query_pipeline :: "ptr \<Rightarrow> ('w, ptr) c" where
  "analyzed_query_pipeline p = c_bind (borrow analyzed_query_c p) (\<lambda>x. release pipeline_c (query_pipeline x))"

definition analyzed_preamble :: "ptr \<Rightarrow> ('w, ptr) c" where
  "analyzed_preamble p = c_bind (borrow analyzed_query_c p) (\<lambda>x. release function_iterator_c (query_preamble x))"

definition analyzed_given :: "ptr \<Rightarrow> ('w, ptr) c" where
  "analyzed_given p = c_bind (borrow analyzed_query_c p) (\<lambda>x. release_optional given_c (query_given x))"

definition analyzed_fetch :: "ptr \<Rightarrow> ('w, ptr) c" where
  "analyzed_fetch p = c_bind (borrow analyzed_query_c p) (\<lambda>x. release_optional fetch_c (query_fetch x))"

definition c_fetch_variant :: "ptr \<Rightarrow> ('w, fetch_variant) c" where
  "c_fetch_variant p = c_map (\<lambda>x. case x of
       FetchList _ \<Rightarrow> ListDocument
     | FetchLeafNode _ \<Rightarrow> LeafDocument
     | FetchObject _ \<Rightarrow> ObjectDocument) (borrow fetch_c p)"

definition fetch_leaf_annotations :: "ptr \<Rightarrow> ('w, ptr) c" where
  "fetch_leaf_annotations p = c_bind (borrow fetch_c p) (\<lambda>x. case x of
     FetchLeafNode leaf \<Rightarrow> release string_iterator_c (map (\<lambda>a. Ok (value_type_name a)) (leaf_annotations leaf)) | _ \<Rightarrow> c_abort)"

definition fetch_list_element :: "ptr \<Rightarrow> ('w, ptr) c" where
  "fetch_list_element p = c_bind (borrow fetch_c p) (\<lambda>x. case x of
     FetchList element \<Rightarrow> release fetch_c element | _ \<Rightarrow> c_abort)"

definition fetch_object_fields :: "ptr \<Rightarrow> ('w, ptr) c" where
  "fetch_object_fields p = c_bind (borrow fetch_c p) (\<lambda>x. case x of
     FetchObject entries \<Rightarrow> release string_iterator_c (map (\<lambda>f. Ok (fst f)) entries) | _ \<Rightarrow> c_abort)"

definition fetch_object_get_field :: "ptr \<Rightarrow> ptr \<Rightarrow> ('w, ptr) c" where
  "fetch_object_get_field p field = c_bind (borrow fetch_c p) (\<lambda>x. case x of
     FetchObject entries \<Rightarrow> c_bind (string_view string_c field) (\<lambda>name. release_optional fetch_c (hm_get entries name))
   | _ \<Rightarrow> c_abort)"

section \<open>Given variables and functions\<close>

definition c_given_variables :: "ptr \<Rightarrow> ('w, ptr) c" where
  "c_given_variables p = c_bind (borrow given_c p) (\<lambda>x. release variable_iterator_c (given_variables x))"

definition given_variable_annotations :: "ptr \<Rightarrow> ptr \<Rightarrow> ('w, ptr) c" where
  "given_variable_annotations p variable = c_bind (borrow given_c p) (\<lambda>x. c_bind (borrow variable_c variable) (\<lambda>v.
     release_optional variable_annotations_c (hm_get (given_annotations x) v)))"

definition c_function_body :: "ptr \<Rightarrow> ('w, ptr) c" where
  "c_function_body p = c_bind (borrow function_c p) (\<lambda>x. release pipeline_c (function_body x))"

definition function_argument_variables :: "ptr \<Rightarrow> ('w, ptr) c" where
  "function_argument_variables p = c_bind (borrow function_c p) (\<lambda>x. release variable_iterator_c (argument_variables x))"

definition function_return_operation :: "ptr \<Rightarrow> ('w, ptr) c" where
  "function_return_operation p = c_bind (borrow function_c p) (\<lambda>x. release return_operation_c (return_operation_of x))"

definition c_return_operation_variant :: "ptr \<Rightarrow> ('w, return_operation_variant) c" where
  "c_return_operation_variant p = c_map (\<lambda>x. case x of
       StreamReturn _ \<Rightarrow> StreamVariant
     | SingleReturn _ _ \<Rightarrow> SingleVariant
     | CheckReturn \<Rightarrow> CheckVariant
     | ReduceReturn _ \<Rightarrow> ReduceVariant) (borrow return_operation_c p)"

definition return_operation_stream_variables :: "ptr \<Rightarrow> ('w, ptr) c" where
  "return_operation_stream_variables p = c_bind (borrow return_operation_c p) (\<lambda>x. case x of
     StreamReturn vs \<Rightarrow> release variable_iterator_c vs | _ \<Rightarrow> c_abort)"

definition return_operation_single_variables :: "ptr \<Rightarrow> ('w, ptr) c" where
  "return_operation_single_variables p = c_bind (borrow return_operation_c p) (\<lambda>x. case x of
     SingleReturn _ vs \<Rightarrow> release variable_iterator_c vs | _ \<Rightarrow> c_abort)"

definition return_operation_single_selector :: "ptr \<Rightarrow> ('w, ptr) c" where
  "return_operation_single_selector p = c_bind (borrow return_operation_c p) (\<lambda>x. case x of
     SingleReturn selector _ \<Rightarrow> release_string string_c selector | _ \<Rightarrow> c_abort)"

definition return_operation_reducers :: "ptr \<Rightarrow> ('w, ptr) c" where
  "return_operation_reducers p = c_bind (borrow return_operation_c p) (\<lambda>x. case x of
     ReduceReturn rs \<Rightarrow> release reducer_iterator_c rs | _ \<Rightarrow> c_abort)"

definition function_argument_annotations :: "ptr \<Rightarrow> ('w, ptr) c" where
  "function_argument_annotations p = c_bind (borrow function_c p) (\<lambda>x. release variable_annotations_iterator_c (argument_annotations x))"

definition function_return_annotations :: "ptr \<Rightarrow> ('w, ptr) c" where
  "function_return_annotations p = c_bind (borrow function_c p) (\<lambda>x. release variable_annotations_iterator_c (return_annotations x))"

section \<open>Stages\<close>

definition pipeline_stages :: "ptr \<Rightarrow> ('w, ptr) c" where
  "pipeline_stages p = c_bind (borrow pipeline_c p) (\<lambda>x. release pipeline_stage_iterator_c (stages x))"

definition c_pipeline_stage_variant :: "ptr \<Rightarrow> ('w, pipeline_stage_variant) c" where
  "c_pipeline_stage_variant p = c_map (\<lambda>x. case x of
       MatchStage _ \<Rightarrow> MatchVariant
     | InsertStage _ \<Rightarrow> InsertVariant
     | PutStage _ \<Rightarrow> PutVariant
     | UpdateStage _ \<Rightarrow> UpdateVariant
     | DeleteStage _ _ \<Rightarrow> DeleteVariant
     | SelectStage _ \<Rightarrow> SelectVariant
     | SortStage _ \<Rightarrow> SortVariant
     | RequireStage _ \<Rightarrow> RequireVariant
     | OffsetStage _ \<Rightarrow> OffsetVariant
     | LimitStage _ \<Rightarrow> LimitVariant
     | DistinctStage \<Rightarrow> DistinctVariant
     | ReduceStage _ _ \<Rightarrow> ReduceStageVariant) (borrow pipeline_stage_c p)"

definition pipeline_stage_string_repr :: "debug_lib \<Rightarrow> ptr \<Rightarrow> ('w, ptr) c" where
  "pipeline_stage_string_repr dbg p = c_bind (borrow pipeline_stage_c p) (\<lambda>x. release_string string_c (debug_stage dbg x))"

definition pipeline_stage_get_block :: "ptr \<Rightarrow> ('w, ptr) c" where
  "pipeline_stage_get_block p = c_bind (borrow pipeline_stage_c p) (\<lambda>x. case x of
     MatchStage b \<Rightarrow> release conjunction_id_c b | InsertStage b \<Rightarrow> release conjunction_id_c b
   | PutStage b \<Rightarrow> release conjunction_id_c b | UpdateStage b \<Rightarrow> release conjunction_id_c b
   | DeleteStage b _ \<Rightarrow> release conjunction_id_c b | _ \<Rightarrow> c_abort)"

definition pipeline_stage_delete_get_deleted_variables :: "ptr \<Rightarrow> ('w, ptr) c" where
  "pipeline_stage_delete_get_deleted_variables p = c_bind (borrow pipeline_stage_c p) (\<lambda>x. case x of
     DeleteStage _ vs \<Rightarrow> release variable_iterator_c vs | _ \<Rightarrow> c_abort)"

definition pipeline_stage_select_get_variables :: "ptr \<Rightarrow> ('w, ptr) c" where
  "pipeline_stage_select_get_variables p = c_bind (borrow pipeline_stage_c p) (\<lambda>x. case x of
     SelectStage vs \<Rightarrow> release variable_iterator_c vs | _ \<Rightarrow> c_abort)"

definition pipeline_stage_require_get_variables :: "ptr \<Rightarrow> ('w, ptr) c" where
  "pipeline_stage_require_get_variables p = c_bind (borrow pipeline_stage_c p) (\<lambda>x. case x of
     RequireStage vs \<Rightarrow> release variable_iterator_c vs | _ \<Rightarrow> c_abort)"

definition pipeline_stage_offset_get_offset :: "ptr \<Rightarrow> ('w, i64) c" where
  "pipeline_stage_offset_get_offset p = c_bind (borrow pipeline_stage_c p) (\<lambda>x. case x of
     OffsetStage n \<Rightarrow> c_return n | _ \<Rightarrow> c_abort)"

definition pipeline_stage_limit_get_limit :: "ptr \<Rightarrow> ('w, i64) c" where
  "pipeline_stage_limit_get_limit p = c_bind (borrow pipeline_stage_c p) (\<lambda>x. case x of
     LimitStage n \<Rightarrow> c_return n | _ \<Rightarrow> c_abort)"

definition pipeline_stage_sort_get_sort_variables :: "ptr \<Rightarrow> ('w, ptr) c" where
  "pipeline_stage_sort_get_sort_variables p = c_bind (borrow pipeline_stage_c p) (\<lambda>x. case x of
     SortStage vs \<Rightarrow> release sort_variable_iterator_c vs | _ \<Rightarrow> c_abort)"

definition pipeline_stage_reduce_get_groupby :: "ptr \<Rightarrow> ('w, ptr) c" where
  "pipeline_stage_reduce_get_groupby p = c_bind (borrow pipeline_stage_c p) (\<lambda>x. case x of
     ReduceStage _ groupby \<Rightarrow> release variable_iterator_c groupby | _ \<Rightarrow> c_abort)"

definition pipeline_stage_reduce_get_reducer_assignments :: "ptr \<Rightarrow> ('w, ptr) c" where
  "pipeline_stage_reduce_get_reducer_assignments p = c_bind (borrow pipeline_stage_c p) (\<lambda>x. case x of
     ReduceStage rs _ \<Rightarrow> release reduce_assignment_iterator_c rs | _ \<Rightarrow> c_abort)"

definition sort_variable_get_variable :: "ptr \<Rightarrow> ('w, ptr) c" where
  "sort_variable_get_variable p = c_bind (borrow sort_variable_c p) (\<lambda>x. release variable_c (sorted_variable x))"

definition sort_variable_get_order :: "ptr \<Rightarrow> ('w, sort_order) c" where
  "sort_variable_get_order p = c_map (\<lambda>x. sorted_order x) (borrow sort_variable_c p)"

definition reduce_assignment_get_assigned :: "ptr \<Rightarrow> ('w, ptr) c" where
  "reduce_assignment_get_assigned p = c_bind (borrow reduce_assignment_c p) (\<lambda>x. release variable_c (assigned x))"

definition reduce_assignment_get_reducer :: "ptr \<Rightarrow> ('w, ptr) c" where
  "reduce_assignment_get_reducer p = c_bind (borrow reduce_assignment_c p) (\<lambda>x. release reducer_c (assigned_reducer x))"

definition reducer_get_name :: "ptr \<Rightarrow> ('w, ptr) c" where
  "reducer_get_name p = c_bind (borrow reducer_c p) (\<lambda>x. release_string string_c (reducer_name x))"

definition reducer_get_arguments :: "ptr \<Rightarrow> ('w, ptr) c" where
  "reducer_get_arguments p = c_bind (borrow reducer_c p) (\<lambda>x. release variable_iterator_c (reducer_arguments x))"

section \<open>Variables and conjunctions\<close>

definition variable_get_name :: "ptr \<Rightarrow> ptr \<Rightarrow> ('w, ptr) c" where
  "variable_get_name p variable = c_bind (borrow pipeline_c p) (\<lambda>x. c_bind (borrow variable_c variable) (\<lambda>v.
     release_optional_string string_c (variable_name x v)))"

definition variable_id_as_u32 :: "ptr \<Rightarrow> ('w, u32) c" where
  "variable_id_as_u32 p = c_map (\<lambda>x. case x of
       Variable n \<Rightarrow> n) (borrow variable_c p)"

definition variable_string_repr :: "debug_lib \<Rightarrow> ptr \<Rightarrow> ('w, ptr) c" where
  "variable_string_repr dbg p = c_bind (borrow variable_c p) (\<lambda>x. release_string string_c (debug_variable dbg x))"

definition pipeline_get_conjunction :: "ptr \<Rightarrow> ptr \<Rightarrow> ('w, ptr) c" where
  "pipeline_get_conjunction p conjunction_id = c_bind (borrow pipeline_c p) (\<lambda>x. c_bind (borrow conjunction_id_c conjunction_id) (\<lambda>c.
     release_optional conjunction_c (case c of ConjunctionID k \<Rightarrow> 
       if k < length (conjunctions x) then Some (conjunctions x ! k) else None)))"

definition conjunction_id_as_u32 :: "ptr \<Rightarrow> ('w, u32) c" where
  "conjunction_id_as_u32 p = c_map (\<lambda>x. case x of
       ConjunctionID k \<Rightarrow> of_nat k) (borrow conjunction_id_c p)"

definition conjunction_id_string_repr :: "ptr \<Rightarrow> ('w, ptr) c" where
  "conjunction_id_string_repr p = c_bind (borrow conjunction_id_c p) (\<lambda>x. case x of ConjunctionID k \<Rightarrow> release_string string_c (show_nat k))"

definition conjunction_get_constraints :: "ptr \<Rightarrow> ('w, ptr) c" where
  "conjunction_get_constraints p = c_bind (borrow conjunction_c p) (\<lambda>x. release constraint_with_span_iterator_c (constraints x))"

definition conjunction_get_annotated_variables :: "ptr \<Rightarrow> ('w, ptr) c" where
  "conjunction_get_annotated_variables p = c_bind (borrow conjunction_c p) (\<lambda>x. release variable_iterator_c (map fst (conjunction_annotations x)))"

definition conjunction_get_variable_annotations :: "ptr \<Rightarrow> ptr \<Rightarrow> ('w, ptr) c" where
  "conjunction_get_variable_annotations p variable = c_bind (borrow conjunction_c p) (\<lambda>x. c_bind (borrow variable_c variable) (\<lambda>v.
     release_optional variable_annotations_c (hm_get (conjunction_annotations x) v)))"

definition c_variable_annotations_variant :: "ptr \<Rightarrow> ('w, variable_annotations_variant) c" where
  "c_variable_annotations_variant p = c_map (\<lambda>x. case annotation_types x of
       InstanceAnnotations _ \<Rightarrow> InstanceVariant
     | TypeAnnotations _ \<Rightarrow> TypeVariant
     | ValueAnnotations _ \<Rightarrow> ValueAnnotationVariant) (borrow variable_annotations_c p)"

primrec type_to_concept :: "type_t \<Rightarrow> concept" where
  "type_to_concept (EntityType t) = CEntityType t"
| "type_to_concept (RelationType t) = CRelationType t"
| "type_to_concept (AttributeType t) = CAttributeType t"
| "type_to_concept (RoleType t) = CRoleType t"

definition variable_annotations_instance :: "ptr \<Rightarrow> ('w, ptr) c" where
  "variable_annotations_instance p = c_bind (borrow variable_annotations_c p) (\<lambda>x. case annotation_types x of
     InstanceAnnotations ts \<Rightarrow> release concept_iterator_c (map (\<lambda>t. Ok (type_to_concept t)) ts) | _ \<Rightarrow> c_abort)"

definition variable_annotations_type :: "ptr \<Rightarrow> ('w, ptr) c" where
  "variable_annotations_type p = c_bind (borrow variable_annotations_c p) (\<lambda>x. case annotation_types x of
     TypeAnnotations ts \<Rightarrow> release concept_iterator_c (map (\<lambda>t. Ok (type_to_concept t)) ts) | _ \<Rightarrow> c_abort)"

definition variable_annotations_value :: "ptr \<Rightarrow> ('w, ptr) c" where
  "variable_annotations_value p = c_bind (borrow variable_annotations_c p) (\<lambda>x. case annotation_types x of
     ValueAnnotations t \<Rightarrow> release string_iterator_c [Ok (value_type_name t)] | _ \<Rightarrow> c_abort)"

section \<open>Constraints\<close>

definition constraint_span_begin :: "ptr \<Rightarrow> ('w, i64) c" where
  "constraint_span_begin p = c_map (\<lambda>x. case constraint_span_of x of Some c \<Rightarrow> of_nat (span_begin c) | None \<Rightarrow> 0) (borrow constraint_with_span_c p)"

definition constraint_span_end :: "ptr \<Rightarrow> ('w, i64) c" where
  "constraint_span_end p = c_map (\<lambda>x. case constraint_span_of x of Some c \<Rightarrow> of_nat (span_end c) | None \<Rightarrow> 0) (borrow constraint_with_span_c p)"

definition c_constraint_variant :: "ptr \<Rightarrow> ('w, constraint_variant) c" where
  "c_constraint_variant p = c_map (\<lambda>x. case constraint_of x of
       Isa _ _ _ \<Rightarrow> IsaVariant
     | Has _ _ _ \<Rightarrow> HasVariant
     | Links _ _ _ _ \<Rightarrow> LinksVariant
     | Sub _ _ _ \<Rightarrow> SubVariant
     | Owns _ _ _ \<Rightarrow> OwnsVariant
     | Relates _ _ _ \<Rightarrow> RelatesVariant
     | Plays _ _ _ \<Rightarrow> PlaysVariant
     | FunctionCall _ _ _ \<Rightarrow> FunctionCallVariant
     | Expression _ _ _ \<Rightarrow> ExpressionVariant
     | Is _ _ \<Rightarrow> IsVariant
     | Iid _ _ \<Rightarrow> IidVariant
     | Comparison _ _ _ \<Rightarrow> ComparisonVariant
     | KindConstraint _ _ \<Rightarrow> KindOfVariant
     | LabelConstraint _ _ \<Rightarrow> LabelVariant
     | ValueConstraint _ _ \<Rightarrow> ValueVariant
     | Or _ \<Rightarrow> OrVariant
     | Not _ \<Rightarrow> NotVariant
     | Try _ \<Rightarrow> TryVariant) (borrow constraint_with_span_c p)"

definition constraint_isa_get_instance :: "ptr \<Rightarrow> ('w, ptr) c" where
  "constraint_isa_get_instance p = c_bind (borrow constraint_with_span_c p) (\<lambda>x. case constraint_of x of
     Isa v _ _ \<Rightarrow> release constraint_vertex_c v | _ \<Rightarrow> c_abort)"

definition constraint_isa_get_type :: "ptr \<Rightarrow> ('w, ptr) c" where
  "constraint_isa_get_type p = c_bind (borrow constraint_with_span_c p) (\<lambda>x. case constraint_of x of
     Isa _ v _ \<Rightarrow> release constraint_vertex_c v | _ \<Rightarrow> c_abort)"

definition constraint_isa_get_exactness :: "ptr \<Rightarrow> ('w, constraint_exactness) c" where
  "constraint_isa_get_exactness p = c_bind (borrow constraint_with_span_c p) (\<lambda>x. case constraint_of x of
     Isa _ _ e \<Rightarrow> c_return e | _ \<Rightarrow> c_abort)"

definition constraint_has_get_owner :: "ptr \<Rightarrow> ('w, ptr) c" where
  "constraint_has_get_owner p = c_bind (borrow constraint_with_span_c p) (\<lambda>x. case constraint_of x of
     Has v _ _ \<Rightarrow> release constraint_vertex_c v | _ \<Rightarrow> c_abort)"

definition constraint_has_get_attribute :: "ptr \<Rightarrow> ('w, ptr) c" where
  "constraint_has_get_attribute p = c_bind (borrow constraint_with_span_c p) (\<lambda>x. case constraint_of x of
     Has _ v _ \<Rightarrow> release constraint_vertex_c v | _ \<Rightarrow> c_abort)"

definition constraint_has_get_exactness :: "ptr \<Rightarrow> ('w, constraint_exactness) c" where
  "constraint_has_get_exactness p = c_bind (borrow constraint_with_span_c p) (\<lambda>x. case constraint_of x of
     Has _ _ e \<Rightarrow> c_return e | _ \<Rightarrow> c_abort)"

definition constraint_sub_get_subtype :: "ptr \<Rightarrow> ('w, ptr) c" where
  "constraint_sub_get_subtype p = c_bind (borrow constraint_with_span_c p) (\<lambda>x. case constraint_of x of
     Sub v _ _ \<Rightarrow> release constraint_vertex_c v | _ \<Rightarrow> c_abort)"

definition constraint_sub_get_supertype :: "ptr \<Rightarrow> ('w, ptr) c" where
  "constraint_sub_get_supertype p = c_bind (borrow constraint_with_span_c p) (\<lambda>x. case constraint_of x of
     Sub _ v _ \<Rightarrow> release constraint_vertex_c v | _ \<Rightarrow> c_abort)"

definition constraint_sub_get_exactness :: "ptr \<Rightarrow> ('w, constraint_exactness) c" where
  "constraint_sub_get_exactness p = c_bind (borrow constraint_with_span_c p) (\<lambda>x. case constraint_of x of
     Sub _ _ e \<Rightarrow> c_return e | _ \<Rightarrow> c_abort)"

definition constraint_owns_get_owner :: "ptr \<Rightarrow> ('w, ptr) c" where
  "constraint_owns_get_owner p = c_bind (borrow constraint_with_span_c p) (\<lambda>x. case constraint_of x of
     Owns v _ _ \<Rightarrow> release constraint_vertex_c v | _ \<Rightarrow> c_abort)"

definition constraint_owns_get_attribute :: "ptr \<Rightarrow> ('w, ptr) c" where
  "constraint_owns_get_attribute p = c_bind (borrow constraint_with_span_c p) (\<lambda>x. case constraint_of x of
     Owns _ v _ \<Rightarrow> release constraint_vertex_c v | _ \<Rightarrow> c_abort)"

definition constraint_owns_get_exactness :: "ptr \<Rightarrow> ('w, constraint_exactness) c" where
  "constraint_owns_get_exactness p = c_bind (borrow constraint_with_span_c p) (\<lambda>x. case constraint_of x of
     Owns _ _ e \<Rightarrow> c_return e | _ \<Rightarrow> c_abort)"

definition constraint_relates_get_relation :: "ptr \<Rightarrow> ('w, ptr) c" where
  "constraint_relates_get_relation p = c_bind (borrow constraint_with_span_c p) (\<lambda>x. case constraint_of x of
     Relates v _ _ \<Rightarrow> release constraint_vertex_c v | _ \<Rightarrow> c_abort)"

definition constraint_relates_get_role :: "ptr \<Rightarrow> ('w, ptr) c" where
  "constraint_relates_get_role p = c_bind (borrow constraint_with_span_c p) (\<lambda>x. case constraint_of x of
     Relates _ v _ \<Rightarrow> release constraint_vertex_c v | _ \<Rightarrow> c_abort)"

definition constraint_relates_get_exactness :: "ptr \<Rightarrow> ('w, constraint_exactness) c" where
  "constraint_relates_get_exactness p = c_bind (borrow constraint_with_span_c p) (\<lambda>x. case constraint_of x of
     Relates _ _ e \<Rightarrow> c_return e | _ \<Rightarrow> c_abort)"

definition constraint_plays_get_player :: "ptr \<Rightarrow> ('w, ptr) c" where
  "constraint_plays_get_player p = c_bind (borrow constraint_with_span_c p) (\<lambda>x. case constraint_of x of
     Plays v _ _ \<Rightarrow> release constraint_vertex_c v | _ \<Rightarrow> c_abort)"

definition constraint_plays_get_role :: "ptr \<Rightarrow> ('w, ptr) c" where
  "constraint_plays_get_role p = c_bind (borrow constraint_with_span_c p) (\<lambda>x. case constraint_of x of
     Plays _ v _ \<Rightarrow> release constraint_vertex_c v | _ \<Rightarrow> c_abort)"

definition constraint_plays_get_exactness :: "ptr \<Rightarrow> ('w, constraint_exactness) c" where
  "constraint_plays_get_exactness p = c_bind (borrow constraint_with_span_c p) (\<lambda>x. case constraint_of x of
     Plays _ _ e \<Rightarrow> c_return e | _ \<Rightarrow> c_abort)"

definition constraint_links_get_relation :: "ptr \<Rightarrow> ('w, ptr) c" where
  "constraint_links_get_relation p = c_bind (borrow constraint_with_span_c p) (\<lambda>x. case constraint_of x of
     Links v _ _ _ \<Rightarrow> release constraint_vertex_c v | _ \<Rightarrow> c_abort)"

definition constraint_links_get_player :: "ptr \<Rightarrow> ('w, ptr) c" where
  "constraint_links_get_player p = c_bind (borrow constraint_with_span_c p) (\<lambda>x. case constraint_of x of
     Links _ v _ _ \<Rightarrow> release constraint_vertex_c v | _ \<Rightarrow> c_abort)"

definition constraint_links_get_role :: "ptr \<Rightarrow> ('w, ptr) c" where
  "constraint_links_get_role p = c_bind (borrow constraint_with_span_c p) (\<lambda>x. case constraint_of x of
     Links _ _ v _ \<Rightarrow> release constraint_vertex_c v | _ \<Rightarrow> c_abort)"

definition constraint_links_get_exactness :: "ptr \<Rightarrow> ('w, constraint_exactness) c" where
  "constraint_links_get_exactness p = c_bind (borrow constraint_with_span_c p) (\<lambda>x. case constraint_of x of
     Links _ _ _ e \<Rightarrow> c_return e | _ \<Rightarrow> c_abort)"

definition constraint_function_call_get_name :: "ptr \<Rightarrow> ('w, ptr) c" where
  "constraint_function_call_get_name p = c_bind (borrow constraint_with_span_c p) (\<lambda>x. case constraint_of x of
     FunctionCall name _ _ \<Rightarrow> release_string string_c name | _ \<Rightarrow> c_abort)"

definition constraint_function_call_get_assigned :: "ptr \<Rightarrow> ('w, ptr) c" where
  "constraint_function_call_get_assigned p = c_bind (borrow constraint_with_span_c p) (\<lambda>x. case constraint_of x of
     FunctionCall _ vs _ \<Rightarrow> release constraint_vertex_iterator_c vs | _ \<Rightarrow> c_abort)"

definition constraint_function_call_get_arguments :: "ptr \<Rightarrow> ('w, ptr) c" where
  "constraint_function_call_get_arguments p = c_bind (borrow constraint_with_span_c p) (\<lambda>x. case constraint_of x of
     FunctionCall _ _ vs \<Rightarrow> release constraint_vertex_iterator_c vs | _ \<Rightarrow> c_abort)"

definition constraint_expression_get_text :: "ptr \<Rightarrow> ('w, ptr) c" where
  "constraint_expression_get_text p = c_bind (borrow constraint_with_span_c p) (\<lambda>x. case constraint_of x of
     Expression txt _ _ \<Rightarrow> release_string string_c txt | _ \<Rightarrow> c_abort)"

definition constraint_expression_get_assigned :: "ptr \<Rightarrow> ('w, ptr) c" where
  "constraint_expression_get_assigned p = c_bind (borrow constraint_with_span_c p) (\<lambda>x. case constraint_of x of
     Expression _ v _ \<Rightarrow> release constraint_vertex_c v | _ \<Rightarrow> c_abort)"

definition constraint_expression_get_arguments :: "ptr \<Rightarrow> ('w, ptr) c" where
  "constraint_expression_get_arguments p = c_bind (borrow constraint_with_span_c p) (\<lambda>x. case constraint_of x of
     Expression _ _ vs \<Rightarrow> release constraint_vertex_iterator_c vs | _ \<Rightarrow> c_abort)"

definition constraint_is_get_lhs :: "ptr \<Rightarrow> ('w, ptr) c" where
  "constraint_is_get_lhs p = c_bind (borrow constraint_with_span_c p) (\<lambda>x. case constraint_of x of
     Is v _ \<Rightarrow> release constraint_vertex_c v | _ \<Rightarrow> c_abort)"

definition constraint_is_get_rhs :: "ptr \<Rightarrow> ('w, ptr) c" where
  "constraint_is_get_rhs p = c_bind (borrow constraint_with_span_c p) (\<lambda>x. case constraint_of x of
     Is _ v \<Rightarrow> release constraint_vertex_c v | _ \<Rightarrow> c_abort)"

definition constraint_iid_get_variable :: "ptr \<Rightarrow> ('w, ptr) c" where
  "constraint_iid_get_variable p = c_bind (borrow constraint_with_span_c p) (\<lambda>x. case constraint_of x of
     Iid v _ \<Rightarrow> release constraint_vertex_c v | _ \<Rightarrow> c_abort)"

definition constraint_iid_get_iid :: "ptr \<Rightarrow> ('w, ptr) c" where
  "constraint_iid_get_iid p = c_bind (borrow constraint_with_span_c p) (\<lambda>x. case constraint_of x of
     Iid _ i \<Rightarrow> release_string string_c (id_display i) | _ \<Rightarrow> c_abort)"

definition constraint_comparison_get_lhs :: "ptr \<Rightarrow> ('w, ptr) c" where
  "constraint_comparison_get_lhs p = c_bind (borrow constraint_with_span_c p) (\<lambda>x. case constraint_of x of
     Comparison v _ _ \<Rightarrow> release constraint_vertex_c v | _ \<Rightarrow> c_abort)"

definition constraint_comparison_get_rhs :: "ptr \<Rightarrow> ('w, ptr) c" where
  "constraint_comparison_get_rhs p = c_bind (borrow constraint_with_span_c p) (\<lambda>x. case constraint_of x of
     Comparison _ v _ \<Rightarrow> release constraint_vertex_c v | _ \<Rightarrow> c_abort)"

definition constraint_comparison_get_comparator :: "ptr \<Rightarrow> ('w, comparator) c" where
  "constraint_comparison_get_comparator p = c_bind (borrow constraint_with_span_c p) (\<lambda>x. case constraint_of x of
     Comparison _ _ c \<Rightarrow> c_return c | _ \<Rightarrow> c_abort)"

definition comparator_get_name :: "comparator \<Rightarrow> ('w, ptr) c" where
  "comparator_get_name c = release_string string_c (comparator_symbol c)"

definition constraint_kind_get_kind :: "ptr \<Rightarrow> ('w, kind) c" where
  "constraint_kind_get_kind p = c_bind (borrow constraint_with_span_c p) (\<lambda>x. case constraint_of x of
     KindConstraint k _ \<Rightarrow> c_return k | _ \<Rightarrow> c_abort)"

definition constraint_kind_get_type :: "ptr \<Rightarrow> ('w, ptr) c" where
  "constraint_kind_get_type p = c_bind (borrow constraint_with_span_c p) (\<lambda>x. case constraint_of x of
     KindConstraint _ v \<Rightarrow> release constraint_vertex_c v | _ \<Rightarrow> c_abort)"

definition constraint_label_get_variable :: "ptr \<Rightarrow> ('w, ptr) c" where
  "constraint_label_get_variable p = c_bind (borrow constraint_with_span_c p) (\<lambda>x. case constraint_of x of
     LabelConstraint v _ \<Rightarrow> release constraint_vertex_c v | _ \<Rightarrow> c_abort)"

definition constraint_label_get_label :: "ptr \<Rightarrow> ('w, ptr) c" where
  "constraint_label_get_label p = c_bind (borrow constraint_with_span_c p) (\<lambda>x. case constraint_of x of
     LabelConstraint _ l \<Rightarrow> release_string string_c l | _ \<Rightarrow> c_abort)"

definition constraint_value_get_attribute_type :: "ptr \<Rightarrow> ('w, ptr) c" where
  "constraint_value_get_attribute_type p = c_bind (borrow constraint_with_span_c p) (\<lambda>x. case constraint_of x of
     ValueConstraint v _ \<Rightarrow> release constraint_vertex_c v | _ \<Rightarrow> c_abort)"

definition constraint_value_get_value_type :: "ptr \<Rightarrow> ('w, ptr) c" where
  "constraint_value_get_value_type p = c_bind (borrow constraint_with_span_c p) (\<lambda>x. case constraint_of x of
     ValueConstraint _ t \<Rightarrow> release_string string_c (value_type_name t) | _ \<Rightarrow> c_abort)"

definition constraint_or_get_branches :: "ptr \<Rightarrow> ('w, ptr) c" where
  "constraint_or_get_branches p = c_bind (borrow constraint_with_span_c p) (\<lambda>x. case constraint_of x of
     Or bs \<Rightarrow> release conjunction_id_iterator_c bs | _ \<Rightarrow> c_abort)"

definition constraint_not_get_conjunction :: "ptr \<Rightarrow> ('w, ptr) c" where
  "constraint_not_get_conjunction p = c_bind (borrow constraint_with_span_c p) (\<lambda>x. case constraint_of x of
     Not b \<Rightarrow> release conjunction_id_c b | _ \<Rightarrow> c_abort)"

definition constraint_try_get_conjunction :: "ptr \<Rightarrow> ('w, ptr) c" where
  "constraint_try_get_conjunction p = c_bind (borrow constraint_with_span_c p) (\<lambda>x. case constraint_of x of
     Try b \<Rightarrow> release conjunction_id_c b | _ \<Rightarrow> c_abort)"

definition constraint_string_repr :: "debug_lib \<Rightarrow> ptr \<Rightarrow> ('w, ptr) c" where
  "constraint_string_repr dbg p = c_bind (borrow constraint_with_span_c p) (\<lambda>x. release_string string_c (debug_constraint dbg (constraint_of x)))"

section \<open>Vertices\<close>

definition c_constraint_vertex_variant :: "ptr \<Rightarrow> ('w, constraint_vertex_variant) c" where
  "c_constraint_vertex_variant p = c_map (\<lambda>x. case x of
       VariableVertex _ \<Rightarrow> VariableVertexVariant
     | LabelVertex _ \<Rightarrow> LabelVertexVariant
     | ValueVertex _ \<Rightarrow> ValueVertexVariant
     | NamedRoleVertex _ \<Rightarrow> NamedRoleVertexVariant) (borrow constraint_vertex_c p)"

definition constraint_vertex_as_variable :: "ptr \<Rightarrow> ('w, ptr) c" where
  "constraint_vertex_as_variable p = c_bind (borrow constraint_vertex_c p) (\<lambda>x. case x of
     VariableVertex v \<Rightarrow> release variable_c v | _ \<Rightarrow> c_abort)"

definition constraint_vertex_as_label :: "ptr \<Rightarrow> ('w, ptr) c" where
  "constraint_vertex_as_label p = c_bind (borrow constraint_vertex_c p) (\<lambda>x. case x of
     LabelVertex t \<Rightarrow> release concept_c (type_to_concept t) | _ \<Rightarrow> c_abort)"

definition constraint_vertex_as_value :: "ptr \<Rightarrow> ('w, ptr) c" where
  "constraint_vertex_as_value p = c_bind (borrow constraint_vertex_c p) (\<lambda>x. case x of
     ValueVertex v \<Rightarrow> release concept_c (CValue v) | _ \<Rightarrow> c_abort)"

definition constraint_vertex_as_named_role :: "ptr \<Rightarrow> ('w, ptr) c" where
  "constraint_vertex_as_named_role p = c_bind (borrow constraint_vertex_c p) (\<lambda>x. case x of
     NamedRoleVertex r \<Rightarrow> release named_role_c r | _ \<Rightarrow> c_abort)"

definition named_role_get_variable :: "ptr \<Rightarrow> ('w, ptr) c" where
  "named_role_get_variable p = c_bind (borrow named_role_c p) (\<lambda>x. release variable_c (role_variable x))"

definition named_role_get_name :: "ptr \<Rightarrow> ('w, ptr) c" where
  "named_role_get_name p = c_bind (borrow named_role_c p) (\<lambda>x. release_string string_c (role_name x))"

definition named_role_as_u32 :: "ptr \<Rightarrow> ('w, u32) c" where
  "named_role_as_u32 p = c_map (\<lambda>x. case role_variable x of
       Variable n \<Rightarrow> n) (borrow named_role_c p)"

definition named_role_string_repr :: "debug_lib \<Rightarrow> ptr \<Rightarrow> ('w, ptr) c" where
  "named_role_string_repr dbg p = c_bind (borrow named_role_c p) (\<lambda>x. release_string string_c (debug_named_role dbg x))"

section \<open>Iterators and the end of objects\<close>

definition function_iterator_next :: "ptr \<Rightarrow> ('w, ptr) c" where
  "function_iterator_next = c_iterator_next function_iterator_c function_c"

definition function_iterator_drop :: "ptr \<Rightarrow> ('w, unit) c" where
  "function_iterator_drop = free function_iterator_c"

definition conjunction_id_iterator_next :: "ptr \<Rightarrow> ('w, ptr) c" where
  "conjunction_id_iterator_next = c_iterator_next conjunction_id_iterator_c conjunction_id_c"

definition conjunction_id_iterator_drop :: "ptr \<Rightarrow> ('w, unit) c" where
  "conjunction_id_iterator_drop = free conjunction_id_iterator_c"

definition constraint_with_span_iterator_next :: "ptr \<Rightarrow> ('w, ptr) c" where
  "constraint_with_span_iterator_next = c_iterator_next constraint_with_span_iterator_c constraint_with_span_c"

definition constraint_with_span_iterator_drop :: "ptr \<Rightarrow> ('w, unit) c" where
  "constraint_with_span_iterator_drop = free constraint_with_span_iterator_c"

definition constraint_vertex_iterator_next :: "ptr \<Rightarrow> ('w, ptr) c" where
  "constraint_vertex_iterator_next = c_iterator_next constraint_vertex_iterator_c constraint_vertex_c"

definition constraint_vertex_iterator_drop :: "ptr \<Rightarrow> ('w, unit) c" where
  "constraint_vertex_iterator_drop = free constraint_vertex_iterator_c"

definition pipeline_stage_iterator_next :: "ptr \<Rightarrow> ('w, ptr) c" where
  "pipeline_stage_iterator_next = c_iterator_next pipeline_stage_iterator_c pipeline_stage_c"

definition pipeline_stage_iterator_drop :: "ptr \<Rightarrow> ('w, unit) c" where
  "pipeline_stage_iterator_drop = free pipeline_stage_iterator_c"

definition reduce_assignment_iterator_next :: "ptr \<Rightarrow> ('w, ptr) c" where
  "reduce_assignment_iterator_next = c_iterator_next reduce_assignment_iterator_c reduce_assignment_c"

definition reduce_assignment_iterator_drop :: "ptr \<Rightarrow> ('w, unit) c" where
  "reduce_assignment_iterator_drop = free reduce_assignment_iterator_c"

definition reducer_iterator_next :: "ptr \<Rightarrow> ('w, ptr) c" where
  "reducer_iterator_next = c_iterator_next reducer_iterator_c reducer_c"

definition reducer_iterator_drop :: "ptr \<Rightarrow> ('w, unit) c" where
  "reducer_iterator_drop = free reducer_iterator_c"

definition sort_variable_iterator_next :: "ptr \<Rightarrow> ('w, ptr) c" where
  "sort_variable_iterator_next = c_iterator_next sort_variable_iterator_c sort_variable_c"

definition sort_variable_iterator_drop :: "ptr \<Rightarrow> ('w, unit) c" where
  "sort_variable_iterator_drop = free sort_variable_iterator_c"

definition variable_annotations_iterator_next :: "ptr \<Rightarrow> ('w, ptr) c" where
  "variable_annotations_iterator_next = c_iterator_next variable_annotations_iterator_c variable_annotations_c"

definition variable_annotations_iterator_drop :: "ptr \<Rightarrow> ('w, unit) c" where
  "variable_annotations_iterator_drop = free variable_annotations_iterator_c"

definition variable_iterator_next :: "ptr \<Rightarrow> ('w, ptr) c" where
  "variable_iterator_next = c_iterator_next variable_iterator_c variable_c"

definition variable_iterator_drop :: "ptr \<Rightarrow> ('w, unit) c" where
  "variable_iterator_drop = free variable_iterator_c"

definition analyzed_query_drop :: "ptr \<Rightarrow> ('w, unit) c" where
  "analyzed_query_drop = free analyzed_query_c"

definition conjunction_drop :: "ptr \<Rightarrow> ('w, unit) c" where
  "conjunction_drop = free conjunction_c"

definition conjunction_id_drop :: "ptr \<Rightarrow> ('w, unit) c" where
  "conjunction_id_drop = free conjunction_id_c"

definition constraint_with_span_drop :: "ptr \<Rightarrow> ('w, unit) c" where
  "constraint_with_span_drop = free constraint_with_span_c"

definition constraint_vertex_drop :: "ptr \<Rightarrow> ('w, unit) c" where
  "constraint_vertex_drop = free constraint_vertex_c"

definition given_drop :: "ptr \<Rightarrow> ('w, unit) c" where
  "given_drop = free given_c"

definition fetch_drop :: "ptr \<Rightarrow> ('w, unit) c" where
  "fetch_drop = free fetch_c"

definition function_drop :: "ptr \<Rightarrow> ('w, unit) c" where
  "function_drop = free function_c"

definition named_role_drop :: "ptr \<Rightarrow> ('w, unit) c" where
  "named_role_drop = free named_role_c"

definition return_operation_drop :: "ptr \<Rightarrow> ('w, unit) c" where
  "return_operation_drop = free return_operation_c"

definition pipeline_drop :: "ptr \<Rightarrow> ('w, unit) c" where
  "pipeline_drop = free pipeline_c"

definition pipeline_stage_drop :: "ptr \<Rightarrow> ('w, unit) c" where
  "pipeline_stage_drop = free pipeline_stage_c"

definition reducer_drop :: "ptr \<Rightarrow> ('w, unit) c" where
  "reducer_drop = free reducer_c"

definition reduce_assignment_drop :: "ptr \<Rightarrow> ('w, unit) c" where
  "reduce_assignment_drop = free reduce_assignment_c"

definition sort_variable_drop :: "ptr \<Rightarrow> ('w, unit) c" where
  "sort_variable_drop = free sort_variable_c"

definition variable_annotations_drop :: "ptr \<Rightarrow> ('w, unit) c" where
  "variable_annotations_drop = free variable_annotations_c"

definition variable_drop :: "ptr \<Rightarrow> ('w, unit) c" where
  "variable_drop = free variable_c"

end
