(* ===== verification/C_Clients.thy ===== *)
theory C_Clients
  imports C_Memory
begin

text \<open>
  Programs that use the C library: they ask for objects, read them, walk through iterators and give
  everything back.  \<open>yields\<close> says that a program returns a value and leaves the heap, the last error and
  the rest of the state as it found them, so that it neither leaks nor frees what is not its own.  The
  interfaces of the two kinds of iterators are the locales \<open>object_iterator\<close> and \<open>result_iterator\<close>.
\<close>

section \<open>States\<close>

text \<open>The next address was never used and is not null.\<close>

definition c_ok :: "('w, 'o) c_state \<Rightarrow> bool" where
  "c_ok s \<longleftrightarrow> next_free s \<noteq> null \<and> heap s null = None \<and> (\<forall>p \<ge> next_free s. heap s p = None)"

named_theorems c_simps \<open>running the operations of the memory\<close>

lemma c_bind_simps [c_simps]:
  "m s = Done (a, s') \<Longrightarrow> c_bind m f s = f a s'"
  "m s = Abort \<Longrightarrow> c_bind m f s = Abort"
  "m s = Undefined \<Longrightarrow> c_bind m f s = Undefined"
  by (simp_all add: c_bind_def)

lemma c_return_simps [c_simps, simp]: "c_return a s = Done (a, s)" "c_abort s = Abort"
  by (simp_all add: c_return_def c_abort_def)

lemma c_bind_return [simp]: "c_bind (c_return a) f = f a"
  by (simp add: c_bind_def fun_eq_iff)

lemma c_bind_assoc: "c_bind (c_bind m f) g = c_bind m (\<lambda>a. c_bind (f a) g)"
  by (auto simp: c_bind_def fun_eq_iff split: outcome.splits)

lemma c_okD: "c_ok s \<Longrightarrow> heap s p = Some obj \<Longrightarrow> p \<noteq> null \<and> p < next_free s"
  by (metis c_ok_def linorder_not_less option.distinct(1))

lemma c_ok_next: "c_ok s \<Longrightarrow> heap s (next_free s) = None \<and> next_free s \<noteq> null"
  by (simp add: c_ok_def)

lemma c_ok_alloc:
  "c_ok s \<Longrightarrow> c_ok (s\<lparr>heap := (heap s)(next_free s := Some obj), next_free := Suc (next_free s)\<rparr>)"
  by (simp add: c_ok_def null_def)

lemma c_ok_bump: "c_ok s \<Longrightarrow> next_free s \<le> n \<Longrightarrow> c_ok (s\<lparr>next_free := n\<rparr>)"
  by (auto simp: c_ok_def null_def)

lemma c_ok_update: "c_ok s \<Longrightarrow> heap s p = Some obj \<Longrightarrow> c_ok (s\<lparr>heap := (heap s)(p := Some obj')\<rparr>)"
  by (auto simp: c_ok_def)

lemma c_ok_free: "c_ok s \<Longrightarrow> c_ok (s\<lparr>heap := (heap s)(p := None)\<rparr>)"
  by (simp add: c_ok_def)

lemma borrow_live:
  "heap s p = Some (boxed T x) \<Longrightarrow> unboxed T (boxed T x) = Some x \<Longrightarrow> p \<noteq> null \<Longrightarrow> borrow T p s = Done (x, s)"
  by (simp add: borrow_def)

lemma free_live:
  "heap s p = Some (boxed T x) \<Longrightarrow> unboxed T (boxed T x) = Some x \<Longrightarrow> p \<noteq> null
    \<Longrightarrow> free T p s = Done ((), s\<lparr>heap := (heap s)(p := None)\<rparr>)"
  by (simp add: free_def free_with_def take_ownership_def c_bind_def borrow_live)

section \<open>Programs that give everything back\<close>

definition yields :: "(ptr \<Rightarrow> 'o option) \<Rightarrow> ('w, 'o, 'a) c_op \<Rightarrow> 'a \<Rightarrow> bool" where
  "yields h m v \<longleftrightarrow>
     (\<forall>s. c_ok s \<longrightarrow> h \<subseteq>\<^sub>m heap s \<longrightarrow> (\<exists>n \<ge> next_free s. m s = Done (v, s\<lparr>next_free := n\<rparr>)))"

definition creates :: "(ptr \<Rightarrow> 'o option) \<Rightarrow> ('w, 'o, ptr) c_op \<Rightarrow> 'o \<Rightarrow> bool" where
  "creates h m obj \<longleftrightarrow>
     (\<forall>s. c_ok s \<longrightarrow> h \<subseteq>\<^sub>m heap s \<longrightarrow>
       m s = Done (next_free s, s\<lparr>heap := (heap s)(next_free s := Some obj), next_free := Suc (next_free s)\<rparr>))"

definition drops :: "(ptr \<Rightarrow> ('w, 'o, unit) c_op) \<Rightarrow> 'o \<Rightarrow> bool" where
  "drops f obj \<longleftrightarrow>
     (\<forall>p s. heap s p = Some obj \<longrightarrow> p \<noteq> null \<longrightarrow> f p s = Done ((), s\<lparr>heap := (heap s)(p := None)\<rparr>))"

text \<open>Using an object that is asked for and given back.\<close>

definition with_object ::
    "('w, 'o, ptr) c_op \<Rightarrow> (ptr \<Rightarrow> ('w, 'o, unit) c_op) \<Rightarrow> (ptr \<Rightarrow> ('w, 'o, 'a) c_op) \<Rightarrow> ('w, 'o, 'a) c_op" where
  "with_object get drop_it use = c_bind get (\<lambda>p. c_bind (use p) (\<lambda>v. c_bind (drop_it p) (\<lambda>_. c_return v)))"

definition with_optional ::
    "('w, 'o, ptr) c_op \<Rightarrow> (ptr \<Rightarrow> ('w, 'o, unit) c_op) \<Rightarrow> (ptr \<Rightarrow> ('w, 'o, 'a) c_op) \<Rightarrow> ('w, 'o, 'a option) c_op" where
  "with_optional get drop_it use =
     c_bind get (\<lambda>p. if p = null then c_return None
       else c_bind (use p) (\<lambda>v. c_bind (drop_it p) (\<lambda>_. c_return (Some v))))"

text \<open>The elements of an iterator, until it returns null; the fuel bounds the number of calls.\<close>

fun collect_elements ::
    "nat \<Rightarrow> ('w, 'o, ptr) c_op \<Rightarrow> (ptr \<Rightarrow> ('w, 'o, unit) c_op) \<Rightarrow> (ptr \<Rightarrow> ('w, 'o, 'a) c_op) \<Rightarrow> ('w, 'o, 'a list) c_op" where
  "collect_elements 0 get_next drop_it use = c_abort"
| "collect_elements (Suc fuel) get_next drop_it use =
     c_bind get_next (\<lambda>p. if p = null then c_return []
       else c_bind (use p) (\<lambda>v. c_bind (drop_it p) (\<lambda>_. c_map (Cons v) (collect_elements fuel get_next drop_it use))))"

lemma yieldsI:
  "(\<And>s. c_ok s \<Longrightarrow> h \<subseteq>\<^sub>m heap s \<Longrightarrow> m s = Done (v, s)) \<Longrightarrow> yields h m v"
  unfolding yields_def by (metis c_state.surjective c_state.update_convs(2) order_refl)

lemma yields_return [simp]: "yields h (c_return v) v"
  by (rule yieldsI) simp

lemma yields_bind:
  fixes m :: "('w, 'o, 'a) c_op"
  assumes "yields h m a" "yields h (f a) b"
  shows "yields h (c_bind m f) b"
  unfolding yields_def
proof (intro allI impI)
  fix s :: "('w, 'o) c_state" assume s: "c_ok s" "h \<subseteq>\<^sub>m heap s"
  then obtain n where n: "n \<ge> next_free s" "m s = Done (a, s\<lparr>next_free := n\<rparr>)"
    using assms(1) unfolding yields_def by blast
  then obtain k where "k \<ge> n" "f a (s\<lparr>next_free := n\<rparr>) = Done (b, s\<lparr>next_free := n, next_free := k\<rparr>)"
    using assms(2) s c_ok_bump [OF s(1) n(1)] unfolding yields_def
    by (metis (no_types, lifting) c_state.select_convs(1,2) c_state.surjective c_state.update_convs(2))
  with n show "\<exists>n\<ge>next_free s. c_bind m f s = Done (b, s\<lparr>next_free := n\<rparr>)"
    by (intro exI [of _ k]) (simp add: c_bind_def)
qed

lemma yields_map: "yields h m a \<Longrightarrow> f a = b \<Longrightarrow> yields h (c_map f m) b"
  by (auto simp: c_map_def intro: yields_bind)

lemma heap_known: "h \<subseteq>\<^sub>m heap s \<Longrightarrow> h p = Some obj \<Longrightarrow> heap s p = Some obj"
  by (auto simp: map_le_def dom_def)

lemma borrow_known:
  "c_ok s \<Longrightarrow> h \<subseteq>\<^sub>m heap s \<Longrightarrow> h p = Some (boxed T x) \<Longrightarrow> unboxed T (boxed T x) = Some x
    \<Longrightarrow> borrow T p s = Done (x, s)"
  using borrow_live heap_known c_okD by metis

lemma yields_borrow:
  "h p = Some (boxed T x) \<Longrightarrow> unboxed T (boxed T x) = Some x \<Longrightarrow> yields h (borrow T p) x"
  by (rule yieldsI) (rule borrow_known)

lemma creates_release: "creates h (release T x) (boxed T x)"
  by (simp add: creates_def release_def)

lemma creates_borrow:
  "h p = Some (boxed T x) \<Longrightarrow> unboxed T (boxed T x) = Some x \<Longrightarrow> creates h (f x) obj
    \<Longrightarrow> creates h (c_bind (borrow T p) f) obj"
  unfolding creates_def by (auto simp: c_bind_def borrow_known)

lemma creates_release_optional: "creates h (release_optional T (Some x)) (boxed T x)"
  by (simp add: release_optional_def creates_release)

lemma creates_release_string: "nul \<notin> set x \<Longrightarrow> creates h (release_string T x) (boxed T x)"
  by (simp add: release_string_def creates_release)

lemma drops_free: "unboxed T (boxed T x) = Some x \<Longrightarrow> drops (free T) (boxed T x)"
  by (simp add: drops_def free_live)

lemma use_and_drop:
  assumes "c_ok s" "heap s p = Some obj" "yields (h(p := Some obj)) (use p) v" "h \<subseteq>\<^sub>m heap s" "drops drop_it obj"
  shows "\<exists>n \<ge> next_free s. c_bind (use p) (\<lambda>v. c_bind (drop_it p) (\<lambda>_. f v)) s
    = f v (s\<lparr>heap := (heap s)(p := None), next_free := n\<rparr>)"
proof -
  have "h(p := Some obj) \<subseteq>\<^sub>m heap s" using assms(2,4) by (auto simp: map_le_def)
  then obtain n where n: "n \<ge> next_free s" "use p s = Done (v, s\<lparr>next_free := n\<rparr>)"
    using assms(1,3) unfolding yields_def by blast
  have "drop_it p (s\<lparr>next_free := n\<rparr>) = Done ((), s\<lparr>heap := (heap s)(p := None), next_free := n\<rparr>)"
    using assms(2,5) c_okD [OF assms(1,2)] by (simp add: drops_def)
  with n show ?thesis by (intro exI [of _ n]) (simp add: c_bind_def)
qed

lemma use_new:
  fixes use :: "ptr \<Rightarrow> ('w, 'o, 'a) c_op"
  assumes s: "c_ok s" "h \<subseteq>\<^sub>m heap s" and "creates h get obj"
    and "\<And>p. h p = None \<Longrightarrow> p \<noteq> null \<Longrightarrow> yields (h(p := Some obj)) (use p) v" "drops drop_it obj"
  shows "\<exists>n \<ge> next_free s. \<exists>p s1. get s = Done (p, s1) \<and> p \<noteq> null
    \<and> c_bind (use p) (\<lambda>v. c_bind (drop_it p) (\<lambda>_. f v)) s1 = f v (s\<lparr>next_free := n\<rparr>)"
proof -
  let ?p = "next_free s" and ?s1 = "s\<lparr>heap := (heap s)(next_free s := Some obj), next_free := Suc (next_free s)\<rparr>"
  have p: "h ?p = None" "?p \<noteq> null" using s c_ok_next [OF s(1)] by (metis domIff map_le_def, simp)
  have h: "h \<subseteq>\<^sub>m heap ?s1" using s(2) p(1) by (auto simp: map_le_def)
  from use_and_drop [of ?s1 ?p obj h use v drop_it f] c_ok_alloc [OF s(1)] assms(4) [OF p] h assms(5)
  obtain n where "n \<ge> Suc ?p" "c_bind (use ?p) (\<lambda>v. c_bind (drop_it ?p) (\<lambda>_. f v)) ?s1
      = f v (?s1\<lparr>heap := (heap ?s1)(?p := None), next_free := n\<rparr>)" by auto
  moreover have "(heap s)(?p := None) = heap s" using c_ok_next [OF s(1)] by (auto simp: fun_eq_iff)
  moreover have "get s = Done (?p, ?s1)" using assms(3) s by (simp add: creates_def)
  ultimately show ?thesis using p(2) by (intro exI [of _ n] conjI exI [of _ ?p] exI [of _ ?s1]) simp_all
qed

lemma yields_with_object:
  assumes "creates h get obj" "\<And>p. h p = None \<Longrightarrow> p \<noteq> null \<Longrightarrow> yields (h(p := Some obj)) (use p) v" "drops drop_it obj"
  shows "yields h (with_object get drop_it use) v"
  unfolding yields_def with_object_def
  using use_new [OF _ _ assms, where f = c_return] by (fastforce simp: c_bind_simps)

lemma yields_with_optional_Some:
  assumes "creates h get obj" "\<And>p. h p = None \<Longrightarrow> p \<noteq> null \<Longrightarrow> yields (h(p := Some obj)) (use p) v" "drops drop_it obj"
  shows "yields h (with_optional get drop_it use) (Some v)"
  unfolding yields_def with_optional_def
  using use_new [OF _ _ assms, where f = "\<lambda>v. c_return (Some v)"] by (fastforce simp: c_bind_simps)

lemma yields_with_optional_None:
  "yields h get null \<Longrightarrow> yields h (with_optional get drop_it use) None"
  unfolding with_optional_def by (rule yields_bind [where a = null]) simp_all

section \<open>Iterators\<close>

lemma borrow_mut_live:
  "heap s p = Some (boxed T x) \<Longrightarrow> unboxed T (boxed T x) = Some x \<Longrightarrow> p \<noteq> null \<Longrightarrow> f x = (b, y)
    \<Longrightarrow> borrow_mut T p f s = Done (b, s\<lparr>heap := (heap s)(p := Some (boxed T y))\<rparr>)"
  by (simp add: borrow_mut_def c_bind_def borrow_live)

lemma collect_step:
  fixes use :: "ptr \<Rightarrow> ('w, 'o, 'a) c_op" and s t :: "('w, 'o) c_state"
  assumes t: "c_ok t" "h \<subseteq>\<^sub>m heap t"
    and get: "get_next s = Done (next_free t, t\<lparr>heap := (heap t)(next_free t := Some obj), next_free := Suc (next_free t)\<rparr>)"
    and use: "\<And>p. h p = None \<Longrightarrow> p \<noteq> null \<Longrightarrow> yields (h(p := Some obj)) (use p) v" and drop: "drops drop_it obj"
  shows "\<exists>n \<ge> next_free t. collect_elements (Suc fuel) get_next drop_it use s
    = c_map (Cons v) (collect_elements fuel get_next drop_it use) (t\<lparr>next_free := n\<rparr>)"
proof -
  let ?get = "\<lambda>t. Done (next_free t, t\<lparr>heap := (heap t)(next_free t := Some obj), next_free := Suc (next_free t)\<rparr>)"
  let ?rest = "\<lambda>v. c_map (Cons v) (collect_elements fuel get_next drop_it use)"
  have "creates h ?get obj" by (simp add: creates_def)
  from use_new [OF t this use drop, of ?rest]
  obtain n p s1 where "n \<ge> next_free t" "?get t = Done (p, s1)" "p \<noteq> null"
    "c_bind (use p) (\<lambda>v. c_bind (drop_it p) (\<lambda>_. ?rest v)) s1 = ?rest v (t\<lparr>next_free := n\<rparr>)" by blast
  with get show ?thesis by (intro exI [of _ n]) (auto simp: c_bind_def)
qed

text \<open>
  An iterator over objects.  Collecting its elements uses each of them once, in order, gives them back,
  and leaves the iterator empty.
\<close>

locale object_iterator =
  fixes I :: "('o, 'i list) c_type" and T :: "('o, 'i) c_type"
  assumes iterator_law: "unboxed I (boxed I xs) = Some xs" and element_law: "unboxed T (boxed T x) = Some x"
begin

lemma next_Cons:
  assumes "c_ok s" "heap s q = Some (boxed I (x # xs))"
  shows "c_iterator_next I T q s = Done (next_free s, s\<lparr>heap := (heap s)(q := Some (boxed I xs),
    next_free s := Some (boxed T x)), next_free := Suc (next_free s)\<rparr>)"
  using assms c_okD [OF assms] borrow_mut_live [OF assms(2) iterator_law, of pop "Some x" xs]
  by (simp add: c_iterator_next_def c_bind_def release_optional_def release_def pop_def)

lemma next_Nil:
  assumes "c_ok s" "heap s q = Some (boxed I [])"
  shows "c_iterator_next I T q s = Done (null, s)"
proof -
  have "(heap s)(q := Some (boxed I [])) = heap s" using assms(2) by (auto simp: fun_eq_iff)
  then show ?thesis using assms c_okD [OF assms] borrow_mut_live [OF assms(2) iterator_law, of pop None "[]"]
    by (simp add: c_iterator_next_def c_bind_def release_optional_def pop_def)
qed

lemma collect_all:
  fixes use :: "ptr \<Rightarrow> ('w, 'o, 'a) c_op"
  assumes "\<And>x p. x \<in> set xs \<Longrightarrow> h p = None \<Longrightarrow> p \<noteq> null \<Longrightarrow> yields (h(p := Some (boxed T x))) (use p) (f x)"
    and "\<And>x. drops drop_it (boxed T x)"
    and "c_ok s" "h \<subseteq>\<^sub>m heap s" "h q = None" "heap s q = Some (boxed I xs)" "length xs < fuel"
  shows "\<exists>n \<ge> next_free s. collect_elements fuel (c_iterator_next I T q) drop_it use s
    = Done (map f xs, s\<lparr>heap := (heap s)(q := Some (boxed I [])), next_free := n\<rparr>)"
  using assms
proof (induction xs arbitrary: s fuel)
  case Nil
  then obtain k where "fuel = Suc k" by (cases fuel) auto
  moreover have "(heap s)(q := Some (boxed I [])) = heap s" using Nil.prems(6) by (auto simp: fun_eq_iff)
  ultimately show ?case using next_Nil [OF Nil.prems(3,6)]
    by (intro exI [of _ "next_free s"]) (simp add: c_bind_def)
next
  case (Cons x xs)
  then obtain k where k: "fuel = Suc k" by (cases fuel) auto
  let ?s1 = "s\<lparr>heap := (heap s)(q := Some (boxed I xs))\<rparr>"
  have s1: "c_ok ?s1" "h \<subseteq>\<^sub>m heap ?s1"
    using c_ok_update [OF Cons.prems(3,6)] Cons.prems(4,5) by (auto simp: map_le_def)
  have get: "c_iterator_next I T q s = Done (next_free ?s1, ?s1\<lparr>heap := (heap ?s1)(next_free ?s1 := Some (boxed T x)),
      next_free := Suc (next_free ?s1)\<rparr>)"
    using next_Cons [OF Cons.prems(3,6)] by (simp del: fun_upd_apply)
  obtain n where n: "n \<ge> next_free s" and step: "collect_elements fuel (c_iterator_next I T q) drop_it use s
      = c_map (Cons (f x)) (collect_elements k (c_iterator_next I T q) drop_it use) (?s1\<lparr>next_free := n\<rparr>)"
    using collect_step [of ?s1 h "c_iterator_next I T q" s "boxed T x" use "f x" drop_it k, OF s1 get]
      Cons.prems(1,2) k by auto
  let ?s2 = "?s1\<lparr>next_free := n\<rparr>"
  have "c_ok ?s2" using c_ok_bump [OF s1(1)] n by simp
  then have "\<exists>m \<ge> next_free ?s2. collect_elements k (c_iterator_next I T q) drop_it use ?s2
      = Done (map f xs, ?s2\<lparr>heap := (heap ?s2)(q := Some (boxed I [])), next_free := m\<rparr>)"
    by (intro Cons.IH) (use s1(2) Cons.prems k in \<open>simp_all del: fun_upd_apply add: fun_upd_same\<close>)
  then obtain m where "m \<ge> n" "collect_elements k (c_iterator_next I T q) drop_it use (?s1\<lparr>next_free := n\<rparr>)
      = Done (map f xs, s\<lparr>heap := (heap s)(q := Some (boxed I [])), next_free := m\<rparr>)" by auto
  then show ?case using step n by (intro exI [of _ m]) (simp add: c_map_def c_bind_def fun_upd_def)
qed

lemma yields_list:
  fixes use :: "ptr \<Rightarrow> ('w, 'o, 'a) c_op"
  assumes "creates h get (boxed I xs)"
    and "\<And>x p g. x \<in> set xs \<Longrightarrow> h \<subseteq>\<^sub>m g \<Longrightarrow> g p = Some (boxed T x) \<Longrightarrow> yields g (use p) (f x)"
    and "\<And>x. drops drop_it (boxed T x)" "\<And>xs. drops drop_list (boxed I xs)" "length xs < fuel"
  shows "yields h (with_object get drop_list (\<lambda>q. collect_elements fuel (c_iterator_next I T q) drop_it use)) (map f xs)"
  unfolding yields_def
proof (intro allI impI)
  fix s :: "('w, 'o) c_state" assume s: "c_ok s" "h \<subseteq>\<^sub>m heap s"
  let ?q = "next_free s" and ?s1 = "s\<lparr>heap := (heap s)(next_free s := Some (boxed I xs)), next_free := Suc (next_free s)\<rparr>"
  have q: "h ?q = None" "?q \<noteq> null" using s c_ok_next [OF s(1)] by (metis domIff map_le_def, simp)
  have s1: "c_ok ?s1" "h \<subseteq>\<^sub>m heap ?s1" using c_ok_alloc [OF s(1)] s(2) q(1) by (auto simp: map_le_def)
  have "yields (h(p := Some (boxed T x))) (use p) (f x)" if "x \<in> set xs" "h p = None" "p \<noteq> null" for x p
    using assms(2) [OF that(1)] that(2) by (auto simp: map_le_def dom_def)
  from collect_all [OF this assms(3) s1 q(1) _ assms(5)]
  obtain n where "n \<ge> Suc ?q" "collect_elements fuel (c_iterator_next I T ?q) drop_it use ?s1
      = Done (map f xs, s\<lparr>heap := (heap s)(?q := Some (boxed I [])), next_free := n\<rparr>)" by auto
  moreover have "(heap s)(?q := None) = heap s" using c_ok_next [OF s(1)] by (auto simp: fun_eq_iff)
  moreover have "get s = Done (?q, ?s1)" using assms(1) s by (simp add: creates_def)
  ultimately show "\<exists>n\<ge>next_free s. with_object get drop_list (\<lambda>q. collect_elements fuel (c_iterator_next I T q) drop_it use) s
      = Done (map f xs, s\<lparr>next_free := n\<rparr>)"
    using assms(4) q(2) by (intro exI [of _ n]) (simp add: with_object_def c_bind_def drops_def)
qed

end

text \<open>
  An iterator over results.  Its elements are used until the first error, which becomes the last error of
  the thread; the caller sees null then, as at the end.
\<close>

fun until_error :: "('a, error) result list \<Rightarrow> 'a list \<times> error option \<times> ('a, error) result list" where
  "until_error (Ok x # rs) = (let (xs, e, rest) = until_error rs in (x # xs, e, rest))"
| "until_error (Err e # rs) = ([], Some e, rs)"
| "until_error _ = ([], None, [])"

locale result_iterator =
  fixes I :: "('o, ('i, error) result list) c_type" and T :: "('o, 'i) c_type"
  assumes iterator_law: "unboxed I (boxed I rs) = Some rs" and element_law: "unboxed T (boxed T x) = Some x"
begin

lemma next_result:
  assumes "c_ok s" "heap s q = Some (boxed I rs)"
  shows "rs = Ok x # rest \<Longrightarrow> iterator_try_next I T q s = Done (next_free s, s\<lparr>heap := (heap s)(q := Some (boxed I rest),
      next_free s := Some (boxed T x)), next_free := Suc (next_free s)\<rparr>)"
    and "rs = Err e # rest \<Longrightarrow> iterator_try_next I T q s = Done (null, s\<lparr>heap := (heap s)(q := Some (boxed I rest)), last_error := Some e\<rparr>)"
    and "rs = [] \<Longrightarrow> iterator_try_next I T q s = Done (null, s)"
proof -
  have q: "q \<noteq> null" using c_okD [OF assms] by simp
  have same: "(heap s)(q := heap s q) = heap s" by simp
  note pop = borrow_mut_live [OF assms(2) iterator_law q, of pop]
  show "rs = Ok x # rest \<Longrightarrow> iterator_try_next I T q s = Done (next_free s, s\<lparr>heap := (heap s)(q := Some (boxed I rest),
      next_free s := Some (boxed T x)), next_free := Suc (next_free s)\<rparr>)"
    using pop [of "Some (Ok x)" rest]
    by (simp add: iterator_try_next_def c_bind_def try_release_optional_def ok_record_flatten_def ok_record_def
        release_optional_def release_def pop_def)
  show "rs = Err e # rest \<Longrightarrow> iterator_try_next I T q s = Done (null, s\<lparr>heap := (heap s)(q := Some (boxed I rest)), last_error := Some e\<rparr>)"
    using pop [of "Some (Err e)" rest]
    by (simp add: iterator_try_next_def c_bind_def try_release_optional_def ok_record_flatten_def ok_record_def
        release_optional_def record_error_def pop_def)
  show "rs = [] \<Longrightarrow> iterator_try_next I T q s = Done (null, s)"
    using pop [of None "[]"] same assms(2)
    by (simp add: iterator_try_next_def c_bind_def try_release_optional_def ok_record_flatten_def
        release_optional_def pop_def del: fun_upd_apply)
qed

lemma collect_results:
  fixes use :: "ptr \<Rightarrow> ('w, 'o, 'a) c_op"
  assumes "\<And>x p. Ok x \<in> set rs \<Longrightarrow> h p = None \<Longrightarrow> p \<noteq> null \<Longrightarrow> yields (h(p := Some (boxed T x))) (use p) (f x)"
    and "\<And>x. drops drop_it (boxed T x)" "Panic \<notin> set rs"
    and "c_ok s" "h \<subseteq>\<^sub>m heap s" "h q = None" "heap s q = Some (boxed I rs)" "length rs < fuel"
    and "until_error rs = (xs, e, rest)"
  shows "\<exists>n \<ge> next_free s. collect_elements fuel (iterator_try_next I T q) drop_it use s
    = Done (map f xs, s\<lparr>heap := (heap s)(q := Some (boxed I rest)), next_free := n,
        last_error := (case e of Some err \<Rightarrow> Some err | None \<Rightarrow> last_error s)\<rparr>)"
  using assms
proof (induction rs arbitrary: s fuel xs)
  case Nil
  then obtain k where "fuel = Suc k" by (cases fuel) auto
  moreover have "(heap s)(q := Some (boxed I [])) = heap s" using Nil.prems(7) by (auto simp: fun_eq_iff)
  ultimately show ?case using next_result(3) [OF Nil.prems(4,7)] Nil.prems(9)
    by (intro exI [of _ "next_free s"]) (auto simp: c_bind_def)
next
  case (Cons r rs)
  then obtain k where k: "fuel = Suc k" by (cases fuel) auto
  show ?case
  proof (cases r)
    case (Ok x)
    let ?t = "s\<lparr>heap := (heap s)(q := Some (boxed I rs))\<rparr>"
    have t: "c_ok ?t" "h \<subseteq>\<^sub>m heap ?t"
      using c_ok_update [OF Cons.prems(4,7)] Cons.prems(5,6) by (auto simp: map_le_def)
    obtain ys where xs: "xs = x # ys" "until_error rs = (ys, e, rest)"
      using Cons.prems(9) Ok by (auto split: prod.splits)
    have get: "iterator_try_next I T q s = Done (next_free ?t, ?t\<lparr>heap := (heap ?t)(next_free ?t := Some (boxed T x)),
        next_free := Suc (next_free ?t)\<rparr>)"
      using next_result(1) [OF Cons.prems(4,7), of x rs] Ok by (simp del: fun_upd_apply)
    obtain n where n: "n \<ge> next_free s" "collect_elements fuel (iterator_try_next I T q) drop_it use s
        = c_map (Cons (f x)) (collect_elements k (iterator_try_next I T q) drop_it use) (?t\<lparr>next_free := n\<rparr>)"
      using collect_step [of ?t h "iterator_try_next I T q" s "boxed T x" use "f x" drop_it k, OF t get]
        Cons.prems(1,2) k Ok by auto
    let ?s2 = "?t\<lparr>next_free := n\<rparr>"
    have "c_ok ?s2" using c_ok_bump [OF t(1)] n(1) by simp
    then have "\<exists>m \<ge> next_free ?s2. collect_elements k (iterator_try_next I T q) drop_it use ?s2
        = Done (map f ys, ?s2\<lparr>heap := (heap ?s2)(q := Some (boxed I rest)), next_free := m,
            last_error := (case e of Some err \<Rightarrow> Some err | None \<Rightarrow> last_error ?s2)\<rparr>)"
      by (intro Cons.IH) (use t(2) Cons.prems k xs(2) in \<open>simp_all del: fun_upd_apply add: fun_upd_same\<close>)
    then obtain m where "m \<ge> n" "collect_elements k (iterator_try_next I T q) drop_it use ?s2
        = Done (map f ys, s\<lparr>heap := (heap s)(q := Some (boxed I rest)), next_free := m,
            last_error := (case e of Some err \<Rightarrow> Some err | None \<Rightarrow> last_error s)\<rparr>)" by (cases e) auto
    then show ?thesis using n xs(1) by (intro exI [of _ m]) (simp add: c_map_def c_bind_def fun_upd_def)
  next
    case (Err err)
    then show ?thesis using next_result(2) [OF Cons.prems(4,7)] Cons.prems(9) k
      by (intro exI [of _ "next_free s"]) (auto simp: c_bind_def fun_upd_def)
  next
    case Panic
    then show ?thesis using Cons.prems(3) by simp
  qed
qed

end

end
