(* ===== verification/C_Analyze_Clients.thy ===== *)
theory C_Analyze_Clients
  imports C_Analyze C_Clients
begin

text \<open>
  A program that reads an analyzed query through the functions of \<open>c/src/analyze.rs\<close> only, the way the
  drivers for other languages do: it asks an object for its variant, calls the functions of that variant,
  and drops what it received.
\<close>

section \<open>The iterators of the interface\<close>

interpretation funs: object_iterator function_iterator_c function_c by unfold_locales simp_all
interpretation vars: object_iterator variable_iterator_c variable_c by unfold_locales simp_all
interpretation reducers: object_iterator reducer_iterator_c reducer_c by unfold_locales simp_all
interpretation stage_its: object_iterator pipeline_stage_iterator_c pipeline_stage_c by unfold_locales simp_all
interpretation sorts: object_iterator sort_variable_iterator_c sort_variable_c by unfold_locales simp_all
interpretation assignments: object_iterator reduce_assignment_iterator_c reduce_assignment_c by unfold_locales simp_all
interpretation cons: object_iterator constraint_with_span_iterator_c constraint_with_span_c by unfold_locales simp_all
interpretation vertices: object_iterator constraint_vertex_iterator_c constraint_vertex_c by unfold_locales simp_all
interpretation blocks: object_iterator conjunction_id_iterator_c conjunction_id_c by unfold_locales simp_all
interpretation annots: object_iterator variable_annotations_iterator_c variable_annotations_c by unfold_locales simp_all

section \<open>Reading texts, variables and blocks\<close>

definition text_ok :: "string \<Rightarrow> bool" where
  "text_ok t \<longleftrightarrow> nul \<notin> set t \<and> valid_utf8 t"

definition read_string :: "('w, ptr) c \<Rightarrow> ('w, string) c" where
  "read_string get = with_object get (string_free string_c) (string_view string_c)"

definition read_variable :: "('w, ptr) c \<Rightarrow> ('w, variable) c" where
  "read_variable get = with_object get variable_drop (\<lambda>p. c_map Variable (variable_id_as_u32 p))"

definition read_block :: "('w, ptr) c \<Rightarrow> ('w, conjunction_id) c" where
  "read_block get = with_object get conjunction_id_drop (\<lambda>p. c_map (\<lambda>n. ConjunctionID (unat n)) (conjunction_id_as_u32 p))"

definition block_ok :: "conjunction_id \<Rightarrow> bool" where
  "block_ok b \<longleftrightarrow> (case b of ConjunctionID k \<Rightarrow> k < 2 ^ 32)"

text \<open>The text of an identifier is read back digit by digit.\<close>

definition hex_value :: "char \<Rightarrow> nat" where
  "hex_value c = (let n = of_char c in if n < 58 then n - 48 else n - 87)"

fun unhex :: "string \<Rightarrow> u8 list" where
  "unhex (c # d # rest) = of_nat (16 * hex_value c + hex_value d) # unhex rest"
| "unhex _ = []"

definition iid_of_text :: "string \<Rightarrow> iid" where
  "iid_of_text t = ID (unhex (drop 2 t))"

definition value_type_of_text :: "string \<Rightarrow> value_type" where
  "value_type_of_text t =
     (case List.find (\<lambda>v. value_type_name v = t)
        [TBoolean, TInteger, TDouble, TDecimal, TString, TDate, TDatetime, TDatetimeTZ, TDuration] of
        Some v \<Rightarrow> v | None \<Rightarrow> TStruct t)"

definition value_type_ok :: "value_type \<Rightarrow> bool" where
  "value_type_ok v \<longleftrightarrow> text_ok (value_type_name v) \<and> value_type_of_text (value_type_name v) = v"

section \<open>Reading constraints\<close>

definition read_concept :: "('w, ptr) c \<Rightarrow> ('w, concept) c" where
  "read_concept get = with_object get (free concept_c) (borrow concept_c)"

definition type_of_concept :: "concept \<Rightarrow> type_t option" where
  "type_of_concept c =
     (case c of
        CEntityType t \<Rightarrow> Some (EntityType t) | CRelationType t \<Rightarrow> Some (RelationType t)
      | CAttributeType t \<Rightarrow> Some (AttributeType t) | CRoleType t \<Rightarrow> Some (RoleType t) | _ \<Rightarrow> None)"

definition read_vertex :: "ptr \<Rightarrow> ('w, constraint_vertex) c" where
  "read_vertex p =
     c_bind (c_constraint_vertex_variant p) (\<lambda>k. case k of
       VariableVertexVariant \<Rightarrow> c_map VariableVertex (read_variable (constraint_vertex_as_variable p))
     | LabelVertexVariant \<Rightarrow>
         c_bind (read_concept (constraint_vertex_as_label p)) (\<lambda>c. case type_of_concept c of
           Some t \<Rightarrow> c_return (LabelVertex t) | None \<Rightarrow> c_abort)
     | ValueVertexVariant \<Rightarrow>
         c_bind (read_concept (constraint_vertex_as_value p)) (\<lambda>c. case c of
           CValue v \<Rightarrow> c_return (ValueVertex v) | _ \<Rightarrow> c_abort)
     | NamedRoleVertexVariant \<Rightarrow>
         with_object (constraint_vertex_as_named_role p) named_role_drop (\<lambda>r.
           c_bind (read_variable (named_role_get_variable r)) (\<lambda>v.
           c_bind (read_string (named_role_get_name r)) (\<lambda>n.
             c_return (NamedRoleVertex \<lparr>role_variable = v, role_name = n\<rparr>)))))"

definition read_vertex_from :: "('w, ptr) c \<Rightarrow> ('w, constraint_vertex) c" where
  "read_vertex_from get = with_object get constraint_vertex_drop read_vertex"

definition read_vertices :: "nat \<Rightarrow> ('w, ptr) c \<Rightarrow> ('w, constraint_vertex list) c" where
  "read_vertices fuel get = with_object get constraint_vertex_iterator_drop (\<lambda>q.
     collect_elements fuel (constraint_vertex_iterator_next q) constraint_vertex_drop read_vertex)"

definition read_blocks :: "nat \<Rightarrow> ('w, ptr) c \<Rightarrow> ('w, conjunction_id list) c" where
  "read_blocks fuel get = with_object get conjunction_id_iterator_drop (\<lambda>q.
     collect_elements fuel (conjunction_id_iterator_next q) conjunction_id_drop
       (\<lambda>p. c_map (\<lambda>n. ConjunctionID (unat n)) (conjunction_id_as_u32 p)))"

text \<open>The functions that a caller may call for each variant.\<close>

primrec read_variant :: "constraint_variant \<Rightarrow> nat \<Rightarrow> ptr \<Rightarrow> ('w, constraint) c" where
  "read_variant IsaVariant fuel p =
     c_bind (read_vertex_from (constraint_isa_get_instance p)) (\<lambda>a.
     c_bind (read_vertex_from (constraint_isa_get_type p)) (\<lambda>b.
     c_bind (constraint_isa_get_exactness p) (\<lambda>e. c_return (Isa a b e))))"
| "read_variant HasVariant fuel p =
     c_bind (read_vertex_from (constraint_has_get_owner p)) (\<lambda>a.
     c_bind (read_vertex_from (constraint_has_get_attribute p)) (\<lambda>b.
     c_bind (constraint_has_get_exactness p) (\<lambda>e. c_return (Has a b e))))"
| "read_variant LinksVariant fuel p =
     c_bind (read_vertex_from (constraint_links_get_relation p)) (\<lambda>a.
     c_bind (read_vertex_from (constraint_links_get_player p)) (\<lambda>b.
     c_bind (read_vertex_from (constraint_links_get_role p)) (\<lambda>r.
     c_bind (constraint_links_get_exactness p) (\<lambda>e. c_return (Links a b r e)))))"
| "read_variant SubVariant fuel p =
     c_bind (read_vertex_from (constraint_sub_get_subtype p)) (\<lambda>a.
     c_bind (read_vertex_from (constraint_sub_get_supertype p)) (\<lambda>b.
     c_bind (constraint_sub_get_exactness p) (\<lambda>e. c_return (Sub a b e))))"
| "read_variant OwnsVariant fuel p =
     c_bind (read_vertex_from (constraint_owns_get_owner p)) (\<lambda>a.
     c_bind (read_vertex_from (constraint_owns_get_attribute p)) (\<lambda>b.
     c_bind (constraint_owns_get_exactness p) (\<lambda>e. c_return (Owns a b e))))"
| "read_variant RelatesVariant fuel p =
     c_bind (read_vertex_from (constraint_relates_get_relation p)) (\<lambda>a.
     c_bind (read_vertex_from (constraint_relates_get_role p)) (\<lambda>b.
     c_bind (constraint_relates_get_exactness p) (\<lambda>e. c_return (Relates a b e))))"
| "read_variant PlaysVariant fuel p =
     c_bind (read_vertex_from (constraint_plays_get_player p)) (\<lambda>a.
     c_bind (read_vertex_from (constraint_plays_get_role p)) (\<lambda>b.
     c_bind (constraint_plays_get_exactness p) (\<lambda>e. c_return (Plays a b e))))"
| "read_variant FunctionCallVariant fuel p =
     c_bind (read_string (constraint_function_call_get_name p)) (\<lambda>name.
     c_bind (read_vertices fuel (constraint_function_call_get_assigned p)) (\<lambda>as.
     c_bind (read_vertices fuel (constraint_function_call_get_arguments p)) (\<lambda>bs.
       c_return (FunctionCall name as bs))))"
| "read_variant ExpressionVariant fuel p =
     c_bind (read_string (constraint_expression_get_text p)) (\<lambda>t.
     c_bind (read_vertex_from (constraint_expression_get_assigned p)) (\<lambda>a.
     c_bind (read_vertices fuel (constraint_expression_get_arguments p)) (\<lambda>bs.
       c_return (Expression t a bs))))"
| "read_variant IsVariant fuel p =
     c_bind (read_vertex_from (constraint_is_get_lhs p)) (\<lambda>a.
     c_bind (read_vertex_from (constraint_is_get_rhs p)) (\<lambda>b. c_return (Is a b)))"
| "read_variant IidVariant fuel p =
     c_bind (read_vertex_from (constraint_iid_get_variable p)) (\<lambda>a.
     c_bind (read_string (constraint_iid_get_iid p)) (\<lambda>t. c_return (Iid a (iid_of_text t))))"
| "read_variant ComparisonVariant fuel p =
     c_bind (read_vertex_from (constraint_comparison_get_lhs p)) (\<lambda>a.
     c_bind (read_vertex_from (constraint_comparison_get_rhs p)) (\<lambda>b.
     c_bind (constraint_comparison_get_comparator p) (\<lambda>c. c_return (Comparison a b c))))"
| "read_variant KindOfVariant fuel p =
     c_bind (read_vertex_from (constraint_kind_get_type p)) (\<lambda>a.
     c_bind (constraint_kind_get_kind p) (\<lambda>k. c_return (KindConstraint k a)))"
| "read_variant LabelVariant fuel p =
     c_bind (read_vertex_from (constraint_label_get_variable p)) (\<lambda>a.
     c_bind (read_string (constraint_label_get_label p)) (\<lambda>l. c_return (LabelConstraint a l)))"
| "read_variant ValueVariant fuel p =
     c_bind (read_vertex_from (constraint_value_get_attribute_type p)) (\<lambda>a.
     c_bind (read_string (constraint_value_get_value_type p)) (\<lambda>t.
       c_return (ValueConstraint a (value_type_of_text t))))"
| "read_variant OrVariant fuel p =
     c_bind (read_blocks fuel (constraint_or_get_branches p)) (\<lambda>bs. c_return (Or bs))"
| "read_variant NotVariant fuel p = c_bind (read_block (constraint_not_get_conjunction p)) (\<lambda>b. c_return (Not b))"
| "read_variant TryVariant fuel p = c_bind (read_block (constraint_try_get_conjunction p)) (\<lambda>b. c_return (Try b))"

definition read_constraint :: "nat \<Rightarrow> ptr \<Rightarrow> ('w, constraint) c" where
  "read_constraint fuel p = c_bind (c_constraint_variant p) (\<lambda>k. read_variant k fuel p)"

text \<open>What a constraint must satisfy to be read: its texts can be C strings, and its lists fit the fuel.\<close>

definition vertex_ok :: "constraint_vertex \<Rightarrow> bool" where
  "vertex_ok v \<longleftrightarrow> (case v of NamedRoleVertex r \<Rightarrow> text_ok (role_name r) | _ \<Rightarrow> True)"

definition vertices_ok :: "nat \<Rightarrow> constraint_vertex list \<Rightarrow> bool" where
  "vertices_ok fuel vs \<longleftrightarrow> list_all vertex_ok vs \<and> length vs < fuel"

fun constraint_ok :: "nat \<Rightarrow> constraint \<Rightarrow> bool" where
  "constraint_ok fuel (Links a b c e) \<longleftrightarrow> vertex_ok a \<and> vertex_ok b \<and> vertex_ok c"
| "constraint_ok fuel (FunctionCall t as bs) \<longleftrightarrow> text_ok t \<and> vertices_ok fuel as \<and> vertices_ok fuel bs"
| "constraint_ok fuel (Expression t a bs) \<longleftrightarrow> text_ok t \<and> vertex_ok a \<and> vertices_ok fuel bs"
| "constraint_ok fuel (Is a b) \<longleftrightarrow> vertex_ok a \<and> vertex_ok b"
| "constraint_ok fuel (Iid a i) \<longleftrightarrow> vertex_ok a"
| "constraint_ok fuel (Comparison a b c) \<longleftrightarrow> vertex_ok a \<and> vertex_ok b"
| "constraint_ok fuel (KindConstraint k a) \<longleftrightarrow> vertex_ok a"
| "constraint_ok fuel (LabelConstraint a l) \<longleftrightarrow> vertex_ok a \<and> text_ok l"
| "constraint_ok fuel (ValueConstraint a t) \<longleftrightarrow> vertex_ok a \<and> value_type_ok t"
| "constraint_ok fuel (Or bs) \<longleftrightarrow> list_all block_ok bs \<and> length bs < fuel"
| "constraint_ok fuel (Not b) \<longleftrightarrow> block_ok b"
| "constraint_ok fuel (Try b) \<longleftrightarrow> block_ok b"
| "constraint_ok fuel (Isa a b e) \<longleftrightarrow> vertex_ok a \<and> vertex_ok b"
| "constraint_ok fuel (Has a b e) \<longleftrightarrow> vertex_ok a \<and> vertex_ok b"
| "constraint_ok fuel (Sub a b e) \<longleftrightarrow> vertex_ok a \<and> vertex_ok b"
| "constraint_ok fuel (Owns a b e) \<longleftrightarrow> vertex_ok a \<and> vertex_ok b"
| "constraint_ok fuel (Relates a b e) \<longleftrightarrow> vertex_ok a \<and> vertex_ok b"
| "constraint_ok fuel (Plays a b e) \<longleftrightarrow> vertex_ok a \<and> vertex_ok b"

section \<open>What is read\<close>

lemma hex_value_digit: "d < 16 \<Longrightarrow> hex_value (hex_digit d) = d"
  by (simp add: hex_value_def hex_digit_def Let_def)

lemma unhex_bytes: "unhex (concat (map hex_byte bs)) = bs"
proof (induction bs)
  case (Cons b bs)
  have "unat b < 256" using unsigned_less [of b] by simp
  then have "hex_value (hex_digit (unat b div 16)) = unat b div 16" "hex_value (hex_digit (unat b mod 16)) = unat b mod 16"
    by (simp_all add: hex_value_digit less_mult_imp_div_less)
  then have "unhex (hex_byte b @ concat (map hex_byte bs)) = of_nat (16 * (unat b div 16) + unat b mod 16) # bs"
    using Cons by (simp add: hex_byte_def [of b] del: of_nat_add of_nat_mult)
  then show ?case by simp
qed simp

lemma iid_of_display: "iid_of_text (id_display i) = i"
  by (cases i) (simp add: iid_of_text_def id_display_def id_prefix_def bytes_cloned_def unhex_bytes)

lemma ascii_text_ok: "list_all (\<lambda>c. 0 < (of_char c :: nat) \<and> (of_char c :: nat) < 128) t \<Longrightarrow> text_ok t"
proof -
  assume a: "list_all (\<lambda>c. 0 < (of_char c :: nat) \<and> (of_char c :: nat) < 128) t"
  then have "nul \<notin> set t" by (induction t) (auto simp: nul_def)
  moreover from a have "valid_utf8 t" by (induction t) simp_all
  ultimately show ?thesis by (simp add: text_ok_def)
qed

lemma id_display_ok: "text_ok (id_display i)"
proof -
  have digit: "d < 16 \<Longrightarrow> 0 < (of_char (hex_digit d) :: nat) \<and> (of_char (hex_digit d) :: nat) < 128" for d
    by (simp add: hex_digit_def)
  have "unat b < 256" for b :: u8 using unsigned_less [of b] by simp
  then have "list_all (\<lambda>c. 0 < (of_char c :: nat) \<and> (of_char c :: nat) < 128) (hex_byte b)" for b
    by (simp add: hex_byte_def digit less_mult_imp_div_less)
  then have "list_all (\<lambda>c. 0 < (of_char c :: nat) \<and> (of_char c :: nat) < 128) (concat (map hex_byte bs))" for bs
    by (induction bs) simp_all
  then show ?thesis by (intro ascii_text_ok) (simp add: id_display_def id_prefix_def)
qed

text \<open>
  How a function that lends an object and releases or returns a part of it is used: the definition of the
  function is unfolded once, and evaluated for the object at hand.
\<close>

lemma creates_get:
  "h p = Some (boxed T x) \<Longrightarrow> unboxed T (boxed T x) = Some x \<Longrightarrow> get = c_bind (borrow T p) f \<Longrightarrow> f x = release U v
    \<Longrightarrow> creates h get (boxed U v)"
  by (simp add: creates_borrow creates_release)

lemma yields_get:
  "h p = Some (boxed T x) \<Longrightarrow> unboxed T (boxed T x) = Some x \<Longrightarrow> get = c_bind (borrow T p) f \<Longrightarrow> f x = c_return v
    \<Longrightarrow> yields h get v"
  by (simp add: yields_bind [OF yields_borrow])

lemma yields_get_map:
  "h p = Some (boxed T x) \<Longrightarrow> unboxed T (boxed T x) = Some x \<Longrightarrow> get = c_map f (borrow T p) \<Longrightarrow> f x = v
    \<Longrightarrow> yields h get v"
  by (simp add: yields_map [OF yields_borrow])

lemma yields_string:
  assumes "h p = Some (boxed T x)" "unboxed T (boxed T x) = Some x" "get = c_bind (borrow T p) f"
    "f x = release_string string_c t" "text_ok t"
  shows "yields h (read_string get) t"
proof -
  have "creates h get (boxed string_c t)"
    using assms(1-5) by (auto intro!: creates_borrow creates_release_string simp: text_ok_def)
  moreover have "yields (h(q := Some (boxed string_c t))) (string_view string_c q) t" for q
    using assms(5) by (auto simp: string_view_def text_ok_def intro!: yields_bind [OF yields_borrow])
  moreover have "drops (string_free string_c) (boxed string_c t)"
    using drops_free [of string_c t] by (simp add: string_free_def [abs_def])
  ultimately show ?thesis unfolding read_string_def by (intro yields_with_object)
qed

lemma yields_variable:
  assumes "creates h get (boxed variable_c v)"
  shows "yields h (read_variable get) v"
  unfolding read_variable_def
proof (rule yields_with_object [OF assms])
  fix p
  have "yields (h(p := Some (boxed variable_c v))) (variable_id_as_u32 p) (case v of Variable n \<Rightarrow> n)"
    by (rule yields_get_map [OF _ _ variable_id_as_u32_def [of p]]) simp_all
  then show "yields (h(p := Some (boxed variable_c v))) (c_map Variable (variable_id_as_u32 p)) v"
    by (rule yields_map) (cases v; simp)
qed (simp add: variable_drop_def drops_free)

lemma yields_block_id:
  assumes "g p = Some (boxed conjunction_id_c b)" "block_ok b"
  shows "yields g (c_map (\<lambda>n. ConjunctionID (unat n)) (conjunction_id_as_u32 p)) b"
proof (rule yields_map)
  show "yields g (conjunction_id_as_u32 p) (case b of ConjunctionID k \<Rightarrow> of_nat k)"
    using assms(1) by (intro yields_get_map [OF _ _ conjunction_id_as_u32_def [of p]]) simp_all
qed (use assms(2) in \<open>cases b; simp add: block_ok_def unat_small_nat\<close>)

lemma yields_block:
  assumes "creates h get (boxed conjunction_id_c b)" "block_ok b"
  shows "yields h (read_block get) b"
  unfolding read_block_def
  by (rule yields_with_object [OF assms(1)])
    (simp_all add: yields_block_id assms(2) conjunction_id_drop_def drops_free)

lemma yields_concept: "creates h get (boxed concept_c c) \<Longrightarrow> yields h (read_concept get) c"
  unfolding read_concept_def by (rule yields_with_object, assumption) (simp_all add: yields_borrow drops_free)

lemma type_of_type_to_concept: "type_of_concept (type_to_concept t) = Some t"
  by (cases t) (simp_all add: type_of_concept_def)

lemma yields_vertex:
  assumes p: "h p = Some (boxed constraint_vertex_c v)" and ok: "vertex_ok v"
  shows "yields h (read_vertex p) v"
proof (cases v)
  case (VariableVertex x)
  have "creates h (constraint_vertex_as_variable p) (boxed variable_c x)"
    by (rule creates_get [of h p, OF p _ constraint_vertex_as_variable_def [of p]]) (simp_all add: VariableVertex)
  then have "yields h (c_map VariableVertex (read_variable (constraint_vertex_as_variable p))) v"
    by (rule yields_map [OF yields_variable]) (simp_all add: VariableVertex)
  moreover have "yields h (c_constraint_vertex_variant p) VariableVertexVariant"
    by (rule yields_get_map [of h p, OF p _ c_constraint_vertex_variant_def [of p]]) (simp_all add: VariableVertex)
  ultimately show ?thesis unfolding read_vertex_def by (auto intro: yields_bind)
next
  case (LabelVertex t)
  have "creates h (constraint_vertex_as_label p) (boxed concept_c (type_to_concept t))"
    by (rule creates_get [of h p, OF p _ constraint_vertex_as_label_def [of p]]) (simp_all add: LabelVertex)
  then have "yields h (c_bind (read_concept (constraint_vertex_as_label p)) (\<lambda>c. case type_of_concept c of
      Some t \<Rightarrow> c_return (LabelVertex t) | None \<Rightarrow> c_abort)) v"
    by (rule yields_bind [OF yields_concept]) (simp_all add: LabelVertex type_of_type_to_concept)
  moreover have "yields h (c_constraint_vertex_variant p) LabelVertexVariant"
    by (rule yields_get_map [of h p, OF p _ c_constraint_vertex_variant_def [of p]]) (simp_all add: LabelVertex)
  ultimately show ?thesis unfolding read_vertex_def by (auto intro: yields_bind)
next
  case (ValueVertex x)
  have "creates h (constraint_vertex_as_value p) (boxed concept_c (CValue x))"
    by (rule creates_get [of h p, OF p _ constraint_vertex_as_value_def [of p]]) (simp_all add: ValueVertex)
  then have "yields h (c_bind (read_concept (constraint_vertex_as_value p)) (\<lambda>c. case c of
      CValue v \<Rightarrow> c_return (ValueVertex v) | _ \<Rightarrow> c_abort)) v"
    by (rule yields_bind [OF yields_concept]) (simp_all add: ValueVertex)
  moreover have "yields h (c_constraint_vertex_variant p) ValueVertexVariant"
    by (rule yields_get_map [of h p, OF p _ c_constraint_vertex_variant_def [of p]]) (simp_all add: ValueVertex)
  ultimately show ?thesis unfolding read_vertex_def by (auto intro: yields_bind)
next
  case (NamedRoleVertex r)
  let ?use = "\<lambda>q. c_bind (read_variable (named_role_get_variable q)) (\<lambda>v.
      c_bind (read_string (named_role_get_name q)) (\<lambda>n.
        c_return (NamedRoleVertex \<lparr>role_variable = v, role_name = n\<rparr>)))"
  have get: "creates h (constraint_vertex_as_named_role p) (boxed named_role_c r)"
    by (rule creates_get [of h p, OF p _ constraint_vertex_as_named_role_def [of p]]) (simp_all add: NamedRoleVertex)
  have "yields (h(q := Some (boxed named_role_c r))) (?use q) v" for q
  proof -
    let ?h = "h(q := Some (boxed named_role_c r))"
    have v: "creates ?h (named_role_get_variable q) (boxed variable_c (role_variable r))"
      by (rule creates_get [OF _ _ named_role_get_variable_def [of q]]) simp_all
    have n: "yields ?h (read_string (named_role_get_name q)) (role_name r)"
      using ok by (intro yields_string [OF _ _ named_role_get_name_def [of q]])
        (simp_all add: NamedRoleVertex vertex_ok_def)
    have r: "\<lparr>role_variable = role_variable r, role_name = role_name r\<rparr> = r" by simp
    show ?thesis
      by (intro yields_bind [OF yields_variable [OF v]] yields_bind [OF n]) (simp only: r NamedRoleVertex yields_return)
  qed
  then have "yields h (with_object (constraint_vertex_as_named_role p) named_role_drop ?use) v"
    by (intro yields_with_object [OF get]) (simp_all add: named_role_drop_def drops_free)
  moreover have "yields h (c_constraint_vertex_variant p) NamedRoleVertexVariant"
    by (rule yields_get_map [of h p, OF p _ c_constraint_vertex_variant_def [of p]]) (simp_all add: NamedRoleVertex)
  ultimately show ?thesis unfolding read_vertex_def by (auto intro: yields_bind)
qed

lemma yields_vertex_from:
  "creates h get (boxed constraint_vertex_c v) \<Longrightarrow> vertex_ok v \<Longrightarrow> yields h (read_vertex_from get) v"
  unfolding read_vertex_from_def
  by (rule yields_with_object, assumption) (simp_all add: yields_vertex constraint_vertex_drop_def drops_free)

lemma yields_vertices:
  assumes "creates h get (boxed constraint_vertex_iterator_c vs)" "vertices_ok fuel vs"
  shows "yields h (read_vertices fuel get) vs"
proof -
  have "yields h (read_vertices fuel get) (map (\<lambda>v. v) vs)"
    unfolding read_vertices_def constraint_vertex_iterator_next_def
    using assms(2)
    by (intro vertices.yields_list [OF assms(1)])
      (auto simp: vertices_ok_def list_all_iff yields_vertex constraint_vertex_drop_def
        constraint_vertex_iterator_drop_def drops_free)
  then show ?thesis by simp
qed

lemma yields_blocks:
  assumes "creates h get (boxed conjunction_id_iterator_c bs)" "list_all block_ok bs" "length bs < fuel"
  shows "yields h (read_blocks fuel get) bs"
proof -
  have "yields h (read_blocks fuel get) (map (\<lambda>b. b) bs)"
    unfolding read_blocks_def conjunction_id_iterator_next_def
    using assms(2,3)
    by (intro blocks.yields_list [OF assms(1)])
      (auto simp: list_all_iff yields_block_id conjunction_id_drop_def conjunction_id_iterator_drop_def drops_free)
  then show ?thesis by simp
qed

section \<open>Reading a constraint\<close>

text \<open>
  One step: a function is called for the constraint \<open>x\<close> at \<open>p\<close>, and what it returns is read and dropped.
\<close>

lemma unboxed_span: "unboxed constraint_with_span_c (boxed constraint_with_span_c x) = Some x"
  by simp

lemma call_creates:
  "h p = Some (boxed constraint_with_span_c x) \<Longrightarrow> get = c_bind (borrow constraint_with_span_c p) f
    \<Longrightarrow> f x = release U v \<Longrightarrow> creates h get (boxed U v)"
  by (simp add: creates_borrow creates_release)

lemma bind_vertex:
  assumes "h p = Some (boxed constraint_with_span_c x)" "get = c_bind (borrow constraint_with_span_c p) f"
    "f x = release constraint_vertex_c v" "vertex_ok v" "yields h (k v) r"
  shows "yields h (c_bind (read_vertex_from get) k) r"
  by (rule yields_bind [OF yields_vertex_from [OF call_creates [of h p x get f, OF assms(1-3)] assms(4)]]) (rule assms(5))

lemma bind_vertices:
  assumes "h p = Some (boxed constraint_with_span_c x)" "get = c_bind (borrow constraint_with_span_c p) f"
    "f x = release constraint_vertex_iterator_c v" "vertices_ok fuel v" "yields h (k v) r"
  shows "yields h (c_bind (read_vertices fuel get) k) r"
  by (rule yields_bind [OF yields_vertices [OF call_creates [of h p x get f, OF assms(1-3)] assms(4)]]) (rule assms(5))

lemma bind_blocks:
  assumes "h p = Some (boxed constraint_with_span_c x)" "get = c_bind (borrow constraint_with_span_c p) f"
    "f x = release conjunction_id_iterator_c v" "list_all block_ok v" "length v < fuel" "yields h (k v) r"
  shows "yields h (c_bind (read_blocks fuel get) k) r"
  by (rule yields_bind [OF yields_blocks [OF call_creates [of h p x get f, OF assms(1-3)] assms(4,5)]]) (rule assms(6))

lemma bind_block:
  assumes "h p = Some (boxed constraint_with_span_c x)" "get = c_bind (borrow constraint_with_span_c p) f"
    "f x = release conjunction_id_c v" "block_ok v" "yields h (k v) r"
  shows "yields h (c_bind (read_block get) k) r"
  by (rule yields_bind [OF yields_block [OF call_creates [of h p x get f, OF assms(1-3)] assms(4)]]) (rule assms(5))

lemma bind_text:
  assumes "h p = Some (boxed constraint_with_span_c x)" "get = c_bind (borrow constraint_with_span_c p) f"
    "f x = release_string string_c v" "text_ok v" "yields h (k v) r"
  shows "yields h (c_bind (read_string get) k) r"
  by (rule yields_bind [OF yields_string [of h p constraint_with_span_c x get f v, OF assms(1) unboxed_span assms(2-4)]]) (rule assms(5))

lemma bind_value:
  assumes "h p = Some (boxed constraint_with_span_c x)" "get = c_bind (borrow constraint_with_span_c p) f"
    "f x = c_return v" "yields h (k v) r"
  shows "yields h (c_bind (get) k) r"
  by (rule yields_bind [OF yields_get [of h p constraint_with_span_c x get f v, OF assms(1) unboxed_span assms(2,3)]]) (rule assms(4))

lemmas constraint_calls =
  constraint_isa_get_instance_def constraint_isa_get_type_def constraint_isa_get_exactness_def
  constraint_has_get_owner_def constraint_has_get_attribute_def constraint_has_get_exactness_def
  constraint_sub_get_subtype_def constraint_sub_get_supertype_def constraint_sub_get_exactness_def
  constraint_owns_get_owner_def constraint_owns_get_attribute_def constraint_owns_get_exactness_def
  constraint_relates_get_relation_def constraint_relates_get_role_def
  constraint_relates_get_exactness_def constraint_plays_get_player_def constraint_plays_get_role_def
  constraint_plays_get_exactness_def constraint_links_get_relation_def constraint_links_get_player_def
  constraint_links_get_role_def constraint_links_get_exactness_def
  constraint_function_call_get_name_def constraint_function_call_get_assigned_def
  constraint_function_call_get_arguments_def constraint_expression_get_text_def
  constraint_expression_get_assigned_def constraint_expression_get_arguments_def
  constraint_is_get_lhs_def constraint_is_get_rhs_def constraint_iid_get_variable_def
  constraint_iid_get_iid_def constraint_comparison_get_lhs_def constraint_comparison_get_rhs_def
  constraint_comparison_get_comparator_def constraint_kind_get_kind_def constraint_kind_get_type_def
  constraint_label_get_variable_def constraint_label_get_label_def
  constraint_value_get_attribute_type_def constraint_value_get_value_type_def
  constraint_or_get_branches_def constraint_not_get_conjunction_def constraint_try_get_conjunction_def

primrec variant_of :: "constraint \<Rightarrow> constraint_variant" where
  "variant_of (Isa _ _ _) = IsaVariant"
| "variant_of (Has _ _ _) = HasVariant"
| "variant_of (Links _ _ _ _) = LinksVariant"
| "variant_of (Sub _ _ _) = SubVariant"
| "variant_of (Owns _ _ _) = OwnsVariant"
| "variant_of (Relates _ _ _) = RelatesVariant"
| "variant_of (Plays _ _ _) = PlaysVariant"
| "variant_of (FunctionCall _ _ _) = FunctionCallVariant"
| "variant_of (Expression _ _ _) = ExpressionVariant"
| "variant_of (Is _ _) = IsVariant"
| "variant_of (Iid _ _) = IidVariant"
| "variant_of (Comparison _ _ _) = ComparisonVariant"
| "variant_of (KindConstraint _ _) = KindOfVariant"
| "variant_of (LabelConstraint _ _) = LabelVariant"
| "variant_of (ValueConstraint _ _) = ValueVariant"
| "variant_of (Or _) = OrVariant"
| "variant_of (Not _) = NotVariant"
| "variant_of (Try _) = TryVariant"

lemma yields_constraint:
  assumes p: "h p = Some (boxed constraint_with_span_c x)" and ok: "constraint_ok fuel (constraint_of x)"
  shows "yields h (read_constraint fuel p) (constraint_of x)"
proof -
  have variant: "yields h (c_constraint_variant p) (variant_of (constraint_of x))"
    by (rule yields_get_map [of h p, OF p _ c_constraint_variant_def [of p]]) (simp_all split: constraint.split)
  have "yields h (read_variant (variant_of (constraint_of x)) fuel p) (constraint_of x)"
  proof (cases "constraint_of x")
    case (Isa a b e)
    show ?thesis
      using ok unfolding Isa variant_of.simps read_variant.simps
      by - (rule bind_vertex [of h p x, OF p], rule constraint_calls, simp add: Isa, simp,
         rule bind_vertex [of h p x, OF p], rule constraint_calls, simp add: Isa, simp,
         rule bind_value [of h p x, OF p], rule constraint_calls, simp add: Isa,
         simp add: iid_of_display value_type_ok_def)
  next
    case (Has a b e)
    show ?thesis
      using ok unfolding Has variant_of.simps read_variant.simps
      by - (rule bind_vertex [of h p x, OF p], rule constraint_calls, simp add: Has, simp,
         rule bind_vertex [of h p x, OF p], rule constraint_calls, simp add: Has, simp,
         rule bind_value [of h p x, OF p], rule constraint_calls, simp add: Has,
         simp add: iid_of_display value_type_ok_def)
  next
    case (Links a b c e)
    show ?thesis
      using ok unfolding Links variant_of.simps read_variant.simps
      by - (rule bind_vertex [of h p x, OF p], rule constraint_calls, simp add: Links, simp,
         rule bind_vertex [of h p x, OF p], rule constraint_calls, simp add: Links, simp,
         rule bind_vertex [of h p x, OF p], rule constraint_calls, simp add: Links, simp,
         rule bind_value [of h p x, OF p], rule constraint_calls, simp add: Links,
         simp add: iid_of_display value_type_ok_def)
  next
    case (Sub a b e)
    show ?thesis
      using ok unfolding Sub variant_of.simps read_variant.simps
      by - (rule bind_vertex [of h p x, OF p], rule constraint_calls, simp add: Sub, simp,
         rule bind_vertex [of h p x, OF p], rule constraint_calls, simp add: Sub, simp,
         rule bind_value [of h p x, OF p], rule constraint_calls, simp add: Sub,
         simp add: iid_of_display value_type_ok_def)
  next
    case (Owns a b e)
    show ?thesis
      using ok unfolding Owns variant_of.simps read_variant.simps
      by - (rule bind_vertex [of h p x, OF p], rule constraint_calls, simp add: Owns, simp,
         rule bind_vertex [of h p x, OF p], rule constraint_calls, simp add: Owns, simp,
         rule bind_value [of h p x, OF p], rule constraint_calls, simp add: Owns,
         simp add: iid_of_display value_type_ok_def)
  next
    case (Relates a b e)
    show ?thesis
      using ok unfolding Relates variant_of.simps read_variant.simps
      by - (rule bind_vertex [of h p x, OF p], rule constraint_calls, simp add: Relates, simp,
         rule bind_vertex [of h p x, OF p], rule constraint_calls, simp add: Relates, simp,
         rule bind_value [of h p x, OF p], rule constraint_calls, simp add: Relates,
         simp add: iid_of_display value_type_ok_def)
  next
    case (Plays a b e)
    show ?thesis
      using ok unfolding Plays variant_of.simps read_variant.simps
      by - (rule bind_vertex [of h p x, OF p], rule constraint_calls, simp add: Plays, simp,
         rule bind_vertex [of h p x, OF p], rule constraint_calls, simp add: Plays, simp,
         rule bind_value [of h p x, OF p], rule constraint_calls, simp add: Plays,
         simp add: iid_of_display value_type_ok_def)
  next
    case (FunctionCall t as bs)
    show ?thesis
      using ok unfolding FunctionCall variant_of.simps read_variant.simps
      by - (rule bind_text [of h p x, OF p], rule constraint_calls, simp add: FunctionCall, simp add: id_display_ok value_type_ok_def,
         rule bind_vertices [of h p x, OF p], rule constraint_calls, simp add: FunctionCall, simp,
         rule bind_vertices [of h p x, OF p], rule constraint_calls, simp add: FunctionCall, simp,
         simp add: iid_of_display value_type_ok_def)
  next
    case (Expression t a bs)
    show ?thesis
      using ok unfolding Expression variant_of.simps read_variant.simps
      by - (rule bind_text [of h p x, OF p], rule constraint_calls, simp add: Expression, simp add: id_display_ok value_type_ok_def,
         rule bind_vertex [of h p x, OF p], rule constraint_calls, simp add: Expression, simp,
         rule bind_vertices [of h p x, OF p], rule constraint_calls, simp add: Expression, simp,
         simp add: iid_of_display value_type_ok_def)
  next
    case (Is a b)
    show ?thesis
      using ok unfolding Is variant_of.simps read_variant.simps
      by - (rule bind_vertex [of h p x, OF p], rule constraint_calls, simp add: Is, simp,
         rule bind_vertex [of h p x, OF p], rule constraint_calls, simp add: Is, simp,
         simp add: iid_of_display value_type_ok_def)
  next
    case (Iid a i)
    show ?thesis
      using ok unfolding Iid variant_of.simps read_variant.simps
      by - (rule bind_vertex [of h p x, OF p], rule constraint_calls, simp add: Iid, simp,
         rule bind_text [of h p x, OF p], rule constraint_calls, simp add: Iid, simp add: id_display_ok value_type_ok_def,
         simp add: iid_of_display value_type_ok_def)
  next
    case (Comparison a b c)
    show ?thesis
      using ok unfolding Comparison variant_of.simps read_variant.simps
      by - (rule bind_vertex [of h p x, OF p], rule constraint_calls, simp add: Comparison, simp,
         rule bind_vertex [of h p x, OF p], rule constraint_calls, simp add: Comparison, simp,
         rule bind_value [of h p x, OF p], rule constraint_calls, simp add: Comparison,
         simp add: iid_of_display value_type_ok_def)
  next
    case (KindConstraint k a)
    show ?thesis
      using ok unfolding KindConstraint variant_of.simps read_variant.simps
      by - (rule bind_vertex [of h p x, OF p], rule constraint_calls, simp add: KindConstraint, simp,
         rule bind_value [of h p x, OF p], rule constraint_calls, simp add: KindConstraint,
         simp add: iid_of_display value_type_ok_def)
  next
    case (LabelConstraint a l)
    show ?thesis
      using ok unfolding LabelConstraint variant_of.simps read_variant.simps
      by - (rule bind_vertex [of h p x, OF p], rule constraint_calls, simp add: LabelConstraint, simp,
         rule bind_text [of h p x, OF p], rule constraint_calls, simp add: LabelConstraint, simp add: id_display_ok value_type_ok_def,
         simp add: iid_of_display value_type_ok_def)
  next
    case (ValueConstraint a t)
    show ?thesis
      using ok unfolding ValueConstraint variant_of.simps read_variant.simps
      by - (rule bind_vertex [of h p x, OF p], rule constraint_calls, simp add: ValueConstraint, simp,
         rule bind_text [of h p x, OF p], rule constraint_calls, simp add: ValueConstraint, simp add: id_display_ok value_type_ok_def,
         simp add: iid_of_display value_type_ok_def)
  next
    case (Or bs)
    show ?thesis
      using ok unfolding Or variant_of.simps read_variant.simps
      by - (rule bind_blocks [of h p x, OF p], rule constraint_calls, simp add: Or, simp, simp,
         simp add: iid_of_display value_type_ok_def)
  next
    case (Not b)
    show ?thesis
      using ok unfolding Not variant_of.simps read_variant.simps
      by - (rule bind_block [of h p x, OF p], rule constraint_calls, simp add: Not, simp,
         simp add: iid_of_display value_type_ok_def)
  next
    case (Try b)
    show ?thesis
      using ok unfolding Try variant_of.simps read_variant.simps
      by - (rule bind_block [of h p x, OF p], rule constraint_calls, simp add: Try, simp,
         simp add: iid_of_display value_type_ok_def)
  qed
  with variant show ?thesis unfolding read_constraint_def by (rule yields_bind)
qed

section \<open>Reading a conjunction\<close>

definition read_spanned :: "nat \<Rightarrow> ptr \<Rightarrow> ('w, constraint \<times> i64 \<times> i64) c" where
  "read_spanned fuel p =
     c_bind (read_constraint fuel p) (\<lambda>c. c_bind (constraint_span_begin p) (\<lambda>b. c_bind (constraint_span_end p) (\<lambda>e.
       c_return (c, b, e))))"

definition read_conjunction :: "nat \<Rightarrow> ptr \<Rightarrow> ptr \<Rightarrow> ('w, (constraint \<times> i64 \<times> i64) list option) c" where
  "read_conjunction fuel p q =
     with_optional (pipeline_get_conjunction p q) conjunction_drop (\<lambda>c.
       with_object (conjunction_get_constraints c) constraint_with_span_iterator_drop (\<lambda>it.
         collect_elements fuel (constraint_with_span_iterator_next it) constraint_with_span_drop (read_spanned fuel)))"

text \<open>What the interface tells of a constraint: it, and its span; a constraint without a span has an empty one.\<close>

definition seen :: "constraint_with_span \<Rightarrow> constraint \<times> i64 \<times> i64" where
  "seen x = (constraint_of x,
     case constraint_span_of x of Some c \<Rightarrow> (of_nat (span_begin c), of_nat (span_end c)) | None \<Rightarrow> (0, 0))"

lemma yields_spanned:
  assumes p: "h p = Some (boxed constraint_with_span_c x)" and ok: "constraint_ok fuel (constraint_of x)"
  shows "yields h (read_spanned fuel p) (seen x)"
proof -
  have "yields h (constraint_span_begin p) (fst (snd (seen x)))"
    by (rule yields_get_map [of h p, OF p _ constraint_span_begin_def [of p]])
      (simp_all add: seen_def split: option.split)
  moreover have "yields h (constraint_span_end p) (snd (snd (seen x)))"
    by (rule yields_get_map [of h p, OF p _ constraint_span_end_def [of p]])
      (simp_all add: seen_def split: option.split)
  moreover have "constraint_of x = fst (seen x)" by (simp add: seen_def)
  ultimately show ?thesis unfolding read_spanned_def using yields_constraint [of h p x fuel, OF p ok]
    by (auto intro!: yields_bind)
qed

definition conjunction_at :: "pipeline \<Rightarrow> conjunction_id \<Rightarrow> conjunction option" where
  "conjunction_at P b = (case b of ConjunctionID k \<Rightarrow> if k < length (conjunctions P) then Some (conjunctions P ! k) else None)"

definition conjunction_ok :: "nat \<Rightarrow> conjunction \<Rightarrow> bool" where
  "conjunction_ok fuel c \<longleftrightarrow> list_all (\<lambda>x. constraint_ok fuel (constraint_of x)) (constraints c) \<and> length (constraints c) < fuel"

lemma get_conjunction:
  assumes "h p = Some (boxed pipeline_c P)" "h q = Some (boxed conjunction_id_c b)"
  shows "conjunction_at P b = Some c \<Longrightarrow> creates h (pipeline_get_conjunction p q) (boxed conjunction_c c)"
    and "conjunction_at P b = None \<Longrightarrow> yields h (pipeline_get_conjunction p q) null"
  using assms
  by (auto simp: pipeline_get_conjunction_def conjunction_at_def release_optional_def
      intro!: creates_borrow creates_release yields_bind [OF yields_borrow] split: conjunction_id.splits if_splits)

lemma yields_conjunction:
  assumes p: "h p = Some (boxed pipeline_c P)" and q: "h q = Some (boxed conjunction_id_c b)"
    and ok: "\<And>c. conjunction_at P b = Some c \<Longrightarrow> conjunction_ok fuel c"
  shows "yields h (read_conjunction fuel p q) (map_option (\<lambda>c. map seen (constraints c)) (conjunction_at P b))"
proof (cases "conjunction_at P b")
  case None
  then show ?thesis unfolding read_conjunction_def
    using yields_with_optional_None [OF get_conjunction(2) [of h p P q b, OF p q]] by simp
next
  case (Some c)
  have all: "yields g (with_object (conjunction_get_constraints r) constraint_with_span_iterator_drop (\<lambda>it.
      collect_elements fuel (constraint_with_span_iterator_next it) constraint_with_span_drop (read_spanned fuel)))
      (map seen (constraints c))"
    if r: "g r = Some (boxed conjunction_c c)" for g r
    unfolding constraint_with_span_iterator_next_def
  proof (rule cons.yields_list)
    show "creates g (conjunction_get_constraints r) (boxed constraint_with_span_iterator_c (constraints c))"
      by (rule creates_get [of g r, OF r _ conjunction_get_constraints_def [of r]]) simp_all
  qed (use ok [OF Some] in \<open>auto simp: conjunction_ok_def list_all_iff yields_spanned constraint_with_span_drop_def
      constraint_with_span_iterator_drop_def drops_free\<close>)
  show ?thesis unfolding read_conjunction_def Some option.map
    by (rule yields_with_optional_Some [OF get_conjunction(1) [of h p P q b, OF p q Some]], rule all)
      (simp_all add: conjunction_drop_def drops_free)
qed

section \<open>Properties\<close>



end
