(* ===== verification/C_Options.thy ===== *)
theory C_Options
  imports C_Objects C_Clients
begin

text \<open>
  \<open>c/src/driver_options.rs\<close>, \<open>driver_tls_config.rs\<close>, \<open>credentials.rs\<close>, \<open>transaction_options.rs\<close>,
  \<open>query_options.rs\<close> and \<open>c/src/server\<close>: the objects that configure a driver and describe its servers.
  Getters of options that are not set abort.  Functions whose name is that of a Rust function of the driver
  have the prefix \<open>c_\<close>.
\<close>

section \<open>Numbers\<close>

text \<open>
  A signed number is reinterpreted as unsigned for \<open>Duration::from_millis\<close>, and \<open>as_millis() as i64\<close> keeps
  the low 64 bits.
\<close>

definition millis_of :: "std_duration \<Rightarrow> i64" where
  "millis_of d = of_nat (as_millis d)"

text \<open>\<open>unwrap\<close> aborts.\<close>

definition unwrap_c :: "'a option \<Rightarrow> ('w, 'a) c" where
  "unwrap_c x = (case x of Some v \<Rightarrow> c_return v | None \<Rightarrow> c_abort)"

section \<open>TLS\<close>

definition driver_tls_config_new_disabled :: "('w, ptr) c" where
  "driver_tls_config_new_disabled = release tls_config_c tls_disabled"

definition driver_tls_config_new_enabled_with_native_root_ca :: "('w, ptr) c" where
  "driver_tls_config_new_enabled_with_native_root_ca = release tls_config_c enabled_with_native_root_ca"

definition driver_tls_config_new_enabled_with_root_ca_path :: "(string \<Rightarrow> (string, string) result) \<Rightarrow> ptr \<Rightarrow> ('w, ptr) c" where
  "driver_tls_config_new_enabled_with_root_ca_path read_file p = 
     c_bind (string_view string_c p) (\<lambda>path. try_release tls_config_c (enabled_with_root_ca read_file path))"

definition driver_tls_config_drop :: "ptr \<Rightarrow> ('w, unit) c" where
  "driver_tls_config_drop p = free tls_config_c p"

definition driver_tls_config_is_enabled :: "ptr \<Rightarrow> ('w, bool) c" where
  "driver_tls_config_is_enabled p = c_map (tls_is_enabled) (borrow tls_config_c p)"

definition driver_tls_config_has_root_ca_path :: "ptr \<Rightarrow> ('w, bool) c" where
  "driver_tls_config_has_root_ca_path p = c_map (\<lambda>x. root_ca_path x \<noteq> None) (borrow tls_config_c p)"

text \<open>A path is its text, which the conversion to text keeps.\<close>

definition driver_tls_config_get_root_ca_path :: "ptr \<Rightarrow> ('w, ptr) c" where
  "driver_tls_config_get_root_ca_path p = 
     c_bind (borrow tls_config_c p) (\<lambda>x. c_bind (unwrap_c (root_ca_path x)) (release_string string_c))"

section \<open>Options of a driver\<close>

definition c_driver_options_new :: "ptr \<Rightarrow> ('w, ptr) c" where
  "c_driver_options_new p = c_bind (borrow tls_config_c p) (\<lambda>x. release driver_options_c (driver_options_new x))"

definition driver_options_drop :: "ptr \<Rightarrow> ('w, unit) c" where
  "driver_options_drop p = free driver_options_c p"

definition driver_options_set_tls_config :: "ptr \<Rightarrow> ptr \<Rightarrow> ('w, unit) c" where
  "driver_options_set_tls_config p q = c_bind (borrow tls_config_c q) (\<lambda>t. borrow_mut driver_options_c p (\<lambda>x. ((), x\<lparr>tls_config := t\<rparr>)))"

definition driver_options_get_tls_config :: "ptr \<Rightarrow> ('w, ptr) c" where
  "driver_options_get_tls_config p = c_bind (borrow driver_options_c p) (\<lambda>x. release tls_config_c (tls_config x))"

definition driver_options_set_primary_failover_retries :: "ptr \<Rightarrow> i64 \<Rightarrow> ('w, unit) c" where
  "driver_options_set_primary_failover_retries p n = borrow_mut driver_options_c p (\<lambda>x. ((), x\<lparr>options_retries := unat n\<rparr>))"

definition driver_options_get_primary_failover_retries :: "ptr \<Rightarrow> ('w, i64) c" where
  "driver_options_get_primary_failover_retries p = c_map (\<lambda>x. of_nat (options_retries x)) (borrow driver_options_c p)"

definition driver_options_set_request_timeout_millis :: "ptr \<Rightarrow> i64 \<Rightarrow> ('w, unit) c" where
  "driver_options_set_request_timeout_millis p n = borrow_mut driver_options_c p (\<lambda>x. ((), x\<lparr>options_timeout := duration_from_millis n\<rparr>))"

definition driver_options_get_request_timeout_millis :: "ptr \<Rightarrow> ('w, i64) c" where
  "driver_options_get_request_timeout_millis p = c_map (\<lambda>x. millis_of (options_timeout x)) (borrow driver_options_c p)"

section \<open>Credentials\<close>

definition c_credentials_new :: "ptr \<Rightarrow> ptr \<Rightarrow> ('w, ptr) c" where
  "c_credentials_new p q = 
     c_bind (string_view string_c p) (\<lambda>u. c_bind (string_view string_c q) (\<lambda>w. release credentials_c (credentials_new u w)))"

definition credentials_drop :: "ptr \<Rightarrow> ('w, unit) c" where
  "credentials_drop p = free credentials_c p"

section \<open>Options of a transaction\<close>

definition c_transaction_options_new :: "('w, ptr) c" where
  "c_transaction_options_new = release transaction_options_c transaction_options_new"

definition transaction_options_drop :: "ptr \<Rightarrow> ('w, unit) c" where
  "transaction_options_drop p = free transaction_options_c p"

definition transaction_options_set_transaction_timeout_millis :: "ptr \<Rightarrow> i64 \<Rightarrow> ('w, unit) c" where
  "transaction_options_set_transaction_timeout_millis p n = borrow_mut transaction_options_c p (\<lambda>x. ((), x\<lparr>transaction_timeout := Some (duration_from_millis n)\<rparr>))"

definition transaction_options_get_transaction_timeout_millis :: "ptr \<Rightarrow> ('w, i64) c" where
  "transaction_options_get_transaction_timeout_millis p = 
     c_bind (borrow transaction_options_c p) (\<lambda>x. c_map millis_of (unwrap_c (transaction_timeout x)))"

definition transaction_options_has_transaction_timeout_millis :: "ptr \<Rightarrow> ('w, bool) c" where
  "transaction_options_has_transaction_timeout_millis p = c_map (\<lambda>x. transaction_timeout x \<noteq> None) (borrow transaction_options_c p)"

definition transaction_options_set_schema_lock_acquire_timeout_millis :: "ptr \<Rightarrow> i64 \<Rightarrow> ('w, unit) c" where
  "transaction_options_set_schema_lock_acquire_timeout_millis p n = borrow_mut transaction_options_c p (\<lambda>x. ((), x\<lparr>schema_lock_acquire_timeout := Some (duration_from_millis n)\<rparr>))"

definition transaction_options_get_schema_lock_acquire_timeout_millis :: "ptr \<Rightarrow> ('w, i64) c" where
  "transaction_options_get_schema_lock_acquire_timeout_millis p = 
     c_bind (borrow transaction_options_c p) (\<lambda>x. c_map millis_of (unwrap_c (schema_lock_acquire_timeout x)))"

definition transaction_options_has_schema_lock_acquire_timeout_millis :: "ptr \<Rightarrow> ('w, bool) c" where
  "transaction_options_has_schema_lock_acquire_timeout_millis p = c_map (\<lambda>x. schema_lock_acquire_timeout x \<noteq> None) (borrow transaction_options_c p)"

section \<open>Options of a query\<close>

definition c_query_options_new :: "('w, ptr) c" where
  "c_query_options_new = release query_options_c query_options_new"

definition query_options_drop :: "ptr \<Rightarrow> ('w, unit) c" where
  "query_options_drop p = free query_options_c p"

definition query_options_set_include_instance_types :: "ptr \<Rightarrow> bool \<Rightarrow> ('w, unit) c" where
  "query_options_set_include_instance_types p n = borrow_mut query_options_c p (\<lambda>x. ((), x\<lparr>include_instance_types := Some n\<rparr>))"

definition query_options_get_include_instance_types :: "ptr \<Rightarrow> ('w, bool) c" where
  "query_options_get_include_instance_types p = c_bind (borrow query_options_c p) (\<lambda>x. unwrap_c (include_instance_types x))"

definition query_options_has_include_instance_types :: "ptr \<Rightarrow> ('w, bool) c" where
  "query_options_has_include_instance_types p = c_map (\<lambda>x. include_instance_types x \<noteq> None) (borrow query_options_c p)"

definition query_options_set_prefetch_size :: "ptr \<Rightarrow> i64 \<Rightarrow> ('w, unit) c" where
  "query_options_set_prefetch_size p n = borrow_mut query_options_c p (\<lambda>x. ((), x\<lparr>prefetch_size := Some n\<rparr>))"

definition query_options_get_prefetch_size :: "ptr \<Rightarrow> ('w, i64) c" where
  "query_options_get_prefetch_size p = c_bind (borrow query_options_c p) (\<lambda>x. unwrap_c (prefetch_size x))"

definition query_options_has_prefetch_size :: "ptr \<Rightarrow> ('w, bool) c" where
  "query_options_has_prefetch_size p = c_map (\<lambda>x. prefetch_size x \<noteq> None) (borrow query_options_c p)"

definition query_options_set_include_query_structure :: "ptr \<Rightarrow> bool \<Rightarrow> ('w, unit) c" where
  "query_options_set_include_query_structure p n = borrow_mut query_options_c p (\<lambda>x. ((), x\<lparr>include_query_structure := Some n\<rparr>))"

definition query_options_get_include_query_structure :: "ptr \<Rightarrow> ('w, bool) c" where
  "query_options_get_include_query_structure p = c_bind (borrow query_options_c p) (\<lambda>x. unwrap_c (include_query_structure x))"

definition query_options_has_include_query_structure :: "ptr \<Rightarrow> ('w, bool) c" where
  "query_options_has_include_query_structure p = c_map (\<lambda>x. include_query_structure x \<noteq> None) (borrow query_options_c p)"

section \<open>Servers\<close>

definition server_iterator_next :: "ptr \<Rightarrow> ('w, ptr) c" where
  "server_iterator_next p = c_iterator_next server_iterator_c server_c p"

definition server_iterator_drop :: "ptr \<Rightarrow> ('w, unit) c" where
  "server_iterator_drop p = free server_iterator_c p"

definition server_drop :: "ptr \<Rightarrow> ('w, unit) c" where
  "server_drop p = free server_c p"

definition server_get_id :: "ptr \<Rightarrow> ('w, i64) c" where
  "server_get_id p = c_map (\<lambda>x. replica_id (server_replication_status x)) (borrow server_c p)"

text \<open>An address without an authority cannot be printed.\<close>

definition server_get_address :: "ptr \<Rightarrow> ('w, ptr) c" where
  "server_get_address p = 
     c_bind (borrow server_c p) (\<lambda>x. case server_address x of
       None \<Rightarrow> c_return null
     | Some a \<Rightarrow> c_bind (lift_result (address_display a)) (release_string string_c))"

definition server_has_role :: "ptr \<Rightarrow> ('w, bool) c" where
  "server_has_role p = c_map (\<lambda>x. replica_role (server_replication_status x) \<noteq> None) (borrow server_c p)"

definition server_get_role :: "ptr \<Rightarrow> ('w, replication_role) c" where
  "server_get_role p = c_bind (borrow server_c p) (\<lambda>x. unwrap_c (replica_role (server_replication_status x)))"

definition server_is_primary :: "ptr \<Rightarrow> ('w, bool) c" where
  "server_is_primary p = c_map (\<lambda>x. replica_is_primary (server_replication_status x)) (borrow server_c p)"

definition server_has_term :: "ptr \<Rightarrow> ('w, bool) c" where
  "server_has_term p = c_map (\<lambda>x. replica_term (server_replication_status x) \<noteq> None) (borrow server_c p)"

definition server_get_term :: "ptr \<Rightarrow> ('w, i64) c" where
  "server_get_term p = c_bind (borrow server_c p) (\<lambda>x. unwrap_c (replica_term (server_replication_status x)))"

section \<open>Routing\<close>

definition routing_new_auto :: "c_routing" where
  "routing_new_auto = \<lparr>c_routing_type = RoutingAuto, c_routing_address = null\<rparr>"

definition routing_new_direct :: "ptr \<Rightarrow> c_routing" where
  "routing_new_direct p = \<lparr>c_routing_type = RoutingDirect, c_routing_address = p\<rparr>"

text \<open>\<open>Address::default()\<close> holds the default URI, which is a path only.\<close>

definition default_uri_address :: "address" where
  "default_uri_address = Address \<lparr>scheme = None, authority = None, path_and_query = Some default_path\<rparr>"

definition routing_to_native :: "http_lib \<Rightarrow> c_routing \<Rightarrow> ('w, server_routing) c" where
  "routing_to_native http r = 
     (case c_routing_type r of
        RoutingAuto \<Rightarrow> c_return Auto
      | RoutingDirect \<Rightarrow>
          c_bind (string_view string_c (c_routing_address r)) (\<lambda>t.
          c_map DirectTo (unwrap_or_default default_uri_address (address_from_str http t))))"

definition routing_drop_value :: "c_routing \<Rightarrow> ('w, unit) c" where
  "routing_drop_value r = string_free string_c (c_routing_address r)"

definition server_routing_auto :: "('w, ptr) c" where
  "server_routing_auto = release routing_c routing_new_auto"

definition server_routing_direct :: "ptr \<Rightarrow> ('w, ptr) c" where
  "server_routing_direct p = 
     c_bind (string_view string_c p) (\<lambda>t. c_bind (release_string string_c t) (\<lambda>a. release routing_c (routing_new_direct a)))"

definition server_routing_drop :: "ptr \<Rightarrow> ('w, unit) c" where
  "server_routing_drop p = free_with routing_drop_value routing_c p"

definition native_server_routing :: "http_lib \<Rightarrow> ptr \<Rightarrow> ('w, server_routing option) c" where
  "native_server_routing http p = 
     c_bind (borrow_optional routing_c p) (\<lambda>r. case r of
       None \<Rightarrow> c_return None
     | Some x \<Rightarrow> c_map Some (routing_to_native http x))"

definition routing_from_native :: "server_routing \<Rightarrow> ('w, c_routing) c" where
  "routing_from_native r = 
     (case r of
        Auto \<Rightarrow> c_return routing_new_auto
      | DirectTo a \<Rightarrow> c_bind (lift_result (address_display a)) (\<lambda>t. c_map routing_new_direct (release_string string_c t)))"

section \<open>Versions\<close>

definition c_version_new :: "string \<Rightarrow> string \<Rightarrow> ('w, c_version) c" where
  "c_version_new d v = 
     c_bind (release_string string_c d) (\<lambda>a. c_bind (release_string string_c v) (\<lambda>b.
       c_return \<lparr>c_distribution = a, c_version = b\<rparr>))"

definition c_version_default :: "c_version" where
  "c_version_default = \<lparr>c_distribution = null, c_version = null\<rparr>"

definition c_version_drop_value :: "c_version \<Rightarrow> ('w, unit) c" where
  "c_version_drop_value x = 
     c_bind (string_free string_c (c_distribution x)) (\<lambda>_. string_free string_c (c_version.c_version x))"

definition server_version_drop :: "ptr \<Rightarrow> ('w, unit) c" where
  "server_version_drop p = free_with c_version_drop_value version_c p"

end
