(* ===== verification/C_Driver.thy ===== *)
theory C_Driver
  imports C_Options
begin

text \<open>
  \<open>c/src/driver.rs\<close>, \<open>c/src/database\<close> and \<open>c/src/user\<close>: drivers, databases and users through the C
  interface (without the import and export of files, see \<open>C_Files\<close>).  A driver on the heap is a number
  in a table of drivers, which databases and users share with it; the network outside and the time are shared by
  all of them.  Closing a driver gives back its handle only: the others that refer to the driver still work.
\<close>

section \<open>Drivers\<close>

record 'w c_world =
  outside :: 'w
  clock :: nat
  managers :: "(driver_params \<times> 'w driver) list"

text \<open>What the operating system, the network library and the build give; \<open>pf_hash_order\<close> is the order in which a hash map is walked.\<close>

record platform =
  pf_env :: rpc_env
  pf_tls_rejects :: "network_tls_config \<Rightarrow> string option"
  pf_version :: string
  pf_runtime_error :: "string option"
  pf_hash_order :: "(string \<times> string) list \<Rightarrow> (string \<times> string) list"

type_synonym ('w, 'a) d = "('w c_world, 'a) c"

definition c_driver_lang :: string where
  "c_driver_lang = ''c''"

definition driver_lang_or_default :: "ptr \<Rightarrow> ('w, string) d" where
  "driver_lang_or_default p = (if p = null then c_return c_driver_lang else string_view string_c p)"

text \<open>An operation of a driver, in the world as it is now.\<close>

definition in_world :: "'w c_world \<Rightarrow> 'w driver \<Rightarrow> 'w driver" where
  "in_world w d = d\<lparr>network_state := (network_state d)\<lparr>world_clock := clock w, world_grpc := outside w\<rparr>\<rparr>"

definition after_driver :: "'w driver_world \<Rightarrow> 'w c_world \<Rightarrow> 'w c_world" where
  "after_driver n w = w\<lparr>outside := world_grpc n, clock := world_clock n\<rparr>"

definition with_driver :: "nat \<Rightarrow> (driver_params \<Rightarrow> ('w driver, 'a) io) \<Rightarrow> ('w, ('a, error) result) d" where
  "with_driver i f s =
     (if i < length (managers (world s)) then
        (let w = world s;
             (p, d) = managers w ! i;
             (r, d1) = f p (in_world w d)
         in Done (r, s\<lparr>world := (after_driver (network_state d1) w)\<lparr>managers := (managers w)[i := (p, d1)]\<rparr>\<rparr>))
      else Undefined)"

definition on_driver :: "ptr \<Rightarrow> (driver_params \<Rightarrow> ('w driver, 'a) io) \<Rightarrow> ('w, ('a, error) result) d" where
  "on_driver p f = c_bind (borrow driver_c p) (\<lambda>i. with_driver i f)"

definition fresh_world :: "'w c_world \<Rightarrow> 'w driver_world" where
  "fresh_world w = \<lparr>runtime_open = False, worker_alive = False, connections = [], world_clock = clock w,
     world_grpc = outside w, shut_down = []\<rparr>"

definition open_driver :: "platform \<Rightarrow> 'w grpc \<Rightarrow> addresses \<Rightarrow> credentials \<Rightarrow> driver_options \<Rightarrow> string \<Rightarrow> ('w, (nat, error) result) d" where
  "open_driver pf g configured c options lang s =
     (let w = world s;
          p = \<lparr>params_env = pf_env pf, params_tls_rejects = pf_tls_rejects pf, params_options = options,
               params_credentials = c, params_lang = lang, params_version = pf_version pf\<rparr>
      in case new_with_description p g (pf_runtime_error pf) configured (fresh_world w) of
           (Ok d, n) \<Rightarrow> Done (Ok (length (managers w)), s\<lparr>world := (after_driver n w)\<lparr>managers := managers w @ [(p, d)]\<rparr>\<rparr>)
         | (Err e, n) \<Rightarrow> Done (Err e, s\<lparr>world := after_driver n w\<rparr>)
         | (Panic, n) \<Rightarrow> Abort)"

definition new_driver :: "platform \<Rightarrow> 'w grpc \<Rightarrow> (addresses, error) result \<Rightarrow> ptr \<Rightarrow> ptr \<Rightarrow> ptr \<Rightarrow> ('w, ptr) d" where
  "new_driver pf g configured credentials options lang =
     c_bind (unwrap_or_default addresses_default configured) (\<lambda>a.
     c_bind (borrow credentials_c credentials) (\<lambda>c.
     c_bind (borrow driver_options_c options) (\<lambda>o'.
     c_bind (driver_lang_or_default lang) (\<lambda>l.
     c_bind (open_driver pf g a c o' l) (try_release driver_c)))))"

definition c_driver_new :: "platform \<Rightarrow> 'w grpc \<Rightarrow> ptr \<Rightarrow> ptr \<Rightarrow> ptr \<Rightarrow> ptr \<Rightarrow> ('w, ptr) d" where
  "c_driver_new pf g address credentials options lang =
     c_bind (string_view string_c address) (\<lambda>t.
       new_driver pf g (try_from_address_str (rpc_http (pf_env pf)) t) credentials options lang)"

text \<open>The addresses of an array are read one by one, until one of them is not an address.\<close>

fun view_addresses :: "http_lib \<Rightarrow> ptr list \<Rightarrow> ('w, (address list, error) result) d" where
  "view_addresses http [] = c_return (Ok [])"
| "view_addresses http (p # ps) =
     c_bind (string_view string_c p) (\<lambda>t.
       case address_from_str http t of
         Ok a \<Rightarrow> c_map (map_ok (Cons a)) (view_addresses http ps)
       | Err e \<Rightarrow> c_return (Err e)
       | Panic \<Rightarrow> c_abort)"

definition driver_new_with_addresses :: "platform \<Rightarrow> 'w grpc \<Rightarrow> ptr \<Rightarrow> ptr \<Rightarrow> ptr \<Rightarrow> ptr \<Rightarrow> ('w, ptr) d" where
  "driver_new_with_addresses pf g addresses credentials options lang =
     c_bind (borrow pointers_c addresses) (\<lambda>ps.
     c_bind (view_addresses (rpc_http (pf_env pf)) ps) (\<lambda>r.
       new_driver pf g (map_ok from_addresses r) credentials options lang))"

text \<open>\<open>zip_eq\<close> panics when one of the arrays is longer.\<close>

fun iterators_to_map :: "ptr list \<Rightarrow> ptr list \<Rightarrow> (string \<times> string) list \<Rightarrow> ('w, (string \<times> string) list) d" where
  "iterators_to_map [] [] m = c_return m"
| "iterators_to_map (p # ps) (q # qs) m =
     c_bind (string_view string_c p) (\<lambda>k. c_bind (string_view string_c q) (\<lambda>v. iterators_to_map ps qs (hm_insert k v m)))"
| "iterators_to_map (p # ps) [] m = c_bind (string_view string_c p) (\<lambda>_. c_abort)"
| "iterators_to_map [] (q # qs) m = c_bind (string_view string_c q) (\<lambda>_. c_abort)"

definition driver_new_with_address_translation ::
    "platform \<Rightarrow> 'w grpc \<Rightarrow> ptr \<Rightarrow> ptr \<Rightarrow> ptr \<Rightarrow> ptr \<Rightarrow> ptr \<Rightarrow> ('w, ptr) d" where
  "driver_new_with_address_translation pf g public_addresses private_addresses credentials options lang =
     c_bind (borrow pointers_c public_addresses) (\<lambda>ps. c_bind (borrow pointers_c private_addresses) (\<lambda>qs.
     c_bind (iterators_to_map ps qs []) (\<lambda>m.
       new_driver pf g (try_from_translation_str (rpc_http (pf_env pf)) (pf_hash_order pf m)) credentials options lang)))"

definition driver_close :: "ptr \<Rightarrow> ('w, unit) d" where
  "driver_close = free driver_c"

definition c_driver_force_close :: "'w grpc \<Rightarrow> ptr \<Rightarrow> ('w, unit) d" where
  "c_driver_force_close g p = c_bind (on_driver p (\<lambda>pr. driver_force_close pr g)) unwrap_void"

definition c_driver_is_open :: "ptr \<Rightarrow> ('w, bool) d" where
  "c_driver_is_open p = c_bind (on_driver p (\<lambda>_ d. (Ok (driver_is_open d), d))) lift_result"

text \<open>Where a task goes: a null pointer stands for no routing.\<close>

definition on_driver_routed ::
    "http_lib \<Rightarrow> ptr \<Rightarrow> ptr \<Rightarrow> (driver_params \<Rightarrow> ('w driver, 'a) io) \<Rightarrow> (driver_params \<Rightarrow> server_routing \<Rightarrow> ('w driver, 'a) io)
     \<Rightarrow> ('w, ('a, error) result) d" where
  "on_driver_routed http p routing f f_with_routing =
     c_bind (borrow driver_c p) (\<lambda>i. c_bind (native_server_routing http routing) (\<lambda>r. case r of
       Some x \<Rightarrow> with_driver i (\<lambda>pr. f_with_routing pr x)
     | None \<Rightarrow> with_driver i f))"

definition c_driver_server_version :: "platform \<Rightarrow> 'w grpc \<Rightarrow> ptr \<Rightarrow> ptr \<Rightarrow> ('w, ptr) d" where
  "c_driver_server_version pf g p routing =
     c_bind (on_driver_routed (rpc_http (pf_env pf)) p routing (\<lambda>pr. driver_server_version pr g)
       (\<lambda>pr r. server_version_with_routing pr g r)) (\<lambda>r.
     c_bind (case r of
         Ok v \<Rightarrow> c_version_new (distribution v) (server_version.version v)
       | Err e \<Rightarrow> c_bind (record_error e) (\<lambda>_. c_return c_version_default)
       | Panic \<Rightarrow> c_abort)
     (release version_c))"

definition c_driver_servers :: "platform \<Rightarrow> 'w grpc \<Rightarrow> ptr \<Rightarrow> ptr \<Rightarrow> ('w, ptr) d" where
  "c_driver_servers pf g p routing =
     c_bind (on_driver_routed (rpc_http (pf_env pf)) p routing (\<lambda>pr. driver_servers pr g)
       (\<lambda>pr r. servers_with_routing pr g r)) (\<lambda>r.
     c_bind (unwrap_or_default [] r) (release server_iterator_c))"

definition c_driver_primary_server :: "platform \<Rightarrow> 'w grpc \<Rightarrow> ptr \<Rightarrow> ptr \<Rightarrow> ('w, ptr) d" where
  "c_driver_primary_server pf g p routing =
     c_bind (on_driver_routed (rpc_http (pf_env pf)) p routing (\<lambda>pr. driver_primary_server pr g)
       (\<lambda>pr r. primary_server_with_routing pr g r)) (\<lambda>r.
     try_release_optional server_c (transpose (map_ok (map_option Available) r)))"

section \<open>Databases\<close>

definition database_iterator_next :: "ptr \<Rightarrow> ('w, ptr) d" where
  "database_iterator_next = c_iterator_next database_iterator_c database_c"

definition database_iterator_drop :: "ptr \<Rightarrow> ('w, unit) d" where
  "database_iterator_drop = free database_iterator_c"

text \<open>The operations of a driver that get a name, or two texts, from the caller.\<close>

definition on_driver_named ::
    "ptr \<Rightarrow> ptr \<Rightarrow> (string \<Rightarrow> driver_params \<Rightarrow> ('w driver, 'a) io) \<Rightarrow> ('w, nat \<times> ('a, error) result) d" where
  "on_driver_named p name f =
     c_bind (borrow driver_c p) (\<lambda>i. c_bind (string_view string_c name) (\<lambda>t. c_map (Pair i) (with_driver i (f t))))"

definition c_databases_all :: "'w grpc \<Rightarrow> ptr \<Rightarrow> ('w, ptr) d" where
  "c_databases_all g p =
     c_bind (borrow driver_c p) (\<lambda>i. c_bind (with_driver i (\<lambda>pr. databases_all_of pr g)) (\<lambda>r.
       try_release database_iterator_c (map_ok (map (Pair i)) r)))"

definition c_databases_contains :: "'w grpc \<Rightarrow> ptr \<Rightarrow> ptr \<Rightarrow> ('w, bool) d" where
  "c_databases_contains g p name =
     c_bind (on_driver_named p name (\<lambda>t pr. databases_contain pr g t)) (\<lambda>(i, r). unwrap_or_default False r)"

definition c_databases_get :: "'w grpc \<Rightarrow> ptr \<Rightarrow> ptr \<Rightarrow> ('w, ptr) d" where
  "c_databases_get g p name =
     c_bind (on_driver_named p name (\<lambda>t pr. databases_get_of pr g t)) (\<lambda>(i, r).
       try_release database_c (map_ok (Pair i) r))"

definition c_databases_create :: "'w grpc \<Rightarrow> ptr \<Rightarrow> ptr \<Rightarrow> ('w, unit) d" where
  "c_databases_create g p name =
     c_bind (on_driver_named p name (\<lambda>t pr. create_database_of pr g t)) (\<lambda>(i, r). unwrap_void r)"

definition database_close :: "ptr \<Rightarrow> ('w, unit) d" where
  "database_close = decrement_arc database_c"

definition c_database_get_name :: "ptr \<Rightarrow> ('w, ptr) d" where
  "c_database_get_name p = c_bind (borrow database_c p) (\<lambda>(i, db). release_string string_c (database_name db))"

text \<open>\<open>Arc::from_raw\<close> does not look at the pointer.\<close>

definition take_arc :: "('o, 'a) c_type \<Rightarrow> ptr \<Rightarrow> ('w, 'o, 'a) c_op" where
  "take_arc T p = (if p = null then (\<lambda>_. Undefined) else take_ownership T p)"

definition c_database_delete :: "'w grpc \<Rightarrow> ptr \<Rightarrow> ('w, unit) d" where
  "c_database_delete g p =
     c_bind (take_arc database_c p) (\<lambda>(i, db). c_bind (with_driver i (\<lambda>pr. database_delete_of pr g db)) unwrap_void)"

definition c_database_schema :: "'w grpc \<Rightarrow> ptr \<Rightarrow> ('w, ptr) d" where
  "c_database_schema g p =
     c_bind (borrow database_c p) (\<lambda>(i, db). c_bind (with_driver i (\<lambda>pr. database_schema_of pr g db)) (try_release_string string_c))"

definition c_database_type_schema :: "'w grpc \<Rightarrow> ptr \<Rightarrow> ('w, ptr) d" where
  "c_database_type_schema g p =
     c_bind (borrow database_c p) (\<lambda>(i, db). c_bind (with_driver i (\<lambda>pr. database_type_schema_of pr g db)) (try_release_string string_c))"

section \<open>Users\<close>

definition user_iterator_next :: "ptr \<Rightarrow> ('w, ptr) d" where
  "user_iterator_next = c_iterator_next user_iterator_c user_c"

definition user_iterator_drop :: "ptr \<Rightarrow> ('w, unit) d" where
  "user_iterator_drop = free user_iterator_c"

definition c_users_all :: "'w grpc \<Rightarrow> ptr \<Rightarrow> ('w, ptr) d" where
  "c_users_all g p =
     c_bind (borrow driver_c p) (\<lambda>i. c_bind (with_driver i (\<lambda>pr. users_all_of pr g)) (\<lambda>r.
       try_release user_iterator_c (map_ok (map (Pair i)) r)))"

definition c_users_contains :: "'w grpc \<Rightarrow> ptr \<Rightarrow> ptr \<Rightarrow> ('w, bool) d" where
  "c_users_contains g p name =
     c_bind (on_driver_named p name (\<lambda>t pr. users_contain pr g t)) (\<lambda>(i, r). unwrap_or_default False r)"

definition release_user :: "nat \<times> (user option, error) result \<Rightarrow> ('w, ptr) d" where
  "release_user x = try_release_optional user_c (transpose (map_ok (map_option (Pair (fst x))) (snd x)))"

definition c_users_get :: "'w grpc \<Rightarrow> ptr \<Rightarrow> ptr \<Rightarrow> ('w, ptr) d" where
  "c_users_get g p name = c_bind (on_driver_named p name (\<lambda>t pr. users_get_of pr g t)) release_user"

definition users_get_current :: "'w grpc \<Rightarrow> ptr \<Rightarrow> ('w, ptr) d" where
  "users_get_current g p =
     c_bind (borrow driver_c p) (\<lambda>i. c_bind (with_driver i (\<lambda>pr. get_current pr g)) (\<lambda>r. release_user (i, r)))"

definition c_users_create :: "'w grpc \<Rightarrow> ptr \<Rightarrow> ptr \<Rightarrow> ptr \<Rightarrow> ('w, unit) d" where
  "c_users_create g p name pw =
     c_bind (borrow driver_c p) (\<lambda>i. c_bind (string_view string_c name) (\<lambda>u. c_bind (string_view string_c pw) (\<lambda>w.
     c_bind (with_driver i (\<lambda>pr. create_user_of pr g u w)) unwrap_void)))"

definition user_drop :: "ptr \<Rightarrow> ('w, unit) d" where
  "user_drop = free user_c"

definition user_get_name :: "ptr \<Rightarrow> ('w, ptr) d" where
  "user_get_name p = c_bind (borrow user_c p) (\<lambda>(i, u). release_string string_c (user_name u))"

definition user_update_password :: "'w grpc \<Rightarrow> ptr \<Rightarrow> ptr \<Rightarrow> ('w, unit) d" where
  "user_update_password g p pw =
     c_bind (borrow user_c p) (\<lambda>(i, u). c_bind (string_view string_c pw) (\<lambda>w.
     c_bind (with_driver i (\<lambda>pr. update_password_of pr g u w)) unwrap_void))"

definition user_delete :: "'w grpc \<Rightarrow> ptr \<Rightarrow> ('w, unit) d" where
  "user_delete g p =
     c_bind (take_ownership user_c p) (\<lambda>(i, u). c_bind (with_driver i (\<lambda>pr. delete_user_of pr g u)) unwrap_void)"

end
