(* ===== verification/C_Driver_Clients.thy ===== *)
theory C_Driver_Clients
  imports C_Driver
begin

text \<open>
  What callers of \<open>c/src\<close> see of options, of addresses that cannot be parsed, and of the error flag.
\<close>

section \<open>Options\<close>

lemma as_millis_from_millis: "as_millis (duration_from_millis n) = unat n"
  by (simp add: as_millis_def duration_from_millis_def subsec_millis_def)

lemma millis_round_trip [simp]: "millis_of (duration_from_millis n) = n"
  by (simp add: millis_of_def as_millis_from_millis)

text \<open>A setter of an object on the heap, and a getter after it.\<close>

lemma borrow_mut_state:
  "c_ok s \<Longrightarrow> heap s p = Some (boxed T x) \<Longrightarrow> unboxed T (boxed T x) = Some x
    \<Longrightarrow> borrow_mut T p (\<lambda>x. ((), f x)) s = Done ((), s\<lparr>heap := (heap s)(p := Some (boxed T (f x)))\<rparr>)"
  using borrow_mut_live [of s p T x "\<lambda>x. ((), f x)" "()" "f x"] c_okD by metis

lemma get_state:
  "c_ok s \<Longrightarrow> heap s p = Some (boxed T x) \<Longrightarrow> unboxed T (boxed T x) = Some x \<Longrightarrow> c_map f (borrow T p) s = Done (f x, s)"
  using borrow_live [of s p T x] c_okD [of s p "boxed T x"] by (simp add: c_map_def c_bind_def)

definition set_all_options :: "ptr \<Rightarrow> ptr \<Rightarrow> i64 \<Rightarrow> i64 \<Rightarrow> i64 \<Rightarrow> i64 \<Rightarrow> ('w, unit) c" where
  "set_all_options o' t request retries transaction lock =
     c_bind (driver_options_set_request_timeout_millis o' request) (\<lambda>_.
     c_bind (driver_options_set_primary_failover_retries o' retries) (\<lambda>_.
     c_bind (transaction_options_set_transaction_timeout_millis t transaction) (\<lambda>_.
       transaction_options_set_schema_lock_acquire_timeout_millis t lock)))"

definition get_all_options :: "ptr \<Rightarrow> ptr \<Rightarrow> ('w, i64 \<times> i64 \<times> i64 \<times> i64) c" where
  "get_all_options o' t =
     c_bind (driver_options_get_request_timeout_millis o') (\<lambda>a.
     c_bind (driver_options_get_primary_failover_retries o') (\<lambda>b.
     c_bind (transaction_options_get_transaction_timeout_millis t) (\<lambda>c.
     c_bind (transaction_options_get_schema_lock_acquire_timeout_millis t) (\<lambda>d. c_return (a, b, c, d)))))"

text \<open>
  every 64-bit number that is set as an option is read back, negative ones included, although the
  driver takes a negative timeout as one of more than 500 million years, and a negative number of
  retries as one of more than nine quintillions.
\<close>

theorem options_read_back:
  assumes "c_ok s" "heap s o' = Some (boxed driver_options_c x)" "heap s t = Some (boxed transaction_options_c y)" "o' \<noteq> t"
  shows "\<exists>x' y'. c_bind (set_all_options o' t a b c d) (\<lambda>_. get_all_options o' t) s
      = Done ((a, b, c, d), s\<lparr>heap := (heap s)(o' := Some (boxed driver_options_c x'), t := Some (boxed transaction_options_c y'))\<rparr>)
    \<and> tls_config x' = tls_config x \<and> options_retries x' = unat b \<and> as_millis (options_timeout x') = unat a
    \<and> map_option as_millis (transaction_timeout y') = Some (unat c)
    \<and> map_option as_millis (schema_lock_acquire_timeout y') = Some (unat d)"
proof -
  let ?x = "x\<lparr>options_timeout := duration_from_millis a, options_retries := unat b\<rparr>"
  let ?y = "y\<lparr>transaction_timeout := Some (duration_from_millis c), schema_lock_acquire_timeout := Some (duration_from_millis d)\<rparr>"
  let ?s = "s\<lparr>heap := (heap s)(o' := Some (boxed driver_options_c ?x), t := Some (boxed transaction_options_c ?y))\<rparr>"
  have ptrs: "o' \<noteq> null" "t \<noteq> null" using c_okD [OF assms(1)] assms(2,3) by auto
  have "set_all_options o' t a b c d s = Done ((), ?s)"
    using assms ptrs
    by (simp add: set_all_options_def driver_options_set_request_timeout_millis_def
        driver_options_set_primary_failover_retries_def transaction_options_set_transaction_timeout_millis_def
        transaction_options_set_schema_lock_acquire_timeout_millis_def borrow_mut_def c_bind_def borrow_live
        fun_upd_twist)
  moreover have "get_all_options o' t ?s = Done ((a, b, c, d), ?s)"
    using assms(4) ptrs
    by (simp add: get_all_options_def driver_options_get_request_timeout_millis_def
        driver_options_get_primary_failover_retries_def transaction_options_get_transaction_timeout_millis_def
        transaction_options_get_schema_lock_acquire_timeout_millis_def c_map_def c_bind_def borrow_live unwrap_c_def)
  ultimately show ?thesis
    by (intro exI [of _ ?x] exI [of _ ?y]) (simp add: c_bind_def as_millis_from_millis)
qed

theorem options_read_back_witness:
  "\<exists>x' y'. c_bind (set_all_options 1 2 5000 3 (- 1) 250) (\<lambda>_. get_all_options 1 2)
      \<lparr>heap = [1 \<mapsto> boxed driver_options_c driver_options_default, 2 \<mapsto> boxed transaction_options_c transaction_options_new],
       next_free = 3, last_error = None, world = ()\<rparr>
    = Done ((5000, 3, - 1, 250), \<lparr>heap = [1 \<mapsto> boxed driver_options_c x', 2 \<mapsto> boxed transaction_options_c y'],
       next_free = 3, last_error = None, world = ()\<rparr>)
    \<and> map_option as_millis (transaction_timeout y') = Some (2 ^ 64 - 1)"
  (is "\<exists>x' y'. c_bind _ _ ?s = _ \<and> _")
proof -
  have u: "unat (- 1 :: i64) = 2 ^ 64 - 1" by (simp add: unsigned_minus_1_eq_mask mask_eq_exp_minus_1)
  have "c_ok ?s" by (simp add: c_ok_def null_def)
  from options_read_back [OF this, of 1 driver_options_default 2 transaction_options_new 5000 3 "- 1" 250]
  obtain x' y' where "c_bind (set_all_options 1 2 5000 3 (- 1) 250) (\<lambda>_. get_all_options 1 2) ?s
      = Done ((5000, 3, - 1, 250), ?s\<lparr>heap := (heap ?s)(1 := Some (boxed driver_options_c x'), 2 := Some (boxed transaction_options_c y'))\<rparr>)"
    "map_option as_millis (transaction_timeout y') = Some (2 ^ 64 - 1)" by (auto simp: u)
  then show ?thesis by (intro exI [of _ x'] exI [of _ y']) (simp add: fun_upd_def cong: if_cong)
qed

section \<open>Addresses that cannot be parsed\<close>

definition report_version :: "platform \<Rightarrow> 'w grpc \<Rightarrow> ptr \<Rightarrow> ptr \<Rightarrow> ('w, ptr) d" where
  "report_version pf g p routing =
     c_bind (c_driver_server_version pf g p routing) (\<lambda>_.
     c_bind (get_last_error error_c) (c_error_message (rpc_http (pf_env pf)) error_c string_c))"

lemma unknown_direct:
  "a \<notin> available_address ` set (replicas m) \<Longrightarrow> execute http net (DirectTo a) task m
    = (Err (Connection (UnknownDirectServerRouting a (Direct (map available_address (replicas m))))), m)"
  by (auto simp: execute_def find_None_iff accessed_addresses_def from_addresses_def)

lemma default_address_has_no_text: "address_display default_uri_address = Panic"
  by (simp add: address_display_def default_uri_address_def)

text \<open>
  A routing to an address that cannot be parsed is taken as one to the default address, which is no server.
  The error of the address is replaced by that of the routing, whose message cannot be printed: asking for it
  aborts the process.
\<close>

lemma malformed_direct_address_aborts:
  assumes "c_ok s" "heap s p = Some (boxed driver_c i)" "i < length (managers (world s))"
    and "heap s r = Some (boxed routing_c (routing_new_direct a))" "heap s a = Some (boxed string_c t)" "valid_utf8 t"
    and "address_from_str (rpc_http (pf_env pf)) t = Err e"
    and "default_uri_address \<notin> available_address ` set (replicas (snd (managers (world s) ! i)))"
  shows "report_version pf g p r s = Abort"
proof -
  have ptrs: "p \<noteq> null" "r \<noteq> null" "a \<noteq> null" using c_okD [OF assms(1)] assms(2,4,5) by auto
  obtain pr d where m: "managers (world s) ! i = (pr, d)" by fastforce
  let ?known = "Direct (map available_address (replicas d))"
  have "\<exists>s1. c_driver_server_version pf g p r s = Done (next_free s, s1)
      \<and> last_error s1 = Some (Connection (UnknownDirectServerRouting default_uri_address ?known))
      \<and> next_free s1 = Suc (next_free s)"
    using assms ptrs m
    by (simp add: c_driver_server_version_def on_driver_routed_def native_server_routing_def borrow_optional_def
        routing_to_native_def routing_new_direct_def string_view_def c_bind_def c_map_def borrow_live
        unwrap_or_default_def ok_record_def record_error_def with_driver_def Let_def
        server_version_with_routing_def run_def unknown_direct in_world_def release_def split: prod.split)
  then obtain s1 where s1: "c_driver_server_version pf g p r s = Done (next_free s, s1)"
    "last_error s1 = Some (Connection (UnknownDirectServerRouting default_uri_address ?known))"
    "next_free s1 = Suc (next_free s)" by blast
  show ?thesis
    by (simp add: report_version_def c_bind_def s1 get_last_error_def release_optional_def release_def
        c_error_message_def deref_def borrow_def null_def lift_result_def default_address_has_no_text)
qed

text \<open>
  An address of a new driver that cannot be parsed is replaced by no addresses at all, and its error by that
  of a driver without servers.
\<close>

lemma malformed_address_replaced:
  assumes "c_ok s" "heap s p = Some (boxed string_c t)" "valid_utf8 t" "heap s c = Some (boxed credentials_c cr)"
    and "heap s q = Some (boxed driver_options_c x)" "address_from_str (rpc_http (pf_env pf)) t = Err e" "pf_runtime_error pf = None"
  shows "\<exists>s1. c_driver_new pf g p c q null s = Done (null, s1)
    \<and> last_error s1 = Some (Connection (ServerConnectionFailed (Direct []) (Direct []) []))"
proof -
  have "p \<noteq> null" "c \<noteq> null" "q \<noteq> null" using c_okD [OF assms(1)] assms(2,4,5) by auto
  then show ?thesis using assms
    by (simp add: c_driver_new_def new_driver_def string_view_def c_bind_def c_map_def borrow_live try_from_address_str_def
        unwrap_or_default_def ok_record_def record_error_def addresses_default_def driver_lang_or_default_def
        open_driver_def Let_def new_with_description_def manager_new_def addresses_iter_def try_release_def release_optional_def)
qed

section \<open>The error flag\<close>

text \<open>A call that succeeds leaves the error of an earlier one in place.\<close>

lemma error_flag_survives_success:
  "c_bind (unwrap_void (Err e)) (\<lambda>_. c_bind (unwrap_void (Ok ())) (\<lambda>_. check_error)) s = Done (True, s\<lparr>last_error := Some e\<rparr>)"
  by (simp add: unwrap_void_def c_map_def c_bind_def ok_record_def record_error_def check_error_def)

text \<open>A text with a zero byte cannot cross the interface.\<close>

lemma zero_byte_aborts: "nul \<in> set t \<Longrightarrow> release_string T t s = Abort"
  by (simp add: release_string_def)

end
