(* ===== verification/C_Concepts.thy ===== *)
theory C_Concepts
  imports C_Objects C_Clients
begin

text \<open>
  \<open>c/src/concept\<close> and \<open>c/src/answer.rs\<close>: concepts, values, rows and answers through the C interface.  A getter
  for another kind of value aborts, and so does a constructor on a moment, a zone or a fraction that does not
  exist.  A value of a date is the second its day begins with.
\<close>

section \<open>Moments\<close>

text \<open>
  What the functions ask of \<open>chrono\<close> beyond the conversions of the protocol: the first moment of a day, the
  day of a moment, and zones by their name in any case.
\<close>

record c_chrono = chrono_lib +
  start_of_day :: "naive_date \<Rightarrow> i64"
  day_of :: "naive_datetime \<Rightarrow> naive_date"
  tz_from_str_insensitive :: "string \<Rightarrow> string option"

definition datetime_in_nanos_new :: "c_chrono \<Rightarrow> naive_datetime \<Rightarrow> c_datetime" where
  "datetime_in_nanos_new chrono dt = \<lparr>c_seconds = timestamp chrono dt, c_subsec_nanos = nanosecond chrono dt\<rparr>"

definition datetime_and_time_zone_new :: "c_chrono \<Rightarrow> datetime_tz \<Rightarrow> ('w, c_datetime_tz) c" where
  "datetime_and_time_zone_new chrono dt = 
     (let (zone_name, offset, is_fixed_offset) =
        (case dt_zone dt of IANA tz \<Rightarrow> (tz, 0, False) | Fixed off \<Rightarrow> ([], local_minus_utc chrono off, True))
      in c_map (\<lambda>z. \<lparr>c_datetime_in_nanos = datetime_in_nanos_new chrono (dt_utc dt), c_zone_name = z,
           c_local_minus_utc = offset, c_is_fixed_offset = is_fixed_offset\<rparr>)
         (release_string string_c zone_name))"

definition datetime_and_time_zone_drop :: "ptr \<Rightarrow> ('w, unit) c" where
  "datetime_and_time_zone_drop = free_with (\<lambda>x. string_free string_c (c_zone_name x)) zoned_datetime_c"

section \<open>Fields of structs\<close>

definition string_and_opt_value_from :: "string \<times> cvalue option \<Rightarrow> ('w, c_field) c" where
  "string_and_opt_value_from f = 
     c_bind (release_string string_c (fst f)) (\<lambda>s.
     c_bind (release_optional concept_c (map_option CValue (snd f))) (\<lambda>v.
       c_return \<lparr>c_field_name = s, c_field_value = v\<rparr>))"

definition concept_drop :: "ptr \<Rightarrow> ('w, unit) c" where
  "concept_drop = free concept_c"

text \<open>The fields are converted when they are asked for.\<close>

definition string_and_opt_value_iterator_next :: "ptr \<Rightarrow> ('w, ptr) c" where
  "string_and_opt_value_iterator_next p = 
     c_bind (borrow_mut field_iterator_c p pop) (\<lambda>f. case f of
       None \<Rightarrow> c_return null
     | Some x \<Rightarrow> c_bind (string_and_opt_value_from x) (release field_c))"

definition string_and_opt_value_iterator_drop :: "ptr \<Rightarrow> ('w, unit) c" where
  "string_and_opt_value_iterator_drop = free field_iterator_c"

definition string_and_opt_value_drop :: "ptr \<Rightarrow> ('w, unit) c" where
  "string_and_opt_value_drop = 
     free_with (\<lambda>x. c_bind (string_free string_c (c_field_name x)) (\<lambda>_. concept_drop (c_field_value x))) field_c"

section \<open>Reading concepts\<close>

definition concept_try_get_iid :: "ptr \<Rightarrow> ('w, ptr) c" where
  "concept_try_get_iid p = c_bind (borrow concept_c p) (\<lambda>x. release_optional_string string_c (map_option id_display (try_get_iid x)))"

definition concept_get_label :: "ptr \<Rightarrow> ('w, ptr) c" where
  "concept_get_label p = c_bind (borrow concept_c p) (\<lambda>x. release_string string_c (get_label x))"

definition concept_try_get_label :: "ptr \<Rightarrow> ('w, ptr) c" where
  "concept_try_get_label p = c_bind (borrow concept_c p) (\<lambda>x. release_optional_string string_c (try_get_label x))"

definition concept_try_get_value_type :: "ptr \<Rightarrow> ('w, ptr) c" where
  "concept_try_get_value_type p = c_bind (borrow concept_c p) (\<lambda>x. release_optional_string string_c (try_get_value_label x))"

definition concept_try_get_value :: "ptr \<Rightarrow> ('w, ptr) c" where
  "concept_try_get_value p = c_bind (borrow concept_c p) (\<lambda>x. release_optional concept_c (map_option CValue (try_get_value x)))"

definition concept_is_boolean :: "ptr \<Rightarrow> ('w, bool) c" where
  "concept_is_boolean p = c_map is_boolean (borrow concept_c p)"

definition concept_is_integer :: "ptr \<Rightarrow> ('w, bool) c" where
  "concept_is_integer p = c_map is_integer (borrow concept_c p)"

definition concept_is_double :: "ptr \<Rightarrow> ('w, bool) c" where
  "concept_is_double p = c_map is_double (borrow concept_c p)"

definition concept_is_decimal :: "ptr \<Rightarrow> ('w, bool) c" where
  "concept_is_decimal p = c_map is_decimal (borrow concept_c p)"

definition concept_is_string :: "ptr \<Rightarrow> ('w, bool) c" where
  "concept_is_string p = c_map is_string (borrow concept_c p)"

definition concept_is_date :: "ptr \<Rightarrow> ('w, bool) c" where
  "concept_is_date p = c_map is_date (borrow concept_c p)"

definition concept_is_datetime :: "ptr \<Rightarrow> ('w, bool) c" where
  "concept_is_datetime p = c_map is_datetime (borrow concept_c p)"

definition concept_is_datetime_tz :: "ptr \<Rightarrow> ('w, bool) c" where
  "concept_is_datetime_tz p = c_map is_datetime_tz (borrow concept_c p)"

definition concept_is_duration :: "ptr \<Rightarrow> ('w, bool) c" where
  "concept_is_duration p = c_map is_duration (borrow concept_c p)"

definition concept_is_struct :: "ptr \<Rightarrow> ('w, bool) c" where
  "concept_is_struct p = c_map is_struct (borrow concept_c p)"

definition concept_get_boolean :: "ptr \<Rightarrow> ('w, bool) c" where
  "concept_get_boolean p = c_bind (borrow concept_c p) (\<lambda>x. case try_get_boolean x of
     Some v \<Rightarrow> c_return v | None \<Rightarrow> c_abort)"

definition concept_get_integer :: "ptr \<Rightarrow> ('w, i64) c" where
  "concept_get_integer p = c_bind (borrow concept_c p) (\<lambda>x. case try_get_integer x of
     Some v \<Rightarrow> c_return v | None \<Rightarrow> c_abort)"

definition concept_get_double :: "ptr \<Rightarrow> ('w, f64) c" where
  "concept_get_double p = c_bind (borrow concept_c p) (\<lambda>x. case try_get_double x of
     Some v \<Rightarrow> c_return v | None \<Rightarrow> c_abort)"

definition concept_get_decimal :: "ptr \<Rightarrow> ('w, decimal) c" where
  "concept_get_decimal p = c_bind (borrow concept_c p) (\<lambda>x. case try_get_decimal x of
     Some v \<Rightarrow> c_return v | None \<Rightarrow> c_abort)"

definition concept_get_string :: "ptr \<Rightarrow> ('w, ptr) c" where
  "concept_get_string p = c_bind (borrow concept_c p) (\<lambda>x. case try_get_string x of
     Some v \<Rightarrow> release_string string_c v | None \<Rightarrow> c_abort)"

definition concept_get_date_as_seconds :: "c_chrono \<Rightarrow> ptr \<Rightarrow> ('w, i64) c" where
  "concept_get_date_as_seconds chrono p = c_bind (borrow concept_c p) (\<lambda>x. case try_get_date x of
     Some v \<Rightarrow> c_return (start_of_day chrono v) | None \<Rightarrow> c_abort)"

definition concept_get_datetime :: "c_chrono \<Rightarrow> ptr \<Rightarrow> ('w, c_datetime) c" where
  "concept_get_datetime chrono p = c_bind (borrow concept_c p) (\<lambda>x. case try_get_datetime x of
     Some v \<Rightarrow> c_return (datetime_in_nanos_new chrono v) | None \<Rightarrow> c_abort)"

definition concept_get_datetime_tz :: "c_chrono \<Rightarrow> ptr \<Rightarrow> ('w, ptr) c" where
  "concept_get_datetime_tz chrono p = c_bind (borrow concept_c p) (\<lambda>x. case try_get_datetime_tz x of
     Some v \<Rightarrow> c_bind (datetime_and_time_zone_new chrono v) (release zoned_datetime_c) | None \<Rightarrow> c_abort)"

definition concept_get_duration :: "ptr \<Rightarrow> ('w, duration) c" where
  "concept_get_duration p = c_bind (borrow concept_c p) (\<lambda>x. case try_get_duration x of
     Some v \<Rightarrow> c_return v | None \<Rightarrow> c_abort)"

definition concept_get_struct :: "ptr \<Rightarrow> ('w, ptr) c" where
  "concept_get_struct p = c_bind (borrow concept_c p) (\<lambda>x. case try_get_struct x of
     Some v \<Rightarrow> release field_iterator_c v | None \<Rightarrow> c_abort)"

definition concept_equals :: "ptr \<Rightarrow> ptr \<Rightarrow> ('w, bool) c" where
  "concept_equals p q = c_bind (borrow concept_c p) (\<lambda>x. c_bind (borrow concept_c q) (\<lambda>y. c_return (concept_eq x y)))"

definition concept_is_entity_type :: "ptr \<Rightarrow> ('w, bool) c" where
  "concept_is_entity_type p = c_map is_entity_type (borrow concept_c p)"

definition concept_is_relation_type :: "ptr \<Rightarrow> ('w, bool) c" where
  "concept_is_relation_type p = c_map is_relation_type (borrow concept_c p)"

definition concept_is_attribute_type :: "ptr \<Rightarrow> ('w, bool) c" where
  "concept_is_attribute_type p = c_map is_attribute_type (borrow concept_c p)"

definition concept_is_role_type :: "ptr \<Rightarrow> ('w, bool) c" where
  "concept_is_role_type p = c_map is_role_type (borrow concept_c p)"

definition concept_is_entity :: "ptr \<Rightarrow> ('w, bool) c" where
  "concept_is_entity p = c_map is_entity (borrow concept_c p)"

definition concept_is_relation :: "ptr \<Rightarrow> ('w, bool) c" where
  "concept_is_relation p = c_map is_relation (borrow concept_c p)"

definition concept_is_attribute :: "ptr \<Rightarrow> ('w, bool) c" where
  "concept_is_attribute p = c_map is_attribute (borrow concept_c p)"

definition concept_is_value :: "ptr \<Rightarrow> ('w, bool) c" where
  "concept_is_value p = c_map is_value (borrow concept_c p)"

definition concept_to_string :: "fmt_lib \<Rightarrow> ptr \<Rightarrow> ('w, ptr) c" where
  "concept_to_string fmt p = c_bind (borrow concept_c p) (\<lambda>x. release_string string_c (concept_debug fmt x))"

section \<open>Making values\<close>

definition concept_new_boolean :: "bool \<Rightarrow> ('w, ptr) c" where
  "concept_new_boolean b = release concept_c (CValue (VBoolean b))"

definition concept_new_integer :: "i64 \<Rightarrow> ('w, ptr) c" where
  "concept_new_integer i = release concept_c (CValue (VInteger i))"

definition concept_new_double :: "f64 \<Rightarrow> ('w, ptr) c" where
  "concept_new_double d = release concept_c (CValue (VDouble d))"

definition concept_new_string :: "ptr \<Rightarrow> ('w, ptr) c" where
  "concept_new_string p = c_bind (string_view string_c p) (\<lambda>s. release concept_c (CValue (VString s)))"

definition concept_new_decimal_from_string :: "bool \<Rightarrow> ptr \<Rightarrow> ('w, ptr) c" where
  "concept_new_decimal_from_string oc p = c_bind (string_view string_c p) (\<lambda>s.
     try_release concept_c (map_ok (\<lambda>d. CValue (VDecimal d)) (decimal_from_str oc s)))"

definition concept_new_decimal :: "i64 \<Rightarrow> u64 \<Rightarrow> ('w, ptr) c" where
  "concept_new_decimal i f = c_bind (lift_result (from_parts i f)) (\<lambda>d. release concept_c (CValue (VDecimal d)))"

definition moment :: "c_chrono \<Rightarrow> i64 \<Rightarrow> u32 \<Rightarrow> ('w, naive_datetime) c" where
  "moment chrono seconds subsec = lift_result (naive_datetime_from_timestamp (chrono_lib.truncate chrono) seconds subsec)"

definition concept_new_date_from_seconds :: "c_chrono \<Rightarrow> i64 \<Rightarrow> ('w, ptr) c" where
  "concept_new_date_from_seconds chrono s = c_bind (moment chrono s 0) (\<lambda>dt. release concept_c (CValue (VDate (day_of chrono dt))))"

definition concept_new_datetime :: "c_chrono \<Rightarrow> i64 \<Rightarrow> u32 \<Rightarrow> ('w, ptr) c" where
  "concept_new_datetime chrono s n = c_bind (moment chrono s n) (\<lambda>dt. release concept_c (CValue (VDatetime dt)))"

definition concept_new_datetime_tz_iana :: "c_chrono \<Rightarrow> i64 \<Rightarrow> u32 \<Rightarrow> ptr \<Rightarrow> ('w, ptr) c" where
  "concept_new_datetime_tz_iana chrono s n zone = c_bind (moment chrono s n) (\<lambda>dt. c_bind (string_view string_c zone) (\<lambda>name.
     case tz_from_str_insensitive chrono name of
       Some tz \<Rightarrow> release concept_c (CValue (VDatetimeTZ (from_utc_datetime (IANA tz) dt)))
     | None \<Rightarrow> c_abort))"

definition concept_new_datetime_tz_offset :: "c_chrono \<Rightarrow> i64 \<Rightarrow> u32 \<Rightarrow> i32 \<Rightarrow> ('w, ptr) c" where
  "concept_new_datetime_tz_offset chrono s n offset = c_bind (moment chrono s n) (\<lambda>dt.
     case east_opt chrono offset of
       Some off \<Rightarrow> release concept_c (CValue (VDatetimeTZ (from_utc_datetime (Fixed off) dt)))
     | None \<Rightarrow> c_abort)"

definition concept_new_duration :: "u32 \<Rightarrow> u32 \<Rightarrow> u64 \<Rightarrow> ('w, ptr) c" where
  "concept_new_duration mo d n = release concept_c (CValue (VDuration (duration_new mo d n)))"

section \<open>Instances\<close>

definition borrow_as_entity :: "ptr \<Rightarrow> ('w, entity) c" where
  "borrow_as_entity p = c_bind (borrow concept_c p) (\<lambda>x. case x of CEntity e \<Rightarrow> c_return e | _ \<Rightarrow> c_abort)"

definition entity_get_type :: "ptr \<Rightarrow> ('w, ptr) c" where
  "entity_get_type p = c_bind (borrow_as_entity p) (\<lambda>e. release_optional concept_c (map_option CEntityType (type_of_entity e)))"

definition borrow_as_relation :: "ptr \<Rightarrow> ('w, relation) c" where
  "borrow_as_relation p = c_bind (borrow concept_c p) (\<lambda>x. case x of CRelation e \<Rightarrow> c_return e | _ \<Rightarrow> c_abort)"

definition relation_get_type :: "ptr \<Rightarrow> ('w, ptr) c" where
  "relation_get_type p = c_bind (borrow_as_relation p) (\<lambda>e. release_optional concept_c (map_option CRelationType (type_of_relation e)))"

definition borrow_as_attribute :: "ptr \<Rightarrow> ('w, attribute) c" where
  "borrow_as_attribute p = c_bind (borrow concept_c p) (\<lambda>x. case x of CAttribute e \<Rightarrow> c_return e | _ \<Rightarrow> c_abort)"

definition attribute_get_type :: "ptr \<Rightarrow> ('w, ptr) c" where
  "attribute_get_type p = c_bind (borrow_as_attribute p) (\<lambda>e. release_optional concept_c (map_option CAttributeType (type_of_attribute e)))"

section \<open>Streams of concepts and rows\<close>

definition concept_row_iterator_next :: "ptr \<Rightarrow> ('w, ptr) c" where
  "concept_row_iterator_next = iterator_try_next concept_row_iterator_c concept_row_c"

definition concept_row_iterator_drop :: "ptr \<Rightarrow> ('w, unit) c" where
  "concept_row_iterator_drop = free concept_row_iterator_c"

definition concept_iterator_next :: "ptr \<Rightarrow> ('w, ptr) c" where
  "concept_iterator_next = iterator_try_next concept_iterator_c concept_c"

definition concept_iterator_drop :: "ptr \<Rightarrow> ('w, unit) c" where
  "concept_iterator_drop = free concept_iterator_c"

definition c_string_iterator_next :: "ptr \<Rightarrow> ('w, ptr) c" where
  "c_string_iterator_next = string_iterator_next string_iterator_c string_c"

definition string_iterator_drop :: "ptr \<Rightarrow> ('w, unit) c" where
  "string_iterator_drop = free string_iterator_c"

section \<open>Answers\<close>

definition query_answer_promise_resolve :: "ptr \<Rightarrow> ('w, ptr) c" where
  "query_answer_promise_resolve p = c_bind (take_ownership query_answer_promise_c p) (try_release query_answer_c)"

definition query_answer_promise_drop :: "ptr \<Rightarrow> ('w, unit) c" where
  "query_answer_promise_drop = promise_drop query_answer_promise_c"

definition query_answer_get_query_type :: "ptr \<Rightarrow> ('w, query_type) c" where
  "query_answer_get_query_type p = c_map answer_get_query_type (borrow query_answer_c p)"

definition query_answer_is_ok :: "ptr \<Rightarrow> ('w, bool) c" where
  "query_answer_is_ok p = c_map answer_is_ok (borrow query_answer_c p)"

definition query_answer_is_concept_row_stream :: "ptr \<Rightarrow> ('w, bool) c" where
  "query_answer_is_concept_row_stream p = c_map is_row_stream (borrow query_answer_c p)"

definition query_answer_is_concept_document_stream :: "ptr \<Rightarrow> ('w, bool) c" where
  "query_answer_is_concept_document_stream p = c_map is_document_stream (borrow query_answer_c p)"

definition query_answer_into_rows :: "ptr \<Rightarrow> ('w, ptr) c" where
  "query_answer_into_rows p = c_bind (take_ownership query_answer_c p) (\<lambda>a. c_bind (lift_result (into_rows a)) (release concept_row_iterator_c))"

record json_lib =
  json_fmt :: fmt_lib
  json_to_f64 :: "i64 \<Rightarrow> f64"
  json_number :: "f64 \<Rightarrow> string"

definition document_text :: "json_lib \<Rightarrow> (concept_document, error) result \<Rightarrow> (string, error) result" where
  "document_text j r =
     and_then r (\<lambda>d. map_ok (json_display (json_number j)) (document_into_json (json_fmt j) (json_to_f64 j) d))"

definition query_answer_into_documents :: "json_lib \<Rightarrow> ptr \<Rightarrow> ('w, ptr) c" where
  "query_answer_into_documents j p = c_bind (take_ownership query_answer_c p) (\<lambda>a.
     c_bind (lift_result (into_documents a)) (\<lambda>ds. release string_iterator_c (map (document_text j) ds)))"

definition query_answer_drop :: "ptr \<Rightarrow> ('w, unit) c" where
  "query_answer_drop = free query_answer_c"

definition concept_row_drop :: "ptr \<Rightarrow> ('w, unit) c" where
  "concept_row_drop = free concept_row_c"

definition concept_row_get_column_names :: "ptr \<Rightarrow> ('w, ptr) c" where
  "concept_row_get_column_names p = c_bind (borrow concept_row_c p) (\<lambda>x. release string_iterator_c (map Ok (get_column_names x)))"

definition concept_row_get_query_structure :: "ptr \<Rightarrow> ('w, ptr) c" where
  "concept_row_get_query_structure p = c_bind (borrow concept_row_c p) (\<lambda>x. release_optional pipeline_c (get_query_structure x))"

definition concept_row_get_query_type :: "ptr \<Rightarrow> ('w, query_type) c" where
  "concept_row_get_query_type p = c_map get_query_type (borrow concept_row_c p)"

definition concept_row_get_concepts :: "ptr \<Rightarrow> ('w, ptr) c" where
  "concept_row_get_concepts p = c_bind (borrow concept_row_c p) (\<lambda>x. release concept_iterator_c (map Ok (get_concepts x)))"

definition concept_row_get :: "ptr \<Rightarrow> ptr \<Rightarrow> ('w, ptr) c" where
  "concept_row_get p column = c_bind (borrow concept_row_c p) (\<lambda>x. c_bind (string_view string_c column) (\<lambda>name.
     try_release_optional concept_c (transpose (row_get x name))))"

definition concept_row_get_index :: "ptr \<Rightarrow> nat \<Rightarrow> ('w, ptr) c" where
  "concept_row_get_index p i = c_bind (borrow concept_row_c p) (\<lambda>x. try_release_optional concept_c (transpose (row_get_index x i)))"

definition concept_row_involved_conjunctions :: "ptr \<Rightarrow> ('w, ptr) c" where
  "concept_row_involved_conjunctions p = c_bind (borrow concept_row_c p) (\<lambda>x.
     release_optional conjunction_id_iterator_c (get_involved_conjunctions_cloned x))"

definition concept_row_equals :: "ptr \<Rightarrow> ptr \<Rightarrow> ('w, bool) c" where
  "concept_row_equals p q = c_bind (borrow concept_row_c p) (\<lambda>x. c_bind (borrow concept_row_c q) (\<lambda>y. c_return (concept_row_eq x y)))"

definition concept_row_to_string :: "fmt_lib \<Rightarrow> ptr \<Rightarrow> ('w, ptr) c" where
  "concept_row_to_string fmt p = c_bind (borrow concept_row_c p) (\<lambda>x. release_string string_c (concept_row_debug fmt x))"

end
