(* ===== verification/C_Concept_Clients.thy ===== *)
theory C_Concept_Clients
  imports C_Concepts C_Analyze_Clients
begin

text \<open>
  A program that copies a value through the functions of \<open>c/src/concept/concept.rs\<close>: it asks for the kind
  of the value, calls the getter of that kind, hands what it received to the constructor of that kind, and
  gives back everything but the new value.
\<close>

section \<open>Programs that keep one object\<close>

definition makes :: "(ptr \<Rightarrow> 'o option) \<Rightarrow> ('w, 'o, ptr) c_op \<Rightarrow> 'o \<Rightarrow> bool" where
  "makes h m obj \<longleftrightarrow>
     (\<forall>s. c_ok s \<longrightarrow> h \<subseteq>\<^sub>m heap s \<longrightarrow> (\<exists>n \<ge> next_free s.
       m s = Done (n, s\<lparr>heap := (heap s)(n := Some obj), next_free := Suc n\<rparr>)))"

lemma makes_creates: "creates h m obj \<Longrightarrow> makes h m obj"
  by (fastforce simp: makes_def creates_def)

lemma makes_release: "makes h (release T x) (boxed T x)"
  by (rule makes_creates) (rule creates_release)

lemma makes_bind:
  fixes m :: "('w, 'o, 'a) c_op"
  assumes "yields h m a" "makes h (f a) obj"
  shows "makes h (c_bind m f) obj"
  unfolding makes_def
proof (intro allI impI)
  fix s :: "('w, 'o) c_state" assume s: "c_ok s" "h \<subseteq>\<^sub>m heap s"
  then obtain n where n: "n \<ge> next_free s" "m s = Done (a, s\<lparr>next_free := n\<rparr>)"
    using assms(1) unfolding yields_def by blast
  moreover have "c_ok (s\<lparr>next_free := n\<rparr>)" "h \<subseteq>\<^sub>m heap (s\<lparr>next_free := n\<rparr>)"
    using c_ok_bump [OF s(1) n(1)] s(2) by simp_all
  ultimately obtain k where "k \<ge> n" "f a (s\<lparr>next_free := n\<rparr>)
      = Done (k, s\<lparr>heap := (heap s)(k := Some obj), next_free := Suc k\<rparr>)"
    using assms(2) unfolding makes_def by fastforce
  with n show "\<exists>n\<ge>next_free s. c_bind m f s = Done (n, s\<lparr>heap := (heap s)(n := Some obj), next_free := Suc n\<rparr>)"
    by (intro exI [of _ k]) (simp add: c_bind_def)
qed

lemma makes_with_object:
  fixes use :: "ptr \<Rightarrow> ('w, 'o, ptr) c_op"
  assumes "creates h get a" "\<And>p. h p = None \<Longrightarrow> p \<noteq> null \<Longrightarrow> makes (h(p := Some a)) (use p) obj" "drops drop_it a"
  shows "makes h (with_object get drop_it use) obj"
  unfolding makes_def
proof (intro allI impI)
  fix s :: "('w, 'o) c_state" assume s: "c_ok s" "h \<subseteq>\<^sub>m heap s"
  let ?p = "next_free s" and ?s1 = "s\<lparr>heap := (heap s)(next_free s := Some a), next_free := Suc (next_free s)\<rparr>"
  have p: "h ?p = None" "?p \<noteq> null" using s c_ok_next [OF s(1)] by (metis domIff map_le_def, simp)
  have "h(?p := Some a) \<subseteq>\<^sub>m heap ?s1" using s(2) by (auto simp: map_le_def)
  then obtain n where n: "n \<ge> Suc ?p" "use ?p ?s1
      = Done (n, s\<lparr>heap := (heap s)(?p := Some a, n := Some obj), next_free := Suc n\<rparr>)"
    using assms(2) [OF p] c_ok_alloc [OF s(1)] unfolding makes_def by fastforce
  have "((heap s)(?p := Some a, n := Some obj))(?p := None) = (heap s)(n := Some obj)"
    using c_ok_next [OF s(1)] n(1) by (auto simp: fun_eq_iff)
  then have "drop_it ?p (s\<lparr>heap := (heap s)(?p := Some a, n := Some obj), next_free := Suc n\<rparr>)
      = Done ((), s\<lparr>heap := (heap s)(n := Some obj), next_free := Suc n\<rparr>)"
    using assms(3) p(2) n(1) by (simp add: drops_def del: fun_upd_apply) (simp add: fun_upd_apply)
  moreover have "get s = Done (?p, ?s1)" using assms(1) s by (simp add: creates_def)
  ultimately show "\<exists>n\<ge>next_free s. with_object get drop_it use s
      = Done (n, s\<lparr>heap := (heap s)(n := Some obj), next_free := Suc n\<rparr>)"
    using n by (intro exI [of _ n]) (simp add: with_object_def c_bind_def)
qed

section \<open>Copying a value\<close>

text \<open>A text that the program keeps in its own memory while a function of the library reads it.\<close>

definition with_text :: "string \<Rightarrow> (ptr \<Rightarrow> ('w, ptr) c) \<Rightarrow> ('w, ptr) c" where
  "with_text t = with_object (release string_c t) (free string_c)"

text \<open>The zone is a name or an offset in seconds.\<close>

definition read_zoned_datetime :: "c_chrono \<Rightarrow> ptr \<Rightarrow> ('w, c_datetime \<times> (string + i32)) c" where
  "read_zoned_datetime chrono p =
     c_bind (concept_get_datetime_tz chrono p) (\<lambda>q.
     c_bind (borrow zoned_datetime_c q) (\<lambda>z.
     c_bind (string_view string_c (c_zone_name z)) (\<lambda>name.
     c_bind (datetime_and_time_zone_drop q) (\<lambda>_.
       c_return (c_datetime_in_nanos z, if c_is_fixed_offset z then Inr (c_local_minus_utc z) else Inl name)))))"

definition copy_zoned_datetime :: "c_chrono \<Rightarrow> ptr \<Rightarrow> ('w, ptr) c" where
  "copy_zoned_datetime chrono p =
     c_bind (read_zoned_datetime chrono p) (\<lambda>(d, zone).
       case zone of
         Inl name \<Rightarrow> with_text name (concept_new_datetime_tz_iana chrono (c_seconds d) (c_subsec_nanos d))
       | Inr offset \<Rightarrow> concept_new_datetime_tz_offset chrono (c_seconds d) (c_subsec_nanos d) offset)"

primrec try_kinds :: "((ptr \<Rightarrow> ('w, bool) c) \<times> (ptr \<Rightarrow> ('w, ptr) c)) list \<Rightarrow> ptr \<Rightarrow> ('w, ptr) c" where
  "try_kinds [] p = c_abort"
| "try_kinds (k # ks) p = c_bind (fst k p) (\<lambda>b. if b then snd k p else try_kinds ks p)"

definition copy_value :: "c_chrono \<Rightarrow> ptr \<Rightarrow> ('w, ptr) c" where
  "copy_value chrono = try_kinds
     [(concept_is_boolean, \<lambda>p. c_bind (concept_get_boolean p) concept_new_boolean),
      (concept_is_integer, \<lambda>p. c_bind (concept_get_integer p) concept_new_integer),
      (concept_is_double, \<lambda>p. c_bind (concept_get_double p) concept_new_double),
      (concept_is_decimal, \<lambda>p. c_bind (concept_get_decimal p) (\<lambda>d. concept_new_decimal (integer d) (fractional d))),
      (concept_is_string, \<lambda>p. c_bind (read_string (concept_get_string p)) (\<lambda>t. with_text t concept_new_string)),
      (concept_is_date, \<lambda>p. c_bind (concept_get_date_as_seconds chrono p) (concept_new_date_from_seconds chrono)),
      (concept_is_datetime, \<lambda>p. c_bind (concept_get_datetime chrono p) (\<lambda>d.
         concept_new_datetime chrono (c_seconds d) (c_subsec_nanos d))),
      (concept_is_datetime_tz, copy_zoned_datetime chrono),
      (concept_is_duration, \<lambda>p. c_bind (concept_get_duration p) (\<lambda>d. concept_new_duration (months d) (days d) (nanos d)))]"

text \<open>
  What \<open>chrono\<close> promises of a moment, a day and a zone, and the texts that cross the boundary.  There is no
  constructor for structs.
\<close>

definition copied_ok :: "c_chrono \<Rightarrow> cvalue \<Rightarrow> bool" where
  "copied_ok chrono v \<longleftrightarrow>
     (case v of
        VDecimal d \<Rightarrow> fractional d < frac_denominator
      | VString t \<Rightarrow> text_ok t
      | VDate d \<Rightarrow> map_option (day_of chrono) (from_timestamp chrono (start_of_day chrono d) 0) = Some d
      | VDatetime d \<Rightarrow> from_timestamp chrono (timestamp chrono d) (nanosecond chrono d) = Some d
      | VDatetimeTZ d \<Rightarrow> from_timestamp chrono (timestamp chrono (dt_utc d)) (nanosecond chrono (dt_utc d)) = Some (dt_utc d)
          \<and> (case dt_zone d of
               IANA z \<Rightarrow> text_ok z \<and> tz_from_str_insensitive chrono z = Some z
             | Fixed off \<Rightarrow> east_opt chrono (local_minus_utc chrono off) = Some off)
      | VStruct _ _ \<Rightarrow> False
      | _ \<Rightarrow> True)"

lemma kind_calls:
  assumes "h p = Some (boxed concept_c c)"
  shows "yields h (concept_is_boolean p) (is_boolean c)" "yields h (concept_is_integer p) (is_integer c)"
    "yields h (concept_is_double p) (is_double c)" "yields h (concept_is_decimal p) (is_decimal c)"
    "yields h (concept_is_string p) (is_string c)" "yields h (concept_is_date p) (is_date c)"
    "yields h (concept_is_datetime p) (is_datetime c)" "yields h (concept_is_datetime_tz p) (is_datetime_tz c)"
    "yields h (concept_is_duration p) (is_duration c)"
  unfolding concept_is_boolean_def concept_is_integer_def concept_is_double_def concept_is_decimal_def
    concept_is_string_def concept_is_date_def concept_is_datetime_def concept_is_datetime_tz_def concept_is_duration_def
  using assms by (auto intro!: yields_map [OF yields_borrow [of h p concept_c c]])

lemma value_kind:
  assumes "try_get_value c = Some v"
  shows "is_boolean c \<longleftrightarrow> get_type v = TBoolean" "is_integer c \<longleftrightarrow> get_type v = TInteger"
    "is_double c \<longleftrightarrow> get_type v = TDouble" "is_decimal c \<longleftrightarrow> get_type v = TDecimal"
    "is_string c \<longleftrightarrow> get_type v = TString" "is_date c \<longleftrightarrow> get_type v = TDate"
    "is_datetime c \<longleftrightarrow> get_type v = TDatetime" "is_datetime_tz c \<longleftrightarrow> get_type v = TDatetimeTZ"
    "is_duration c \<longleftrightarrow> get_type v = TDuration"
proof -
  have "try_get_value_type c = Some (get_type v)"
    using assms by (auto simp: try_get_value_def try_get_value_type_def split: concept.splits)
  then show "is_boolean c \<longleftrightarrow> get_type v = TBoolean" "is_integer c \<longleftrightarrow> get_type v = TInteger"
    "is_double c \<longleftrightarrow> get_type v = TDouble" "is_decimal c \<longleftrightarrow> get_type v = TDecimal"
    "is_string c \<longleftrightarrow> get_type v = TString" "is_date c \<longleftrightarrow> get_type v = TDate"
    "is_datetime c \<longleftrightarrow> get_type v = TDatetime" "is_datetime_tz c \<longleftrightarrow> get_type v = TDatetimeTZ"
    "is_duration c \<longleftrightarrow> get_type v = TDuration"
    by (simp_all add: is_boolean_def is_integer_def is_double_def is_decimal_def is_string_def is_date_def
        is_datetime_def is_datetime_tz_def is_duration_def)
qed

lemma getter_calls:
  assumes "h p = Some (boxed concept_c c)" "try_get_value c = Some v"
  shows "v = VBoolean b \<Longrightarrow> yields h (concept_get_boolean p) b"
    "v = VInteger i \<Longrightarrow> yields h (concept_get_integer p) i"
    "v = VDouble d \<Longrightarrow> yields h (concept_get_double p) d"
    "v = VDecimal m \<Longrightarrow> yields h (concept_get_decimal p) m"
    "v = VDate x \<Longrightarrow> yields h (concept_get_date_as_seconds chrono p) (start_of_day chrono x)"
    "v = VDatetime y \<Longrightarrow> yields h (concept_get_datetime chrono p) (datetime_in_nanos_new chrono y)"
    "v = VDuration z \<Longrightarrow> yields h (concept_get_duration p) z"
  using assms
  by (auto simp: concept_get_boolean_def concept_get_integer_def concept_get_double_def concept_get_decimal_def
      concept_get_date_as_seconds_def concept_get_datetime_def concept_get_duration_def
      try_get_boolean_def try_get_integer_def try_get_double_def try_get_decimal_def try_get_date_def
      try_get_datetime_def try_get_duration_def get_boolean_def get_integer_def get_double_def get_decimal_def
      get_date_def get_datetime_def get_duration_def intro!: yields_bind [OF yields_borrow])

lemma makes_moment:
  "from_timestamp chrono s n = Some dt \<Longrightarrow> makes h (f dt) obj \<Longrightarrow> makes h (c_bind (moment chrono s n) f) obj"
  by (rule makes_bind [where a = dt])
    (simp_all add: moment_def lift_result_def naive_datetime_from_timestamp_def chrono_lib.truncate_def)

lemma makes_with_text:
  assumes "text_ok t" "\<And>g p. h \<subseteq>\<^sub>m g \<Longrightarrow> g p = Some (boxed string_c t) \<Longrightarrow> yields g (string_view string_c p) t \<Longrightarrow> makes g (use p) obj"
  shows "makes h (with_text t use) obj"
  unfolding with_text_def
  by (rule makes_with_object [OF creates_release _ drops_free])
    (use assms in \<open>auto simp: string_view_def text_ok_def map_le_def dom_def intro!: assms(2) yields_bind [OF yields_borrow]\<close>)

definition zone_seen :: "c_chrono \<Rightarrow> time_zone \<Rightarrow> string + i32" where
  "zone_seen chrono z = (case z of IANA name \<Rightarrow> Inl name | Fixed off \<Rightarrow> Inr (local_minus_utc chrono off))"

lemma empty_text_ok [simp]: "text_ok []"
  by (simp add: text_ok_def)

lemma yields_zoned_datetime:
  assumes p: "h p = Some (boxed concept_c c)" and v: "try_get_value c = Some (VDatetimeTZ d)"
    and ok: "\<And>name. dt_zone d = IANA name \<Longrightarrow> text_ok name"
  shows "yields h (read_zoned_datetime chrono p) (datetime_in_nanos_new chrono (dt_utc d), zone_seen chrono (dt_zone d))"
  unfolding yields_def
proof (intro allI impI)
  fix s :: "('w, c_object) c_state" assume s: "c_ok s" "h \<subseteq>\<^sub>m heap s"
  let ?name = "case dt_zone d of IANA name \<Rightarrow> name | Fixed _ \<Rightarrow> []"
  let ?z = "\<lparr>c_datetime_in_nanos = datetime_in_nanos_new chrono (dt_utc d), c_zone_name = next_free s,
    c_local_minus_utc = (case dt_zone d of IANA _ \<Rightarrow> 0 | Fixed off \<Rightarrow> local_minus_utc chrono off),
    c_is_fixed_offset = (case dt_zone d of IANA _ \<Rightarrow> False | Fixed _ \<Rightarrow> True)\<rparr>"
  let ?q = "Suc (next_free s)"
  let ?H = "(heap s)(next_free s := Some (boxed string_c ?name), ?q := Some (boxed zoned_datetime_c ?z))"
  let ?s2 = "s\<lparr>heap := ?H, next_free := Suc ?q\<rparr>"
  have name: "text_ok ?name" using ok by (auto split: time_zone.split)
  have n: "next_free s \<noteq> null" using c_ok_next [OF s(1)] by simp
  have "try_get_datetime_tz c = Some d" using v by (simp add: try_get_datetime_tz_def get_datetime_tz_def)
  then have get: "concept_get_datetime_tz chrono p s = Done (?q, ?s2)"
    using borrow_known [OF s p] name
    by (cases "dt_zone d") (simp_all add: concept_get_datetime_tz_def c_bind_def datetime_and_time_zone_new_def
        c_map_def release_string_def release_def text_ok_def nul_def)
  have z: "borrow zoned_datetime_c ?q ?s2 = Done (?z, ?s2)" by (rule borrow_live) (simp_all add: null_def)
  have t: "string_view string_c (next_free s) ?s2 = Done (?name, ?s2)"
    using name n borrow_live [of ?s2 "next_free s" string_c ?name]
    by (simp add: string_view_def c_bind_def text_ok_def)
  have restored: "(?H(?q := None))(next_free s := None) = heap s"
    using s(1) by (auto simp: fun_eq_iff c_ok_def)
  have "free string_c (next_free s) (?s2\<lparr>heap := ?H(?q := None)\<rparr>)
      = Done ((), ?s2\<lparr>heap := (?H(?q := None))(next_free s := None)\<rparr>)"
    using n free_live [of "?s2\<lparr>heap := ?H(?q := None)\<rparr>" "next_free s" string_c ?name] by simp
  then have "datetime_and_time_zone_drop ?q ?s2 = Done ((), s\<lparr>next_free := Suc ?q\<rparr>)"
    using z restored by (simp add: datetime_and_time_zone_drop_def free_with_def take_ownership_def c_bind_def
        string_free_def null_def del: fun_upd_apply)
  with get z t show "\<exists>n\<ge>next_free s. read_zoned_datetime chrono p s
      = Done ((datetime_in_nanos_new chrono (dt_utc d), zone_seen chrono (dt_zone d)), s\<lparr>next_free := n\<rparr>)"
    by (intro exI [of _ "Suc ?q"]) (simp add: read_zoned_datetime_def c_bind_def zone_seen_def split: time_zone.split)
qed

lemma makes_zoned:
  assumes "from_timestamp chrono s n = Some (dt_utc d)"
  shows "dt_zone d = IANA z \<Longrightarrow> text_ok z \<Longrightarrow> tz_from_str_insensitive chrono z = Some z
      \<Longrightarrow> makes h (with_text z (concept_new_datetime_tz_iana chrono s n)) (boxed concept_c (CValue (VDatetimeTZ d)))"
    and "dt_zone d = Fixed off \<Longrightarrow> east_opt chrono offset = Some off
      \<Longrightarrow> makes h (concept_new_datetime_tz_offset chrono s n offset) (boxed concept_c (CValue (VDatetimeTZ d)))"
proof -
  have d: "from_utc_datetime (dt_zone d) (dt_utc d) = d" by (simp add: from_utc_datetime_def)
  assume z: "dt_zone d = IANA z" "text_ok z" "tz_from_str_insensitive chrono z = Some z"
  show "makes h (with_text z (concept_new_datetime_tz_iana chrono s n)) (boxed concept_c (CValue (VDatetimeTZ d)))"
    unfolding concept_new_datetime_tz_iana_def [abs_def]
    using d z by - (rule makes_with_text, assumption, rule makes_moment [OF assms], rule makes_bind, assumption,
      simp add: makes_release)
next
  have d: "from_utc_datetime (dt_zone d) (dt_utc d) = d" by (simp add: from_utc_datetime_def)
  assume "dt_zone d = Fixed off" "east_opt chrono offset = Some off"
  with d show "makes h (concept_new_datetime_tz_offset chrono s n offset) (boxed concept_c (CValue (VDatetimeTZ d)))"
    unfolding concept_new_datetime_tz_offset_def
    by (intro makes_moment [OF assms]) (simp add: makes_release)
qed

lemma makes_zoned_datetime:
  assumes "h p = Some (boxed concept_c c)" "try_get_value c = Some (VDatetimeTZ d)" "copied_ok chrono (VDatetimeTZ d)"
  shows "makes h (copy_zoned_datetime chrono p) (boxed concept_c (CValue (VDatetimeTZ d)))"
  unfolding copy_zoned_datetime_def
proof (rule makes_bind [OF yields_zoned_datetime [of h p, OF assms(1,2)]])
  show "text_ok name" if "dt_zone d = IANA name" for name using assms(3) that by (simp add: copied_ok_def)
qed (use assms(3) in \<open>auto simp: copied_ok_def zone_seen_def datetime_in_nanos_new_def makes_zoned split: time_zone.splits\<close>)

lemma makes_text:
  assumes p: "h p = Some (boxed concept_c c)" and v: "try_get_value c = Some (VString t)" and t: "text_ok t"
  shows "makes h (c_bind (read_string (concept_get_string p)) (\<lambda>t. with_text t concept_new_string)) (boxed concept_c (CValue (VString t)))"
proof (rule makes_bind)
  show "yields h (read_string (concept_get_string p)) t"
    by (rule yields_string [of h p, OF p _ concept_get_string_def [of p]])
      (simp_all add: t try_get_string_def get_string_def v)
  show "makes h (with_text t concept_new_string) (boxed concept_c (CValue (VString t)))"
    unfolding concept_new_string_def [abs_def]
    by (rule makes_with_text [OF t]) (auto intro!: makes_bind makes_release)
qed

lemma try_kinds_step:
  "yields h (fst k p) b \<Longrightarrow> (b \<Longrightarrow> makes h (snd k p) obj) \<Longrightarrow> (\<not> b \<Longrightarrow> makes h (try_kinds ks p) obj)
    \<Longrightarrow> makes h (try_kinds (k # ks) p) obj"
  by (cases b) (auto intro: makes_bind)

lemma of_type:
  "get_type v = TBoolean \<Longrightarrow> \<exists>b. v = VBoolean b" "get_type v = TInteger \<Longrightarrow> \<exists>i. v = VInteger i"
  "get_type v = TDouble \<Longrightarrow> \<exists>d. v = VDouble d" "get_type v = TDecimal \<Longrightarrow> \<exists>d. v = VDecimal d"
  "get_type v = TString \<Longrightarrow> \<exists>t. v = VString t" "get_type v = TDate \<Longrightarrow> \<exists>d. v = VDate d"
  "get_type v = TDatetime \<Longrightarrow> \<exists>d. v = VDatetime d" "get_type v = TDatetimeTZ \<Longrightarrow> \<exists>d. v = VDatetimeTZ d"
  "get_type v = TDuration \<Longrightarrow> \<exists>d. v = VDuration d"
  by (cases v; simp add: get_type_def)+

text \<open>What the getter yields is what the constructor needs.\<close>

lemma makes_get:
  "yields h m a \<Longrightarrow> f a = release T x \<Longrightarrow> makes h (c_bind m f) (boxed T x)"
  using makes_release [of h T x] by (metis makes_bind)

lemma makes_copy:
  assumes p: "h p = Some (boxed concept_c c)" and v: "try_get_value c = Some v" and ok: "copied_ok chrono v"
  shows "makes h (copy_value chrono p) (boxed concept_c (CValue v))"
proof -
  note kind = kind_calls [of h p c, OF p, unfolded value_kind [OF v]]
  note get = getter_calls [of h p c, OF p v]
  have date: "makes h (c_bind (concept_get_date_as_seconds chrono p) (concept_new_date_from_seconds chrono))
      (boxed concept_c (CValue v))" if "v = VDate d" for d
    using ok that by (auto simp: copied_ok_def concept_new_date_from_seconds_def
        intro!: makes_bind [OF get(5)] makes_moment makes_release)
  have datetime: "makes h (c_bind (concept_get_datetime chrono p) (\<lambda>d. concept_new_datetime chrono (c_seconds d)
      (c_subsec_nanos d))) (boxed concept_c (CValue v))" if "v = VDatetime d" for d
    using ok that by (auto simp: copied_ok_def concept_new_datetime_def datetime_in_nanos_new_def
        intro!: makes_bind [OF get(6)] makes_moment makes_release)
  have decimal: "makes h (c_bind (concept_get_decimal p) (\<lambda>d. concept_new_decimal (integer d) (fractional d)))
      (boxed concept_c (CValue v))" if "v = VDecimal m" for m
    using ok that by (auto simp: copied_ok_def concept_new_decimal_def from_parts_def lift_result_def
        intro!: makes_get [OF get(4)])
  have duration: "makes h (c_bind (concept_get_duration p) (\<lambda>d. concept_new_duration (months d) (days d) (nanos d)))
      (boxed concept_c (CValue v))" if "v = VDuration m" for m
    using that by (cases m) (auto simp: concept_new_duration_def duration_new_def intro!: makes_get [OF get(7)])
  have simple: "v = VBoolean b \<Longrightarrow> makes h (c_bind (concept_get_boolean p) concept_new_boolean) (boxed concept_c (CValue v))"
    "v = VInteger i \<Longrightarrow> makes h (c_bind (concept_get_integer p) concept_new_integer) (boxed concept_c (CValue v))"
    "v = VDouble d \<Longrightarrow> makes h (c_bind (concept_get_double p) concept_new_double) (boxed concept_c (CValue v))" for b i d
    by (rule makes_get, rule get, assumption,
        simp add: concept_new_boolean_def concept_new_integer_def concept_new_double_def)+
  have texts: "v = VString t \<Longrightarrow> makes h (c_bind (read_string (concept_get_string p)) (\<lambda>t. with_text t concept_new_string))
      (boxed concept_c (CValue v))" "v = VDatetimeTZ d \<Longrightarrow> makes h (copy_zoned_datetime chrono p) (boxed concept_c (CValue v))" for t d
    using makes_text [of h p c, OF p] makes_zoned_datetime [of h p c, OF p] v ok by (auto simp: copied_ok_def)
  have "get_type v \<in> {TBoolean, TInteger, TDouble, TDecimal, TString, TDate, TDatetime, TDatetimeTZ, TDuration}"
    using ok by (cases v) (simp_all add: get_type_def copied_ok_def)
  then show ?thesis unfolding copy_value_def
    by - ((rule try_kinds_step, simp, rule kind, simp, drule of_type, elim exE,
      erule date datetime decimal duration simple texts)+, simp)
qed

section \<open>Properties\<close>


definition sample_c_chrono :: c_chrono where
  "sample_c_chrono = chrono_lib.extend sample_chrono
     \<lparr>start_of_day = \<lambda>d. word_of_int (86400 * d), day_of = \<lambda>dt. dt_seconds dt div 86400,
      tz_from_str_insensitive = \<lambda>z. if z = ''Europe/London'' then Some z else None\<rparr>"


end
