(* ===== verification/C_Answer_Clients.thy ===== *)
theory C_Answer_Clients
  imports C_Concept_Clients
begin

text \<open>
  A program that reads the rows of an answer through the functions of \<open>c/src/answer.rs\<close> and
  \<open>c/src/concept/mod.rs\<close>, until null is returned.  Null stands for the end and for an error, which
  \<open>check_error\<close> tells apart.
\<close>

interpretation rows: result_iterator concept_row_iterator_c concept_row_c by unfold_locales simp_all
interpretation concepts: result_iterator concept_iterator_c concept_c by unfold_locales simp_all

section \<open>Reading a row\<close>

primrec read_columns :: "nat list \<Rightarrow> ptr \<Rightarrow> ('w, concept option list) c" where
  "read_columns [] p = c_return []"
| "read_columns (i # is) p =
     c_bind (with_optional (concept_row_get_index p i) concept_drop (borrow concept_c)) (\<lambda>x.
       c_map (Cons x) (read_columns is p))"

definition read_row :: "nat \<Rightarrow> ptr \<Rightarrow> ('w, concept option list) c" where
  "read_row width = read_columns [0..<width]"

lemma get_index_calls:
  assumes p: "h p = Some (boxed concept_row_c r)" and i: "i < length (row_concepts r)"
  shows "row_concepts r ! i = Some x \<Longrightarrow> creates h (concept_row_get_index p i) (boxed concept_c x)"
    and "row_concepts r ! i = None \<Longrightarrow> yields h (concept_row_get_index p i) null"
proof -
  note defs = concept_row_get_index_def row_get_index_def transpose_def try_release_optional_def
    ok_record_flatten_def ok_record_def release_optional_def
  show "row_concepts r ! i = Some x \<Longrightarrow> creates h (concept_row_get_index p i) (boxed concept_c x)"
    using assms by (auto simp: defs intro!: creates_borrow creates_release)
  show "row_concepts r ! i = None \<Longrightarrow> yields h (concept_row_get_index p i) null"
    using assms by (intro yieldsI) (simp add: defs c_bind_def borrow_known)
qed

lemma yields_columns:
  assumes p: "h p = Some (boxed concept_row_c r)" and "\<forall>i \<in> set is. i < length (row_concepts r)"
  shows "yields h (read_columns is p) (map ((!) (row_concepts r)) is)"
  using assms(2)
proof (induction "is")
  case (Cons i "is")
  have "yields h (with_optional (concept_row_get_index p i) concept_drop (borrow concept_c)) (row_concepts r ! i)"
  proof (cases "row_concepts r ! i")
    case None
    then show ?thesis using yields_with_optional_None [OF get_index_calls(2) [of h p r i, OF p]] Cons.prems by simp
  next
    case (Some x)
    have "yields h (with_optional (concept_row_get_index p i) concept_drop (borrow concept_c)) (Some x)"
      by (rule yields_with_optional_Some [OF get_index_calls(1) [of h p r i, OF p _ Some]])
        (use Cons.prems in \<open>simp_all add: yields_borrow concept_drop_def drops_free\<close>)
    then show ?thesis using Some by simp
  qed
  with Cons show ?case by (auto intro!: yields_bind yields_map)
qed simp

lemma yields_row:
  "h p = Some (boxed concept_row_c r) \<Longrightarrow> length (row_concepts r) = width
    \<Longrightarrow> yields h (read_row width p) (row_concepts r)"
  using yields_columns [of h p r "[0..<width]"] by (auto simp: read_row_def map_nth)

section \<open>Reading an answer\<close>

definition read_answer :: "nat \<Rightarrow> nat \<Rightarrow> ptr \<Rightarrow> ('w, concept option list list \<times> bool) c" where
  "read_answer fuel width p =
     c_bind (query_answer_into_rows p) (\<lambda>q.
     c_bind (collect_elements fuel (concept_row_iterator_next q) concept_row_drop (read_row width)) (\<lambda>xs.
     c_bind check_error (\<lambda>failed.
     c_bind (concept_row_iterator_drop q) (\<lambda>_. c_return (xs, failed)))))"

text \<open>The rows before the first error, and that error.\<close>

definition rows_before_error :: "(concept_row, error) result list \<Rightarrow> concept_row list \<times> error option" where
  "rows_before_error rs = (case until_error rs of (xs, e, _) \<Rightarrow> (xs, e))"

lemma read_answer_rows:
  assumes "c_ok s" "heap s p = Some (boxed query_answer_c (ConceptRowStream header rs))" "last_error s = None"
    and "Panic \<notin> set rs" "\<forall>r. Ok r \<in> set rs \<longrightarrow> length (row_concepts r) = width" "length rs < fuel"
  shows "\<exists>n. read_answer fuel width p s
    = (case rows_before_error rs of (xs, e) \<Rightarrow>
        Done ((map row_concepts xs, e \<noteq> None), s\<lparr>heap := (heap s)(p := None), next_free := n, last_error := e\<rparr>))"
proof -
  obtain xs e left where split: "until_error rs = (xs, e, left)" by (cases "until_error rs")
  let ?q = "next_free s" and ?h = "(heap s)(p := None)"
  let ?s1 = "s\<lparr>heap := ?h(?q := Some (boxed concept_row_iterator_c rs)), next_free := Suc ?q\<rparr>"
  have p: "p \<noteq> null" "p < ?q" using c_okD [OF assms(1,2)] by simp_all
  have q: "?h ?q = None" "?q \<noteq> null" using c_ok_next [OF assms(1)] by simp_all
  have "c_ok (s\<lparr>heap := ?h\<rparr>)" using c_ok_free [OF assms(1)] by simp
  from c_ok_alloc [OF this] have s1: "c_ok ?s1" by simp
  have get: "query_answer_into_rows p s = Done (?q, ?s1)"
    using p assms(2) by (simp add: query_answer_into_rows_def take_ownership_def c_bind_def borrow_live
        into_rows_def lift_result_def release_def)
  have "\<exists>n \<ge> next_free ?s1. collect_elements fuel (iterator_try_next concept_row_iterator_c concept_row_c ?q) concept_row_drop (read_row width) ?s1
    = Done (map row_concepts xs, ?s1\<lparr>heap := (heap ?s1)(?q := Some (boxed concept_row_iterator_c left)), next_free := n,
        last_error := (case e of Some err \<Rightarrow> Some err | None \<Rightarrow> last_error ?s1)\<rparr>)"
  proof (rule rows.collect_results [where h = ?h])
    show "?h \<subseteq>\<^sub>m heap ?s1" using q(1) by (auto simp: map_le_def)
    show "drops concept_row_drop (boxed concept_row_c x)" for x by (simp add: concept_row_drop_def drops_free)
    show "yields (?h(a := Some (boxed concept_row_c x))) (read_row width a) (row_concepts x)" if "Ok x \<in> set rs" for x a
      using that assms(5) by (intro yields_row) simp_all
  qed (use s1 q(1) split assms(4,6) in simp_all)
  then obtain n where n: "collect_elements fuel (concept_row_iterator_next ?q) concept_row_drop (read_row width) ?s1
    = Done (map row_concepts xs, s\<lparr>heap := ?h(?q := Some (boxed concept_row_iterator_c left)), next_free := n, last_error := e\<rparr>)"
    using assms(3) by (cases e) (auto simp: concept_row_iterator_next_def)
  have "(?h(?q := Some (boxed concept_row_iterator_c left)))(?q := None) = ?h"
    using q(1) by (auto simp: fun_eq_iff)
  then have "concept_row_iterator_drop ?q (s\<lparr>heap := ?h(?q := Some (boxed concept_row_iterator_c left)), next_free := n, last_error := e\<rparr>)
      = Done ((), s\<lparr>heap := ?h, next_free := n, last_error := e\<rparr>)"
    using q(2) by (simp add: concept_row_iterator_drop_def free_live del: fun_upd_apply) (simp add: free_live)
  with get n show ?thesis
    by (intro exI [of _ n]) (simp add: read_answer_def c_bind_def check_error_def rows_before_error_def split)
qed

text \<open>
  C17: a program that walks through the rows of an answer with the functions of the C interface receives
  exactly the rows before the first error of the stream, with their concepts column by column and null for
  an empty column, in order.  The error flag is set afterwards exactly when the stream has failed, and
  then holds the error of the stream.  The answer is consumed, everything that was received is given back,
  and the rest of the heap is as before.
\<close>

theorem answer_rows_read_through_c:
  assumes "c_ok s" "heap s p = Some (boxed query_answer_c (ConceptRowStream header rs))" "last_error s = None"
    and "Panic \<notin> set rs" "\<forall>r. Ok r \<in> set rs \<longrightarrow> length (row_concepts r) = width" "length rs < fuel"
  shows "\<exists>n. read_answer fuel width p s
    = (case rows_before_error rs of (xs, e) \<Rightarrow>
        Done ((map row_concepts xs, e \<noteq> None), s\<lparr>heap := (heap s)(p := None), next_free := n, last_error := e\<rparr>))"
  by (rule read_answer_rows [OF assms])

definition sample_answer_header :: concept_row_header where
  "sample_answer_header = \<lparr>column_names = [''x'', ''y''], row_query_type = ReadQuery, query_structure = None\<rparr>"

definition sample_rows :: "(concept_row, error) result list" where
  "sample_rows = [Ok \<lparr>row_header = sample_answer_header, row_concepts = [Some (CValue (VInteger 7)), None],
      involved_conjunctions = None\<rparr>, Err (Connection ServerConnectionIsClosed)]"

theorem answer_rows_read_through_c_witness:
  "\<exists>n. read_answer 3 2 1 \<lparr>heap = [1 \<mapsto> boxed query_answer_c (ConceptRowStream sample_answer_header sample_rows)],
       next_free = 2, last_error = None, world = ()\<rparr>
    = Done (([[Some (CValue (VInteger 7)), None]], True), \<lparr>heap = Map.empty, next_free = n,
        last_error = Some (Connection ServerConnectionIsClosed), world = ()\<rparr>)"
  (is "\<exists>n. read_answer 3 2 1 ?s = _")
proof -
  have "c_ok ?s" by (simp add: c_ok_def null_def)
  from answer_rows_read_through_c [OF this, of 1 sample_answer_header sample_rows 2 3] show ?thesis
    by (simp add: sample_rows_def rows_before_error_def)
qed

end
