(* ===== verification/C_Transactions.thy ===== *)
theory C_Transactions
  imports C_Driver C_Answer_Clients
begin

text \<open>
  \<open>c/src/transaction.rs\<close>: transactions through the C interface.  A transaction on the heap is the number of
  its stream; the threads behind the stream are those of \<open>Transactions\<close>.  The C library is built with
  \<open>sync\<close>: a promise is a closure that runs when it is resolved, in turns, between which the other threads
  move.  \<open>close\<close> and \<open>on_close\<close> borrow the stream and do nothing before that; the type \<open>BoxPromise<'static>\<close> hides it
  from the compiler, so that a closure can outlive its stream.
\<close>

section \<open>Streams\<close>

text \<open>
  The threads of a stream go on after its owner has freed it.  Callbacks on close are numbered: one of a
  caller is an address of a function with its argument, the other one wakes a caller of \<open>close\<close>.
\<close>

datatype close_callback = ForeignCallback nat u64 | WakeCloser

record c_stream =
  stream_driver :: nat
  stream_transaction :: transaction
  stream_allocated :: bool

record 'w tx_world =
  drivers :: "'w c_world"
  tx_streams :: "c_stream list"
  close_callbacks :: "close_callback list"

type_synonym ('w, 'a) t = "('w tx_world, 'a) c"

definition in_drivers :: "('w, 'a) d \<Rightarrow> ('w, 'a) t" where
  "in_drivers m s =
     (case m \<lparr>heap = heap s, next_free = next_free s, last_error = last_error s, world = drivers (world s)\<rparr> of
        Done (a, s1) \<Rightarrow> Done (a, \<lparr>heap = heap s1, next_free = next_free s1, last_error = last_error s1,
          world = (world s)\<lparr>drivers := world s1\<rparr>\<rparr>)
      | Abort \<Rightarrow> Abort
      | Undefined \<Rightarrow> Undefined)"

definition update_stream :: "nat \<Rightarrow> (c_stream \<Rightarrow> c_stream) \<Rightarrow> 'w tx_world \<Rightarrow> 'w tx_world" where
  "update_stream k f w = w\<lparr>tx_streams := (tx_streams w)[k := f (tx_streams w ! k)]\<rparr>"

definition threads :: "nat \<Rightarrow> 'w tx_world \<Rightarrow> tx_state" where
  "threads k w = tx_state_of (stream_transaction (tx_streams w ! k))"

definition set_threads :: "nat \<Rightarrow> tx_state \<Rightarrow> 'w tx_world \<Rightarrow> 'w tx_world" where
  "set_threads k x = update_stream k (\<lambda>e. e\<lparr>stream_transaction := (stream_transaction e)\<lparr>tx_state_of := x\<rparr>\<rparr>)"

text \<open>What the threads share with a caller, whether the stream is still there or not.\<close>

definition with_threads :: "nat \<Rightarrow> (tx_state \<Rightarrow> 'a \<times> tx_state) \<Rightarrow> ('w, 'a) t" where
  "with_threads k f s = (let (a, x) = f (threads k (world s)) in Done (a, s\<lparr>world := set_threads k x (world s)\<rparr>))"

text \<open>A reference to the stream itself.\<close>

definition with_stream :: "nat \<Rightarrow> (transaction \<Rightarrow> 'a \<times> transaction) \<Rightarrow> ('w, 'a) t" where
  "with_stream k f s =
     (if k < length (tx_streams (world s)) \<and> stream_allocated (tx_streams (world s) ! k) then
        (let (a, x) = f (stream_transaction (tx_streams (world s) ! k))
         in Done (a, s\<lparr>world := update_stream k (\<lambda>e. e\<lparr>stream_transaction := x\<rparr>) (world s)\<rparr>))
      else Undefined)"

definition in_stream :: "nat \<Rightarrow> (tx_state \<Rightarrow> 'a \<times> tx_state) \<Rightarrow> ('w, 'a) t" where
  "in_stream k f = with_stream k (\<lambda>x. let (a, y) = f (tx_state_of x) in (a, x\<lparr>tx_state_of := y\<rparr>))"

text \<open>Dropping a stream closes its transmitter.\<close>

definition drop_stream :: "nat \<Rightarrow> ('w, unit) t" where
  "drop_stream k = c_bind (in_stream k (\<lambda>x. ((), submit_close x))) (\<lambda>_ s.
     Done ((), s\<lparr>world := update_stream k (\<lambda>e. e\<lparr>stream_allocated := False\<rparr>) (world s)\<rparr>))"

definition new_callback :: "close_callback \<Rightarrow> ('w, nat) t" where
  "new_callback c s = Done (length (close_callbacks (world s)),
     s\<lparr>world := (world s)\<lparr>close_callbacks := close_callbacks (world s) @ [c]\<rparr>\<rparr>)"

definition stream_runtime_open :: "nat \<Rightarrow> 'w tx_world \<Rightarrow> bool" where
  "stream_runtime_open k w = driver_is_open (snd (managers (drivers w) ! stream_driver (tx_streams w ! k)))"

lemma map_update_same: "(map f xs)[k := f (xs ! k)] = map f xs"
  by (metis list_update_id map_update)

lemma set_threads_simps [simp]:
  "drivers (set_threads k x w) = drivers w" "close_callbacks (set_threads k x w) = close_callbacks w"
  "length (tx_streams (set_threads k x w)) = length (tx_streams w)"
  "map stream_allocated (tx_streams (set_threads k x w)) = map stream_allocated (tx_streams w)"
  "map stream_driver (tx_streams (set_threads k x w)) = map stream_driver (tx_streams w)"
  by (simp_all add: set_threads_def update_stream_def map_update map_update_same)

lemma threads_set [simp]:
  "k < length (tx_streams w) \<Longrightarrow> threads k (set_threads k x w) = x"
  "j \<noteq> k \<Longrightarrow> threads k (set_threads j x w) = threads k w"
  by (simp_all add: threads_def set_threads_def update_stream_def)

section \<open>Closures\<close>

text \<open>
  A registration waits in the queue of the listener; it is dropped with the listener.  A registered
  callback is gone when it was called, or when both threads have dropped the list.
\<close>

definition registration_pending :: "nat \<Rightarrow> tx_state \<Rightarrow> bool" where
  "registration_pending n x \<longleftrightarrow> n \<in> set (on_close_queue x) \<and> listener x \<noteq> Closed \<and> listener x \<noteq> Panicked"

definition callback_pending :: "nat \<Rightarrow> tx_state \<Rightarrow> bool" where
  "callback_pending n x \<longleftrightarrow> registration_pending n x \<or> n \<in> set (on_close x) \<and> table_alive x"

text \<open>One turn of a closure; the task is unchanged while it has to wait.\<close>

definition void_turn :: "response_texts \<Rightarrow> void_task \<Rightarrow> ('w, void_task) t" where
  "void_turn dbg v =
     (case v of
        VoidReady r \<Rightarrow> c_return v
      | CommitTask k promise \<Rightarrow>
          c_bind (with_threads k (\<lambda>x. (commit_resolved dbg promise x, x))) (\<lambda>r. case r of
            None \<Rightarrow> c_return v
          | Some (outcome, _) \<Rightarrow> c_map (\<lambda>_. VoidReady outcome) (drop_stream k))
      | RollbackTask k promise \<Rightarrow>
          c_map (\<lambda>r. case r of None \<Rightarrow> v | Some outcome \<Rightarrow> VoidReady outcome)
            (with_threads k (\<lambda>x. (rollback_outcome dbg promise x, x)))
      | CloseTask k \<Rightarrow>
          c_bind (new_callback WakeCloser) (\<lambda>n.
          c_bind (\<lambda>s. Done (stream_runtime_open k (world s), s)) (\<lambda>runtime.
          c_map (\<lambda>started. if started then CloseRegistering k n else VoidReady (Ok ()))
            (in_stream k (close_begin runtime n))))
      | CloseRegistering k n \<Rightarrow>
          c_bind (with_threads k (\<lambda>x. (registration_pending n x, x))) (\<lambda>waits.
            if waits then c_return v
            else c_map (\<lambda>_. CloseWaiting k n) (in_stream k (\<lambda>x. ((), close_commit x))))
      | CloseWaiting k n \<Rightarrow>
          c_map (\<lambda>waits. if waits then v else VoidReady (Ok ())) (with_threads k (\<lambda>x. (callback_pending n x, x)))
      | OnCloseTask k n \<Rightarrow>
          c_map (\<lambda>_. OnCloseRegistering k n) (in_stream k (\<lambda>x. ((), register_on_close n x)))
      | OnCloseRegistering k n \<Rightarrow>
          c_map (\<lambda>waits. if waits then v else VoidReady (Ok ())) (with_threads k (\<lambda>x. (registration_pending n x, x))))"

text \<open>
  A reader of a stream waits for the next message of its channel, until the sending end is gone.  The
  answer of a query reads on while the program walks through it; here it reads to the end at once, so that
  the answer is the list of its elements.
\<close>

definition channel_open :: "channel \<Rightarrow> tx_state \<Rightarrow> bool" where
  "channel_open c x \<longleftrightarrow> c \<in> sink_channel ` set (held_sinks x)"

text \<open>\<open>NetworkStream::next\<close> for the \<open>i\<close>-th message: None while it blocks, then a message or the end.\<close>

definition network_stream_next :: "channel \<Rightarrow> nat \<Rightarrow> tx_state \<Rightarrow> stream_response option option" where
  "network_stream_next c i x =
     (if i < length (received c x) then Some (Some (received c x ! i))
      else if channel_open c x then None
      else Some None)"

text \<open>The reader's next step: a message is processed, which may ask for more; at the end there is the answer.\<close>

definition read_next ::
    "(((transaction_response, error) result list, error) result \<Rightarrow> ('a, error) result)
     \<Rightarrow> nat \<Rightarrow> channel \<Rightarrow> nat \<Rightarrow> (transaction_response, error) result list \<Rightarrow> tx_state \<Rightarrow> 'a reading_task \<times> tx_state" where
  "read_next answer k c i items x =
     (case network_stream_next c i x of
        None \<Rightarrow> (Reading k c i items, x)
      | Some None \<Rightarrow> (ReadReady (answer (Ok items)), x)
      | Some (Some response) \<Rightarrow>
          (case process_response response x of
             (Some item, y) \<Rightarrow> (Reading k c (Suc i) (items @ [item]), y)
           | (None, y) \<Rightarrow> (Reading k c (Suc i) items, y)))"

definition reading_turn ::
    "((transaction_response, error) result list \<Rightarrow> bool)
     \<Rightarrow> (((transaction_response, error) result list, error) result \<Rightarrow> ('a, error) result)
     \<Rightarrow> 'a reading_task \<Rightarrow> ('w, 'a reading_task) t" where
  "reading_turn enough answer v =
     (case v of
        ReadReady r \<Rightarrow> c_return v
      | ReadTask k (Ok c) \<Rightarrow> c_return (Reading k c 0 [])
      | ReadTask k (Err e) \<Rightarrow> c_return (ReadReady (answer (Err e)))
      | ReadTask k Panic \<Rightarrow> c_abort
      | Reading k c i items \<Rightarrow>
          if enough items then c_return (ReadReady (answer (Ok items)))
          else with_threads k (read_next answer k c i items))"

definition query_turn :: "response_texts \<Rightarrow> query_answer reading_task \<Rightarrow> ('w, query_answer reading_task) t" where
  "query_turn dbg = reading_turn (\<lambda>_. False) (answer_of_query dbg)"

definition analyze_turn :: "response_texts \<Rightarrow> analyzed_query reading_task \<Rightarrow> ('w, analyzed_query reading_task) t" where
  "analyze_turn dbg = reading_turn (\<lambda>items. items \<noteq> []) (analyze_answer dbg)"

text \<open>The other threads, and a driver that is closed by force.\<close>

datatype thread_move = DispatchMove request_id | ListenMove grpc_event | RegisterMove | ShutdownMove

definition move_threads :: "tx_env \<Rightarrow> thread_move \<Rightarrow> tx_state \<Rightarrow> tx_state" where
  "move_threads env m x =
     (case m of
        DispatchMove fresh \<Rightarrow>
          if dispatcher x = AtTop then dispatch_top x
          else if dispatcher x = Draining \<and> fresh \<notin> used_ids x then dispatch_one env fresh x
          else x
      | ListenMove event \<Rightarrow> if listener x = Listening then listen_grpc env event x else x
      | RegisterMove \<Rightarrow> if listener x = Listening then listen_register x else x
      | ShutdownMove \<Rightarrow> send_shutdown x)"

datatype thread_event = OwnTurn | OtherMove nat thread_move

definition moved :: "tx_env \<Rightarrow> nat \<Rightarrow> thread_move \<Rightarrow> ('w tx_world, c_object) c_state \<Rightarrow> ('w tx_world, c_object) c_state" where
  "moved env k m s = s\<lparr>world := set_threads k (move_threads env m (threads k (world s))) (world s)\<rparr>"

text \<open>\<open>resolve\<close> calls the closure, in an interleaving with the other threads.\<close>

primrec run_closure :: "('v \<Rightarrow> ('w, 'v) t) \<Rightarrow> tx_env \<Rightarrow> thread_event list \<Rightarrow> 'v \<Rightarrow> ('w, 'v) t" where
  "run_closure turn env [] v = c_return v"
| "run_closure turn env (e # es) v =
     c_bind (case e of OwnTurn \<Rightarrow> turn v | OtherMove k m \<Rightarrow> (\<lambda>s. Done (v, moved env k m s)))
       (run_closure turn env es)"

text \<open>
  What a closure guarantees, when it relies on the moves of the others: a statement about the interleaving
  to come, the closure and the state that every own turn and every move of another thread keeps.
\<close>

locale closure_invariant =
  fixes turn :: "'v \<Rightarrow> ('w, 'v) t" and env :: tx_env
    and holds :: "thread_event list \<Rightarrow> 'v \<Rightarrow> ('w tx_world, c_object) c_state \<Rightarrow> bool"
  assumes own_turn: "holds (OwnTurn # es) v s \<Longrightarrow> turn v s = Done (v', s') \<Longrightarrow> holds es v' s'"
    and other_move: "holds (OtherMove k m # es) v s \<Longrightarrow> holds es v (moved env k m s)"
begin

lemma run_keeps: "holds es v s \<Longrightarrow> run_closure turn env es v s = Done (v', s') \<Longrightarrow> holds [] v' s'"
proof (induction es arbitrary: v s)
  case (Cons e es)
  show ?case
  proof (cases e)
    case OwnTurn
    with Cons.prems obtain v1 s1 where "turn v s = Done (v1, s1)" "run_closure turn env es v1 s1 = Done (v', s')"
      by (auto simp: c_bind_def split: outcome.splits)
    with Cons own_turn OwnTurn show ?thesis by blast
  next
    case (OtherMove k m)
    with Cons.prems have "run_closure turn env es v (moved env k m s) = Done (v', s')" by (simp add: c_bind_def)
    with Cons other_move OtherMove show ?thesis by blast
  qed
qed (simp add: c_return_def)

end

section \<open>The interface\<close>

definition open_stream :: "nat \<Rightarrow> (transaction \<times> channel \<times> channel, error) result \<Rightarrow> ('w, (nat, error) result) t" where
  "open_stream i r s =
     (case r of
        Ok (x, _) \<Rightarrow> Done (Ok (length (tx_streams (world s))), s\<lparr>world := (world s)\<lparr>tx_streams := tx_streams (world s) @
          [\<lparr>stream_driver = i, stream_transaction = x, stream_allocated = True\<rparr>]\<rparr>\<rparr>)
      | Err e \<Rightarrow> Done (Err e, s)
      | Panic \<Rightarrow> Abort)"

definition c_transaction_new :: "'w grpc \<Rightarrow> ptr \<Rightarrow> ptr \<Rightarrow> transaction_type \<Rightarrow> ptr \<Rightarrow> ('w, ptr) t" where
  "c_transaction_new g driver database t options =
     c_bind (borrow driver_c driver) (\<lambda>i.
     c_bind (string_view string_c database) (\<lambda>db.
     c_bind (borrow transaction_options_c options) (\<lambda>o'.
     c_bind (in_drivers (with_driver i (\<lambda>pr. transaction_with_options pr g db t o'))) (\<lambda>r.
     c_bind (open_stream i r) (try_release transaction_c)))))"

definition c_transaction_query :: "ptr \<Rightarrow> ptr \<Rightarrow> ptr \<Rightarrow> ('w, ptr) t" where
  "c_transaction_query txn q options =
     c_bind (borrow transaction_c txn) (\<lambda>k.
     c_bind (string_view string_c q) (\<lambda>text.
     c_bind (borrow query_options_c options) (\<lambda>o'.
     c_bind (with_stream k (\<lambda>x. query_with_options x text o')) (\<lambda>promise.
     release query_task_c (ReadTask k promise)))))"

definition c_transaction_query_given_rows :: "ptr \<Rightarrow> ptr \<Rightarrow> ptr \<Rightarrow> ptr \<Rightarrow> ('w, ptr) t" where
  "c_transaction_query_given_rows txn q options rows =
     c_bind (borrow transaction_c txn) (\<lambda>k.
     c_bind (string_view string_c q) (\<lambda>text.
     c_bind (borrow query_options_c options) (\<lambda>o'.
     c_bind (take_ownership given_rows_c rows) (\<lambda>given.
     c_bind (with_stream k (\<lambda>x. query_with_options_and_rows x text o' (Some given))) (\<lambda>promise.
     release query_task_c (ReadTask k promise))))))"

definition c_transaction_analyze :: "ptr \<Rightarrow> ptr \<Rightarrow> ('w, ptr) t" where
  "c_transaction_analyze txn q =
     c_bind (borrow transaction_c txn) (\<lambda>k.
     c_bind (string_view string_c q) (\<lambda>text.
     c_bind (with_stream k (\<lambda>x. transaction_analyze x text)) (\<lambda>promise.
     release analyze_task_c (ReadTask k promise))))"

text \<open>
  The functions that wait take an interleaving with the other threads; None is the answer while they wait.
\<close>

definition transaction_drop_sync :: "tx_env \<Rightarrow> response_texts \<Rightarrow> thread_event list \<Rightarrow> ptr \<Rightarrow> ('w, unit option) t" where
  "transaction_drop_sync env dbg es txn =
     (if txn = null then c_return (Some ())
      else
        c_bind (borrow transaction_c txn) (\<lambda>k.
        c_bind (run_closure (void_turn dbg) env es (CloseTask k)) (\<lambda>v. case v of
          VoidReady _ \<Rightarrow> c_map Some (free_with drop_stream transaction_c txn)
        | _ \<Rightarrow> c_return None)))"

definition c_transaction_close :: "ptr \<Rightarrow> ('w, ptr) t" where
  "c_transaction_close txn = c_bind (borrow transaction_c txn) (\<lambda>k. release void_task_c (CloseTask k))"

definition c_transaction_commit :: "tx_env \<Rightarrow> ptr \<Rightarrow> ('w, ptr) t" where
  "c_transaction_commit env txn =
     c_bind (take_ownership transaction_c txn) (\<lambda>k.
     c_bind (with_stream k (transaction_commit env)) (\<lambda>promise. release void_task_c (CommitTask k promise)))"

definition c_transaction_rollback :: "tx_env \<Rightarrow> ptr \<Rightarrow> ('w, ptr) t" where
  "c_transaction_rollback env txn =
     c_bind (borrow transaction_c txn) (\<lambda>k.
     c_bind (with_stream k (transaction_rollback env)) (\<lambda>promise. release void_task_c (RollbackTask k promise)))"

definition c_transaction_is_open :: "ptr \<Rightarrow> ('w, bool) t" where
  "c_transaction_is_open txn =
     c_bind (borrow transaction_c txn) (\<lambda>k. with_stream k (\<lambda>x. (transaction_is_open x, x)))"

definition c_transaction_on_close :: "ptr \<Rightarrow> u64 \<Rightarrow> nat \<Rightarrow> ('w, ptr) t" where
  "c_transaction_on_close txn callback_id callback =
     c_bind (borrow transaction_c txn) (\<lambda>k.
     c_bind (new_callback (ForeignCallback callback callback_id)) (\<lambda>n. release void_task_c (OnCloseTask k n)))"

text \<open>What a callback is called with: the error of the transaction is released for it.\<close>

definition call_on_close :: "nat \<Rightarrow> error option \<Rightarrow> ('w, (nat \<times> u64 \<times> ptr) option) t" where
  "call_on_close n e s =
     (case close_callbacks (world s) ! n of
        WakeCloser \<Rightarrow> Done (None, s)
      | ForeignCallback callback callback_id \<Rightarrow>
          c_map (\<lambda>p. Some (callback, callback_id, p)) (release_optional error_c e) s)"

text \<open>
  Resolving and dropping the promises of a transaction.  The promise of a commit owns the stream.
\<close>

definition void_task_resolve :: "tx_env \<Rightarrow> response_texts \<Rightarrow> thread_event list \<Rightarrow> ptr \<Rightarrow> ('w, unit option) t" where
  "void_task_resolve env dbg es p =
     c_bind (take_ownership void_task_c p) (\<lambda>v0.
     c_bind (run_closure (void_turn dbg) env es v0) (\<lambda>v. case v of
       VoidReady r \<Rightarrow> c_map Some (unwrap_void r)
     | _ \<Rightarrow> c_return None))"

definition drop_void_task :: "void_task \<Rightarrow> ('w, unit) t" where
  "drop_void_task v = (case v of CommitTask k _ \<Rightarrow> drop_stream k | _ \<Rightarrow> c_return ())"

definition void_task_drop :: "ptr \<Rightarrow> ('w, unit) t" where
  "void_task_drop p = c_bind (take_ownership void_task_c p) drop_void_task"

definition query_task_resolve :: "tx_env \<Rightarrow> response_texts \<Rightarrow> thread_event list \<Rightarrow> ptr \<Rightarrow> ('w, ptr option) t" where
  "query_task_resolve env dbg es p =
     c_bind (take_ownership query_task_c p) (\<lambda>v0.
     c_bind (run_closure (query_turn dbg) env es v0) (\<lambda>v. case v of
       ReadReady r \<Rightarrow> c_map Some (try_release query_answer_c r)
     | _ \<Rightarrow> c_return None))"

definition analyze_task_resolve :: "tx_env \<Rightarrow> response_texts \<Rightarrow> thread_event list \<Rightarrow> ptr \<Rightarrow> ('w, ptr option) t" where
  "analyze_task_resolve env dbg es p =
     c_bind (take_ownership analyze_task_c p) (\<lambda>v0.
     c_bind (run_closure (analyze_turn dbg) env es v0) (\<lambda>v. case v of
       ReadReady r \<Rightarrow> c_map Some (try_release analyzed_query_c r)
     | _ \<Rightarrow> c_return None))"

definition query_task_drop :: "ptr \<Rightarrow> ('w, unit) t" where
  "query_task_drop = promise_drop query_task_c"

definition analyze_task_drop :: "ptr \<Rightarrow> ('w, unit) t" where
  "analyze_task_drop = promise_drop analyze_task_c"

end
