(* ===== verification/C_Transaction_Clients.thy ===== *)
theory C_Transaction_Clients
  imports C_Transactions
begin

text \<open>
  Closing a transaction through the C interface: \<open>transaction_drop_sync\<close> returns after the registered
  callbacks; a promise that borrows the stream does nothing before it is resolved, and must not be resolved
  after the transaction was dropped.
\<close>

section \<open>The threads while somebody closes\<close>

definition listens :: "tx_state \<Rightarrow> bool" where
  "listens x \<longleftrightarrow> listener x = Listening \<or> listener x = Deadlocked"

definition registered :: "nat \<Rightarrow> tx_state \<Rightarrow> bool" where
  "registered n x \<longleftrightarrow> n \<in> set (on_close x) \<or> n \<in> set (on_close_queue x)"

text \<open>The listener has gone and has called the callbacks \<open>R\<close>, unless it has panicked.\<close>

definition ended :: "nat set \<Rightarrow> tx_state \<Rightarrow> bool" where
  "ended R x \<longleftrightarrow> listener x = Panicked \<or> listener x = Closed \<and> R \<subseteq> fst ` set (ran x)"

lemma collect_close_fields:
  "on_close (collect env m x) = on_close x" "on_close_queue (collect env m x) = on_close_queue x"
  "ran (collect env m x) = ran x"
  by (auto simp: collect_def collect_res_def collect_res_part_def collect_query_part_def
      collect_stream_state_def deliver_or_panic_def deliver_def panic_def deadlock_def forget_def Let_def
      split: option.splits server_body.splits result.splits res_part_body.splits stream_state.splits)

lemma dispatch_close_fields:
  "on_close (dispatch_one env fresh x) = on_close x" "on_close_queue (dispatch_one env fresh x) = on_close_queue x"
  "ran (dispatch_one env fresh x) = ran x"
  "on_close (dispatch_top x) = on_close x" "on_close_queue (dispatch_top x) = on_close_queue x"
  "ran (dispatch_top x) = ran x" "listener (dispatch_top x) = listener x" "tx_is_open (dispatch_top x) = tx_is_open x"
  by (auto simp: dispatch_one_def dispatch_top_def dispatch_end_def flush_requests_def register_def Let_def
      split: list.splits prod.splits result.splits option.splits)

lemma shutdown_close_fields:
  "on_close (send_shutdown x) = on_close x" "on_close_queue (send_shutdown x) = on_close_queue x"
  "ran (send_shutdown x) = ran x" "listener (send_shutdown x) = listener x" "tx_is_open (send_shutdown x) = tx_is_open x"
  by (simp_all add: send_shutdown_def)

lemmas close_fields = collect_close_fields dispatch_close_fields shutdown_close_fields dispatch_one_life collect_keeps

lemma move_ended: "ended R x \<Longrightarrow> ended R (move_threads env m x)"
  by (cases m) (auto simp: ended_def move_threads_def close_fields)

lemma ended_mono: "ended S x \<Longrightarrow> R \<subseteq> S \<Longrightarrow> ended R x"
  by (auto simp: ended_def)

text \<open>A move keeps the registrations, or ends the listener after it has called what was registered.\<close>

definition later :: "tx_state \<Rightarrow> tx_state \<Rightarrow> bool" where
  "later x y \<longleftrightarrow> set (on_close x) \<subseteq> set (on_close y) \<and> (\<forall>n. registered n x \<longrightarrow> registered n y) \<and> tx_is_open y = tx_is_open x"

lemma move_listens:
  assumes "listens x"
  shows "ended (set (on_close x)) (move_threads env m x) \<or> listens (move_threads env m x) \<and> later x (move_threads env m x)"
proof (cases m)
  case (ListenMove event)
  then show ?thesis
  proof (cases event)
    case (GrpcMessage msg)
    then show ?thesis using assms ListenMove collect_keeps(5) [of x env msg]
      by (cases "listener (collect env msg x)")
        (auto simp: move_threads_def listens_def later_def registered_def ended_def listen_grpc_def close_fields)
  qed (use assms ListenMove in \<open>auto simp: move_threads_def listens_def later_def registered_def ended_def listen_grpc_def
      listen_exit_def collector_close_def collector_close_with_error_def close_fields image_Un image_image\<close>)
next
  case RegisterMove
  then show ?thesis using assms
    by (cases "on_close_queue x")
      (auto simp: move_threads_def listens_def later_def registered_def listen_register_def)
qed (use assms in \<open>auto simp: move_threads_def listens_def later_def registered_def close_fields\<close>)

section \<open>The closure of close\<close>

text \<open>The callbacks \<open>R\<close> are registered and \<open>Q\<close> holds, or the listener has come to its end.\<close>

definition until_end :: "nat set \<Rightarrow> (tx_state \<Rightarrow> bool) \<Rightarrow> tx_state \<Rightarrow> bool" where
  "until_end R Q x \<longleftrightarrow> ended R x \<or> listens x \<and> R \<subseteq> set (on_close x) \<and> Q x"

lemma until_end_move:
  assumes "until_end R Q x" "\<And>y. later x y \<Longrightarrow> Q x \<Longrightarrow> Q y"
  shows "until_end R Q (move_threads env m x)"
proof (cases "ended R x")
  case True
  with move_ended show ?thesis by (simp add: until_end_def)
next
  case False
  with assms(1) have x: "listens x" "R \<subseteq> set (on_close x)" "Q x" by (auto simp: until_end_def)
  with move_listens [of x env m] show ?thesis
    using assms(2) ended_mono unfolding until_end_def later_def by blast
qed

text \<open>
  What holds while \<open>close\<close> runs on stream \<open>k\<close>: at first the transaction is open, then the callback that
  wakes the closer is registered behind the others.
\<close>

definition closing :: "nat set \<Rightarrow> void_task \<Rightarrow> tx_state \<Rightarrow> bool" where
  "closing R v =
     (case v of
        CloseTask j \<Rightarrow> until_end R tx_is_open
      | CloseRegistering j n \<Rightarrow> until_end R (registered n)
      | CloseWaiting j n \<Rightarrow> until_end R (registered n)
      | _ \<Rightarrow> ended R)"

lemma closing_move: "closing R v x \<Longrightarrow> closing R v (move_threads env m x)"
  by (cases v) (auto simp: closing_def later_def intro: until_end_move move_ended)

text \<open>What the closure leaves alone: the heap, the drivers, and who owns which stream.\<close>

definition close_frame :: "nat \<Rightarrow> ('w tx_world, c_object) c_state \<Rightarrow> void_task \<Rightarrow> ('w tx_world, c_object) c_state \<Rightarrow> bool" where
  "close_frame k s0 v s \<longleftrightarrow>
     heap s = heap s0 \<and> next_free s = next_free s0 \<and> last_error s = last_error s0
   \<and> drivers (world s) = drivers (world s0)
   \<and> map stream_allocated (tx_streams (world s)) = map stream_allocated (tx_streams (world s0))
   \<and> map stream_driver (tx_streams (world s)) = map stream_driver (tx_streams (world s0))
   \<and> (case v of CloseTask j \<Rightarrow> j = k | CloseRegistering j n \<Rightarrow> j = k | CloseWaiting j n \<Rightarrow> j = k
        | VoidReady _ \<Rightarrow> True | _ \<Rightarrow> False)"

lemma new_callback_keeps [simp]:
  "threads k (w\<lparr>close_callbacks := cs\<rparr>) = threads k w"
  "stream_runtime_open k (w\<lparr>close_callbacks := cs\<rparr>) = stream_runtime_open k w"
  by (simp_all add: threads_def stream_runtime_open_def)

lemma in_stream_eq:
  "in_stream k f s =
     (if k < length (tx_streams (world s)) \<and> stream_allocated (tx_streams (world s) ! k)
      then (let (a, x) = f (threads k (world s)) in Done (a, s\<lparr>world := set_threads k x (world s)\<rparr>))
      else Undefined)"
  by (simp add: in_stream_def with_stream_def threads_def set_threads_def update_stream_def Let_def split: prod.split)

lemma close_frame_set:
  "close_frame k s0 v (s\<lparr>world := set_threads j x (world s)\<rparr>) = close_frame k s0 v s"
  by (simp add: close_frame_def)

lemma frame_stream:
  assumes "close_frame k s0 v s"
  shows "length (tx_streams (world s)) = length (tx_streams (world s0))"
    and "k < length (tx_streams (world s0)) \<Longrightarrow> stream_allocated (tx_streams (world s) ! k) = stream_allocated (tx_streams (world s0) ! k)"
    and "k < length (tx_streams (world s0)) \<Longrightarrow> stream_runtime_open k (world s) = stream_runtime_open k (world s0)"
proof -
  show l: "length (tx_streams (world s)) = length (tx_streams (world s0))"
    using assms by (metis close_frame_def length_map)
  assume k: "k < length (tx_streams (world s0))"
  have "map stream_allocated (tx_streams (world s)) ! k = map stream_allocated (tx_streams (world s0)) ! k"
    "map stream_driver (tx_streams (world s)) ! k = map stream_driver (tx_streams (world s0)) ! k"
    using assms by (simp_all add: close_frame_def)
  then show "stream_allocated (tx_streams (world s) ! k) = stream_allocated (tx_streams (world s0) ! k)"
    "stream_runtime_open k (world s) = stream_runtime_open k (world s0)"
    using assms k l by (simp_all add: stream_runtime_open_def close_frame_def)
qed

lemma close_turn_frame:
  assumes "close_frame k s0 v s" "void_turn dbg v s = Done (v', s')"
  shows "close_frame k s0 v' s'"
  using assms
  by (cases v) (auto simp: void_turn_def c_bind_def c_map_def c_return_def new_callback_def in_stream_eq with_threads_def
      Let_def close_frame_def split: if_splits prod.splits)

interpretation close_frames: closure_invariant "void_turn dbg" env "\<lambda>es. close_frame k s0" for dbg env k s0
  by unfold_locales (simp_all add: close_turn_frame close_frame_set moved_def)

text \<open>A turn of the closure keeps to what has been said; it ends only after the listener.\<close>

lemma close_turn:
  assumes "close_frame k s0 v s" "k < length (tx_streams (world s0))" "stream_runtime_open k (world s0)"
    and "closing R v (threads k (world s))" "void_turn dbg v s = Done (v', s')"
  shows "closing R v' (threads k (world s'))"
proof -
  note frame = frame_stream [OF assms(1)]
  note defs = void_turn_def c_bind_def c_map_def c_return_def new_callback_def in_stream_eq with_threads_def Let_def closing_def
  show ?thesis
  proof (cases v)
    case (CloseTask j)
    then show ?thesis using assms frame
      by (auto simp: defs close_frame_def until_end_def close_begin_def register_on_close_def ended_def listens_def registered_def
          split: if_splits prod.splits)
  next
    case (CloseRegistering j n)
    then show ?thesis using assms frame
      by (auto simp: defs close_frame_def until_end_def close_commit_def close_fields ended_def listens_def registered_def
          split: if_splits prod.splits)
  next
    case (CloseWaiting j n)
    then show ?thesis using assms frame
      by (auto simp: defs close_frame_def until_end_def ended_def listens_def registered_def callback_pending_def
          registration_pending_def table_alive_def split: if_splits prod.splits)
  qed (use assms in \<open>auto simp: defs close_frame_def\<close>)
qed

interpretation closes: closure_invariant "void_turn dbg" env
    "\<lambda>es v s. close_frame k s0 v s \<and> k < length (tx_streams (world s0)) \<and> stream_runtime_open k (world s0)
      \<and> closing R v (threads k (world s))" for dbg env k s0 R
proof unfold_locales
  fix j m es v s
  assume "close_frame k s0 v s \<and> k < length (tx_streams (world s0)) \<and> stream_runtime_open k (world s0)
      \<and> closing R v (threads k (world s))"
  then show "close_frame k s0 v (moved env j m s) \<and> k < length (tx_streams (world s0)) \<and> stream_runtime_open k (world s0)
      \<and> closing R v (threads k (world (moved env j m s)))"
    using frame_stream(1) [of k s0 v s] closing_move by (cases "j = k") (simp_all add: moved_def close_frame_set)
qed (use close_turn close_turn_frame in blast)

section \<open>Dropping a transaction\<close>

lemma close_frame_start: "close_frame k s (CloseTask k) s"
  by (simp add: close_frame_def)

text \<open>After \<open>transaction_drop_sync\<close> has returned, the handle and the stream are gone, and nothing else on the heap.\<close>

lemma drop_sync_frees:
  assumes "heap s txn = Some (boxed transaction_c k)" "txn \<noteq> null" "k < length (tx_streams (world s))"
    and "transaction_drop_sync env dbg es txn s = Done (Some (), s')"
  obtains r s1 where "run_closure (void_turn dbg) env es (CloseTask k) s = Done (VoidReady r, s1)"
    and "close_frame k s (VoidReady r) s1" and "heap s' = (heap s)(txn := None)"
    and "length (tx_streams (world s')) = length (tx_streams (world s))"
    and "\<not> stream_allocated (tx_streams (world s') ! k)" and "threads k (world s') = submit_close (threads k (world s1))"
proof -
  obtain v s1 where run: "run_closure (void_turn dbg) env es (CloseTask k) s = Done (v, s1)"
    using assms by (auto simp: transaction_drop_sync_def c_bind_def borrow_def split: outcome.splits)
  have frame: "close_frame k s v s1" by (rule close_frames.run_keeps [OF close_frame_start run])
  obtain r where r: "v = VoidReady r"
    using assms run by (cases v) (auto simp: transaction_drop_sync_def c_bind_def borrow_def c_return_def)
  have k: "k < length (tx_streams (world s1))" using frame_stream(1) [OF frame] assms(3) by simp
  have "c_map Some (free_with drop_stream transaction_c txn) s1 = Done (Some (), s')"
    using assms run r by (simp add: transaction_drop_sync_def c_bind_def borrow_def)
  then have "drop_stream k (s1\<lparr>heap := (heap s)(txn := None)\<rparr>) = Done ((), s')"
    using frame assms(1,2)
    by (auto simp: free_with_def take_ownership_def c_map_def c_bind_def c_return_def borrow_def close_frame_def split: outcome.splits)
  then have s': "s' = s1\<lparr>heap := (heap s)(txn := None),
      world := update_stream k (\<lambda>e. e\<lparr>stream_allocated := False\<rparr>) (set_threads k (submit_close (threads k (world s1))) (world s1))\<rparr>"
    using k by (auto simp: drop_stream_def c_bind_def in_stream_eq split: if_splits)
  show ?thesis
  proof (rule that)
    show "threads k (world s') = submit_close (threads k (world s1))"
      using k by (simp add: s' threads_def update_stream_def set_threads_def)
    show "length (tx_streams (world s')) = length (tx_streams (world s))" "\<not> stream_allocated (tx_streams (world s') ! k)"
      using k frame_stream(1) [OF frame] by (simp_all add: s' update_stream_def)
  qed (use run frame r s' in simp_all)
qed


definition sample_closing :: "(unit tx_world, c_object) c_state" where
  "sample_closing = \<lparr>heap = [1 \<mapsto> boxed transaction_c 0], next_free = 2, last_error = None,
     world = \<lparr>drivers = \<lparr>outside = (), clock = 0, managers = [(sample_params, sample_driver)]\<rparr>,
       tx_streams = [\<lparr>stream_driver = 0, stream_transaction =
         transaction_new Write transaction_options_new (tx_new\<lparr>on_close := [0]\<rparr>), stream_allocated = True\<rparr>],
       close_callbacks = [ForeignCallback 4096 7]\<rparr>\<rparr>"

definition sample_interleaving :: "thread_event list" where
  "sample_interleaving = [OwnTurn, OtherMove 0 RegisterMove, OwnTurn, OtherMove 0 (DispatchMove (ID [1])), OwnTurn,
     OtherMove 0 (ListenMove GrpcEnd), OwnTurn]"

lemma sample_closing_state:
  "threads 0 (world sample_closing) = tx_new\<lparr>on_close := [0]\<rparr>" "heap sample_closing 1 = Some (boxed transaction_c 0)"
  "length (tx_streams (world sample_closing)) = 1" "stream_allocated (tx_streams (world sample_closing) ! 0)"
  "stream_runtime_open 0 (world sample_closing)"
  by (simp_all add: sample_closing_def threads_def transaction_new_def stream_runtime_open_def sample_driver_def
      driver_is_open_def runtime_is_open_def)

lemma allocated_set [simp]:
  "stream_allocated (tx_streams (set_threads j x w) ! k) = stream_allocated (tx_streams w ! k)"
  by (cases "j < length (tx_streams w)"; cases "j = k") (simp_all add: set_threads_def update_stream_def list_update_beyond)

lemma threads_freed [simp]:
  "threads k (update_stream k (\<lambda>e. e\<lparr>stream_allocated := b\<rparr>) w) = threads k w"
  by (cases "k < length (tx_streams w)") (simp_all add: threads_def update_stream_def list_update_beyond)

lemma sample_drop_sync:
  "\<exists>s'. transaction_drop_sync sample_env sample_texts sample_interleaving 1 sample_closing = Done (Some (), s')
    \<and> listener (threads 0 (world s')) = Closed"
proof -
  have facts: "Suc 0 \<noteq> null" "close_callbacks (world sample_closing) = [ForeignCallback 4096 7]"
    "borrow transaction_c (Suc 0) sample_closing = Done (0, sample_closing)"
    "heap sample_closing (Suc 0) = Some (boxed transaction_c 0)"
    "borrow transaction_c (Suc 0) (sample_closing\<lparr>world := w\<rparr>) = Done (0, sample_closing\<lparr>world := w\<rparr>)" for w
    by (simp_all add: null_def sample_closing_def borrow_def)
  show ?thesis
    by (simp add: facts transaction_drop_sync_def sample_interleaving_def c_bind_def c_map_def c_return_def
        sample_closing_state void_turn_def new_callback_def in_stream_eq with_threads_def Let_def moved_def
        close_begin_def register_on_close_def tx_new_def move_threads_def listen_register_def registration_pending_def
        callback_pending_def close_commit_def send_shutdown_def dispatch_top_def dispatch_end_def flush_requests_def
        listen_grpc_def listen_exit_def collector_close_def submit_close_def free_with_def take_ownership_def
        drop_stream_def case_prod_beta table_alive_def)
qed


section \<open>Promises that borrow the stream\<close>

text \<open>
  The promises of \<open>transaction_close\<close> and \<open>transaction_on_close\<close> do nothing before they are resolved: the
  transaction is as before, and a promise that is dropped leaves no trace of the call.
\<close>

theorem close_waits_for_resolve:
  assumes "c_ok s" "heap s txn = Some (boxed transaction_c k)"
  shows "\<exists>p s1. c_transaction_close txn s = Done (p, s1) \<and> world s1 = world s
    \<and> void_task_drop p s1 = Done ((), s\<lparr>next_free := next_free s1\<rparr>)"
  using c_okD [OF assms] c_ok_next [OF assms(1)] assms(2)
  by (auto simp: c_transaction_close_def void_task_drop_def take_ownership_def drop_void_task_def c_bind_def c_return_def
      release_def borrow_def fun_upd_idem)

theorem on_close_waits_for_resolve:
  assumes "c_ok s" "heap s txn = Some (boxed transaction_c k)"
  shows "\<exists>p s1. c_transaction_on_close txn callback_id callback s = Done (p, s1) \<and> tx_streams (world s1) = tx_streams (world s)
    \<and> (\<exists>s2. void_task_drop p s1 = Done ((), s2) \<and> tx_streams (world s2) = tx_streams (world s))"
  using c_okD [OF assms] c_ok_next [OF assms(1)] assms(2)
  by (auto simp: c_transaction_on_close_def void_task_drop_def take_ownership_def drop_void_task_def c_bind_def c_return_def
      release_def borrow_def new_callback_def)

text \<open>A promise that borrows a stream which is gone has undefined behaviour at its first turn.\<close>

lemma borrowing_task_dangles:
  assumes "heap s p = Some (boxed void_task_c v)" "v = CloseTask k \<or> v = OnCloseTask k n" "p \<noteq> null"
    and "\<not> stream_allocated (tx_streams (world s) ! k)"
  shows "void_task_resolve env dbg (OwnTurn # es) p s = Undefined"
  using assms
  by (auto simp: void_task_resolve_def take_ownership_def c_bind_def c_map_def borrow_live void_turn_def new_callback_def in_stream_eq)

text \<open>
  A program that asks for the closing of a transaction, or for a callback, then drops the transaction, and
  then resolves the promise it still holds uses memory that was freed.
\<close>

theorem close_promise_dangles_after_drop:
  assumes "c_ok s" "heap s txn = Some (boxed transaction_c k)" "k < length (tx_streams (world s))"
    and "c_transaction_close txn s = Done (p, s1) \<or> c_transaction_on_close txn callback_id callback s = Done (p, s1)"
    and "transaction_drop_sync env dbg es txn s1 = Done (Some (), s2)"
  shows "void_task_resolve env dbg (OwnTurn # es') p s2 = Undefined"
proof -
  have txn: "txn \<noteq> null" "txn < next_free s" using c_okD [OF assms(1,2)] by simp_all
  obtain v n where v: "v = CloseTask k \<or> v = OnCloseTask k n" "heap s1 p = Some (boxed void_task_c v)" "p = next_free s"
    and s1: "heap s1 txn = heap s txn" "tx_streams (world s1) = tx_streams (world s)"
  proof -
    let ?n = "length (close_callbacks (world s))"
    show thesis
      using assms(2,4) txn that [of "CloseTask k"] that [of "OnCloseTask k ?n" ?n]
      by (auto simp: c_transaction_close_def c_transaction_on_close_def c_bind_def release_def borrow_def new_callback_def)
  qed
  from drop_sync_frees [of s1 txn k] obtain r s' where "heap s2 = (heap s1)(txn := None)"
    "\<not> stream_allocated (tx_streams (world s2) ! k)" using assms(2,3,5) s1 txn by metis
  moreover have "p \<noteq> txn" "p \<noteq> null" using txn v(3) c_ok_next [OF assms(1)] by auto
  ultimately show ?thesis using borrowing_task_dangles [of s2 p v k n] v(1,2) by simp
qed

text \<open>A commit takes the handle: after it, nothing can be asked of the transaction any more.\<close>

lemma commit_takes_handle:
  assumes "heap s txn = Some (boxed transaction_c k)" "txn \<noteq> null" "txn < next_free s" "c_transaction_commit env txn s = Done (p, s1)"
  shows "c_transaction_is_open txn s1 = Undefined \<and> c_transaction_close txn s1 = Undefined"
  using assms
  by (auto simp: c_transaction_commit_def c_transaction_is_open_def c_transaction_close_def take_ownership_def c_bind_def
      borrow_def release_def with_stream_def Let_def split: if_splits prod.splits)

end
