(* ===== verification/End_To_End.thy ===== *)
theory End_To_End
  imports C_Answer_Clients Transaction_Streams
begin

text \<open>
  The way of an answer through the whole driver: from the messages of the server through the listener, the
  stream of the transaction and the promise of the query to the rows that a C program holds in its hands.
\<close>

section \<open>A program that resolves a promise\<close>

text \<open>
  \<open>fetch_rows\<close> is the program of the documentation: it resolves the promise of a query, stops when
  null is returned, and reads the rows of the answer otherwise.
\<close>

definition fetch_rows :: "nat \<Rightarrow> nat \<Rightarrow> ptr \<Rightarrow> ('w, (concept option list list \<times> bool) option) c" where
  "fetch_rows fuel width p =
     c_bind (query_answer_promise_resolve p) (\<lambda>a.
       if a = null then c_return None else c_map Some (read_answer fuel width a))"

lemma resolve_answer:
  assumes "c_ok s" "heap s p = Some (boxed query_answer_promise_c (Ok a))"
  shows "query_answer_promise_resolve p s
    = Done (next_free s, s\<lparr>heap := (heap s)(p := None, next_free s \<mapsto> boxed query_answer_c a),
        next_free := Suc (next_free s)\<rparr>)"
  using c_okD [OF assms] assms(2)
  by (simp add: query_answer_promise_resolve_def take_ownership_def c_bind_def borrow_live try_release_def
      ok_record_def release_optional_def release_def)

lemma resolve_failed:
  assumes "c_ok s" "heap s p = Some (boxed query_answer_promise_c (Err e))"
  shows "query_answer_promise_resolve p s = Done (null, s\<lparr>heap := (heap s)(p := None), last_error := Some e\<rparr>)"
  using c_okD [OF assms] assms(2)
  by (simp add: query_answer_promise_resolve_def take_ownership_def c_bind_def borrow_live try_release_def
      ok_record_def release_optional_def record_error_def)

lemma read_whole_answer:
  assumes "c_ok s" "heap s a = Some (boxed query_answer_c (ConceptRowStream header (map Ok rows)))"
    and "last_error s = None" "\<forall>r \<in> set rows. length (row_concepts r) = width" "length rows < fuel"
  shows "\<exists>n. read_answer fuel width a s
    = Done ((map row_concepts rows, False), s\<lparr>heap := (heap s)(a := None), next_free := n\<rparr>)"
proof -
  have sound: "Panic \<notin> set (map Ok rows)" "\<forall>r. Ok r \<in> set (map Ok rows) \<longrightarrow> length (row_concepts r) = width"
    using assms(4) by auto
  have split: "rows_before_error (map Ok rows) = (rows, None)"
    by (induction rows) (auto simp: rows_before_error_def split: prod.splits)
  have "length (map Ok rows) < fuel" using assms(5) by simp
  from read_answer_rows [OF assms(1,2,3) sound this]
  obtain n where "read_answer fuel width a s = Done ((map row_concepts rows, False),
      s\<lparr>heap := (heap s)(a := None), next_free := n, last_error := None\<rparr>)"
    unfolding split by auto
  then show ?thesis using assms(3) by (intro exI [of _ n]) simp
qed

lemma fetch_rows_of_answer:
  assumes "c_ok s" "heap s p = Some (boxed query_answer_promise_c (Ok (ConceptRowStream header (map Ok rows))))"
    and "last_error s = None" "\<forall>r \<in> set rows. length (row_concepts r) = width" "length rows < fuel"
  shows "\<exists>n. fetch_rows fuel width p s
    = Done (Some (map row_concepts rows, False), s\<lparr>heap := (heap s)(p := None), next_free := n\<rparr>)"
proof -
  let ?a = "next_free s" and ?answer = "ConceptRowStream header (map Ok rows)"
  let ?s1 = "s\<lparr>heap := (heap s)(p := None, ?a \<mapsto> boxed query_answer_c ?answer), next_free := Suc ?a\<rparr>"
  have p: "p \<noteq> null" "p < ?a" using c_okD [OF assms(1,2)] by simp_all
  have a: "heap s ?a = None" "?a \<noteq> null" using c_ok_next [OF assms(1)] by simp_all
  have "c_ok (s\<lparr>heap := (heap s)(p := None)\<rparr>)" using c_ok_free [OF assms(1)] by simp
  from c_ok_alloc [OF this] have ok: "c_ok ?s1" by simp
  have gone: "((heap s)(p := None, ?a \<mapsto> boxed query_answer_c ?answer))(?a := None) = (heap s)(p := None)"
    using a(1) by (auto simp: fun_eq_iff)
  have "heap ?s1 ?a = Some (boxed query_answer_c ?answer)" "last_error ?s1 = None" using assms(3) by simp_all
  from read_whole_answer [OF ok this assms(4,5)]
  obtain n where "read_answer fuel width ?a ?s1 = Done ((map row_concepts rows, False),
      ?s1\<lparr>heap := (heap ?s1)(?a := None), next_free := n\<rparr>)" by blast
  then have "read_answer fuel width ?a ?s1
      = Done ((map row_concepts rows, False), s\<lparr>heap := (heap s)(p := None), next_free := n\<rparr>)"
    using gone by (simp del: fun_upd_apply)
  then show ?thesis
    using a(2) by (intro exI [of _ n]) (simp add: fetch_rows_def c_bind_def c_map_def resolve_answer [OF assms(1,2)])
qed

lemma fetch_rows_failed:
  "c_ok s \<Longrightarrow> heap s p = Some (boxed query_answer_promise_c (Err e)) \<Longrightarrow>
   fetch_rows fuel width p s = Done (None, s\<lparr>heap := (heap s)(p := None), last_error := Some e\<rparr>)"
  by (simp add: fetch_rows_def c_bind_def resolve_failed)

section \<open>From the server's messages to the program\<close>

text \<open>What the promise of a query resolves to when the reader of channel \<open>c\<close> takes what the listener has put into it.\<close>

definition query_outcome ::
    "tx_env \<Rightarrow> response_texts \<Rightarrow> nat \<Rightarrow> transaction_server list \<Rightarrow> tx_state \<Rightarrow> tx_state \<Rightarrow> (query_answer, error) result" where
  "query_outcome env dbg c ms s s' = answer_of_query dbg (Ok (fst (read_stream (received c (listen_all env ms s)) s')))"

text \<open>
  the rows of the server reach a C program exactly.  When the messages of an answer arrive at the
  listener, in whatever interleaving with other messages, and the program resolves the promise of its query
  and reads the rows through the C interface, it gets the concepts of every row of every batch, in order and
  column by column, and no error.  Of what it was given nothing is left on the heap.
\<close>

theorem server_rows_reach_c_program:
  assumes "tx_reachable env s" "hm_get (callbacks s) (ID rid) = Some (Streamed c)" "received c s = []"
    and "filter (\<lambda>m. message_id m = Some rid) ms
      = header_message rid names t # map (answer_message rid) parts"
    and "query_type_from_proto t = Ok qt" "list_all (part_readable env) parts"
    and "listener (listen_all env ms s) = Listening" "dispatcher s' \<noteq> Stopped"
    and "c_ok cs" "heap cs p = Some (boxed query_answer_promise_c (query_outcome env dbg c ms s s'))"
    and "last_error cs = None" "\<forall>(row, _) \<in> set (concat (map (part_rows env) parts)). length row = width"
    and "length (concat (map (part_rows env) parts)) < fuel"
  shows "\<exists>n. fetch_rows fuel width p cs
    = Done (Some (map fst (concat (map (part_rows env) parts)), False), cs\<lparr>heap := (heap cs)(p := None), next_free := n\<rparr>)"
proof -
  let ?h = "\<lparr>column_names = names, row_query_type = qt, query_structure = None\<rparr>"
  let ?rows = "concat (map (part_rows env) parts)"
  let ?new = "\<lambda>(row, involved). concept_row_new ?h row involved"
  have "query_outcome env dbg c ms s s' = Ok (ConceptRowStream ?h (map Ok (map ?new ?rows)))"
    using rows_reach_reader [OF assms(1-8), of dbg]
    by (simp add: query_outcome_def case_prod_beta Let_def o_def)
  with assms(10) have p: "heap cs p = Some (boxed query_answer_promise_c (Ok (ConceptRowStream ?h (map Ok (map ?new ?rows)))))"
    by simp
  have concepts: "map row_concepts (map ?new ?rows) = map fst ?rows"
    by (simp add: case_prod_beta concept_row_new_def)
  have "\<forall>r \<in> set (map ?new ?rows). length (row_concepts r) = width"
    using assms(12) by (fastforce simp: concept_row_new_def)
  from fetch_rows_of_answer [OF assms(9) p assms(11) this, of fuel] show ?thesis
    using assms(13) unfolding concepts by simp
qed

definition sample_messages :: "transaction_server list" where
  "sample_messages = None # header_message [2] [''x''] 0 # map (answer_message [2]) sample_answer"

theorem server_rows_reach_c_program_witness:
  "\<exists>n. fetch_rows 2 1 1 \<lparr>heap = [1 \<mapsto> boxed query_answer_promise_c
          (query_outcome sample_env sample_texts 0 sample_messages sample_reading sample_reading)],
        next_free = 2, last_error = None, world = ()\<rparr>
    = Done (Some ([[None]], False), \<lparr>heap = Map.empty, next_free = n, last_error = None, world = ()\<rparr>)"
  (is "\<exists>n. fetch_rows 2 1 1 ?cs = _")
proof -
  have ok: "c_ok ?cs" by (simp add: c_ok_def null_def)
  have "listener (listen_all sample_env sample_messages sample_reading) = Listening"
    by (simp add: sample_messages_def sample_reading_state received_def message_id_def header_message_def
        answer_message_def sample_answer_def query_type_from_proto_def row_try_from_proto_def
        entry_from_proto_def listen_all_def listen_grpc_def collect_def collect_res_def
        collect_res_part_def Let_def transaction_res_from_proto_def is_query_response_def sink_send_result_def
        deliver_def collect_query_part_def query_res_from_proto_def deliver_or_panic_def
        collect_stream_state_def sink_send_continuable_def case_prod_beta)
  from server_rows_reach_c_program [OF sample_reading_reachable sample_reading_state(1), of
      sample_messages "[''x'']" 0 sample_answer ReadQuery sample_reading ?cs 1 sample_texts 1 2, OF _ _ _ _ this _ ok]
  show ?thesis
    by (simp add: sample_reading_state received_def sample_messages_def message_id_def header_message_def
        answer_message_def sample_answer_def query_type_from_proto_def part_readable_def
        row_try_from_proto_def entry_from_proto_def part_rows_def)
qed

end
