(* ===== verification/Query_Delivery.thy ===== *)
theory Query_Delivery
  imports C_Transactions End_To_End "HOL-Library.Sublist"
begin

text \<open>
  A query through the C interface, while the threads of its transaction run: the closure of its promise reads
  the messages of the answer between the moves of the dispatch thread and the listener.
\<close>

section \<open>The moves of the other threads\<close>

text \<open>Nothing has ended: the listener listens and the dispatch thread takes requests.\<close>

definition alive :: "tx_state \<Rightarrow> bool" where
  "alive x \<longleftrightarrow> listener x = Listening \<and> dispatcher x \<noteq> Stopped"

definition consistent :: "tx_state \<Rightarrow> bool" where
  "consistent x \<longleftrightarrow> channels_ok x \<and> requests_ok x"

lemma alive_before: "alive (move_threads env m x) \<Longrightarrow> alive x"
  by (cases m) (auto simp: alive_def move_threads_def collect_keeps listen_grpc_def listen_register_def send_shutdown_def
      dispatch_one_life dispatch_top_def dispatch_end_def listen_exit_def
      split: if_splits grpc_event.splits list.splits)

lemma consistent_move: "consistent x \<Longrightarrow> consistent (move_threads env m x)"
proof -
  have "requests_ok (send_shutdown x) = requests_ok x" by (rule requests_ok_cong) (simp_all add: send_shutdown_def)
  then show "consistent x \<Longrightarrow> consistent (move_threads env m x)"
    by (cases m) (auto simp: consistent_def move_threads_def channels_ok_dispatch_top requests_ok_dispatch_top
        channels_ok_dispatch_one requests_ok_dispatch_one channels_ok_listen requests_ok_listen flag_steps)
qed

lemma held_when_alive: "alive x \<Longrightarrow> channel_open c x \<longleftrightarrow> c \<in> sink_channel ` set (sinks x)"
  by (simp add: channel_open_def held_sinks_def sinks_def table_alive_def alive_def)

text \<open>A turn of the dispatch thread moves a sink from the queue to the table, under a new identifier.\<close>

lemma dispatch_one_delivery:
  assumes "consistent x" "fresh \<notin> used_ids x" "alive (dispatch_one env fresh x)"
  shows "delivered (dispatch_one env fresh x) = delivered x \<and> set (sinks (dispatch_one env fresh x)) \<subseteq> set (sinks x)
    \<and> (streams_to rid c x \<longrightarrow> streams_to rid c (dispatch_one env fresh x))"
proof -
  have ok: "channels_ok (dispatch_one env fresh x)"
    using assms(1,2) channels_ok_dispatch_one by (simp add: consistent_def)
  show ?thesis
  proof (cases rule: dispatch_one_cases [of x env fresh])
    case idle
    then show ?thesis using ok
      by (simp add: sinks_def queued_sinks_def streams_to_def flush_requests_def case_prod_beta)
  next
    case (request req cb rest m)
    note d = dispatch_one_requests [OF request]
    show ?thesis
    proof (cases cb)
      case None
      then show ?thesis using request(1) d ok by (simp add: sinks_def queued_sinks_def map_filter_def streams_to_def)
    next
      case (Some sink)
      then have "\<not> is_stream_more req" using assms(1) request(1) by (auto simp: consistent_def requests_ok_def)
      then have "ID (req_id m) = fresh" by (rule fresh_id [OF request(2)])
      then have "ID (req_id m) \<notin> fst ` set (callbacks x)" using assms(1,2) by (auto simp: consistent_def requests_ok_def)
      then have "callbacks (dispatch_one env fresh x) = callbacks x @ [(ID (req_id m), sink)]"
        using Some d(3) by (simp add: hm_insert_absent)
      then show ?thesis using request(1) d(2,4) ok Some
        by (auto simp: sinks_def queued_sinks_def map_filter_def streams_to_def hm_get_def map_of_append map_add_Some_iff)
    qed
  qed (use assms in \<open>auto simp: alive_def dispatch_end_def\<close>)
qed

lemma dispatch_top_delivery:
  assumes "alive (dispatch_top x)"
  shows "delivered (dispatch_top x) = delivered x \<and> sinks (dispatch_top x) = sinks x
    \<and> (streams_to rid c x \<longrightarrow> streams_to rid c (dispatch_top x))"
  using assms channels_ok_dispatch_top [of x]
  by (auto simp: dispatch_top_def alive_def dispatch_end_def sinks_def queued_sinks_def streams_to_def split: if_splits)

text \<open>A message reaches only the sinks in the table, and adds none.\<close>

lemma collect_table:
  "set (callbacks (collect env m x)) \<subseteq> set (callbacks x)"
  "c \<notin> sink_channel ` snd ` set (callbacks x) \<Longrightarrow> received c (collect env m x) = received c x"
proof -
  note defs = collect_def collect_res_def collect_res_part_def collect_query_part_def collect_stream_state_def
    deliver_or_panic_def Let_def
  note splits = option.splits server_body.splits result.splits res_part_body.splits stream_state.splits
  show "set (callbacks (collect env m x)) \<subseteq> set (callbacks x)"
    by (auto simp: defs hm_remove_filter split: splits)
  assume c: "c \<notin> sink_channel ` snd ` set (callbacks x)"
  have other: "sink_channel sink \<noteq> c" if "hm_get (callbacks x) r = Some sink" for r sink
    using c hm_get_mem [OF that] by force
  show "received c (collect env m x) = received c x"
    by (auto simp: defs sink_finish_eq sink_error_eq sink_send_result_eq sink_send_continuable_eq dest: other split: splits)
qed

lemma collect_sinks: "set (sinks (collect env m x)) \<subseteq> set (sinks x)"
  using collect_table(1) [of env m x] by (auto simp: sinks_def queued_sinks_def collect_keeps)

section \<open>The messages of an answer\<close>

definition message_for :: "nat \<Rightarrow> thread_event \<Rightarrow> transaction_server option" where
  "message_for k e = (case e of OtherMove j (ListenMove (GrpcMessage m)) \<Rightarrow> if j = k then Some m else None | _ \<Rightarrow> None)"

text \<open>What the server sends to stream \<open>k\<close> for a request, and the signal that this was all.\<close>

definition answers :: "nat \<Rightarrow> u8 list \<Rightarrow> thread_event list \<Rightarrow> transaction_server list" where
  "answers k rid es = filter (\<lambda>m. message_id m = Some rid) (List.map_filter (message_for k) es)"

definition done_message :: "u8 list \<Rightarrow> transaction_server" where
  "done_message rid = Some (ServerResPart \<lparr>part_req_id = rid, part_body = Some (PStreamRes (Some PStreamDone))\<rparr>)"

text \<open>The answer is still coming, or all of it has been received and the channel is closed.\<close>

definition coming :: "tx_env \<Rightarrow> u8 list \<Rightarrow> channel \<Rightarrow> stream_response list \<Rightarrow> transaction_server list \<Rightarrow> tx_state \<Rightarrow> bool" where
  "coming env rid c full ms x \<longleftrightarrow> streams_to rid c x
     \<and> (\<exists>before rest. ms = before @ [done_message rid] \<and> list_all2 (hands_over env rid c) before rest \<and> received c x @ rest = full)"

definition complete :: "channel \<Rightarrow> stream_response list \<Rightarrow> transaction_server list \<Rightarrow> tx_state \<Rightarrow> bool" where
  "complete c full ms x \<longleftrightarrow> ms = [] \<and> received c x = full \<and> c \<notin> sink_channel ` set (sinks x)"

lemma collect_done:
  assumes "streams_to rid c x"
  shows "received c (collect env (done_message rid) x) = received c x
    \<and> c \<notin> sink_channel ` set (sinks (collect env (done_message rid) x))"
proof -
  have eq: "collect env (done_message rid) x = forget (ID rid) x"
    by (simp add: done_message_def collect_def collect_res_part_def collect_stream_state_def Let_def)
  have "(ID rid, Streamed c) \<in> set (callbacks x)" using assms by (auto simp: streams_to_def dest: hm_get_mem)
  moreover have "distinct (map sink_channel (sinks x))" using assms by (simp add: streams_to_def channels_ok_def)
  ultimately have "c \<notin> sink_channel ` set (sinks (forget (ID rid) x))"
    by (force simp: sinks_def queued_sinks_def forget_def hm_remove_filter distinct_map inj_on_def)
  then show ?thesis by (simp add: eq)
qed

definition phase :: "tx_env \<Rightarrow> u8 list \<Rightarrow> channel \<Rightarrow> stream_response list \<Rightarrow> transaction_server list \<Rightarrow> tx_state \<Rightarrow> bool" where
  "phase env rid c full ms x \<longleftrightarrow> coming env rid c full ms x \<or> complete c full ms x"

text \<open>A move of another thread is a message, or leaves the channel alone.\<close>

lemma phase_message:
  assumes "phase env rid c full (if message_id m = Some rid then m # ms else ms) x"
  shows "phase env rid c full ms (collect env m x) \<and> prefix (received c x) (received c (collect env m x))"
  using assms unfolding phase_def
proof (elim disjE)
  assume "complete c full (if message_id m = Some rid then m # ms else ms) x"
  then have "complete c full ms (collect env m x)" "received c (collect env m x) = received c x"
    using collect_table(2) [of c x env m] collect_sinks [of env m x]
    by (auto simp: complete_def sinks_def split: if_splits)
  then show "(coming env rid c full ms (collect env m x) \<or> complete c full ms (collect env m x))
      \<and> prefix (received c x) (received c (collect env m x))" by simp
next
  assume come: "coming env rid c full (if message_id m = Some rid then m # ms else ms) x"
  then obtain before rest where x: "streams_to rid c x" "list_all2 (hands_over env rid c) before rest"
      "received c x @ rest = full" "(if message_id m = Some rid then m # ms else ms) = before @ [done_message rid]"
    by (auto simp: coming_def)
  show "(coming env rid c full ms (collect env m x) \<or> complete c full ms (collect env m x))
      \<and> prefix (received c x) (received c (collect env m x))"
  proof (cases "message_id m = Some rid")
    case False
    then show ?thesis using x collect_other [OF x(1)] by (auto simp: coming_def)
  next
    case True
    show ?thesis
    proof (cases before)
      case Nil
      then show ?thesis using x True collect_done [OF x(1), of env] by (simp add: complete_def)
    next
      case (Cons b bs)
      then obtain r rs where "rest = r # rs" "hands_over env rid c m r" "list_all2 (hands_over env rid c) bs rs"
        "ms = bs @ [done_message rid]" using x True by (auto simp: list_all2_Cons1)
      then show ?thesis using x(3) hands_over_collect [OF x(1)] by (auto simp: coming_def)
    qed
  qed
qed

lemma phase_keeps:
  assumes "phase env rid c full ms x" "delivered y = delivered x" "set (sinks y) \<subseteq> set (sinks x)"
    and "streams_to rid c x \<longrightarrow> streams_to rid c y"
  shows "phase env rid c full ms y \<and> received c y = received c x"
proof -
  have "received c y = received c x" using assms(2) by (simp add: received_def)
  then show ?thesis using assms(1,3,4) by (auto simp: phase_def coming_def complete_def)
qed

lemma phase_move:
  assumes "phase env rid c full (answers k rid [OtherMove k m] @ ms) x" "consistent x" "alive (move_threads env m x)"
  shows "phase env rid c full ms (move_threads env m x) \<and> prefix (received c x) (received c (move_threads env m x))"
proof (cases "\<exists>msg. m = ListenMove (GrpcMessage msg)")
  case True
  then obtain msg where m: "m = ListenMove (GrpcMessage msg)" by blast
  have "phase env rid c full (if message_id msg = Some rid then msg # ms else ms) x"
    using assms(1) by (simp add: m answers_def message_for_def map_filter_def split: if_splits)
  from phase_message [OF this] show ?thesis
    using alive_before [OF assms(3)] by (simp add: m move_threads_def listen_grpc_def alive_def)
next
  case False
  then have "answers k rid [OtherMove k m] = []"
    by (simp add: answers_def message_for_def map_filter_def split: thread_move.split grpc_event.split)
  then have p: "phase env rid c full ms x" using assms(1) by simp
  have "delivered (move_threads env m x) = delivered x \<and> set (sinks (move_threads env m x)) \<subseteq> set (sinks x)
    \<and> (streams_to rid c x \<longrightarrow> streams_to rid c (move_threads env m x))"
  proof (cases m)
    case (DispatchMove fresh)
    then show ?thesis
      using dispatch_one_delivery [OF assms(2), of fresh env rid c] dispatch_top_delivery [of x rid c] assms(3)
      by (auto simp: move_threads_def)
  next
    case (ListenMove event)
    then show ?thesis using False assms(3) alive_before [OF assms(3)]
      by (cases event) (simp_all add: move_threads_def listen_grpc_def listen_exit_def alive_def)
  next
    case RegisterMove
    then have "callbacks (move_threads env m x) = callbacks x" "delivered (move_threads env m x) = delivered x"
      "sinks (move_threads env m x) = sinks x"
      by (auto simp: move_threads_def sinks_def queued_sinks_def listen_register_def split: list.splits)
    then show ?thesis using consistent_move [OF assms(2), of env m] by (simp add: streams_to_def consistent_def)
  next
    case ShutdownMove
    then have "callbacks (move_threads env m x) = callbacks x" "delivered (move_threads env m x) = delivered x"
      "sinks (move_threads env m x) = sinks x"
      by (simp_all add: move_threads_def sinks_def queued_sinks_def send_shutdown_def)
    then show ?thesis using consistent_move [OF assms(2), of env m] by (simp add: streams_to_def consistent_def)
  qed
  with phase_keeps [OF p, of "move_threads env m x"] show ?thesis by simp
qed

section \<open>The closure of a query\<close>

definition reads ::
    "nat \<Rightarrow> channel \<Rightarrow> stream_response list \<Rightarrow> ((transaction_response, error) result list \<Rightarrow> ('a, error) result)
     \<Rightarrow> 'a reading_task \<Rightarrow> tx_state \<Rightarrow> bool" where
  "reads k c full answer v x \<longleftrightarrow>
     (case v of
        ReadTask j promise \<Rightarrow> j = k \<and> promise = Ok c
      | Reading j d i items \<Rightarrow> j = k \<and> d = c \<and> i \<le> length (received c x) \<and> items = results_of (take i (received c x))
      | ReadReady r \<Rightarrow> r = answer (results_of full))"

lemma reads_later: "reads k c full answer v x \<Longrightarrow> prefix (received c x) (received c y) \<Longrightarrow> reads k c full answer v y"
  by (auto simp: reads_def prefix_def split: reading_task.split)

lemma results_of_append: "results_of (rs @ rs') = results_of rs @ results_of rs'"
  by (induction rs rule: results_of.induct) simp_all

text \<open>
  What holds while the promise of a query is resolved on stream \<open>k\<close>, as long as nothing has ended: the answer
  is coming or complete, and the closure has read what has come, up to some message.
\<close>

definition resolving ::
    "tx_env \<Rightarrow> response_texts \<Rightarrow> nat \<Rightarrow> u8 list \<Rightarrow> channel \<Rightarrow> stream_response list
     \<Rightarrow> thread_event list \<Rightarrow> query_answer reading_task \<Rightarrow> ('w tx_world, c_object) c_state \<Rightarrow> bool" where
  "resolving env dbg k rid c full es v s \<longleftrightarrow>
     k < length (tx_streams (world s))
   \<and> (alive (threads k (world s)) \<longrightarrow>
        consistent (threads k (world s)) \<and> phase env rid c full (answers k rid es) (threads k (world s))
      \<and> reads k c full (\<lambda>items. answer_of_query dbg (Ok items)) v (threads k (world s)))"

lemma process_keeps:
  assumes "process_response response x = (item, y)"
  shows "delivered y = delivered x" "set (sinks y) \<subseteq> set (sinks x)" "alive y = alive x"
    "consistent x \<Longrightarrow> consistent y" "streams_to rid c x \<Longrightarrow> streams_to rid c y"
proof -
  have y: "y = snd (process_response response x)" by (simp add: assms)
  show "consistent x \<Longrightarrow> consistent y" by (simp add: y consistent_def channels_ok_process requests_ok_callers)
  have "callbacks y = callbacks x" by (simp add: y process_response_def tx_send_def Let_def split: stream_response.splits)
  then show "streams_to rid c x \<Longrightarrow> streams_to rid c y" by (simp add: streams_to_def y channels_ok_process)
  show "delivered y = delivered x" "set (sinks y) \<subseteq> set (sinks x)" "alive y = alive x"
    by (auto simp: y process_response_def tx_send_def Let_def alive_def sinks_def queued_sinks_def map_filter_def
        split: stream_response.splits)
qed

text \<open>A step of the reader: it reads one more message, waits, or has come to the end.\<close>

lemma read_next_reads:
  assumes "phase env rid c full ms x" "alive x" "consistent x" "read_next answer k c i items x = (v, y)"
    and "reads k c full (\<lambda>items. answer (Ok items)) (Reading k c i items) x"
  shows "phase env rid c full ms y \<and> consistent y \<and> reads k c full (\<lambda>items. answer (Ok items)) v y \<and> received c y = received c x
    \<and> alive y"
proof -
  have i: "i \<le> length (received c x)" "items = results_of (take i (received c x))" using assms(5) by (simp_all add: reads_def)
  show ?thesis
  proof (cases "i < length (received c x)")
    case True
    obtain item z where p: "process_response (received c x ! i) x = (item, z)" by fastforce
    have "dispatcher x \<noteq> Stopped" using assms(2) by (simp add: alive_def)
    then have "results_of (take (Suc i) (received c x)) = items @ (case item of Some r \<Rightarrow> [r] | None \<Rightarrow> [])"
      using True p i(2) by (cases "received c x ! i")
        (simp_all add: take_Suc_conv_app_nth results_of_append process_continue, auto simp: process_response_def)
    moreover have "y = z" "v = Reading k c (Suc i) (items @ (case item of Some r \<Rightarrow> [r] | None \<Rightarrow> []))"
      using assms(4) True p by (auto simp: read_next_def network_stream_next_def split: option.splits)
    moreover have "phase env rid c full ms z \<and> received c z = received c x"
      by (rule phase_keeps [OF assms(1)]) (use process_keeps [OF p] in simp_all)
    ultimately show ?thesis using process_keeps [OF p] assms(2,3) True by (simp add: reads_def)
  next
    case False
    then have all: "i = length (received c x)" using i by simp
    show ?thesis
    proof (cases "channel_open c x")
      case True
      then show ?thesis using assms False by (simp add: read_next_def network_stream_next_def)
    next
      case closed: False
      then have "\<not> coming env rid c full ms x"
        using assms(2) by (force simp: held_when_alive coming_def streams_to_def sinks_def dest: hm_get_mem)
      then have "received c x = full" using assms(1) by (simp add: phase_def complete_def)
      then show ?thesis using assms False closed i all by (auto simp: read_next_def network_stream_next_def reads_def)
    qed
  qed
qed

lemma resolving_own:
  assumes "resolving env dbg k rid c full (OwnTurn # es) v s" "query_turn dbg v s = Done (v', s')"
  shows "resolving env dbg k rid c full es v' s'"
proof -
  have es: "answers k rid (OwnTurn # es) = answers k rid es"
    by (simp add: answers_def message_for_def map_filter_def)
  have k: "k < length (tx_streams (world s))" using assms(1) by (simp add: resolving_def)
  show ?thesis
  proof (cases v)
    case (Reading j d i items)
    obtain w y where step: "read_next (answer_of_query dbg) j d i items (threads j (world s)) = (w, y)" by fastforce
    then have s': "v' = w" "s' = s\<lparr>world := set_threads j y (world s)\<rparr>"
      using assms(2) Reading by (simp_all add: query_turn_def reading_turn_def with_threads_def)
    have "\<not> alive (threads k (world s)) \<Longrightarrow> \<not> alive (threads k (world s'))"
      using step k by (cases "j = k") (auto simp: s' read_next_def dest: process_keeps(3) split: option.splits prod.splits)
    moreover have "resolving env dbg k rid c full es v' s'" if a: "alive (threads k (world s))"
    proof -
      have now: "phase env rid c full (answers k rid es) (threads k (world s))" "consistent (threads k (world s))"
        "reads k c full (\<lambda>items. answer_of_query dbg (Ok items)) v (threads k (world s))"
        using assms(1) a es by (simp_all add: resolving_def)
      then have "j = k" "d = c" by (simp_all add: Reading reads_def)
      with read_next_reads [OF now(1) a now(2), of "answer_of_query dbg" k i items] step now(3) k show ?thesis
        by (auto simp: resolving_def s' Reading)
    qed
    ultimately show ?thesis using k s' by (auto simp: resolving_def)
  qed (use assms es in \<open>auto simp: resolving_def query_turn_def reading_turn_def c_return_def reads_def c_abort_def
      split: result.splits\<close>)
qed

interpretation resolves: closure_invariant "query_turn dbg" env "resolving env dbg k rid c full" for dbg env k rid c full
proof unfold_locales
  fix j m es v s
  assume r: "resolving env dbg k rid c full (OtherMove j m # es) v s"
  have es: "answers k rid (OtherMove j m # es) = answers k rid [OtherMove j m] @ answers k rid es"
    by (simp add: answers_def map_filter_def split: option.split)
  have k: "k < length (tx_streams (world s))" using r by (simp add: resolving_def)
  show "resolving env dbg k rid c full es v (moved env j m s)"
  proof (cases "j = k")
    case True
    then show ?thesis
      using r k phase_move [of env rid c full k m "answers k rid es" "threads k (world s)"] alive_before consistent_move reads_later
      unfolding es resolving_def by (auto simp: moved_def)
  next
    case False
    then have "answers k rid [OtherMove j m] = []"
      by (simp add: answers_def message_for_def map_filter_def split: thread_move.split grpc_event.split)
    then show ?thesis using r False by (simp add: resolving_def es moved_def)
  qed
qed (rule resolving_own)

section \<open>Resolving and reading\<close>

text \<open>The closure of a query never aborts, and leaves the heap alone.\<close>

definition sound_task :: "'a reading_task \<Rightarrow> bool" where
  "sound_task v = (case v of ReadTask k promise \<Rightarrow> promise \<noteq> Panic | _ \<Rightarrow> True)"

definition same_heap :: "('w tx_world, c_object) c_state \<Rightarrow> ('w tx_world, c_object) c_state \<Rightarrow> bool" where
  "same_heap s s' \<longleftrightarrow> heap s' = heap s \<and> next_free s' = next_free s \<and> last_error s' = last_error s"

lemma query_turn_total:
  "sound_task v \<Longrightarrow> \<exists>v' s'. query_turn dbg v s = Done (v', s') \<and> sound_task v' \<and> same_heap s s'"
  by (cases v) (auto simp: sound_task_def query_turn_def reading_turn_def c_return_def with_threads_def read_next_def same_heap_def
      split: result.splits option.splits prod.splits)

lemma query_run_total:
  "sound_task v \<Longrightarrow> \<exists>v' s'. run_closure (query_turn dbg) env es v s = Done (v', s') \<and> sound_task v' \<and> same_heap s s'"
proof (induction es arbitrary: v s)
  case Nil
  then show ?case by (simp add: c_return_def same_heap_def)
next
  case (Cons e es)
  obtain v1 s1 where "(case e of OwnTurn \<Rightarrow> query_turn dbg v | OtherMove k m \<Rightarrow> (\<lambda>s. Done (v, moved env k m s))) s = Done (v1, s1)"
    "sound_task v1" "same_heap s s1"
    using query_turn_total [OF Cons.prems, of dbg s] Cons.prems
    by (cases e) (simp_all add: same_heap_def moved_def, blast)
  with Cons.IH [of v1 s1] show ?case by (auto simp: c_bind_def same_heap_def)
qed

lemma run_closure_append:
  "run_closure turn env (es @ es') v s = c_bind (run_closure turn env es v) (run_closure turn env es') s"
proof (induction es arbitrary: v s)
  case (Cons e es)
  then show ?case by (simp add: c_bind_def split: outcome.split)
qed (simp add: c_bind_def c_return_def)

text \<open>The turns a closure still needs when everything has arrived.\<close>

definition turns_to_go :: "stream_response list \<Rightarrow> query_answer reading_task \<Rightarrow> nat" where
  "turns_to_go full v =
     (case v of ReadTask _ _ \<Rightarrow> length full + 2 | Reading _ _ i _ \<Rightarrow> length full - i + 1 | ReadReady _ \<Rightarrow> 0)"

lemma own_turn_progress:
  assumes "resolving env dbg k rid c full [] v s" "alive (threads k (world s))" "query_turn dbg v s = Done (v', s')"
  shows "turns_to_go full v' \<le> turns_to_go full v - 1 \<and> alive (threads k (world s'))"
proof -
  have now: "reads k c full (\<lambda>items. answer_of_query dbg (Ok items)) v (threads k (world s))" "complete c full [] (threads k (world s))"
    "k < length (tx_streams (world s))"
    using assms(1,2) by (auto simp: resolving_def answers_def map_filter_def phase_def coming_def)
  then have "received c (threads k (world s)) = full" "\<not> channel_open c (threads k (world s))"
    using assms(2) by (simp_all add: complete_def held_when_alive)
  then show ?thesis
    using now assms(2,3)
    by (cases v) (auto simp: reads_def query_turn_def reading_turn_def c_return_def with_threads_def read_next_def
        network_stream_next_def turns_to_go_def dest: process_keeps(3) split: prod.splits option.splits if_splits)
qed

lemma own_turns_finish:
  assumes "resolving env dbg k rid c full [] v s" "alive (threads k (world s))" "turns_to_go full v \<le> n" "sound_task v"
  shows "\<exists>s'. run_closure (query_turn dbg) env (replicate n OwnTurn) v s
      = Done (ReadReady (answer_of_query dbg (Ok (results_of full))), s') \<and> same_heap s s'"
  using assms
proof (induction n arbitrary: v s)
  case 0
  then show ?case by (cases v) (auto simp: turns_to_go_def c_return_def same_heap_def resolving_def reads_def)
next
  case (Suc n)
  obtain v1 s1 where turn: "query_turn dbg v s = Done (v1, s1)" "sound_task v1" "same_heap s s1"
    using query_turn_total [OF Suc.prems(4)] by blast
  have "resolving env dbg k rid c full [OwnTurn] v s"
    using Suc.prems(1) by (simp add: resolving_def answers_def message_for_def map_filter_def)
  from resolving_own [OF this turn(1)] Suc.IH [of v1 s1] own_turn_progress [OF Suc.prems(1,2) turn(1)] Suc.prems(3) turn
  show ?case by (auto simp: c_bind_def same_heap_def)
qed

text \<open>
  How it starts: \<open>transaction_query\<close> hands the request to the dispatch thread at once, with a new channel, and
  the promise holds the other end of it.
\<close>

lemma transaction_query_hands_over:
  assumes "c_ok s" "heap s txn = Some (boxed transaction_c k)" "heap s q = Some (boxed string_c text)" "valid_utf8 text"
    and "heap s o' = Some (boxed query_options_c options)"
    and "k < length (tx_streams (world s))" "stream_allocated (tx_streams (world s) ! k)"
    and "consistent (threads k (world s))" "tx_is_open (threads k (world s))" "dispatcher (threads k (world s)) \<noteq> Stopped"
  shows "\<exists>p s1. let c = next_channel (threads k (world s)); x = threads k (world s1) in
    c_transaction_query txn q o' s = Done (p, s1) \<and> heap s1 p = Some (boxed query_task_c (ReadTask k (Ok c)))
    \<and> tx_queue x = tx_queue (threads k (world s)) @ [(QueryReq (QueryRequest text options None), Some (Streamed c))]
    \<and> received c x = []"
proof -
  let ?x = "threads k (world s)"
  have "\<forall>d \<in> set (delivered ?x). fst d < next_channel ?x" using assms(8) by (simp add: consistent_def channels_ok_def)
  then have none: "filter (\<lambda>d. fst d = next_channel ?x) (delivered ?x) = []" by (auto simp: filter_empty_conv)
  have "p \<noteq> null" if "heap s p = Some b" for p b using c_okD [OF assms(1) that] by simp
  with assms none show ?thesis
    by (auto simp: c_transaction_query_def c_bind_def string_view_def c_return_def borrow_live with_stream_def query_with_options_def
        query_with_options_and_rows_def send_query_def stream_def tx_send_def release_def Let_def threads_def update_stream_def
        received_def)
qed

text \<open>The program that resolves the promise of its query, while the other threads move, and reads the rows.\<close>

definition fetch_query ::
    "tx_env \<Rightarrow> response_texts \<Rightarrow> thread_event list \<Rightarrow> nat \<Rightarrow> nat \<Rightarrow> ptr
     \<Rightarrow> ('w, (concept option list list \<times> bool) option option) t" where
  "fetch_query env dbg es fuel width p =
     c_bind (query_task_resolve env dbg es p) (\<lambda>q. case q of
       None \<Rightarrow> c_return None
     | Some a \<Rightarrow> if a = null then c_return (Some None) else c_map (\<lambda>x. Some (Some x)) (read_answer fuel width a))"

definition answer_responses :: "tx_env \<Rightarrow> u8 list \<Rightarrow> concept_row_header \<Rightarrow> answer_part list \<Rightarrow> stream_response list" where
  "answer_responses env rid h parts = StreamResult (Ok (QueryRes (ConceptRowsHeader h))) # map (part_response env rid) parts"

lemma answer_of_responses:
  "list_all (part_readable env) parts \<Longrightarrow> answer_of_query dbg (Ok (results_of (answer_responses env rid h parts)))
    = Ok (ConceptRowStream h (map Ok (map (\<lambda>(row, involved). concept_row_new h row involved) (concat (map (part_rows env) parts)))))"
  using results_of_parts [of env parts dbg h rid]
  by (simp add: answer_responses_def answer_of_query_def query_stream_def require_query_def case_prod_beta o_def)

lemma resolve_query_task:
  assumes "heap s p = Some (boxed query_task_c v0)" "p \<noteq> null" "c_ok s"
    and "run_closure (query_turn dbg) env es v0 (s\<lparr>heap := (heap s)(p := None)\<rparr>) = Done (ReadReady (Ok a), s1)"
    and "same_heap (s\<lparr>heap := (heap s)(p := None)\<rparr>) s1"
  shows "query_task_resolve env dbg es p s = Done (Some (next_free s),
    s1\<lparr>heap := (heap s)(p := None, next_free s \<mapsto> boxed query_answer_c a), next_free := Suc (next_free s)\<rparr>)"
  using assms
  by (simp add: query_task_resolve_def take_ownership_def c_bind_def c_map_def c_return_def borrow_live try_release_def ok_record_def
      release_optional_def release_def same_heap_def)

lemma query_resolves:
  assumes "consistent (threads k (world s))" "hm_get (callbacks (threads k (world s))) (ID rid) = Some (Streamed c)"
    and "received c (threads k (world s)) = []" "k < length (tx_streams (world s))"
    and "answers k rid es = before @ [done_message rid]" "list_all2 (hands_over env rid c) before full"
    and "run_closure (query_turn dbg) env es (ReadTask k (Ok c)) s = Done (v, s1)" "alive (threads k (world s1))"
    and "length full + 2 \<le> n"
  shows "\<exists>s'. run_closure (query_turn dbg) env (es @ replicate n OwnTurn) (ReadTask k (Ok c)) s
      = Done (ReadReady (answer_of_query dbg (Ok (results_of full))), s') \<and> same_heap s s'"
proof -
  have "resolving env dbg k rid c full es (ReadTask k (Ok c)) s"
    using assms(1-6) by (auto simp: resolving_def phase_def coming_def streams_to_def consistent_def reads_def)
  from resolves.run_keeps [OF this assms(7)] have res: "resolving env dbg k rid c full [] v s1" .
  have sound: "sound_task v" "same_heap s s1"
    using query_run_total [of "ReadTask k (Ok c)" dbg env es s] assms(7) by (auto simp: sound_task_def)
  have "turns_to_go full v \<le> n" using assms(9) by (cases v) (auto simp: turns_to_go_def)
  from own_turns_finish [OF res assms(8) this sound(1)] sound(2) show ?thesis
    using assms(7) by (auto simp: run_closure_append c_bind_def same_heap_def)
qed


definition sample_resolving :: "(unit tx_world, c_object) c_state" where
  "sample_resolving = \<lparr>heap = [1 \<mapsto> boxed query_task_c (ReadTask 0 (Ok 0))], next_free = 2, last_error = None,
     world = \<lparr>drivers = \<lparr>outside = (), clock = 0, managers = []\<rparr>,
       tx_streams = [\<lparr>stream_driver = 0, stream_transaction =
         transaction_new Read transaction_options_new sample_reading, stream_allocated = True\<rparr>],
       close_callbacks = []\<rparr>\<rparr>"

text \<open>The closure waits, a message of no request comes, then the answer, between turns of the closure.\<close>

definition sample_answering :: "thread_event list" where
  "sample_answering = OwnTurn # OwnTurn # map (\<lambda>m. OtherMove 0 (ListenMove (GrpcMessage m)))
     [None, header_message [2] [''x''] 0] @ OwnTurn #
     map (\<lambda>m. OtherMove 0 (ListenMove (GrpcMessage m))) (map (answer_message [2]) sample_answer @ [done_message [2]])"

lemma sample_run:
  "\<exists>v s1. run_closure (query_turn sample_texts) sample_env sample_answering (ReadTask 0 (Ok 0))
      (sample_resolving\<lparr>heap := (heap sample_resolving)(1 := None)\<rparr>) = Done (v, s1) \<and> alive (threads 0 (world s1))"
proof -
  have x: "threads 0 (world sample_resolving) = sample_reading" "length (tx_streams (world sample_resolving)) = 1"
    by (simp_all add: sample_resolving_def threads_def transaction_new_def)
  have "(ID [2], Streamed 0) \<in> set (callbacks sample_reading)" using sample_reading_state(1) by (rule hm_get_mem)
  then have "channel_open 0 sample_reading"
    by (force simp: channel_open_def held_sinks_def table_alive_def sample_reading_state)
  then show ?thesis
    by (simp add: sample_answering_def sample_answer_def c_bind_def query_turn_def reading_turn_def c_return_def with_threads_def
        read_next_def network_stream_next_def moved_def x received_def sample_reading_state move_threads_def listen_grpc_def
        collect_def header_message_def answer_message_def done_message_def collect_res_def collect_res_part_def Let_def
        transaction_res_from_proto_def is_query_response_def sink_send_result_def deliver_def collect_query_part_def
        query_res_from_proto_def deliver_or_panic_def collect_stream_state_def sink_send_continuable_def
        query_type_from_proto_def row_try_from_proto_def entry_from_proto_def process_response_def forget_def alive_def)
qed


end
