(* ===== verification/C_Files.thy ===== *)
theory C_Files
  imports C_Driver Migration
begin

text \<open>
  Import and export of files as operations of a driver (\<open>import_from_file\<close> of \<open>rust/src/database/database_manager.rs\<close>,
  \<open>export_to_file\<close> of \<open>database.rs\<close>) and of the C interface (\<open>c/src/database\<close>): the streams and files of \<open>Migration\<close>
  as tasks of the server manager.  The files are a part of the world outside.
\<close>

section \<open>Files and streams\<close>

text \<open>
  Rust compares paths by their components: repeated separators, and dots after the first component, do not matter.
\<close>

fun path_parts :: "string \<Rightarrow> string list" where
  "path_parts [] = [[]]"
| "path_parts (c # cs) =
     (if c = CHR ''/'' then [] # path_parts cs
      else case path_parts cs of part # parts \<Rightarrow> (c # part) # parts | [] \<Rightarrow> [[c]])"

definition path_components :: "string \<Rightarrow> bool \<times> bool \<times> string list" where
  "path_components path =
     (take 1 path = ''/'', hd (path_parts path) = ''.'', filter (\<lambda>part. part \<noteq> [] \<and> part \<noteq> ''.'') (path_parts path))"

lemma path_components_examples:
  "path_components ''/a//b/./c/'' = path_components ''/a/b/c''" "path_components ''./a'' \<noteq> path_components ''a''"
  "path_components ''/a'' \<noteq> path_components ''a''"
  by (simp_all add: path_components_def)

text \<open>
  The file system, and what comes over the streams: the responses of an export, and the server's answer to
  an import, once all its requests have been handed over.
\<close>

record 'w file_lib =
  fl_codec :: codec
  fl_open :: "'w \<Rightarrow> string \<Rightarrow> (reader, string) result"
  fl_contents :: "'w \<Rightarrow> string \<Rightarrow> u8 list option"
  fl_put :: "string \<Rightarrow> u8 list option \<Rightarrow> 'w \<Rightarrow> 'w"
  fl_exists_text :: string
  fl_missing_text :: string
  fl_exported :: "channel \<Rightarrow> 'w \<Rightarrow> (database_export_response, error) result list \<times> 'w"
  fl_import_answer :: "channel \<Rightarrow> import_tx \<Rightarrow> 'w \<Rightarrow> import_event \<times> 'w"

definition put_file :: "'w file_lib \<Rightarrow> string \<Rightarrow> u8 list option \<Rightarrow> 'w driver_world \<Rightarrow> 'w driver_world" where
  "put_file fl path bytes w = w\<lparr>world_grpc := fl_put fl path bytes (world_grpc w)\<rparr>"

section \<open>Import\<close>

text \<open>Each message takes at least a byte of the file, so that this is enough fuel for its loop.\<close>

definition import_fuel :: "reader \<Rightarrow> nat" where
  "import_fuel r = Suc (length (unread r))"

definition import_task ::
    "driver_params \<Rightarrow> 'w grpc \<Rightarrow> 'w file_lib \<Rightarrow> string \<Rightarrow> string \<Rightarrow> string \<Rightarrow> nat \<Rightarrow> ('w driver_world, unit) io" where
  "import_task p g fl name schema path h w =
     io_then (try_open_import_file (fl_open fl (world_grpc w)) path, w) (\<lambda>file w1.
     io_then (import_database p g name schema h w1) (\<lambda>(sink, source) w2.
       case import_items (rpc_overflow_checks (params_env p)) (fl_codec fl) (import_fuel file) file of
         Some (Ok _, tx) \<Rightarrow>
           (let (event, o') = fl_import_answer fl sink tx (world_grpc w2)
            in (case wait_done (import_listen event tx) of Some r \<Rightarrow> r | None \<Rightarrow> Panic, w2\<lparr>world_grpc := o'\<rparr>))
       | Some (Err e, tx) \<Rightarrow> (Err e, w2)
       | _ \<Rightarrow> (Panic, w2)))"

definition import_from_file_of ::
    "driver_params \<Rightarrow> 'w grpc \<Rightarrow> 'w file_lib \<Rightarrow> string \<Rightarrow> string \<Rightarrow> string \<Rightarrow> ('w driver, unit) io" where
  "import_from_file_of p g fl name schema path d = run p g Auto (import_task p g fl name schema path) d"

section \<open>Export\<close>

definition create_file :: "'w file_lib \<Rightarrow> string \<Rightarrow> ('w driver_world, unit) io" where
  "create_file fl path w =
     (if fl_contents fl (world_grpc w) path \<noteq> None
      then (Err (Migration (CannotCreateExportFile path (fl_exists_text fl))), w)
      else (Ok (), put_file fl path (Some []) w))"

definition existing_file :: "'w file_lib \<Rightarrow> string \<Rightarrow> ('w driver_world, u8 list) io" where
  "existing_file fl path w =
     (ok_or (fl_contents fl (world_grpc w) path) (Migration (CannotCreateExportFile path (fl_missing_text fl))), w)"

definition export_task ::
    "driver_params \<Rightarrow> 'w grpc \<Rightarrow> 'w file_lib \<Rightarrow> string \<Rightarrow> string \<Rightarrow> string \<Rightarrow> nat \<Rightarrow> ('w driver_world, unit) io" where
  "export_task p g fl name schema_path data_path h w =
     io_then (existing_file fl schema_path w) (\<lambda>old_schema w1.
     io_then (existing_file fl data_path w1) (\<lambda>old_data w2.
     io_then (connection_database_export p g name h w2) (\<lambda>source w3.
       let (responses, o') = fl_exported fl source (world_grpc w3);
           (r, schema, data) = export_attempt (fl_codec fl) responses (old_schema, old_data)
       in (r, put_file fl data_path (Some data) (put_file fl schema_path (Some schema) (w3\<lparr>world_grpc := o'\<rparr>))))))"

definition on_world :: "('w driver_world \<Rightarrow> 'w driver_world) \<Rightarrow> 'w driver \<Rightarrow> 'w driver" where
  "on_world f d = d\<lparr>network_state := f (network_state d)\<rparr>"

definition export_to_file_of ::
    "driver_params \<Rightarrow> 'w grpc \<Rightarrow> 'w file_lib \<Rightarrow> string \<Rightarrow> string \<Rightarrow> database \<Rightarrow> ('w driver, unit) io" where
  "export_to_file_of p g fl schema_path data_path db d =
     (if path_components schema_path = path_components data_path then (Err (Migration CannotExportToTheSameFile), d)
      else io_then (on_network (create_file fl schema_path) d) (\<lambda>_ d1.
        case on_network (create_file fl data_path) d1 of
          (Ok _, d2) \<Rightarrow>
            (let (r, d3) = run p g Auto (export_task p g fl (database_name db) schema_path data_path) d2
             in (r, case r of
                      Err _ \<Rightarrow> on_world (put_file fl data_path None) (on_world (put_file fl schema_path None) d3)
                    | _ \<Rightarrow> d3))
        | (Err e, d2) \<Rightarrow> (Err e, on_world (put_file fl schema_path None) d2)
        | (Panic, d2) \<Rightarrow> (Panic, d2)))"

section \<open>The interface\<close>

definition databases_import_from_file :: "'w grpc \<Rightarrow> 'w file_lib \<Rightarrow> ptr \<Rightarrow> ptr \<Rightarrow> ptr \<Rightarrow> ptr \<Rightarrow> ('w, unit) d" where
  "databases_import_from_file g fl driver name schema data_file =
     c_bind (string_view string_c data_file) (\<lambda>path.
     c_bind (borrow driver_c driver) (\<lambda>i.
     c_bind (string_view string_c name) (\<lambda>n.
     c_bind (string_view string_c schema) (\<lambda>text.
     c_bind (with_driver i (\<lambda>pr. import_from_file_of pr g fl n text path)) unwrap_void))))"

definition database_export_to_file :: "'w grpc \<Rightarrow> 'w file_lib \<Rightarrow> ptr \<Rightarrow> ptr \<Rightarrow> ptr \<Rightarrow> ('w, unit) d" where
  "database_export_to_file g fl p schema_file data_file =
     c_bind (borrow database_c p) (\<lambda>(i, db).
     c_bind (string_view string_c schema_file) (\<lambda>schema_path.
     c_bind (string_view string_c data_file) (\<lambda>data_path.
     c_bind (with_driver i (\<lambda>pr. export_to_file_of pr g fl schema_path data_path db)) unwrap_void)))"

section \<open>The loop of an import ends\<close>

text \<open>A length takes at least a byte, whatever the file holds.\<close>

definition codec_progresses :: "codec \<Rightarrow> bool" where
  "codec_progresses c \<longleftrightarrow> (\<forall>bytes len consumed. decode_len c bytes = Some (len, consumed) \<longrightarrow> 0 < consumed \<and> consumed \<le> length bytes)"

lemma read_more_shrinks: "read_more n it = (x, it') \<Longrightarrow> length (pending it') \<le> length (pending it)"
  by (auto simp: read_more_def read_bytes_def pending_def Let_def split: list.splits read_event.splits prod.splits option.splits if_splits)

lemma decode_next_len_shrinks:
  "decode_next_len c it = (r, it') \<Longrightarrow> length (pending it') \<le> length (pending it)
    \<and> (\<forall>len consumed. r = Ok (Some (len, consumed)) \<longrightarrow> decode_len c (it_buffer it') = Some (len, consumed))"
proof (induction c it arbitrary: r it' rule: decode_next_len.induct)
  case (1 c it)
  note step = "1.prems" [unfolded decode_next_len.simps [of c it]]
  show ?case
  proof (cases "decode_len c (it_buffer it) = None \<and> length (it_buffer it) < max_length_delimiter_len")
    case True
    obtain x it1 where more: "read_more (max_length_delimiter_len - length (it_buffer it)) it = (x, it1)" by fastforce
    note shrinks = read_more_shrinks [OF more]
    show ?thesis
    proof (cases "\<exists>k. x = Some (Suc k)")
      case k: True
      then obtain k where "x = Some (Suc k)" by blast
      then show ?thesis using step True more shrinks "1.IH" [OF _ _ more [symmetric], of "Suc k" k r it'] by fastforce
    next
      case False
      then show ?thesis using step True more shrinks by (auto split: option.splits nat.splits if_splits)
    qed
  next
    case False
    then show ?thesis using step by (auto split: option.splits if_splits)
  qed
qed

lemma read_required_shrinks: "read_required n it = (b, it') \<Longrightarrow> length (pending it') \<le> length (pending it)"
proof (induction n it arbitrary: b it' rule: read_required.induct)
  case (1 n it)
  note step = "1.prems" [unfolded read_required.simps [of n it]]
  obtain x it1 where more: "read_more (max (n - length (it_buffer it)) buf_capacity) it = (x, it1)" by fastforce
  note shrinks = read_more_shrinks [OF more]
  show ?case
  proof (cases "\<exists>k. x = Some (Suc k) \<and> \<not> n \<le> length (it_buffer it)")
    case True
    then obtain k where "x = Some (Suc k)" "\<not> n \<le> length (it_buffer it)" by blast
    then show ?thesis using step more shrinks "1.IH" [OF _ more [symmetric], of "Suc k" k b it'] by fastforce
  next
    case False
    then show ?thesis using step more shrinks by (auto split: option.splits nat.splits if_splits)
  qed
qed

lemma iterator_next_shrinks:
  assumes "codec_progresses c" "iterator_next oc c it = (Some (Ok item), it')"
  shows "length (pending it') < length (pending it)"
proof -
  obtain r it1 where len: "decode_next_len c it = (r, it1)" by fastforce
  from assms(2) len obtain n k where r: "r = Ok (Some (n, k))" by (auto simp: iterator_next_def split: result.splits option.splits)
  obtain required where "(uadd oc (of_nat k) (of_nat n) :: (u64, error) result) = Ok required"
    using assms(2) len r by (auto simp: iterator_next_def split: result.splits)
  moreover obtain b it2 where more: "read_required (unat required) it1 = (b, it2)" by fastforce
  ultimately have it': "it' = it2\<lparr>it_buffer := drop (k + n) (it_buffer it2)\<rparr>" "k + n \<le> length (it_buffer it2)"
    using assms(2) len r by (auto simp: iterator_next_def split: bool.splits if_splits)
  have "0 < k" using decode_next_len_shrinks [OF len] r assms(1) by (auto simp: codec_progresses_def)
  then have "length (pending it') < length (pending it2)" using it' by (simp add: pending_def)
  then show ?thesis using decode_next_len_shrinks [OF len] read_required_shrinks [OF more] by linarith
qed

lemma import_loop_ends:
  "codec_progresses c \<Longrightarrow> length (pending it) < fuel \<Longrightarrow> import_loop oc c fuel it buf t \<noteq> None"
proof (induction oc c fuel it buf t rule: import_loop.induct)
  case (2 oc c fuel it buf t)
  show ?case
  proof (cases "iterator_next oc c it")
    case (Pair x it1)
    show ?thesis
    proof (cases "\<exists>item. x = Some (Ok item)")
      case True
      then obtain item where x: "x = Some (Ok item)" by blast
      have "length (pending it1) < fuel" using iterator_next_shrinks [of c oc it item it1] 2 Pair x by simp
      then show ?thesis using 2 Pair x by (auto simp: Let_def split: result.splits prod.splits)
    next
      case False
      then show ?thesis using Pair by (auto split: option.splits result.splits)
    qed
  qed
qed simp

text \<open>So the import of a file ends, whatever bytes the file holds, and the fuel of \<open>import_task\<close> suffices.\<close>

theorem import_ends:
  "codec_progresses c \<Longrightarrow> \<exists>r tx. import_items oc c (import_fuel file) file = Some (r, tx)"
  using import_loop_ends [of c "iterator_new file" "import_fuel file" oc "[]" import_tx_new]
  by (auto simp: import_items_def import_fuel_def iterator_new_def pending_def)

section \<open>Files of a failed export\<close>

text \<open>What is expected of a file system: a path holds what was put there last, which other paths do not show.\<close>

locale file_store =
  fixes get :: "'w \<Rightarrow> string \<Rightarrow> u8 list option" and put :: "string \<Rightarrow> u8 list option \<Rightarrow> 'w \<Rightarrow> 'w"
  assumes get_put [simp]: "get (put path v w) path = v"
    and get_put_other [simp]: "path_components path \<noteq> path_components other \<Longrightarrow> get (put path v w) other = get w other"
begin

lemma get_removed: "path_components path \<noteq> path_components other \<Longrightarrow>
    get (put path None (put other None w)) path = None \<and> get (put path None (put other None w)) other = None"
  by simp

end

text \<open>The files of \<open>Migration\<close>.\<close>

interpretation migration_files: file_store "\<lambda>files path. files path" "\<lambda>path v files. files(path := v)"
  by unfold_locales auto

text \<open>
  An export that fails leaves no file of its own behind, and does not touch a file that was there before.
\<close>

theorem failed_export_leaves_no_files:
  assumes "file_store (fl_contents fl) (fl_put fl)" "export_to_file_of p g fl schema_path data_path db d = (Err e, d')"
    and "path_components schema_path \<noteq> path_components data_path"
  shows "let files = fl_contents fl (world_grpc (network_state d)); files' = fl_contents fl (world_grpc (network_state d'))
    in if files schema_path \<noteq> None then d' = d
       else files' schema_path = None \<and> files' data_path = files data_path"
proof (cases "fl_contents fl (world_grpc (network_state d)) schema_path")
  case (Some bytes)
  then show ?thesis using assms(2,3) by (auto simp: export_to_file_of_def on_network_def create_file_def)
next
  case None
  note laws = file_store.get_put [OF assms(1)] file_store.get_put_other [OF assms(1)]
  show ?thesis
    using None assms(2,3) laws
    by (auto simp: export_to_file_of_def on_network_def create_file_def put_file_def on_world_def Let_def
        split: prod.splits result.splits if_splits)
qed

end
