(* ===== verification/C_Logging.thy ===== *)
theory C_Logging
  imports Prelude
begin

text \<open>
  \<open>init_logging\<close> of \<open>c/src/lib.rs\<close>.  The parser of filter directives and the filters of the tracing library are
  parameters; a process has at most one subscriber.
\<close>

record ('f, 'd) log_lib =
  parse_lossy :: "string \<Rightarrow> 'f"
  parse_directive :: "string \<Rightarrow> 'd option"
  add_directive :: "'d \<Rightarrow> 'f \<Rightarrow> 'f"
  already_set_text :: string

text \<open>Whether \<open>INIT\<close> has been called, the subscriber of the process, and what went to standard error.\<close>

record 'f log_state =
  init_called :: bool
  subscriber :: "'f option"
  stderr_lines :: "string list"

definition driver_target :: string where "driver_target = ''typedb_driver''"

definition driver_clib_target :: string where "driver_clib_target = ''typedb_driver_clib''"

definition add_level :: "('f, 'd) log_lib \<Rightarrow> string \<Rightarrow> string \<Rightarrow> 'f \<Rightarrow> 'f" where
  "add_level l target level f =
     (case parse_directive l (target @ ''='' @ level) of Some directive \<Rightarrow> add_directive l directive f | None \<Rightarrow> f)"

text \<open>A variable of the environment that is not set, or not Unicode, is None.\<close>

definition log_filter :: "('f, 'd) log_lib \<Rightarrow> (string \<Rightarrow> string option) \<Rightarrow> 'f" where
  "log_filter l env =
     (let f = parse_lossy l (case env ''TYPEDB_DRIVER_LOG'' of Some v \<Rightarrow> v | None \<Rightarrow> [])
      in case env ''TYPEDB_DRIVER_LOG_LEVEL'' of
           None \<Rightarrow> f
         | Some level \<Rightarrow> add_level l driver_clib_target level (add_level l driver_target level f))"

definition init_logging :: "('f, 'd) log_lib \<Rightarrow> (string \<Rightarrow> string option) \<Rightarrow> 'f log_state \<Rightarrow> 'f log_state" where
  "init_logging l env s =
     (if init_called s then s
      else case subscriber s of
        None \<Rightarrow> s\<lparr>init_called := True, subscriber := Some (log_filter l env)\<rparr>
      | Some _ \<Rightarrow> s\<lparr>init_called := True,
          stderr_lines := stderr_lines s @ [''Failed to initialize logging: '' @ already_set_text l]\<rparr>)"

text \<open>A later call changes nothing, whatever the environment is by then, and a subscriber is never replaced.\<close>

theorem init_logging_once:
  "init_logging l env' (init_logging l env s) = init_logging l env s
    \<and> (subscriber s \<noteq> None \<longrightarrow> subscriber (init_logging l env s) = subscriber s)"
  by (simp add: init_logging_def split: option.split)

end
