(* ===== verification/Spec2Isabelle.thy ===== *)
theory Spec2Isabelle
  imports Addresses Migration Conversions Runtime C_Analyze_Clients C_Driver_Clients C_Transaction_Clients
    Query_Delivery C_Files C_Logging
begin

text \<open>
  \<^bold>\<open>A verification development for the TypeDB driver\<close>

  The repository holds the driver of TypeDB, written in Rust (\<open>rust/src\<close>), and the C library that exposes it to
  the drivers for other languages (\<open>c/src\<close>).  A program opens a driver on some addresses; the driver's server
  manager keeps a connection for every server of the cluster, finds the primary, sends every task there and
  repeats it elsewhere when the primary changes; a connection calls the gRPC service with a token that it
  renews; a transaction multiplexes queries over one bidirectional stream, with a dispatch thread that sends
  batches of requests and a listener that hands the messages of the server to the waiting callers.  Answers
  are rows of concepts or documents; queries can also be analyzed.  The C library moves Rust values to the heap,
  hands out their addresses, and keeps the last error in a variable of the thread.

  \<^bold>\<open>Data\<close> (\<open>rust/src/common\<close>, \<open>concept\<close>, \<open>answer\<close>, \<open>analyze\<close>, \<open>given.rs\<close>)

  \<^item> \<open>Prelude\<close>, \<open>Hash_Maps\<close>, \<open>Effects\<close>: results with a third case \<open>Panic\<close>, arithmetic with and without overflow
    checks (an argument \<open>oc\<close> of the definitions that overflow), decimal digits, \<open>HashMap\<close> as an association list
    behind the locale \<open>hash_map\<close>, and operations on a state that can fail.
  \<^item> \<open>Common_Data\<close>, \<open>Errors\<close>, \<open>Addresses\<close>: \<open>common/id.rs\<close>, \<open>info.rs\<close>, the options, \<open>error.rs\<close> and \<open>common/address\<close>.  Codes
    identify the variants of errors; a translation of addresses is a bijection.
  \<^item> \<open>Decimals\<close>, \<open>Durations\<close>, \<open>Concepts\<close>, \<open>Conversions\<close>: \<open>concept/value.rs\<close>, \<open>type_.rs\<close>, \<open>instance.rs\<close>, \<open>mod.rs\<close>.  Decimals
    are ordered and added like the numbers they stand for, within their range; decimals and durations are
    read back from their texts; conditions under which parsing panics.
  \<^item> \<open>Json\<close>, \<open>Json_Serde\<close>, \<open>Concept_Rows\<close>, \<open>Given_Rows\<close>, \<open>Analyze\<close>: answers, their JSON form, the rows given to a
    query with the builder of \<open>c/src/given_rows.rs\<close>, and analyzed queries.

  \<^bold>\<open>Protocol\<close> (\<open>rust/src/connection/message.rs\<close>, \<open>network/proto\<close>)

  \<^item> \<open>Messages\<close>, \<open>Proto_Concepts\<close>, \<open>Proto_Analyze\<close>, \<open>Proto_Messages\<close>: every conversion from and to the messages of the
    protocol, with its errors and panics.  Values and (in \<open>Analyze_Wire\<close>) analyzed queries survive the way.

  \<^bold>\<open>Connections\<close> (\<open>rust/src/connection\<close>, \<open>driver.rs\<close>, \<open>database\<close>, \<open>user\<close>, \<open>transaction.rs\<close>)

  \<^item> \<open>Request_Buffers\<close>, \<open>Transactions\<close>, \<open>Transaction_Safety\<close>, \<open>Transaction_Streams\<close>: the transmitter of a
    transaction as a state and a relation \<open>tx_step\<close> that interleaves callers, dispatch thread and listener.
    \<open>Transaction_Safety\<close> proves its invariants, that it refines a first-in first-out line, that it closes and that
    nobody waits for ever; \<open>Transaction_Streams\<close> follows the rows of a query to its reader.
  \<^item> \<open>Runtime\<close>: \<open>connection/runtime.rs\<close>, the threads behind all of it, as a state and a relation \<open>runtime_step\<close>:
    callbacks are called in order, and dropping the runtime returns.
  \<^item> \<open>Servers\<close>, \<open>Server_Manager\<close>, \<open>Failover\<close>: \<open>connection/server\<close>.  The network is an argument.  \<open>Failover\<close> proves what a
    task returns, how often it runs, and that the newest primary is found (locale \<open>manager_relation\<close>).
  \<^item> \<open>Rpc_Stub\<close>, \<open>Rpc_Transmitter\<close>, \<open>Driver_Options\<close>, \<open>Server_Connections\<close>, \<open>Driver\<close>: the calls of the protocol with
    tokens and deadlines, the options, a connection, and the driver with its managers as an instance of
    the network of \<open>Server_Manager\<close>.  A closed driver answers nothing.
  \<^item> \<open>Migration\<close>: \<open>database/migration.rs\<close> and the import and export streams: an exported database is imported again,
    a file that was cut is refused.

  \<^bold>\<open>C interface\<close> (\<open>c/src\<close>)

  \<^item> \<open>C_Memory\<close>: \<open>common/memory.rs\<close>, \<open>error.rs\<close>, \<open>iterator.rs\<close>, \<open>promise.rs\<close>.  An operation is a function on a state (heap, next
    address, last error, and the world that the objects refer to); its outcome is a value and a state, an
    abort of the process (a panic does not cross the interface), or undefined behaviour (a dangling
    pointer, or one of another type).
  \<^item> \<open>C_Objects\<close>: the objects on the heap and the types of pointers to them.  \<open>C_Analyze\<close>, \<open>C_Concepts\<close>, \<open>C_Options\<close>, \<open>C_Driver\<close>:
    one definition for every function of \<open>analyze.rs\<close>, of \<open>concept\<close> and \<open>answer.rs\<close>, of the files with options,
    credentials and servers, and of \<open>driver.rs\<close>, \<open>database\<close> and \<open>user\<close>.
  \<^item> \<open>C_Clients\<close>: programs that use the interface and give everything back (\<open>yields\<close>, \<open>creates\<close>, \<open>drops\<close>), and the
    contracts of its iterators, the locales \<open>object_iterator\<close> and \<open>result_iterator\<close>, which \<open>C_Analyze_Clients\<close> and
    \<open>C_Answer_Clients\<close> interpret for the iterators of the library.  These theories, \<open>C_Concept_Clients\<close> and
    \<open>C_Driver_Clients\<close> read queries, answers, values and options through the interface and prove that what arrives
    is what the Rust side holds, without a leak, an abort or a dangling pointer.
  \<^item> \<open>C_Transactions\<close>, \<open>C_Transaction_Clients\<close>: \<open>transaction.rs\<close>, with promises as closures that run in turns between
    moves of the threads of \<open>Transactions\<close>.  The locale \<open>closure_invariant\<close> is the contract of such a run: what every
    turn and every move of another thread keeps holds when the promise is resolved.  Dropping a transaction
    waits for its callbacks; a promise that borrows the transaction dangles after that.
  \<^item> \<open>End_To_End\<close>, \<open>Query_Delivery\<close>: the rows that a server sends, followed through the listener, the stream, the promise
    and the C interface into the hands of a program; first with the messages of the server in any order among
    themselves, then with any moves of the two threads between the turns of the closure.
  \<^item> \<open>C_Files\<close>: import and export of files as tasks of the server manager, and their functions in \<open>c/src/database\<close>.  The
    loop of an import ends; an export that fails leaves no file behind (locale \<open>file_store\<close>).
  \<^item> \<open>C_Logging\<close>: \<open>init_logging\<close> of \<open>c/src/lib.rs\<close>.

  \<^bold>\<open>Libraries and time.\<close>  What the driver asks of \<open>chrono\<close>, \<open>http\<close>, \<open>tonic\<close>, \<open>serde\<close>, of generated code and of the operating
  system is a record of functions (\<open>chrono_lib\<close>, \<open>http_lib\<close>, \<open>grpc\<close>, \<open>f64_casts\<close>, \<open>platform\<close>); where a property needs a
  law of theirs it is a named hypothesis, and a witness shows an instance.  Doubles are bit patterns.  Time is
  a counter of nanoseconds that calls advance.

  \<^bold>\<open>Fuel.\<close>  \<open>import_loop\<close> takes fuel for each item of a file; more than the number of items is enough;
  \<open>import_fuel\<close>, one more than the bytes of the file, is enough for any file (\<open>import_ends\<close>).
  \<open>collect_elements\<close> takes fuel for each call of an iterator; more than the number of elements is enough, and
  without fuel it aborts, so that the properties show that there was enough.  A closure that waits takes an
  interleaving, a list of turns and moves, and answers None when it still waits at its end.  Other loops recurse on their
  data or have a measure.

  \<^bold>\<open>Not modelled.\<close>  The traits and macros for promises and streams, which only choose between closures and futures; the
  model of a promise is its outcome or, in \<open>C_Transactions\<close>, a closure (\<open>run_closure\<close>, \<open>network_stream_next\<close>), that of a
  stream the list of its elements, so that an answer is read to its end when the query is resolved.  The end of
  the runtime with the last handle of a driver.  What the server answers to an import before all of it was
  sent, as a part of \<open>C_Files\<close> (\<open>Migration\<close> has it); failing writes to files.  \<open>c/src/connection.rs\<close>, which is not part of
  the crate; the drivers for other languages, tests, examples and build files.  Debug texts that Rust derives
  are parameters.
\<close>

end
